(* ===== verification/Prelude.thy ===== *)
theory Prelude
  imports Main "HOL-Library.State_Monad" "HOL-Library.Code_Target_Nat"
begin

text \<open>
  The shared prelude: the state monad in which the operator's handlers are written
  (\<^typ>\<open>('s, 'a) state\<close> of \<^theory_text>\<open>HOL-Library.State_Monad\<close>), a small calculus of
  pre- and postconditions over it (\<open>hoare\<close>, with its rules in the collection
  \<open>hoare_rules\<close>), folds that keep the best element seen so far, and the Go integer
  conversions the source relies on.
\<close>

named_theorems hoare_rules \<open>introduction rules of the state-monad calculus\<close>
named_theorems go_simps \<open>rewrite rules for the Go library functions of the model\<close>

section \<open>Machine integers\<close>

text \<open>A conversion to a signed Go integer keeps the low bits, in two's complement.\<close>

definition int32 :: "int \<Rightarrow> int" where
  "int32 x = signed_take_bit 31 x"

definition int64 :: "int \<Rightarrow> int" where
  "int64 x = signed_take_bit 63 x"

section \<open>Loops over a list inside the state monad\<close>

text \<open>\<open>for _, x := range xs\<close> with a body that only acts on the state.\<close>

fun for_each :: "'x list \<Rightarrow> ('x \<Rightarrow> ('s, unit) state) \<Rightarrow> ('s, unit) state" where
  "for_each [] f = State_Monad.return ()"
| "for_each (x # xs) f = do { f x; for_each xs f }"

text \<open>A loop that builds one result per element.\<close>

fun map_state :: "('x \<Rightarrow> ('s, 'y) state) \<Rightarrow> 'x list \<Rightarrow> ('s, 'y list) state" where
  "map_state f [] = State_Monad.return []"
| "map_state f (x # xs) = do { y \<leftarrow> f x; ys \<leftarrow> map_state f xs; State_Monad.return (y # ys) }"

text \<open>A loop with an accumulator.\<close>

fun fold_state :: "('x \<Rightarrow> 'a \<Rightarrow> ('s, 'a) state) \<Rightarrow> 'x list \<Rightarrow> 'a \<Rightarrow> ('s, 'a) state" where
  "fold_state f [] a = State_Monad.return a"
| "fold_state f (x # xs) a = do { a' \<leftarrow> f x a; fold_state f xs a' }"

text \<open>A loop that leaves at the first element whose body returns a result.\<close>

fun first_state :: "('x \<Rightarrow> ('s, 'y option) state) \<Rightarrow> 'x list \<Rightarrow> ('s, 'y option) state" where
  "first_state f [] = State_Monad.return None"
| "first_state f (x # xs) = do {
     r \<leftarrow> f x;
     case r of Some y \<Rightarrow> State_Monad.return (Some y) | None \<Rightarrow> first_state f xs }"

section \<open>Keeping the best element of a list\<close>

text \<open>
  The loop shape \<open>if best == nil || better(s, *best) { best = &s }\<close>, which the operator
  uses for every choice of a node: the first element that no later one beats.
\<close>

fun pick_best :: "('x \<Rightarrow> 'x \<Rightarrow> bool) \<Rightarrow> 'x list \<Rightarrow> 'x option \<Rightarrow> 'x option" where
  "pick_best better [] best = best"
| "pick_best better (x # xs) best =
     pick_best better xs
       (case best of None \<Rightarrow> Some x | Some b \<Rightarrow> if better x b then Some x else Some b)"

section \<open>Pre- and postconditions\<close>

definition hoare :: "('s \<Rightarrow> bool) \<Rightarrow> ('s, 'a) state \<Rightarrow> ('a \<Rightarrow> 's \<Rightarrow> bool) \<Rightarrow> bool" where
  "hoare P m Q \<longleftrightarrow> (\<forall>s. P s \<longrightarrow> Q (fst (run_state m s)) (snd (run_state m s)))"

lemma int32_id: "- (2 ^ 31) \<le> x \<Longrightarrow> x < 2 ^ 31 \<Longrightarrow> int32 x = x"
  by (simp add: int32_def signed_take_bit_int_eq_self)

lemma int64_id: "- (2 ^ 63) \<le> x \<Longrightarrow> x < 2 ^ 63 \<Longrightarrow> int64 x = x"
  by (simp add: int64_def signed_take_bit_int_eq_self)

lemma hoareI: "(\<And>s a s'. P s \<Longrightarrow> run_state m s = (a, s') \<Longrightarrow> Q a s') \<Longrightarrow> hoare P m Q"
  by (simp add: hoare_def)

lemma hoareD: "hoare P m Q \<Longrightarrow> P s \<Longrightarrow> run_state m s = (a, s') \<Longrightarrow> Q a s'"
  by (force simp: hoare_def)

lemma hoare_return [hoare_rules]: "(\<And>s. P s \<Longrightarrow> Q x s) \<Longrightarrow> hoare P (State_Monad.return x) Q"
  by (simp add: hoare_def)

lemma hoare_bind:
  assumes "hoare P m R" and "\<And>x. hoare (R x) (f x) Q"
  shows "hoare P (State_Monad.bind m f) Q"
  using assms by (auto simp: hoare_def split: prod.splits)

lemma hoare_conseq:
  assumes "hoare P' m Q'" and "\<And>s. P s \<Longrightarrow> P' s" and "\<And>x s. Q' x s \<Longrightarrow> Q x s"
  shows "hoare P m Q"
  using assms by (auto simp: hoare_def)

lemma hoare_if:
  assumes "b \<Longrightarrow> hoare P m Q" and "\<not> b \<Longrightarrow> hoare P n Q"
  shows "hoare P (if b then m else n) Q"
  using assms by simp

text \<open>
  A handler keeps a state predicate: the form in which safety properties travel through
  the handlers. The rules below follow the program text, so \<open>intro hoare_rules\<close> reduces
  a handler to its primitive operations.
\<close>

definition keeps :: "('s \<Rightarrow> bool) \<Rightarrow> ('s, 'a) state \<Rightarrow> bool" where
  "keeps P m \<longleftrightarrow> hoare P m (\<lambda>_. P)"

lemma keepsI: "(\<And>s a s'. P s \<Longrightarrow> run_state m s = (a, s') \<Longrightarrow> P s') \<Longrightarrow> keeps P m"
  unfolding keeps_def by (rule hoareI)

lemma keepsD: "keeps P m \<Longrightarrow> P s \<Longrightarrow> run_state m s = (a, s') \<Longrightarrow> P s'"
  unfolding keeps_def by (rule hoareD)

lemma keepsD_snd: "keeps P m \<Longrightarrow> P s \<Longrightarrow> P (snd (run_state m s))"
  by (simp add: keeps_def hoare_def)

lemma keeps_return [hoare_rules]: "keeps P (State_Monad.return x)"
  by (simp add: keeps_def hoare_def)

lemma keeps_get [hoare_rules]: "keeps P State_Monad.get"
  by (simp add: keeps_def hoare_def)

lemma keeps_bind [hoare_rules]:
  "keeps P m \<Longrightarrow> (\<And>x. keeps P (f x)) \<Longrightarrow> keeps P (State_Monad.bind m f)"
  unfolding keeps_def by (rule hoare_bind)

lemma keeps_if [hoare_rules]:
  "(b \<Longrightarrow> keeps P m) \<Longrightarrow> (\<not> b \<Longrightarrow> keeps P n) \<Longrightarrow> keeps P (if b then m else n)"
  by simp

lemma keeps_option [hoare_rules]:
  "(x = None \<Longrightarrow> keeps P m) \<Longrightarrow> (\<And>y. x = Some y \<Longrightarrow> keeps P (f y)) \<Longrightarrow>
   keeps P (case x of None \<Rightarrow> m | Some y \<Rightarrow> f y)"
  by (cases x) simp_all

lemma keeps_sum [hoare_rules]:
  "(\<And>y. x = Inl y \<Longrightarrow> keeps P (f y)) \<Longrightarrow> (\<And>y. x = Inr y \<Longrightarrow> keeps P (g y)) \<Longrightarrow>
   keeps P (case x of Inl y \<Rightarrow> f y | Inr y \<Rightarrow> g y)"
  by (cases x) simp_all

lemma keeps_prod [hoare_rules]:
  "(\<And>a b. x = (a, b) \<Longrightarrow> keeps P (f a b)) \<Longrightarrow> keeps P (case x of (a, b) \<Rightarrow> f a b)"
  by (cases x) simp

lemma keeps_Let [hoare_rules]: "(\<And>x. x = v \<Longrightarrow> keeps P (f x)) \<Longrightarrow> keeps P (Let v f)"
  by simp

lemma keeps_for_each [hoare_rules]:
  "(\<And>x. x \<in> set xs \<Longrightarrow> keeps P (f x)) \<Longrightarrow> keeps P (for_each xs f)"
  by (induction xs) (auto intro!: keeps_return keeps_bind)

lemma keeps_map_state [hoare_rules]:
  "(\<And>x. x \<in> set xs \<Longrightarrow> keeps P (f x)) \<Longrightarrow> keeps P (map_state f xs)"
  by (induction xs) (auto intro!: keeps_return keeps_bind)

lemma keeps_fold_state [hoare_rules]:
  "(\<And>x a. x \<in> set xs \<Longrightarrow> keeps P (f x a)) \<Longrightarrow> keeps P (fold_state f xs a)"
  by (induction xs arbitrary: a) (auto intro!: keeps_return keeps_bind)

lemma keeps_first_state [hoare_rules]:
  "(\<And>x. x \<in> set xs \<Longrightarrow> keeps P (f x)) \<Longrightarrow> keeps P (first_state f xs)"
  by (induction xs) (auto intro!: keeps_return keeps_bind keeps_option)

lemma keeps_conj: "keeps P m \<Longrightarrow> keeps Q m \<Longrightarrow> keeps (\<lambda>s. P s \<and> Q s) m"
  by (auto simp: keeps_def hoare_def)

section \<open>Laws of the best-element loop\<close>

text \<open>
  The contract every choice of a node relies on: \<open>better\<close> is irreflexive, transitive and
  negatively transitive (a strict weak order), as a comparison by keys, then by offset,
  then by ordinal is. Under it the loop returns a member that no member beats.
\<close>

locale preference =
  fixes better :: "'x \<Rightarrow> 'x \<Rightarrow> bool"
  assumes irrefl: "\<not> better x x"
    and trans: "better x y \<Longrightarrow> better y z \<Longrightarrow> better x z"
    and negtrans: "better x z \<Longrightarrow> better x y \<or> better y z"
begin

lemma asym: "better x y \<Longrightarrow> \<not> better y x"
  using irrefl trans by blast

lemma pick_best_Some_maximal:
  assumes "pick_best better xs (Some b) = Some m" and "x \<in> set (b # xs)"
  shows "\<not> better x m"
  using assms
proof (induction xs arbitrary: b x)
  case Nil
  then show ?case by (simp add: irrefl)
next
  case (Cons y ys)
  show ?case
  proof (cases "better y b")
    case True
    with Cons.prems(1) have pick: "pick_best better ys (Some y) = Some m" by simp
    have "\<not> better y m" using Cons.IH [OF pick] by simp
    then have "\<not> better b m" using True trans by blast
    then show ?thesis using Cons.prems(2) Cons.IH [OF pick] by auto
  next
    case False
    with Cons.prems(1) have pick: "pick_best better ys (Some b) = Some m" by simp
    have "\<not> better b m" using Cons.IH [OF pick] by simp
    then have "\<not> better y m" using False negtrans by blast
    then show ?thesis using Cons.prems(2) Cons.IH [OF pick] by auto
  qed
qed

lemma pick_best_maximal:
  assumes "pick_best better xs None = Some m" and "x \<in> set xs"
  shows "\<not> better x m"
  using assms by (cases xs) (auto dest: pick_best_Some_maximal)

end

lemma pick_best_Some_member:
  "pick_best better xs (Some b) = Some m \<Longrightarrow> m \<in> set (b # xs)"
  by (induction xs arbitrary: b) (auto split: if_splits)

lemma pick_best_member: "pick_best better xs None = Some m \<Longrightarrow> m \<in> set xs"
  by (cases xs) (auto dest: pick_best_Some_member)

lemma pick_best_Some_ex: "\<exists>m. pick_best better xs (Some b) = Some m"
  by (induction xs arbitrary: b) auto

lemma pick_best_None_iff [simp]: "pick_best better xs None = None \<longleftrightarrow> xs = []"
  by (cases xs) (auto, metis option.distinct(1) pick_best_Some_ex)

text \<open>A comparison by a key into a linear order is such a preference.\<close>

lemma preference_by_key:
  fixes key :: "'x \<Rightarrow> 'k::linorder"
  shows "preference (\<lambda>x y. key x > key y)"
  by unfold_locales auto

end
