(* ===== verification/Go_Strings.thy ===== *)
theory Go_Strings
  imports Prelude
begin

text \<open>
  The part of Go's \<open>strings\<close> and \<open>strconv\<close> packages the operator uses, on byte strings
  (\<^typ>\<open>string\<close>). White space is the ASCII set of \<open>unicode.IsSpace\<close>; the texts parsed here
  (INFO, CLUSTER NODES, pod names) are ASCII. An index of \<open>-1\<close> is \<^const>\<open>None\<close>, a parse
  error is \<^const>\<open>None\<close>.
\<close>

section \<open>Package strings\<close>

definition is_space :: "char \<Rightarrow> bool" where
  "is_space c \<longleftrightarrow> c \<in> {CHR 0x09, CHR 0x0A, CHR 0x0B, CHR 0x0C, CHR 0x0D, CHR '' ''}"

definition TrimSpace :: "string \<Rightarrow> string" where
  "TrimSpace s = rev (dropWhile is_space (rev (dropWhile is_space s)))"

definition HasPrefix :: "string \<Rightarrow> string \<Rightarrow> bool" where
  "HasPrefix s p \<longleftrightarrow> take (length p) s = p"

definition HasSuffix :: "string \<Rightarrow> string \<Rightarrow> bool" where
  "HasSuffix s p \<longleftrightarrow> length p \<le> length s \<and> drop (length s - length p) s = p"

definition TrimPrefix :: "string \<Rightarrow> string \<Rightarrow> string" where
  "TrimPrefix s p = (if HasPrefix s p then drop (length p) s else s)"

fun Contains :: "string \<Rightarrow> string \<Rightarrow> bool" where
  "Contains [] p = (p = [])"
| "Contains (c # cs) p = (HasPrefix (c # cs) p \<or> Contains cs p)"

fun IndexByte :: "string \<Rightarrow> char \<Rightarrow> nat option" where
  "IndexByte [] c = None"
| "IndexByte (x # xs) c = (if x = c then Some 0 else map_option Suc (IndexByte xs c))"

definition LastIndexByte :: "string \<Rightarrow> char \<Rightarrow> nat option" where
  "LastIndexByte s c = map_option (\<lambda>i. length s - Suc i) (IndexByte (rev s) c)"

text \<open>\<open>strings.Split(s, sep)\<close> for a one-byte separator.\<close>

fun SplitByte :: "string \<Rightarrow> char \<Rightarrow> string list" where
  "SplitByte [] c = [[]]"
| "SplitByte (x # xs) c =
     (if x = c then [] # SplitByte xs c
      else (case SplitByte xs c of [] \<Rightarrow> [[x]] | w # ws \<Rightarrow> (x # w) # ws))"

text \<open>\<open>strings.Fields\<close>: the maximal runs of non-space bytes.\<close>

function Fields :: "string \<Rightarrow> string list" where
  "Fields s = (case dropWhile is_space s of
       [] \<Rightarrow> []
     | c # cs \<Rightarrow> (c # takeWhile (\<lambda>x. \<not> is_space x) cs)
                 # Fields (dropWhile (\<lambda>x. \<not> is_space x) cs))"
  by auto
termination
proof (relation "measure length")
  fix s c cs
  assume "dropWhile is_space s = c # cs"
  then have "length (c # cs) \<le> length s" by (metis length_dropWhile_le)
  then have "length cs < length s" by simp
  then show "(dropWhile (\<lambda>x. \<not> is_space x) cs, s) \<in> measure length"
    by (simp add: le_less_trans [OF length_dropWhile_le])
qed simp

declare Fields.simps [simp del]

fun Join :: "string list \<Rightarrow> string \<Rightarrow> string" where
  "Join [] sep = []"
| "Join [w] sep = w"
| "Join (w # v # ws) sep = w @ sep @ Join (v # ws) sep"

section \<open>Package strconv\<close>

definition is_digit :: "char \<Rightarrow> bool" where
  "is_digit c \<longleftrightarrow> 48 \<le> (of_char c :: nat) \<and> (of_char c :: nat) \<le> 57"

definition digit_char :: "nat \<Rightarrow> char" where
  "digit_char n = char_of (48 + n)"

fun digits :: "nat \<Rightarrow> string" where
  "digits n = (if n < 10 then [digit_char n] else digits (n div 10) @ [digit_char (n mod 10)])"

declare digits.simps [simp del]

text \<open>\<open>strconv.Itoa\<close>, also the verb \<open>%d\<close> of \<open>fmt.Sprintf\<close>.\<close>

definition Itoa :: "int \<Rightarrow> string" where
  "Itoa i = (if i < 0 then CHR ''-'' # digits (nat (- i)) else digits (nat i))"

fun parse_uint :: "nat \<Rightarrow> string \<Rightarrow> nat option" where
  "parse_uint a [] = Some a"
| "parse_uint a (c # cs) =
     (if is_digit c then parse_uint (a * 10 + (of_char c - 48)) cs else None)"

definition parse_unsigned :: "string \<Rightarrow> nat option" where
  "parse_unsigned s = (if s = [] then None else parse_uint 0 s)"

text \<open>\<open>strconv.ParseInt(s, 10, bits)\<close>; out of range is an error.\<close>

definition ParseInt :: "string \<Rightarrow> nat \<Rightarrow> int option" where
  "ParseInt s bits =
     (let neg = (s \<noteq> [] \<and> hd s = CHR ''-'');
          ds = (if s \<noteq> [] \<and> (hd s = CHR ''-'' \<or> hd s = CHR ''+'') then tl s else s)
      in case parse_unsigned ds of
           None \<Rightarrow> None
         | Some n \<Rightarrow>
             (let v = (if neg then - int n else int n)
              in if - (2 ^ (bits - 1)) \<le> v \<and> v < 2 ^ (bits - 1) then Some v else None))"

definition Atoi :: "string \<Rightarrow> int option" where
  "Atoi s = ParseInt s 64"

text \<open>The value that \<open>strconv.Atoi\<close> returns, for a caller that ignores the error: zero after a syntax
  error, the nearest bound after a range error.\<close>

definition Atoi_value :: "string \<Rightarrow> int" where
  "Atoi_value s =
     (let neg = (s \<noteq> [] \<and> hd s = CHR ''-'');
          ds = (if s \<noteq> [] \<and> (hd s = CHR ''-'' \<or> hd s = CHR ''+'') then tl s else s)
      in case parse_unsigned ds of
           None \<Rightarrow> 0
         | Some n \<Rightarrow> if neg then max (- (2 ^ 63)) (- int n) else min (2 ^ 63 - 1) (int n))"

definition ParseBool :: "string \<Rightarrow> bool option" where
  "ParseBool s =
     (if s \<in> {''1'', ''t'', ''T'', ''true'', ''TRUE'', ''True''} then Some True
      else if s \<in> {''0'', ''f'', ''F'', ''false'', ''FALSE'', ''False''} then Some False
      else None)"

section \<open>Lemmas\<close>

lemma Atoi_value: "Atoi s = Some v \<Longrightarrow> Atoi_value s = v"
  by (auto simp: Atoi_def ParseInt_def Atoi_value_def Let_def split: option.splits if_splits)

lemma HasPrefix_append [simp]: "HasPrefix (p @ s) p"
  by (simp add: HasPrefix_def)

lemma HasPrefix_iff: "HasPrefix s p \<longleftrightarrow> (\<exists>t. s = p @ t)"
  by (auto simp: HasPrefix_def) (metis append_take_drop_id)

lemma TrimPrefix_append [simp]: "TrimPrefix (p @ s) p = s"
  by (simp add: TrimPrefix_def)

lemma HasSuffix_append [simp]: "HasSuffix (s @ p) p"
  by (simp add: HasSuffix_def)

lemma IndexByte_None_iff: "IndexByte s c = None \<longleftrightarrow> c \<notin> set s"
  by (induction s) auto

lemma IndexByte_append_notin: "c \<notin> set s \<Longrightarrow> IndexByte (s @ c # t) c = Some (length s)"
  by (induction s) auto

lemma IndexByte_Some: "IndexByte s c = Some i \<Longrightarrow> i < length s \<and> s ! i = c \<and> c \<notin> set (take i s)"
  by (induction s arbitrary: i) (auto split: if_splits)

lemma LastIndexByte_append_notin:
  "c \<notin> set t \<Longrightarrow> LastIndexByte (s @ c # t) c = Some (length s)"
  by (simp add: LastIndexByte_def IndexByte_append_notin)

lemma LastIndexByte_None_iff: "LastIndexByte s c = None \<longleftrightarrow> c \<notin> set s"
  by (simp add: LastIndexByte_def IndexByte_None_iff)

lemma SplitByte_nonempty [simp]: "SplitByte s c \<noteq> []"
  by (cases s) (auto split: list.splits)

lemma SplitByte_notin: "c \<notin> set s \<Longrightarrow> SplitByte s c = [s]"
  by (induction s) auto

lemma SplitByte_append: "c \<notin> set s \<Longrightarrow> SplitByte (s @ c # t) c = s # SplitByte t c"
  by (induction s) (auto split: list.splits)

lemma Join_Cons: "ws \<noteq> [] \<Longrightarrow> Join (w # ws) sep = w @ sep @ Join ws sep"
  by (cases ws) auto

lemma Join_SplitByte: "Join (SplitByte s c) [c] = s"
proof (induction s)
  case (Cons x xs)
  obtain w ws where e: "SplitByte xs c = w # ws"
    by (cases "SplitByte xs c") auto
  have "Join (SplitByte (x # xs) c) [c] = x # Join (w # ws) [c]"
    by (cases ws) (simp_all add: e)
  then show ?case using Cons e by simp
qed simp

lemma SplitByte_Join:
  assumes "ws \<noteq> []" and "\<And>w. w \<in> set ws \<Longrightarrow> c \<notin> set w"
  shows "SplitByte (Join ws [c]) c = ws"
  using assms by (induction ws rule: induct_list012) (auto simp: SplitByte_notin SplitByte_append)

lemma TrimSpace_no_space: "(\<And>c. c \<in> set s \<Longrightarrow> \<not> is_space c) \<Longrightarrow> TrimSpace s = s"
proof -
  assume *: "\<And>c. c \<in> set s \<Longrightarrow> \<not> is_space c"
  have drop: "dropWhile is_space t = t" if "set t \<subseteq> set s" for t
    using * that by (cases t) auto
  then show ?thesis by (simp add: TrimSpace_def)
qed

lemma Fields_Nil [simp]: "Fields [] = []"
  by (simp add: Fields.simps)

lemma Fields_word:
  assumes "w \<noteq> []" and "\<And>c. c \<in> set w \<Longrightarrow> \<not> is_space c" and "is_space x"
  shows "Fields (w @ x # t) = w # Fields (x # t)"
proof -
  obtain c cs where w: "w = c # cs" using assms(1) by (cases w) auto
  have "dropWhile is_space (w @ x # t) = c # cs @ x # t"
    using assms(2) w by auto
  moreover have "takeWhile (\<lambda>x. \<not> is_space x) (cs @ x # t) = cs"
    using assms(2,3) w by (simp add: takeWhile_tail)
  moreover have "dropWhile (\<lambda>x. \<not> is_space x) (cs @ x # t) = x # t"
    using assms(2,3) w by (simp add: dropWhile_append3)
  ultimately show ?thesis by (subst Fields.simps) (simp add: w)
qed

lemma Fields_space: "is_space x \<Longrightarrow> Fields (x # t) = Fields t"
  by (subst Fields.simps, subst (2) Fields.simps) simp

lemma Fields_single:
  assumes "w \<noteq> []" and "\<And>c. c \<in> set w \<Longrightarrow> \<not> is_space c"
  shows "Fields w = [w]"
proof -
  obtain c cs where w: "w = c # cs" using assms(1) by (cases w) auto
  have t: "takeWhile (\<lambda>x. \<not> is_space x) cs = cs" and d: "dropWhile (\<lambda>x. \<not> is_space x) cs = []"
    using assms(2) w by auto
  have "dropWhile is_space w = c # cs" using assms(2) w by simp
  then show ?thesis by (subst Fields.simps) (simp add: w t d)
qed

text \<open>Space-free, non-empty words joined by one space come back from \<^const>\<open>Fields\<close>.\<close>

lemma Fields_Join:
  assumes "\<And>w. w \<in> set ws \<Longrightarrow> w \<noteq> [] \<and> (\<forall>c\<in>set w. \<not> is_space c)"
  shows "Fields (Join ws '' '') = ws"
  using assms
proof (induction ws rule: induct_list012)
  case (3 w v ws)
  have sp: "is_space (CHR '' '')" by (simp add: is_space_def)
  have "Fields (Join (w # v # ws) '' '') = w # Fields (CHR '' '' # Join (v # ws) '' '')"
    using 3(3) [of w] Fields_word [OF _ _ sp, of w "Join (v # ws) '' ''"] by simp
  also have "\<dots> = w # Fields (Join (v # ws) '' '')" by (simp add: Fields_space [OF sp])
  also have "Fields (Join (v # ws) '' '') = v # ws" by (rule 3(2)) (use 3(3) in auto)
  finally show ?case .
qed (auto simp: Fields_single)

subsection \<open>Numbers\<close>

lemma of_char_digit_char: "n < 10 \<Longrightarrow> (of_char (digit_char n) :: nat) = 48 + n"
  by (simp add: digit_char_def)

lemma is_digit_digit_char [simp]: "n < 10 \<Longrightarrow> is_digit (digit_char n)"
  by (simp add: is_digit_def of_char_digit_char)

lemma digits_nonempty [simp]: "digits n \<noteq> []"
  by (subst digits.simps) simp

lemma digits_all_digit: "c \<in> set (digits n) \<Longrightarrow> is_digit c"
proof (induction n rule: digits.induct)
  case (1 n)
  then show ?case using digits.simps [of n] by (auto split: if_splits)
qed

lemma parse_uint_append:
  "parse_uint a (s @ t) = (case parse_uint a s of None \<Rightarrow> None | Some b \<Rightarrow> parse_uint b t)"
  by (induction s arbitrary: a) auto

lemma parse_uint_digits: "parse_uint 0 (digits n) = Some n"
proof (induction n rule: digits.induct)
  case (1 n)
  show ?case
  proof (cases "n < 10")
    case True
    then show ?thesis by (subst digits.simps) (simp add: of_char_digit_char)
  next
    case False
    then show ?thesis using 1
      by (subst digits.simps) (simp add: parse_uint_append of_char_digit_char)
  qed
qed

lemma not_digit_signs: "\<not> is_digit (CHR ''-'')" "\<not> is_digit (CHR ''+'')" "\<not> is_digit (CHR ''.'')"
  "\<not> is_digit (CHR '':'')" "\<not> is_digit (CHR '' '')" "\<not> is_digit (CHR ''s'')" "\<not> is_digit (CHR ''h'')"
  by (simp_all add: is_digit_def)

lemma hd_digits_not_sign: "hd (digits n) \<noteq> CHR ''-''" "hd (digits n) \<noteq> CHR ''+''"
  using digits_all_digit [of "hd (digits n)" n] not_digit_signs by (auto simp: hd_in_set)

lemma parse_unsigned_digits [simp]: "parse_unsigned (digits n) = Some n"
  by (simp add: parse_unsigned_def parse_uint_digits)

theorem ParseInt_Itoa:
  assumes "- (2 ^ (bits - 1)) \<le> i" and "i < 2 ^ (bits - 1)"
  shows "ParseInt (Itoa i) bits = Some i"
  using assms hd_digits_not_sign
  by (auto simp: ParseInt_def Itoa_def Let_def not_less)

lemma abs_less_two_power: "\<bar>i :: int\<bar> < 2 ^ nat \<bar>i\<bar>"
proof -
  have "nat \<bar>i\<bar> < 2 ^ nat \<bar>i\<bar>" by (rule less_exp)
  then have "int (nat \<bar>i\<bar>) < int (2 ^ nat \<bar>i\<bar>)" by (simp only: of_nat_less_iff)
  then show ?thesis by simp
qed

lemma Itoa_inject [simp]: "Itoa i = Itoa j \<longleftrightarrow> i = j"
proof
  assume eq: "Itoa i = Itoa j"
  let ?n = "nat \<bar>i\<bar> + nat \<bar>j\<bar>"
  have "(2 :: int) ^ nat \<bar>i\<bar> \<le> 2 ^ ?n" and "(2 :: int) ^ nat \<bar>j\<bar> \<le> 2 ^ ?n"
    by (simp_all add: power_increasing)
  then have "\<bar>i\<bar> < 2 ^ ?n" and "\<bar>j\<bar> < 2 ^ ?n"
    using abs_less_two_power [of i] abs_less_two_power [of j] by linarith+
  then have "ParseInt (Itoa i) (Suc ?n) = Some i" and "ParseInt (Itoa j) (Suc ?n) = Some j"
    by (auto intro!: ParseInt_Itoa simp: abs_less_iff)
  then show "i = j" by (metis eq option.inject)
qed simp

lemma Itoa_chars: "c \<in> set (Itoa i) \<Longrightarrow> is_digit c \<or> c = CHR ''-'' \<and> i < 0"
  by (auto simp: Itoa_def dest: digits_all_digit split: if_splits)

lemma Itoa_nonempty [simp]: "Itoa i \<noteq> []"
  by (simp add: Itoa_def)

lemma Itoa_nonneg_digits: "0 \<le> i \<Longrightarrow> c \<in> set (Itoa i) \<Longrightarrow> is_digit c"
  using Itoa_chars by fastforce

end
