(* ===== verification/Api_Types.thy ===== *)
theory Api_Types
  imports Go_Strings
begin

text \<open>
  The API types of \<open>src/api/v1beta1\<close> as records (a pointer field is an \<open>option\<close>, an enum
  a \<open>datatype\<close> with the empty string as its \<open>Unset\<close> constructor, a quantity its value in
  bytes, a time its nanoseconds), the zero values of Go, the defaulting method and the
  accessors of \<open>defaults.go\<close>. Spec fields that the operator only copies into a pod template
  (tolerations, affinity terms, security contexts) are not fields of the model.
\<close>

section \<open>Enumerations\<close>

datatype Topology =
    TopologyUnset
  | TopologyStandalone
  | TopologyReplication
  | TopologySentinel
  | TopologyCluster

datatype Profile = ProfileUnset | ProfileCache | ProfileDurable

datatype ValkeyClusterPhase =
    PhaseUnset
  | PhasePending
  | PhaseCreating
  | PhaseReady
  | PhaseUpdating
  | PhaseFailed
  | PhaseHibernated

datatype ShardHealth = ShardHealthReady | ShardHealthDegraded | ShardHealthDown | ShardHealthUnknown

datatype ConditionStatus = ConditionTrue | ConditionFalse | ConditionUnknown

datatype IntOrString = IntVal int | StrVal string

section \<open>Spec\<close>

record SecretKeyReference =
  sk_Name :: string
  sk_Key :: string

record S3Spec =
  s3_Bucket :: string
  s3_Endpoint :: string
  s3_Region :: string
  s3_Prefix :: string
  s3_CredentialsSecret :: string
  s3_Encryption :: string
  s3_KMSKeyID :: string

record BackupSpec =
  bk_Enabled :: bool
  bk_Schedule :: string
  bk_S3 :: "S3Spec option"
  bk_Image :: string
  bk_AWSCLIImage :: string
  bk_Retention :: "int option"

record RestoreSpec =
  rs_S3 :: "S3Spec option"
  rs_SourceKey :: string
  rs_AWSCLIImage :: string

record ReplicateFromSpec =
  rf_Host :: string
  rf_Port :: int
  rf_PasswordSecret :: "SecretKeyReference option"
  rf_TLS :: bool
  rf_CASecret :: "SecretKeyReference option"

record PDBSpec =
  pdb_Enabled :: "bool option"
  pdb_MaxUnavailable :: "IntOrString option"
  pdb_MinAvailable :: "IntOrString option"

text \<open>
  A peer of a NetworkPolicy: pods by their labels, the DNS pods of the system namespace,
  or a peer the user wrote, which the operator only copies.
\<close>

datatype NetworkPolicyPeer =
    PodSelector "(string \<times> string) list"
  | SystemDNS
  | UserPeer string

type_synonym NetworkPolicyPort = "string option \<times> int"

record NetworkPolicyRule =
  npr_Peers :: "NetworkPolicyPeer list"
  npr_Ports :: "NetworkPolicyPort list"

record NetworkPolicyEgressSpec =
  npe_Enabled :: bool
  npe_DNS :: "NetworkPolicyPeer list"
  npe_Extra :: "NetworkPolicyRule list"

record NetworkPolicySpec =
  np_Enabled :: bool
  np_AllowFrom :: "NetworkPolicyPeer list"
  np_MetricsFrom :: "NetworkPolicyPeer list"
  np_Egress :: "NetworkPolicyEgressSpec option"

text \<open>
  The scheduling and security fields of a pod. What a user may write there and the operator only
  copies is one opaque value; the entries that the operator sets itself are fields.
\<close>

type_synonym resources = "int option \<times> string"

datatype AntiAffinity =
    UserTerms string
  | Preferred int string "(string \<times> string) list"
  | Required string "(string \<times> string) list"

record Affinity =
  af_NodeAffinity :: "string option"
  af_PodAffinity :: "string option"
  af_PodAntiAffinity :: "AntiAffinity option"

record TopologySpreadConstraint =
  tsc_MaxSkew :: int
  tsc_TopologyKey :: string
  tsc_WhenUnsatisfiable :: string
  tsc_MatchLabels :: "(string \<times> string) list"
  tsc_Rest :: string

record PodSecurityContext =
  psc_FSGroup :: "int option"
  psc_RunAsUser :: "int option"
  psc_RunAsNonRoot :: "bool option"
  psc_SeccompProfile :: string
  psc_Rest :: string

record SecurityContext =
  sc_AllowPrivilegeEscalation :: "bool option"
  sc_RunAsNonRoot :: "bool option"
  sc_CapabilitiesDrop :: "string list"
  sc_SeccompProfile :: string
  sc_Rest :: string

record StorageSpec =
  sto_Size :: int
  sto_StorageClassName :: "string option"
  sto_Mode :: string
  sto_Medium :: string

record AuthSpec =
  au_Enabled :: "bool option"
  au_ExistingSecret :: string

record CertIssuerRef =
  ci_Name :: string
  ci_Kind :: string
  ci_Group :: string

record TLSSpec =
  tls_Enabled :: bool
  tls_IssuerRef :: "CertIssuerRef option"
  tls_ExistingSecret :: string
  tls_MutualTLS :: bool

record MetricsSpec =
  me_Enabled :: bool
  me_Image :: string
  me_ImagePullPolicy :: string
  me_Resources :: resources
  me_ServiceMonitor :: bool
  me_Sentinel :: bool

record SentinelSpec =
  se_Replicas :: int
  se_Quorum :: int
  se_Image :: string
  se_DownAfterMilliseconds :: int
  se_FailoverTimeout :: int
  se_Resources :: resources

record ValkeyClusterSpec =
  sp_Topology :: Topology
  sp_Profile :: Profile
  sp_Image :: string
  sp_ImagePullPolicy :: string
  sp_ImagePullSecrets :: "string list"
  sp_PodLabels :: "(string \<times> string) list"
  sp_Replicas :: int
  sp_Shards :: "int option"
  sp_ReplicasPerShard :: "int option"
  sp_PerShardWorkload :: "bool option"
  sp_AutoReshard :: "bool option"
  sp_Sentinel :: "SentinelSpec option"
  sp_MemoryLimit :: "int option"
  sp_Resources :: string
  sp_Storage :: "StorageSpec option"
  sp_Auth :: "AuthSpec option"
  sp_TLS :: "TLSSpec option"
  sp_Metrics :: "MetricsSpec option"
  sp_Config :: "(string \<times> string) list"
  sp_PodDisruptionBudget :: "PDBSpec option"
  sp_NetworkPolicy :: "NetworkPolicySpec option"
  sp_Backup :: "BackupSpec option"
  sp_RestoreFrom :: "RestoreSpec option"
  sp_ReplicateFrom :: "ReplicateFromSpec option"
  sp_LoggingFormat :: "string option"
  sp_NodeSelector :: "(string \<times> string) list"
  sp_Tolerations :: "string list"
  sp_Affinity :: "Affinity option"
  sp_TopologySpreadConstraints :: "TopologySpreadConstraint list"
  sp_PodSecurityContext :: "PodSecurityContext option"
  sp_ContainerSecurityContext :: "SecurityContext option"

section \<open>Status and object\<close>

record ReplicaOffset =
  ro_Pod :: string
  ro_Offset :: int

record ShardStatus =
  sh_Index :: int
  sh_Primary :: string
  sh_PrimaryNodeID :: string
  sh_Replicas :: "string list"
  sh_SlotRanges :: "string list"
  sh_SlotCount :: int
  sh_Health :: ShardHealth
  sh_PrimaryOffset :: int
  sh_ReplicaOffsets :: "ReplicaOffset list"
  sh_MaxLagBytes :: int

record Condition =
  co_Type :: string
  co_Status :: ConditionStatus
  co_Reason :: string
  co_Message :: string
  co_ObservedGeneration :: int
  co_LastTransitionTime :: int

record ValkeyClusterStatus =
  st_Phase :: ValkeyClusterPhase
  st_ReadyReplicas :: int
  st_Primary :: string
  st_PrimaryDownSince :: "int option"
  st_QuorumDownSince :: "int option"
  st_InternalEndpoint :: string
  st_Shards :: int
  st_ReadyShards :: int
  st_ClusterInitialized :: bool
  st_LastAppliedReplicas :: int
  st_ShardDetails :: "ShardStatus list"
  st_ObservedGeneration :: int
  st_LastReshardToken :: string
  st_LastFailoverToken :: string
  st_LastPasswordRotationToken :: string
  st_LastTLSCertFingerprint :: string
  st_Conditions :: "Condition list"

record ValkeyCluster =
  vc_Name :: string
  vc_Namespace :: string
  vc_UID :: string
  vc_Generation :: int
  vc_Annotations :: "string \<rightharpoonup> string"
  vc_Finalizers :: "string list"
  vc_DeletionTimestamp :: "int option"
  vc_Spec :: ValkeyClusterSpec
  vc_Status :: ValkeyClusterStatus

section \<open>Types of the ValkeyACL API\<close>

record ValkeyACLUser =
  us_Name :: string
  us_PasswordSecret :: "SecretKeyReference option"
  us_Rules :: string

record ValkeyACLStatus =
  as_AppliedUsers :: "string list"
  as_ObservedGeneration :: int
  as_Conditions :: "Condition list"

record ValkeyACL =
  acl_Name :: string
  acl_Namespace :: string
  acl_Generation :: int
  acl_ClusterRef :: string
  acl_Users :: "ValkeyACLUser list"
  acl_Status :: ValkeyACLStatus

section \<open>Zero values\<close>

definition zero_spec :: ValkeyClusterSpec where
  "zero_spec = \<lparr>sp_Topology = TopologyUnset, sp_Profile = ProfileUnset, sp_Image = [],
     sp_ImagePullPolicy = [], sp_ImagePullSecrets = [], sp_PodLabels = [], sp_Replicas = 0, sp_Shards = None,
     sp_ReplicasPerShard = None, sp_PerShardWorkload = None, sp_AutoReshard = None,
     sp_Sentinel = None, sp_MemoryLimit = None, sp_Resources = [], sp_Storage = None, sp_Auth = None,
     sp_TLS = None, sp_Metrics = None, sp_Config = [], sp_PodDisruptionBudget = None,
     sp_NetworkPolicy = None, sp_Backup = None, sp_RestoreFrom = None,
     sp_ReplicateFrom = None, sp_LoggingFormat = None,
     sp_NodeSelector = [], sp_Tolerations = [], sp_Affinity = None, sp_TopologySpreadConstraints = [],
     sp_PodSecurityContext = None, sp_ContainerSecurityContext = None\<rparr>"

definition zero_status :: ValkeyClusterStatus where
  "zero_status = \<lparr>st_Phase = PhaseUnset, st_ReadyReplicas = 0, st_Primary = [],
     st_PrimaryDownSince = None, st_QuorumDownSince = None, st_InternalEndpoint = [],
     st_Shards = 0, st_ReadyShards = 0, st_ClusterInitialized = False,
     st_LastAppliedReplicas = 0, st_ShardDetails = [], st_ObservedGeneration = 0,
     st_LastReshardToken = [], st_LastFailoverToken = [], st_LastPasswordRotationToken = [],
     st_LastTLSCertFingerprint = [], st_Conditions = []\<rparr>"

definition zero_cluster :: ValkeyCluster where
  "zero_cluster = \<lparr>vc_Name = [], vc_Namespace = [], vc_UID = [], vc_Generation = 0,
     vc_Annotations = (\<lambda>_. None), vc_Finalizers = [], vc_DeletionTimestamp = None,
     vc_Spec = zero_spec, vc_Status = zero_status\<rparr>"

section \<open>Defaults\<close>

definition defaultImage :: string where
  "defaultImage = ''valkey/valkey:8.0''"

text \<open>\<open>resource.MustParse("10Gi")\<close> in bytes.\<close>

definition defaultPVCSize :: int where
  "defaultPVCSize = 10 * 1024 * 1024 * 1024"

definition defaultBackupRetention :: int where
  "defaultBackupRetention = 7"

definition Default_spec :: "ValkeyClusterSpec \<Rightarrow> ValkeyClusterSpec" where
  "Default_spec s =
     (let s = (if sp_Topology s = TopologyUnset then s\<lparr>sp_Topology := TopologyReplication\<rparr> else s);
          s = (if sp_Profile s = ProfileUnset then s\<lparr>sp_Profile := ProfileCache\<rparr> else s);
          s = (if sp_Image s = [] then s\<lparr>sp_Image := defaultImage\<rparr> else s);
          s = (if sp_ImagePullPolicy s = [] then s\<lparr>sp_ImagePullPolicy := ''IfNotPresent''\<rparr> else s);
          s = (if sp_Replicas s = 0
               then (if sp_Topology s = TopologyStandalone then s\<lparr>sp_Replicas := 1\<rparr>
                     else s\<lparr>sp_Replicas := 3\<rparr>)
               else s)
      in if sp_Profile s = ProfileDurable \<and> sp_Storage s = None
         then s\<lparr>sp_Storage := Some \<lparr>sto_Size = defaultPVCSize, sto_StorageClassName = None,
                                   sto_Mode = ''both'', sto_Medium = []\<rparr>\<rparr>
         else s)"

definition Default :: "ValkeyCluster \<Rightarrow> ValkeyCluster" where
  "Default vc = vc\<lparr>vc_Spec := Default_spec (vc_Spec vc)\<rparr>"

definition Deref :: "'a option \<Rightarrow> 'a \<Rightarrow> 'a" where
  "Deref p d = (case p of None \<Rightarrow> d | Some x \<Rightarrow> x)"

definition AuthEnabled :: "ValkeyClusterSpec \<Rightarrow> bool" where
  "AuthEnabled s \<longleftrightarrow> (case sp_Auth s of None \<Rightarrow> False | Some a \<Rightarrow> Deref (au_Enabled a) True)"

definition AutoReshardEnabled :: "ValkeyClusterSpec \<Rightarrow> bool" where
  "AutoReshardEnabled s \<longleftrightarrow> Deref (sp_AutoReshard s) True"

definition RetentionCount :: "BackupSpec \<Rightarrow> int" where
  "RetentionCount b = Deref (bk_Retention b) defaultBackupRetention"

text \<open>A read of a Go map: the zero value when the key is absent.\<close>

definition mget :: "(string \<rightharpoonup> string) \<Rightarrow> string \<Rightarrow> string" where
  "mget m k = (case m k of None \<Rightarrow> [] | Some v \<Rightarrow> v)"

section \<open>Properties\<close>

lemma Deref_simps [simp]: "Deref None d = d" "Deref (Some x) d = x"
  by (simp_all add: Deref_def)

lemma Default_spec_topology [simp]:
  "sp_Topology (Default_spec s) =
     (if sp_Topology s = TopologyUnset then TopologyReplication else sp_Topology s)"
  by (simp add: Default_spec_def Let_def)

lemma Default_spec_replicas:
  "sp_Replicas (Default_spec s) =
     (if sp_Replicas s \<noteq> 0 then sp_Replicas s
      else if sp_Topology s = TopologyStandalone then 1 else 3)"
  by (auto simp: Default_spec_def Let_def)

lemma Default_spec_profile [simp]:
  "sp_Profile (Default_spec s) =
     (if sp_Profile s = ProfileUnset then ProfileCache else sp_Profile s)"
  by (simp add: Default_spec_def Let_def)

lemma Default_spec_fixpoint:
  assumes "sp_Topology s \<noteq> TopologyUnset" and "sp_Profile s \<noteq> ProfileUnset"
    and "sp_Image s \<noteq> []" and "sp_ImagePullPolicy s \<noteq> []" and "sp_Replicas s \<noteq> 0"
    and "sp_Profile s = ProfileDurable \<longrightarrow> sp_Storage s \<noteq> None"
  shows "Default_spec s = s"
  using assms by (auto simp: Default_spec_def Let_def)

lemma Default_spec_complete:
  fixes s :: ValkeyClusterSpec
  defines "d \<equiv> Default_spec s"
  shows "sp_Topology d \<noteq> TopologyUnset" "sp_Profile d \<noteq> ProfileUnset" "sp_Image d \<noteq> []"
    "sp_ImagePullPolicy d \<noteq> []" "sp_Replicas d \<noteq> 0"
    "sp_Profile d = ProfileDurable \<longrightarrow> sp_Storage d \<noteq> None"
  by (auto simp: d_def Default_spec_def Let_def defaultImage_def)

lemma Default_spec_idem: "Default_spec (Default_spec s) = Default_spec s"
  by (rule Default_spec_fixpoint) (rule Default_spec_complete)+

end
