(* ===== verification/World.thy ===== *)
theory World
  imports Api_Types
begin

text \<open>
  The world the operator acts on. The Kubernetes API server, the Valkey servers behind
  go-redis and the clock are not part of the repository: they are the fields of an
  \<open>env\<close>, which every handler takes as a parameter and which answers a request as an
  arbitrary function of everything the operator has done so far (\<open>acts\<close>). A handler is a
  value of the state monad over \<open>world\<close>: the object under reconciliation (Go's
  \<open>vc *ValkeyCluster\<close>, mutated in place) and the sequence of actions issued, oldest first.
  The calculus \<open>emits\<close> bounds the actions a handler can issue, for every environment.
\<close>

section \<open>Kubernetes objects, as far as the operator reads them\<close>

datatype kerr = NotFound | AlreadyExists | Conflict | NoMatch | OtherError string

text \<open>
  A Go map of labels is a list of pairs with distinct keys, read with \<^const>\<open>map_of\<close>; the
  order of the list carries no meaning.
\<close>

type_synonym labels = "(string \<times> string) list"

record Pod =
  pod_Name :: string
  pod_Labels :: labels
  pod_Conditions :: "(string \<times> ConditionStatus) list"
  pod_Phase :: string
  pod_NodeName :: string
  pod_IP :: string
  pod_DeletionTimestamp :: "int option"

record Node =
  node_Labels :: labels
  node_Conditions :: "(string \<times> ConditionStatus) list"

text \<open>A pod template: the fields that the builders of the operator set.\<close>

datatype EnvSource = EnvValue string | EnvSecret string string | EnvField string

record VolumeMount =
  vm_Name :: string
  vm_MountPath :: string
  vm_ReadOnly :: bool

record ContainerPort =
  cp_Name :: string
  cp_ContainerPort :: int
  cp_Protocol :: string

datatype ProbeHandler = ExecProbe "string list" | TCPProbe int

record Probe =
  pb_Handler :: ProbeHandler
  pb_InitialDelaySeconds :: int
  pb_PeriodSeconds :: int
  pb_TimeoutSeconds :: int
  pb_FailureThreshold :: int

record Container =
  ct_Name :: string
  ct_Image :: string
  ct_ImagePullPolicy :: string
  ct_Command :: "string list"
  ct_Args :: "string list"
  ct_Env :: "(string \<times> EnvSource) list"
  ct_Ports :: "ContainerPort list"
  ct_Resources :: resources
  ct_VolumeMounts :: "VolumeMount list"
  ct_ReadinessProbe :: "Probe option"
  ct_LivenessProbe :: "Probe option"
  ct_SecurityContext :: "SecurityContext option"

text \<open>A volume: a ConfigMap or a Secret with the keys it projects, a tmpfs of a size, or an empty directory.\<close>

datatype VolumeSource = VConfigMap string labels | VSecret string labels | VMemory int | VEmptyDir

record PodSpec =
  po_RestartPolicy :: string
  po_InitContainers :: "Container list"
  po_Containers :: "Container list"
  po_Volumes :: "(string \<times> VolumeSource) list"
  po_NodeSelector :: labels
  po_Tolerations :: "string list"
  po_Affinity :: "Affinity option"
  po_TopologySpreadConstraints :: "TopologySpreadConstraint list"
  po_ImagePullSecrets :: "string list"
  po_SecurityContext :: "PodSecurityContext option"
  po_TerminationGracePeriodSeconds :: "int option"

record PodTemplate =
  pt_Labels :: labels
  pt_Annotations :: labels
  pt_Spec :: PodSpec

record ClaimTemplate =
  cl_Name :: string
  cl_Labels :: labels
  cl_AccessModes :: "string list"
  cl_StorageClassName :: "string option"
  cl_Storage :: int

record StatefulSet =
  sts_Name :: string
  sts_Replicas :: "int option"
  sts_Labels :: labels
  sts_ServiceName :: string
  sts_OnDelete :: bool
  sts_Annotations :: labels
  sts_Template :: PodTemplate
  sts_Selector :: labels
  sts_PodManagementPolicy :: string
  sts_VolumeClaimTemplates :: "ClaimTemplate list"
  sts_Generation :: int
  sts_ObservedGeneration :: int
  sts_ReadyReplicas :: int
  sts_UpdatedReplicas :: int
  sts_StatusReplicas :: int
  sts_CurrentRevision :: string
  sts_UpdateRevision :: string

text \<open>
  A Job: its labels, the one container with its script, the Secrets that its environment and its
  TLS volume refer to, an init container where it has one, and the counters of its status.
\<close>

record InitContainer =
  ic_Name :: string
  ic_Image :: string
  ic_Script :: string
  ic_Env :: "(string \<times> EnvSource) list"

record Job =
  job_Name :: string
  job_Labels :: labels
  job_PodLabels :: labels
  job_Container :: string
  job_Image :: string
  job_Script :: string
  job_PasswordSecret :: "string option"
  job_TLSSecret :: "string option"
  job_Init :: "InitContainer option"
  job_BackoffLimit :: int
  job_TTL :: int
  job_Succeeded :: int
  job_Failed :: int

text \<open>A CronJob and a ServiceMonitor, whose endpoints are a port, an interval and a path.\<close>

record CronJobSpec =
  cjs_Schedule :: string
  cjs_ConcurrencyPolicy :: string
  cjs_JobLabels :: labels
  cjs_Template :: PodTemplate

record CronJob =
  cj_Name :: string
  cj_Labels :: labels
  cj_Annotations :: labels
  cj_Spec :: CronJobSpec

record ServiceMonitorSpec =
  smp_MatchLabels :: labels
  smp_MatchNames :: "string list"
  smp_Endpoints :: "(string \<times> string \<times> string) list"

record ServiceMonitor =
  sm_Name :: string
  sm_Labels :: labels
  sm_Spec :: ServiceMonitorSpec

record PersistentVolumeClaim =
  pvc_Name :: string
  pvc_Storage :: int

record Secret =
  sec_Name :: string
  sec_Labels :: labels
  sec_Data :: labels

record ConfigMap =
  cm_Name :: string
  cm_Labels :: labels
  cm_Data :: labels

record ServicePort =
  svp_Name :: string
  svp_Port :: int
  svp_TargetPort :: IntOrString
  svp_Protocol :: string

record Service =
  svc_Name :: string
  svc_Labels :: labels
  svc_Headless :: bool
  svc_PublishNotReady :: bool
  svc_Selector :: labels
  svc_Ports :: "ServicePort list"

text \<open>
  The selector of a budget: labels, and the pod names it includes (\<^const>\<open>True\<close>) or leaves out.
\<close>

record DisruptionSpec =
  ds_MinAvailable :: "IntOrString option"
  ds_MaxUnavailable :: "IntOrString option"
  ds_MatchLabels :: labels
  ds_PodNames :: "(bool \<times> string list) option"

record PodDisruptionBudget =
  pd_Name :: string
  pd_Labels :: labels
  pd_Spec :: DisruptionSpec

record PolicySpec =
  ps_PodSelector :: labels
  ps_PolicyTypes :: "string list"
  ps_Ingress :: "NetworkPolicyRule list"
  ps_Egress :: "NetworkPolicyRule list option"

record NetworkPolicy =
  npol_Name :: string
  npol_Labels :: labels
  npol_Spec :: PolicySpec

datatype kobj =
    KStatefulSet StatefulSet
  | KJob Job
  | KSecret Secret
  | KConfigMap ConfigMap
  | KService Service
  | KPDB PodDisruptionBudget
  | KNetworkPolicy NetworkPolicy
  | KCronJob CronJob
  | KServiceMonitor ServiceMonitor

section \<open>Actions and the environment\<close>

datatype reply = RText string | RInt int | RArray "reply list" | RMap "(reply \<times> reply) list"

datatype action =
    ADial string int string bool                  \<comment> \<open>host, port, password, did PING answer\<close>
  | ACmd string "string list" bool                \<comment> \<open>host, command, no error\<close>
  | APatchStatus ValkeyClusterStatus "kerr option"
  | AUpdateStatus ValkeyClusterStatus "kerr option"
  | APatchFinalizers "string list" "kerr option"
  | ACreate kobj "kerr option"
  | AUpdate kobj "kerr option"
  | ADelete string string "kerr option"           \<comment> \<open>kind, name\<close>
  | APatchPodLabels string labels "kerr option"
  | APatchStorage string int "kerr option"        \<comment> \<open>volume claim, bytes\<close>
  | APatchACLStatus ValkeyACLStatus "kerr option"
  | AMetric string string                         \<comment> \<open>counter, label\<close>

datatype request =
    WPatchStatus ValkeyClusterStatus
  | WUpdateStatus ValkeyClusterStatus
  | WPatchFinalizers "string list"
  | WCreate kobj
  | WUpdate kobj
  | WDelete string string
  | WPatchPodLabels string labels
  | WPatchStorage string int
  | WPatchACLStatus ValkeyACLStatus

record env =
  env_dial :: "action list \<Rightarrow> string \<Rightarrow> int \<Rightarrow> string \<Rightarrow> bool \<Rightarrow> string option \<Rightarrow> bool"
  env_cmd :: "action list \<Rightarrow> string \<Rightarrow> string list \<Rightarrow> string + reply"
  env_now :: "action list \<Rightarrow> int"
  env_write :: "action list \<Rightarrow> request \<Rightarrow> kerr option"
  env_pod :: "action list \<Rightarrow> string \<Rightarrow> kerr + Pod"
  env_pods :: "action list \<Rightarrow> (string \<times> string) list \<Rightarrow> kerr + Pod list"
  env_node :: "action list \<Rightarrow> string \<Rightarrow> kerr + Node"
  env_sts :: "action list \<Rightarrow> string \<Rightarrow> kerr + StatefulSet"
  env_secret :: "action list \<Rightarrow> string \<Rightarrow> kerr + Secret"
  env_job :: "action list \<Rightarrow> string \<Rightarrow> kerr + Job"
  env_pvcs :: "action list \<Rightarrow> (string \<times> string) list \<Rightarrow> kerr + PersistentVolumeClaim list"
  env_object :: "action list \<Rightarrow> string \<Rightarrow> string \<Rightarrow> kerr + kobj"
  env_cluster :: "action list \<Rightarrow> string \<Rightarrow> kerr + ValkeyCluster"
  env_x509 :: "string \<Rightarrow> string \<Rightarrow> string option"
  env_sha256 :: "string \<Rightarrow> string"
  env_random :: "action list \<Rightarrow> (string, string) sum"
  env_retries :: nat
  env_polls :: "action list \<Rightarrow> int \<Rightarrow> int \<Rightarrow> nat"

record world =
  cur :: ValkeyCluster
  acts :: "action list"

type_synonym 'a op = "(world, 'a) state"

section \<open>Primitive operations\<close>

definition emit :: "action \<Rightarrow> unit op" where
  "emit a = State (\<lambda>w. ((), w\<lparr>acts := acts w @ [a]\<rparr>))"

definition get_vc :: "ValkeyCluster op" where
  "get_vc = State (\<lambda>w. (cur w, w))"

definition ask :: "(action list \<Rightarrow> 'a) \<Rightarrow> 'a op" where
  "ask f = State (\<lambda>w. (f (acts w), w))"

definition modify_status :: "(ValkeyClusterStatus \<Rightarrow> ValkeyClusterStatus) \<Rightarrow> unit op" where
  "modify_status f = State (\<lambda>w. ((), w\<lparr>cur := (cur w)\<lparr>vc_Status := f (vc_Status (cur w))\<rparr>\<rparr>))"

definition set_vc :: "ValkeyCluster \<Rightarrow> unit op" where
  "set_vc vc = State (\<lambda>w. ((), w\<lparr>cur := vc\<rparr>))"

text \<open>\<open>r.Status().Patch(ctx, vc, base)\<close> of the object in memory.\<close>

definition patch_status :: "env \<Rightarrow> kerr option op" where
  "patch_status env = do {
     vc \<leftarrow> get_vc;
     r \<leftarrow> ask (\<lambda>t. env_write env t (WPatchStatus (vc_Status vc)));
     emit (APatchStatus (vc_Status vc) r);
     State_Monad.return r }"

definition create_obj :: "env \<Rightarrow> kobj \<Rightarrow> kerr option op" where
  "create_obj env ob = do {
     r \<leftarrow> ask (\<lambda>t. env_write env t (WCreate ob));
     emit (ACreate ob r);
     State_Monad.return r }"

definition update_obj :: "env \<Rightarrow> kobj \<Rightarrow> kerr option op" where
  "update_obj env ob = do {
     r \<leftarrow> ask (\<lambda>t. env_write env t (WUpdate ob));
     emit (AUpdate ob r);
     State_Monad.return r }"

definition delete_obj :: "env \<Rightarrow> string \<Rightarrow> string \<Rightarrow> kerr option op" where
  "delete_obj env kind name = do {
     r \<leftarrow> ask (\<lambda>t. env_write env t (WDelete kind name));
     emit (ADelete kind name r);
     State_Monad.return r }"

definition patch_pod_labels :: "env \<Rightarrow> string \<Rightarrow> labels \<Rightarrow> kerr option op" where
  "patch_pod_labels env name ls = do {
     r \<leftarrow> ask (\<lambda>t. env_write env t (WPatchPodLabels name ls));
     emit (APatchPodLabels name ls r);
     State_Monad.return r }"

definition patch_storage :: "env \<Rightarrow> string \<Rightarrow> int \<Rightarrow> kerr option op" where
  "patch_storage env name bytes = do {
     r \<leftarrow> ask (\<lambda>t. env_write env t (WPatchStorage name bytes));
     emit (APatchStorage name bytes r);
     State_Monad.return r }"

definition update_status :: "env \<Rightarrow> ValkeyClusterStatus \<Rightarrow> kerr option op" where
  "update_status env s = do {
     r \<leftarrow> ask (\<lambda>t. env_write env t (WUpdateStatus s));
     emit (AUpdateStatus s r);
     State_Monad.return r }"

text \<open>
  \<open>retry.RetryOnConflict(retry.DefaultRetry, f)\<close> of the Kubernetes client library: \<open>f\<close> is repeated
  while it fails with a conflict; the number of attempts is the library's, a field of the
  environment.
\<close>

primrec retry_on_conflict :: "nat \<Rightarrow> (kerr + 'a) op \<Rightarrow> (kerr + 'a) op" where
  "retry_on_conflict 0 f = f"
| "retry_on_conflict (Suc n) f = do {
     r \<leftarrow> f;
     case r of
       Inl e \<Rightarrow> if e = Conflict then retry_on_conflict n f else State_Monad.return (Inl e)
     | Inr x \<Rightarrow> State_Monad.return (Inr x) }"

text \<open>An error-valued call as a call with an empty result.\<close>

definition as_result :: "kerr option \<Rightarrow> kerr + unit" where
  "as_result err = (case err of Some e \<Rightarrow> Inl e | None \<Rightarrow> Inr ())"

definition as_error :: "kerr + 'a \<Rightarrow> kerr option" where
  "as_error r = (case r of Inl e \<Rightarrow> Some e | Inr _ \<Rightarrow> None)"

text \<open>
  \<open>wait.PollUntilContextTimeout(ctx, interval, timeout, true, cond)\<close> of the same library: the
  condition is tried at once and then again until it holds or the time is over. How many further
  attempts fit is the library's and the clock's, a field of the environment. The variables that the
  condition captures are threaded; \<^const>\<open>None\<close> is the timeout.
\<close>

primrec poll_loop :: "nat \<Rightarrow> ('s \<Rightarrow> ('s \<times> 'r option) op) \<Rightarrow> 's \<Rightarrow> 'r option op" where
  "poll_loop 0 cond s = do { p \<leftarrow> cond s; State_Monad.return (snd p) }"
| "poll_loop (Suc n) cond s = do {
     p \<leftarrow> cond s;
     case snd p of Some r \<Rightarrow> State_Monad.return (Some r) | None \<Rightarrow> poll_loop n cond (fst p) }"

definition poll_until :: "env \<Rightarrow> int \<Rightarrow> int \<Rightarrow> ('s \<Rightarrow> ('s \<times> 'r option) op) \<Rightarrow> 's \<Rightarrow> 'r option op" where
  "poll_until env interval timeout cond s = do {
     n \<leftarrow> ask (\<lambda>t. env_polls env t interval timeout);
     poll_loop n cond s }"

text \<open>Time: Go's \<open>Time.Sub\<close> saturates at the bounds of a \<open>Duration\<close>.\<close>

definition seconds :: "int \<Rightarrow> int" where
  "seconds n = n * 1000000000"

text \<open>The JSON of a \<open>metav1.Time\<close> is RFC 3339 without a fraction: what the API server stores and
  returns is the time in whole seconds.\<close>

definition whole_seconds :: "int \<Rightarrow> int" where
  "whole_seconds t = t - t mod 1000000000"

lemma whole_seconds_bounds: "t - seconds 1 < whole_seconds t" "whole_seconds t \<le> t"
  by (simp_all add: whole_seconds_def seconds_def)

definition time_Sub :: "int \<Rightarrow> int \<Rightarrow> int" where
  "time_Sub a b = max (- (2 ^ 63)) (min (2 ^ 63 - 1) (a - b))"

text \<open>
  The environment in which no server answers, no object exists and every write succeeds:
  concrete examples are updates of it.
\<close>

definition silent_env :: env where
  "silent_env = \<lparr>env_dial = (\<lambda>_ _ _ _ _ _. False), env_cmd = (\<lambda>_ _ _. Inl ''closed''),
     env_now = (\<lambda>_. 0), env_write = (\<lambda>_ _. None), env_pod = (\<lambda>_ _. Inl NotFound),
     env_pods = (\<lambda>_ _. Inr []), env_node = (\<lambda>_ _. Inl NotFound),
     env_sts = (\<lambda>_ _. Inl NotFound), env_secret = (\<lambda>_ _. Inl NotFound),
     env_job = (\<lambda>_ _. Inl NotFound), env_pvcs = (\<lambda>_ _. Inr []), env_object = (\<lambda>_ _ _. Inl NotFound),
     env_cluster = (\<lambda>_ _. Inl NotFound), env_x509 = (\<lambda>_ _. None), env_sha256 = (\<lambda>s. s),
     env_random = (\<lambda>_. Inl ''no entropy''), env_retries = 4,
     env_polls = (\<lambda>_ interval timeout. nat (timeout div interval))\<rparr>"

text \<open>
  The results a handler can have, over all worlds, are \<^term>\<open>set_state m\<close>; the rule for
  sequencing lets a continuation assume that its argument is one of them.
  The actions a run added to the trace:
\<close>

definition new_acts :: "world \<Rightarrow> world \<Rightarrow> action list" where
  "new_acts w w' = drop (length (acts w)) (acts w')"

section \<open>Which actions a handler can issue\<close>

definition emits :: "(action \<Rightarrow> bool) \<Rightarrow> 'a op \<Rightarrow> bool" where
  "emits A m \<longleftrightarrow>
     (\<forall>w. \<exists>xs. acts (snd (run_state m w)) = acts w @ xs \<and> (\<forall>x\<in>set xs. A x))"

definition is_read :: "action \<Rightarrow> bool" where
  "is_read a = (case a of ADial _ _ _ _ \<Rightarrow> True | AMetric _ _ \<Rightarrow> True | _ \<Rightarrow> False)"

named_theorems emits_rules \<open>rules bounding the actions a handler issues\<close>

lemma run_prims [simp]:
  "run_state (emit a) w = ((), w\<lparr>acts := acts w @ [a]\<rparr>)"
  "run_state get_vc w = (cur w, w)"
  "run_state (ask f) w = (f (acts w), w)"
  "run_state (modify_status g) w =
     ((), w\<lparr>cur := (cur w)\<lparr>vc_Status := g (vc_Status (cur w))\<rparr>\<rparr>)"
  "run_state (set_vc vc) w = ((), w\<lparr>cur := vc\<rparr>)"
  by (simp_all add: emit_def get_vc_def ask_def modify_status_def set_vc_def)

lemma is_read_simps [simp]:
  "is_read (ADial h p pw ok)" "is_read (AMetric m l)" "\<not> is_read (ACmd h args ok)"
  "\<not> is_read (APatchStatus st r)" "\<not> is_read (ADelete k n r)" "\<not> is_read (ACreate ob r)"
  by (simp_all add: is_read_def)

lemma emitsI:
  "(\<And>w. \<exists>xs. acts (snd (run_state m w)) = acts w @ xs \<and> (\<forall>x\<in>set xs. A x)) \<Longrightarrow> emits A m"
  by (simp add: emits_def)

lemma emitsE:
  assumes "emits A m" and "run_state m w = (a, w')"
  obtains xs where "acts w' = acts w @ xs" and "\<And>x. x \<in> set xs \<Longrightarrow> A x"
proof -
  from assms(1) obtain xs where "acts (snd (run_state m w)) = acts w @ xs" "\<forall>x\<in>set xs. A x"
    unfolding emits_def by blast
  with assms(2) that show thesis by auto
qed

lemma emits_acts_mono:
  assumes "emits A m" and "run_state m w = (a, w')"
  shows "set (acts w) \<subseteq> set (acts w')"
  by (rule emitsE [OF assms]) simp

lemma emits_new_acts:
  assumes "emits A m" and "a \<in> set (new_acts w (snd (run_state m w)))"
  shows "A a"
proof -
  from assms(1) obtain xs where "acts (snd (run_state m w)) = acts w @ xs" "\<forall>x\<in>set xs. A x"
    unfolding emits_def by blast
  with assms(2) show ?thesis by (simp add: new_acts_def)
qed

lemma emits_mono: "emits A m \<Longrightarrow> (\<And>x. A x \<Longrightarrow> B x) \<Longrightarrow> emits B m"
  unfolding emits_def by blast

lemma emits_bind [emits_rules]:
  assumes "emits A m" and "\<And>x. x \<in> set_state m \<Longrightarrow> emits A (f x)"
  shows "emits A (State_Monad.bind m f)"
proof (rule emitsI)
  fix w
  obtain a w' where m: "run_state m w = (a, w')" by (cases "run_state m w")
  obtain b w'' where f: "run_state (f a) w' = (b, w'')" by (cases "run_state (f a) w'")
  obtain xs where xs: "acts w' = acts w @ xs" "\<And>x. x \<in> set xs \<Longrightarrow> A x"
    using emitsE [OF assms(1) m] by blast
  obtain ys where ys: "acts w'' = acts w' @ ys" "\<And>x. x \<in> set ys \<Longrightarrow> A x"
    using emitsE [OF assms(2) f] m by (auto simp: set_state_iff)
  show "\<exists>zs. acts (snd (run_state (State_Monad.bind m f) w)) = acts w @ zs \<and> (\<forall>x\<in>set zs. A x)"
    using m f xs ys by (intro exI [of _ "xs @ ys"]) auto
qed

lemma emits_return [emits_rules]: "emits A (State_Monad.return x)"
  by (simp add: emits_def)

lemma emits_get_vc [emits_rules]: "emits A get_vc"
  by (simp add: emits_def)

lemma emits_ask [emits_rules]: "emits A (ask f)"
  by (simp add: emits_def)

lemma emits_modify_status [emits_rules]: "emits A (modify_status f)"
  by (simp add: emits_def)

lemma emits_set_vc [emits_rules]: "emits A (set_vc v)"
  by (simp add: emits_def)

lemma emits_emit [emits_rules]: "A a \<Longrightarrow> emits A (emit a)"
  by (simp add: emits_def)

lemma emits_if [emits_rules]:
  "(b \<Longrightarrow> emits A m) \<Longrightarrow> (\<not> b \<Longrightarrow> emits A n) \<Longrightarrow> emits A (if b then m else n)"
  by simp

lemma emits_option [emits_rules]:
  "(x = None \<Longrightarrow> emits A m) \<Longrightarrow> (\<And>y. x = Some y \<Longrightarrow> emits A (f y)) \<Longrightarrow>
   emits A (case x of None \<Rightarrow> m | Some y \<Rightarrow> f y)"
  by (cases x) simp_all

lemma emits_sum [emits_rules]:
  "(\<And>y. x = Inl y \<Longrightarrow> emits A (f y)) \<Longrightarrow> (\<And>y. x = Inr y \<Longrightarrow> emits A (g y)) \<Longrightarrow>
   emits A (case x of Inl y \<Rightarrow> f y | Inr y \<Rightarrow> g y)"
  by (cases x) simp_all

lemma emits_prod [emits_rules]:
  "(\<And>a b. x = (a, b) \<Longrightarrow> emits A (f a b)) \<Longrightarrow> emits A (case x of (a, b) \<Rightarrow> f a b)"
  by (cases x) simp

lemma emits_Let [emits_rules]: "(\<And>x. x = v \<Longrightarrow> emits A (f x)) \<Longrightarrow> emits A (Let v f)"
  by simp

lemma emits_for_each [emits_rules]:
  "(\<And>x. x \<in> set xs \<Longrightarrow> emits A (f x)) \<Longrightarrow> emits A (for_each xs f)"
  by (induction xs) (auto intro!: emits_return emits_bind)

lemma emits_map_state [emits_rules]:
  "(\<And>x. x \<in> set xs \<Longrightarrow> emits A (f x)) \<Longrightarrow> emits A (map_state f xs)"
  by (induction xs) (auto intro!: emits_return emits_bind)

lemma emits_fold_state [emits_rules]:
  "(\<And>x a. x \<in> set xs \<Longrightarrow> emits A (f x a)) \<Longrightarrow> emits A (fold_state f xs a)"
  by (induction xs arbitrary: a) (auto intro!: emits_return emits_bind)

lemma emits_first_state [emits_rules]:
  "(\<And>x. x \<in> set xs \<Longrightarrow> emits A (f x)) \<Longrightarrow> emits A (first_state f xs)"
  by (induction xs) (auto intro!: emits_return emits_bind emits_option)

lemma emits_patch_status [emits_rules]:
  "(\<And>s r. A (APatchStatus s r)) \<Longrightarrow> emits A (patch_status env)"
  unfolding patch_status_def by (auto intro!: emits_rules)

lemma emits_create_obj [emits_rules]:
  "(\<And>r. A (ACreate ob r)) \<Longrightarrow> emits A (create_obj env ob)"
  unfolding create_obj_def by (auto intro!: emits_rules)

lemma emits_update_obj [emits_rules]:
  "(\<And>r. A (AUpdate ob r)) \<Longrightarrow> emits A (update_obj env ob)"
  unfolding update_obj_def by (auto intro!: emits_rules)

lemma emits_delete_obj [emits_rules]:
  "(\<And>r. A (ADelete k n r)) \<Longrightarrow> emits A (delete_obj env k n)"
  unfolding delete_obj_def by (auto intro!: emits_rules)

lemma emits_patch_pod_labels [emits_rules]:
  "(\<And>r. A (APatchPodLabels n l r)) \<Longrightarrow> emits A (patch_pod_labels env n l)"
  unfolding patch_pod_labels_def by (auto intro!: emits_rules)

lemma emits_patch_storage [emits_rules]:
  "(\<And>r. A (APatchStorage n z r)) \<Longrightarrow> emits A (patch_storage env n z)"
  unfolding patch_storage_def by (auto intro!: emits_rules)

lemma emits_update_status [emits_rules]:
  "(\<And>r. A (AUpdateStatus s r)) \<Longrightarrow> emits A (update_status env s)"
  unfolding update_status_def by (auto intro!: emits_rules)

lemma emits_retry_on_conflict [emits_rules]: "emits A f \<Longrightarrow> emits A (retry_on_conflict n f)"
  by (induction n) (auto intro!: emits_rules)

section \<open>Handlers that leave the object in memory alone\<close>

definition keeps_cur :: "'a op \<Rightarrow> bool" where
  "keeps_cur m \<longleftrightarrow> (\<forall>w. cur (snd (run_state m w)) = cur w)"

lemma keeps_cur_bind [hoare_rules]:
  "keeps_cur m \<Longrightarrow> (\<And>x. keeps_cur (f x)) \<Longrightarrow> keeps_cur (State_Monad.bind m f)"
  unfolding keeps_cur_def by (auto split: prod.splits) (metis snd_conv)

lemma keeps_cur_prims [hoare_rules]:
  "keeps_cur (State_Monad.return x)" "keeps_cur get_vc" "keeps_cur (ask f)" "keeps_cur (emit a)"
  by (simp_all add: keeps_cur_def)

lemma keeps_cur_if [hoare_rules]:
  "(b \<Longrightarrow> keeps_cur m) \<Longrightarrow> (\<not> b \<Longrightarrow> keeps_cur n) \<Longrightarrow> keeps_cur (if b then m else n)"
  by simp

lemma keeps_cur_option [hoare_rules]:
  "(x = None \<Longrightarrow> keeps_cur m) \<Longrightarrow> (\<And>y. x = Some y \<Longrightarrow> keeps_cur (f y)) \<Longrightarrow>
   keeps_cur (case x of None \<Rightarrow> m | Some y \<Rightarrow> f y)"
  by (cases x) simp_all

lemma keeps_cur_sum [hoare_rules]:
  "(\<And>y. x = Inl y \<Longrightarrow> keeps_cur (f y)) \<Longrightarrow> (\<And>y. x = Inr y \<Longrightarrow> keeps_cur (g y)) \<Longrightarrow>
   keeps_cur (case x of Inl y \<Rightarrow> f y | Inr y \<Rightarrow> g y)"
  by (cases x) simp_all

lemma keeps_cur_Let [hoare_rules]: "(\<And>x. x = v \<Longrightarrow> keeps_cur (f x)) \<Longrightarrow> keeps_cur (Let v f)"
  by simp

lemma keeps_cur_for_each [hoare_rules]:
  "(\<And>x. x \<in> set xs \<Longrightarrow> keeps_cur (f x)) \<Longrightarrow> keeps_cur (for_each xs f)"
  by (induction xs) (auto intro!: hoare_rules)

lemma keeps_cur_map_state [hoare_rules]:
  "(\<And>x. x \<in> set xs \<Longrightarrow> keeps_cur (f x)) \<Longrightarrow> keeps_cur (map_state f xs)"
  by (induction xs) (auto intro!: hoare_rules)

lemma keeps_cur_fold_state [hoare_rules]:
  "(\<And>x a. x \<in> set xs \<Longrightarrow> keeps_cur (f x a)) \<Longrightarrow> keeps_cur (fold_state f xs a)"
  by (induction xs arbitrary: a) (auto intro!: hoare_rules)

lemma keeps_cur_first_state [hoare_rules]:
  "(\<And>x. x \<in> set xs \<Longrightarrow> keeps_cur (f x)) \<Longrightarrow> keeps_cur (first_state f xs)"
  by (induction xs) (auto intro!: hoare_rules)

lemma keeps_cur_writes [hoare_rules]:
  "keeps_cur (patch_status env)" "keeps_cur (create_obj env ob)" "keeps_cur (update_obj env ob)"
  "keeps_cur (delete_obj env k n)" "keeps_cur (patch_pod_labels env n l)" "keeps_cur (patch_storage env n z)"
  "keeps_cur (update_status env s)"
  unfolding patch_status_def create_obj_def update_obj_def delete_obj_def patch_pod_labels_def
    patch_storage_def update_status_def
  by (auto intro!: hoare_rules)

lemma keeps_cur_retry_on_conflict [hoare_rules]: "keeps_cur f \<Longrightarrow> keeps_cur (retry_on_conflict n f)"
  by (induction n) (auto intro!: hoare_rules)

lemma keeps_curD: "keeps_cur m \<Longrightarrow> run_state m w = (a, w') \<Longrightarrow> cur w' = cur w"
  unfolding keeps_cur_def by (metis snd_conv)

end
