(* ===== verification/Names.thy ===== *)
theory Names
  imports World "HOL-Library.Signed_Division"
begin

text \<open>
  The constants, names, labels and spec accessors of \<open>src/internal/controller/resources.go\<close>
  and of the per-shard layout (\<open>cluster_pershard.go\<close>): which Secret, StatefulSet, Service
  and DNS name belongs to a cluster, how many pods it has, and which pods those are. The
  lemmas are the ones the rest of the library rests on: a pod name and its ordinal, and a
  pod's DNS name and its pod name, determine each other.
\<close>

section \<open>Constants\<close>

definition valkeyPort :: int where "valkeyPort = 6379"
definition valkeyTLSPort :: int where "valkeyTLSPort = 6380"
definition clusterBusPort :: int where "clusterBusPort = 16379"
definition exporterPort :: int where "exporterPort = 9121"
definition sentinelPort :: int where "sentinelPort = 26379"
definition sentinelTLSPort :: int where "sentinelTLSPort = 26380"

definition nameLabel :: string where "nameLabel = ''app.kubernetes.io/name''"
definition instanceLabel :: string where "instanceLabel = ''app.kubernetes.io/instance''"
definition partOfLabel :: string where "partOfLabel = ''app.kubernetes.io/part-of''"
definition managedByLabel :: string where "managedByLabel = ''app.kubernetes.io/managed-by''"
definition componentLabel :: string where "componentLabel = ''app.kubernetes.io/component''"
definition roleLabel :: string where "roleLabel = ''valkey.wellcake.io/role''"
definition shardLabel :: string where "shardLabel = ''cache.wellcake.io/shard''"
definition sentinelPlaneLabel :: string where "sentinelPlaneLabel = ''valkey.wellcake.io/plane''"
definition revisionLabel :: string where "revisionLabel = ''controller-revision-hash''"

definition failoverAnnotation :: string where "failoverAnnotation = ''valkey.wellcake.io/failover''"
definition failoverTargetAnnotation :: string where
  "failoverTargetAnnotation = ''valkey.wellcake.io/failover-target''"
definition reshardAnnotation :: string where "reshardAnnotation = ''valkey.wellcake.io/reshard''"
definition rotatePasswordAnnotation :: string where
  "rotatePasswordAnnotation = ''valkey.wellcake.io/rotate-password''"
definition hibernateAnnotation :: string where "hibernateAnnotation = ''valkey.wellcake.io/hibernate''"
definition proactiveRolloutAnnotation :: string where
  "proactiveRolloutAnnotation = ''valkey.wellcake.io/proactive-rollout''"
definition quorumTakeoverAnnotation :: string where
  "quorumTakeoverAnnotation = ''valkey.wellcake.io/quorum-takeover''"

definition roleMaster :: string where "roleMaster = ''master''"
definition roleSlave :: string where "roleSlave = ''slave''"
definition rolePrimary :: string where "rolePrimary = ''primary''"
definition roleReplica :: string where "roleReplica = ''replica''"
definition secretKeyPassword :: string where "secretKeyPassword = ''password''"
definition valueTrue :: string where "valueTrue = ''true''"

definition sentinelACLUser :: string where "sentinelACLUser = ''sentinel-user''"
definition replicationACLUser :: string where "replicationACLUser = ''replicator''"
definition sentinelMasterName :: string where "sentinelMasterName = ''mymaster''"
definition sentinelACLCommands :: string where
  "sentinelACLCommands = ''+multi +slaveof +ping +exec +subscribe +config|rewrite +role +publish +info +client|setname +client|kill +script|kill''"
definition replicationACLCommands :: string where
  "replicationACLCommands = ''+psync +replconf +ping''"

lemmas constants =
  valkeyPort_def valkeyTLSPort_def clusterBusPort_def exporterPort_def sentinelPort_def
  sentinelTLSPort_def nameLabel_def instanceLabel_def partOfLabel_def managedByLabel_def
  componentLabel_def roleLabel_def shardLabel_def sentinelPlaneLabel_def revisionLabel_def
  failoverAnnotation_def failoverTargetAnnotation_def reshardAnnotation_def
  rotatePasswordAnnotation_def hibernateAnnotation_def proactiveRolloutAnnotation_def
  quorumTakeoverAnnotation_def roleMaster_def roleSlave_def rolePrimary_def roleReplica_def
  secretKeyPassword_def valueTrue_def sentinelACLUser_def replicationACLUser_def
  sentinelMasterName_def sentinelACLCommands_def replicationACLCommands_def

section \<open>Spec accessors\<close>

definition tlsEnabled :: "ValkeyCluster \<Rightarrow> bool" where
  "tlsEnabled vc \<longleftrightarrow>
     (case sp_TLS (vc_Spec vc) of None \<Rightarrow> False | Some t \<Rightarrow> tls_Enabled t)"

text \<open>The block \<open>port := valkeyPort; if tlsEnabled(vc) { port = valkeyTLSPort }\<close>.\<close>

definition dataPort :: "ValkeyCluster \<Rightarrow> int" where
  "dataPort vc = (if tlsEnabled vc then valkeyTLSPort else valkeyPort)"

definition metricsEnabled :: "ValkeyCluster \<Rightarrow> bool" where
  "metricsEnabled vc \<longleftrightarrow>
     (case sp_Metrics (vc_Spec vc) of None \<Rightarrow> False | Some m \<Rightarrow> me_Enabled m)"

definition sentinelMetricsEnabled :: "ValkeyCluster \<Rightarrow> bool" where
  "sentinelMetricsEnabled vc \<longleftrightarrow> metricsEnabled vc
     \<and> (case sp_Metrics (vc_Spec vc) of None \<Rightarrow> False | Some m \<Rightarrow> me_Sentinel m)
     \<and> sp_Topology (vc_Spec vc) = TopologySentinel"

definition topologyReplicates :: "ValkeyCluster \<Rightarrow> bool" where
  "topologyReplicates vc \<longleftrightarrow> sp_Topology (vc_Spec vc) \<noteq> TopologyStandalone"

definition hibernated :: "ValkeyCluster \<Rightarrow> bool" where
  "hibernated vc \<longleftrightarrow> mget (vc_Annotations vc) hibernateAnnotation = valueTrue"

definition isReservedACLUser :: "string \<Rightarrow> bool" where
  "isReservedACLUser name \<longleftrightarrow>
     name = ''default'' \<or> name = sentinelACLUser \<or> name = replicationACLUser"

text \<open>\<open>managedACLUser\<close>: a name and the rules that define the user.\<close>

definition managedNonDefaultUsers :: "ValkeyCluster \<Rightarrow> (string \<times> string) list" where
  "managedNonDefaultUsers vc =
     (if topologyReplicates vc then [(replicationACLUser, replicationACLCommands)] else [])
     @ (if sp_Topology (vc_Spec vc) = TopologySentinel
        then [(sentinelACLUser, ''&* '' @ sentinelACLCommands)] else [])"

definition usesMemoryStorage :: "ValkeyCluster \<Rightarrow> bool" where
  "usesMemoryStorage vc \<longleftrightarrow>
     (case sp_Storage (vc_Spec vc) of None \<Rightarrow> False | Some s \<Rightarrow> sto_Medium s = ''Memory'')"

definition condStatus :: "bool \<Rightarrow> ConditionStatus" where
  "condStatus ok = (if ok then ConditionTrue else ConditionFalse)"

text \<open>
  \<open>setCondition\<close> delegates to \<open>meta.SetStatusCondition\<close>, with the documented behaviour: the
  condition of that type is replaced in place, its transition time kept unless the status
  changes; a condition of a new type is appended.
\<close>

definition merge_condition :: "Condition \<Rightarrow> Condition \<Rightarrow> Condition" where
  "merge_condition old c =
     (if co_Status old = co_Status c then c\<lparr>co_LastTransitionTime := co_LastTransitionTime old\<rparr>
      else c)"

fun setCondition :: "Condition list \<Rightarrow> Condition \<Rightarrow> Condition list" where
  "setCondition [] c = [c]"
| "setCondition (d # ds) c =
     (if co_Type d = co_Type c then merge_condition d c # ds else d # setCondition ds c)"

section \<open>Names\<close>

definition topologyName :: "Topology \<Rightarrow> string" where
  "topologyName t = (case t of TopologyUnset \<Rightarrow> [] | TopologyStandalone \<Rightarrow> ''standalone''
     | TopologyReplication \<Rightarrow> ''replication'' | TopologySentinel \<Rightarrow> ''sentinel''
     | TopologyCluster \<Rightarrow> ''cluster'')"

definition labelsFor :: "ValkeyCluster \<Rightarrow> labels" where
  "labelsFor vc = [(nameLabel, ''valkey''), (instanceLabel, vc_Name vc),
     (partOfLabel, ''valkey-operator''), (managedByLabel, ''valkey-operator''),
     (componentLabel, topologyName (sp_Topology (vc_Spec vc)))]"

text \<open>\<open>maps.Copy(out, labels)\<close>: the entries of the second map win.\<close>

definition maps_Copy :: "labels \<Rightarrow> labels \<Rightarrow> labels" where
  "maps_Copy dst src = src @ filter (\<lambda>(k, _). map_of src k = None) dst"

definition podLabelsFor :: "ValkeyCluster \<Rightarrow> labels \<Rightarrow> labels" where
  "podLabelsFor vc ls =
     (if sp_PodLabels (vc_Spec vc) = [] then ls else maps_Copy (sp_PodLabels (vc_Spec vc)) ls)"

definition headlessServiceName :: "ValkeyCluster \<Rightarrow> string" where
  "headlessServiceName vc = vc_Name vc @ ''-headless''"

definition clientServiceName :: "ValkeyCluster \<Rightarrow> string" where
  "clientServiceName vc = vc_Name vc"

definition primaryServiceName :: "ValkeyCluster \<Rightarrow> string" where
  "primaryServiceName vc = vc_Name vc @ ''-primary''"

definition replicasServiceName :: "ValkeyCluster \<Rightarrow> string" where
  "replicasServiceName vc = vc_Name vc @ ''-replicas''"

definition internalEndpoint :: "ValkeyCluster \<Rightarrow> string" where
  "internalEndpoint vc =
     clientServiceName vc @ ''.'' @ vc_Namespace vc @ ''.svc:'' @ Itoa (dataPort vc)"

definition statefulSetName :: "ValkeyCluster \<Rightarrow> string" where
  "statefulSetName vc = vc_Name vc"

definition sentinelStatefulSetName :: "ValkeyCluster \<Rightarrow> string" where
  "sentinelStatefulSetName vc = vc_Name vc @ ''-sentinel''"

definition configMapName :: "ValkeyCluster \<Rightarrow> string" where
  "configMapName vc = vc_Name vc @ ''-config''"

definition passwordSecretName :: "ValkeyCluster \<Rightarrow> string" where
  "passwordSecretName vc = vc_Name vc @ ''-auth''"

definition authSecretName :: "ValkeyCluster \<Rightarrow> string" where
  "authSecretName vc = (case sp_Auth (vc_Spec vc) of
       Some a \<Rightarrow> if au_ExistingSecret a \<noteq> [] then au_ExistingSecret a else passwordSecretName vc
     | None \<Rightarrow> passwordSecretName vc)"

definition tlsSecretName :: "ValkeyCluster \<Rightarrow> string" where
  "tlsSecretName vc = (case sp_TLS (vc_Spec vc) of
       Some t \<Rightarrow> if tls_ExistingSecret t \<noteq> [] then tls_ExistingSecret t else vc_Name vc @ ''-tls''
     | None \<Rightarrow> vc_Name vc @ ''-tls'')"

definition podName :: "ValkeyCluster \<Rightarrow> int \<Rightarrow> string" where
  "podName vc ord = statefulSetName vc @ ''-'' @ Itoa ord"

text \<open>The format \<open>"%s.%s.%s.svc.cluster.local"\<close> with which the operator spells a pod's DNS name.\<close>

definition fqdn :: "string \<Rightarrow> string \<Rightarrow> string \<Rightarrow> string" where
  "fqdn pod service ns = pod @ ''.'' @ service @ ''.'' @ ns @ ''.svc.cluster.local''"

section \<open>Sizes and the pods of a cluster\<close>

definition totalReplicas :: "ValkeyCluster \<Rightarrow> int" where
  "totalReplicas vc =
     (if sp_Topology (vc_Spec vc) \<noteq> TopologyCluster then sp_Replicas (vc_Spec vc)
      else let shards = Deref (sp_Shards (vc_Spec vc)) 0;
               perShard = Deref (sp_ReplicasPerShard (vc_Spec vc)) 0
           in int32 (shards * int32 (1 + perShard)))"

definition statefulSetReplicas :: "ValkeyCluster \<Rightarrow> int" where
  "statefulSetReplicas vc =
     (let desired = totalReplicas vc
      in if sp_Topology (vc_Spec vc) = TopologyCluster
            \<and> st_LastAppliedReplicas (vc_Status vc) > desired
         then st_LastAppliedReplicas (vc_Status vc) else desired)"

definition perShardEnabled :: "ValkeyCluster \<Rightarrow> bool" where
  "perShardEnabled vc \<longleftrightarrow> sp_Topology (vc_Spec vc) = TopologyCluster
     \<and> Deref (sp_PerShardWorkload (vc_Spec vc)) False"

definition shardCountOf :: "ValkeyCluster \<Rightarrow> int" where
  "shardCountOf vc = Deref (sp_Shards (vc_Spec vc)) 0"

definition replicasPerShardOf :: "ValkeyCluster \<Rightarrow> int" where
  "replicasPerShardOf vc = Deref (sp_ReplicasPerShard (vc_Spec vc)) 0"

definition shardStsName :: "ValkeyCluster \<Rightarrow> int \<Rightarrow> string" where
  "shardStsName vc shard = vc_Name vc @ ''-sh'' @ Itoa shard"

definition shardHeadlessName :: "ValkeyCluster \<Rightarrow> int \<Rightarrow> string" where
  "shardHeadlessName vc shard = shardStsName vc shard"

text \<open>The \<open>podRef\<close> of \<open>cluster_pershard.go\<close>; the shard is \<open>-1\<close> in the single layout.\<close>

record podRef =
  pr_host :: string
  pr_shard :: int
  pr_ord :: int

text \<open>\<open>for i := range n\<close> over an \<open>int32\<close>: no iteration when \<open>n\<close> is not positive.\<close>

definition range_int :: "int \<Rightarrow> int list" where
  "range_int n = map int [0..<nat n]"

definition perSts :: "ValkeyCluster \<Rightarrow> int" where
  "perSts vc = int32 (1 + replicasPerShardOf vc)"

definition shardPodRefs :: "ValkeyCluster \<Rightarrow> int \<Rightarrow> podRef list" where
  "shardPodRefs vc s =
     map (\<lambda>i. \<lparr>pr_host = fqdn (shardStsName vc s @ ''-'' @ Itoa i) (shardHeadlessName vc s) (vc_Namespace vc),
               pr_shard = s, pr_ord = i\<rparr>) (range_int (perSts vc))"

definition clusterDataPods :: "ValkeyCluster \<Rightarrow> podRef list" where
  "clusterDataPods vc =
     (if perShardEnabled vc then concat (map (shardPodRefs vc) (range_int (shardCountOf vc)))
      else map (\<lambda>i. \<lparr>pr_host = fqdn (podName vc i) (headlessServiceName vc) (vc_Namespace vc),
                     pr_shard = -1, pr_ord = i\<rparr>) (range_int (totalReplicas vc)))"

definition clusterAnyPodHost :: "ValkeyCluster \<Rightarrow> string" where
  "clusterAnyPodHost vc = (case clusterDataPods vc of [] \<Rightarrow> [] | p # _ \<Rightarrow> pr_host p)"

definition podFQDN :: "ValkeyCluster \<Rightarrow> string \<Rightarrow> string" where
  "podFQDN vc pod =
     (let hl = (if perShardEnabled vc
                then (case LastIndexByte pod (CHR ''-'') of
                        Some i \<Rightarrow> if i > 0 then take i pod else headlessServiceName vc
                      | None \<Rightarrow> headlessServiceName vc)
                else headlessServiceName vc)
      in fqdn pod hl (vc_Namespace vc))"

definition oldShardsOf :: "ValkeyCluster \<Rightarrow> int" where
  "oldShardsOf vc =
     (if perSts vc = 0 then 0 else st_LastAppliedReplicas (vc_Status vc) sdiv perSts vc)"

definition shardPodHosts :: "ValkeyCluster \<Rightarrow> int \<Rightarrow> string list" where
  "shardPodHosts vc shard =
     map (\<lambda>i. fqdn (shardStsName vc shard @ ''-'' @ Itoa i) (shardHeadlessName vc shard) (vc_Namespace vc))
       (range_int (perSts vc))"

definition shardLabelsFor :: "ValkeyCluster \<Rightarrow> int \<Rightarrow> labels" where
  "shardLabelsFor vc shard = maps_Copy (labelsFor vc) [(shardLabel, Itoa shard)]"

text \<open>The part of a host before the first colon, then before the first dot.\<close>

definition podNameFromFQDN :: "string \<Rightarrow> string" where
  "podNameFromFQDN s =
     (let s = (case IndexByte s (CHR '':'') of Some i \<Rightarrow> take i s | None \<Rightarrow> s)
      in case IndexByte s (CHR ''.'') of Some i \<Rightarrow> take i s | None \<Rightarrow> s)"

definition ordinalFromPodName :: "string \<Rightarrow> string \<Rightarrow> int option" where
  "ordinalFromPodName name sts =
     (let suffix = TrimPrefix name (sts @ ''-'')
      in if suffix = name then None else ParseInt suffix 32)"

definition podIsReady :: "Pod \<Rightarrow> bool" where
  "podIsReady p = (case find (\<lambda>(t, _). t = ''Ready'') (pod_Conditions p) of
       Some (_, st) \<Rightarrow> st = ConditionTrue
     | None \<Rightarrow> False)"

text \<open>A name that a pod of this operator can have: neither of the two separators.\<close>

definition plain_name :: "string \<Rightarrow> bool" where
  "plain_name s \<longleftrightarrow> CHR ''.'' \<notin> set s \<and> CHR '':'' \<notin> set s"

section \<open>Lemmas\<close>

lemma setCondition_single: "co_Type d = co_Type c \<Longrightarrow> setCondition [d] c = [merge_condition d c]"
  by simp

lemma setCondition_types:
  "set (map co_Type (setCondition ds c)) = insert (co_Type c) (set (map co_Type ds))"
  by (induction ds) (auto simp: merge_condition_def)

lemma setCondition_distinct:
  "distinct (map co_Type ds) \<Longrightarrow> distinct (map co_Type (setCondition ds c))"
  using setCondition_types by (induction ds) (auto simp: merge_condition_def)

lemma length_range_int [simp]: "length (range_int n) = nat n"
  by (simp add: range_int_def)

lemma set_range_int [simp]: "set (range_int n) = {0..<n}"
proof -
  have "int ` {0..<nat n} = {0..<n}"
    by (auto simp: image_iff) (metis int_nat_eq nat_less_eq_zless atLeastLessThan_iff zero_le)
  then show ?thesis by (simp add: range_int_def)
qed

lemma distinct_range_int [simp]: "distinct (range_int n)"
  by (simp add: range_int_def distinct_map)

lemma podName_inject [simp]: "podName vc i = podName vc j \<longleftrightarrow> i = j"
  by (simp add: podName_def)

lemma ordinalFromPodName_podName:
  assumes "- (2 ^ 31) \<le> i" and "i < 2 ^ 31"
  shows "ordinalFromPodName (podName vc i) (statefulSetName vc) = Some i"
proof -
  have "TrimPrefix ((statefulSetName vc @ ''-'') @ Itoa i) (statefulSetName vc @ ''-'') = Itoa i"
    by (rule TrimPrefix_append)
  then have "TrimPrefix (podName vc i) (statefulSetName vc @ ''-'') = Itoa i"
    by (simp add: podName_def)
  moreover have "length (Itoa i) < length (podName vc i)"
    by (simp add: podName_def)
  ultimately show ?thesis
    using ParseInt_Itoa [of 32 i] assms by (auto simp: ordinalFromPodName_def Let_def)
qed

lemma plain_name_append [simp]: "plain_name (s @ t) \<longleftrightarrow> plain_name s \<and> plain_name t"
  by (auto simp: plain_name_def)

lemma plain_name_Cons [simp]:
  "plain_name (c # s) \<longleftrightarrow> c \<noteq> CHR ''.'' \<and> c \<noteq> CHR '':'' \<and> plain_name s"
  by (auto simp: plain_name_def)

lemma plain_name_Nil [simp]: "plain_name []"
  by (simp add: plain_name_def)

lemma plain_name_Itoa [simp]: "plain_name (Itoa i)"
  using Itoa_chars not_digit_signs by (fastforce simp: plain_name_def)

lemma plain_name_podName: "plain_name (vc_Name vc) \<Longrightarrow> plain_name (podName vc i)"
  by (simp add: podName_def statefulSetName_def)

lemma podNameFromFQDN_plain: "plain_name s \<Longrightarrow> podNameFromFQDN s = s"
  by (auto simp: podNameFromFQDN_def plain_name_def Let_def IndexByte_None_iff split: option.splits)
    (metis IndexByte_None_iff option.distinct(1))+

lemma podNameFromFQDN_fqdn:
  assumes "plain_name pod" and "CHR '':'' \<notin> set svc" and "CHR '':'' \<notin> set ns"
  shows "podNameFromFQDN (fqdn pod svc ns) = pod"
proof -
  have "CHR '':'' \<notin> set (fqdn pod svc ns)"
    using assms by (auto simp: fqdn_def plain_name_def)
  then have "IndexByte (fqdn pod svc ns) (CHR '':'') = None"
    by (simp add: IndexByte_None_iff)
  moreover have "IndexByte (fqdn pod svc ns) (CHR ''.'') = Some (length pod)"
    using assms(1) IndexByte_append_notin [of "CHR ''.''" pod] by (simp add: fqdn_def plain_name_def)
  ultimately show ?thesis by (simp add: podNameFromFQDN_def fqdn_def)
qed

end
