(* ===== verification/Valkey_Client.thy ===== *)
theory Valkey_Client
  imports Names
begin

text \<open>
  The thin client of \<open>src/internal/controller/failover.go\<close> (\<open>replClient\<close>): one operation
  per method, with the exact command it sends, and the parsers of the INFO and
  CLUSTER INFO texts. The client certificate under mutual TLS is that of
  \<open>tls_reload.go\<close> (\<open>loadMTLSClientCert\<close>). An error-valued method returns an \<open>option\<close>,
  \<^const>\<open>None\<close> for \<open>nil\<close>.
\<close>

section \<open>Definitions\<close>

record replClient =
  rc_host :: string
  rc_port :: int

definition loadMTLSClientCert :: "env \<Rightarrow> ValkeyCluster \<Rightarrow> string option op" where
  "loadMTLSClientCert env vc =
     (if \<not> tlsEnabled vc \<or> (case sp_TLS (vc_Spec vc) of None \<Rightarrow> True | Some t \<Rightarrow> \<not> tls_MutualTLS t)
      then State_Monad.return None
      else do {
        s \<leftarrow> ask (\<lambda>t. env_secret env t (tlsSecretName vc));
        State_Monad.return (case s of
            Inl _ \<Rightarrow> None
          | Inr sec \<Rightarrow> env_x509 env (mget (map_of (sec_Data sec)) ''tls.crt'')
                        (mget (map_of (sec_Data sec)) ''tls.key'')) })"

definition dialReplClient ::
  "env \<Rightarrow> string \<Rightarrow> int \<Rightarrow> string \<Rightarrow> bool \<Rightarrow> string option \<Rightarrow> replClient option op" where
  "dialReplClient env host port password useTLS clientCert = do {
     ok \<leftarrow> ask (\<lambda>t. env_dial env t host port password useTLS clientCert);
     emit (ADial host port password ok);
     State_Monad.return (if ok then Some \<lparr>rc_host = host, rc_port = port\<rparr> else None) }"

text \<open>The call \<open>dialReplClient(ctx, host, port, password, tlsEnabled(vc), loadMTLSClientCert(ctx, r, vc), t)\<close>.\<close>

definition dialPod :: "env \<Rightarrow> ValkeyCluster \<Rightarrow> string \<Rightarrow> string \<Rightarrow> replClient option op" where
  "dialPod env vc host password = do {
     cert \<leftarrow> loadMTLSClientCert env vc;
     dialReplClient env host (dataPort vc) password (tlsEnabled vc) cert }"

definition rdb_Do :: "env \<Rightarrow> replClient \<Rightarrow> string list \<Rightarrow> (string + reply) op" where
  "rdb_Do env c args = do {
     r \<leftarrow> ask (\<lambda>t. env_cmd env t (rc_host c) args);
     emit (ACmd (rc_host c) args (case r of Inl _ \<Rightarrow> False | Inr _ \<Rightarrow> True));
     State_Monad.return r }"

definition reply_err :: "string + reply \<Rightarrow> string option" where
  "reply_err r = (case r of Inl e \<Rightarrow> Some e | Inr _ \<Rightarrow> None)"

definition reply_text :: "string + reply \<Rightarrow> string option" where
  "reply_text r = (case r of Inr (RText s) \<Rightarrow> Some s | _ \<Rightarrow> None)"

definition reply_int :: "string + reply \<Rightarrow> int option" where
  "reply_int r = (case r of Inr (RInt n) \<Rightarrow> Some n | _ \<Rightarrow> None)"

definition parse_kv_line :: "bool \<Rightarrow> string \<Rightarrow> (string \<rightharpoonup> string) \<Rightarrow> (string \<rightharpoonup> string)" where
  "parse_kv_line skipComments line m =
     (let line = TrimSpace line
      in if line = [] \<or> (skipComments \<and> HasPrefix line ''#'') then m
         else (case IndexByte line (CHR '':'') of
                 Some i \<Rightarrow> if i > 0 then m(take i line \<mapsto> TrimSpace (drop (Suc i) line)) else m
               | None \<Rightarrow> m))"

definition parse_kv :: "bool \<Rightarrow> string \<Rightarrow> (string \<rightharpoonup> string)" where
  "parse_kv skipComments res =
     fold (parse_kv_line skipComments) (SplitByte res (CHR 0x0A)) (\<lambda>_. None)"

definition infoSection :: "env \<Rightarrow> replClient \<Rightarrow> string \<Rightarrow> (string \<rightharpoonup> string) option op" where
  "infoSection env c section = do {
     r \<leftarrow> rdb_Do env c [''INFO'', section];
     State_Monad.return (map_option (parse_kv True) (reply_text r)) }"

definition info :: "env \<Rightarrow> replClient \<Rightarrow> (string \<rightharpoonup> string) option op" where
  "info env c = infoSection env c ''replication''"

definition dbsize :: "env \<Rightarrow> replClient \<Rightarrow> int option op" where
  "dbsize env c = do {
     r \<leftarrow> rdb_Do env c [''DBSIZE''];
     State_Monad.return (reply_int r) }"

definition do_err :: "env \<Rightarrow> replClient \<Rightarrow> string list \<Rightarrow> string option op" where
  "do_err env c args = do {
     r \<leftarrow> rdb_Do env c args;
     State_Monad.return (reply_err r) }"

definition replicaOfNoOne :: "env \<Rightarrow> replClient \<Rightarrow> string option op" where
  "replicaOfNoOne env c = do_err env c [''REPLICAOF'', ''NO'', ''ONE'']"

definition configSet :: "env \<Rightarrow> replClient \<Rightarrow> string \<Rightarrow> string \<Rightarrow> string option op" where
  "configSet env c param val = do_err env c [''CONFIG'', ''SET'', param, val]"

definition aclSetDefaultPassword :: "env \<Rightarrow> replClient \<Rightarrow> string \<Rightarrow> string option op" where
  "aclSetDefaultPassword env c password =
     do_err env c [''ACL'', ''SETUSER'', ''default'', ''resetpass'', ''>'' @ password]"

definition aclAddDefaultPassword :: "env \<Rightarrow> replClient \<Rightarrow> string \<Rightarrow> string option op" where
  "aclAddDefaultPassword env c password =
     do_err env c [''ACL'', ''SETUSER'', ''default'', ''>'' @ password]"

definition aclSetManagedUser ::
  "env \<Rightarrow> replClient \<Rightarrow> string \<Rightarrow> string \<Rightarrow> string \<Rightarrow> bool \<Rightarrow> string option op" where
  "aclSetManagedUser env c name rules password additive =
     do_err env c ([''ACL'', ''SETUSER'', name, ''on'']
                   @ (if additive then [] else [''resetpass''])
                   @ [''>'' @ password] @ Fields rules)"

definition aclSave :: "env \<Rightarrow> replClient \<Rightarrow> string option op" where
  "aclSave env c = do_err env c [''ACL'', ''SAVE'']"

definition replicaOf :: "env \<Rightarrow> replClient \<Rightarrow> string \<Rightarrow> int \<Rightarrow> string option op" where
  "replicaOf env c host port = do_err env c [''REPLICAOF'', host, Itoa port]"

text \<open>The timeout is a duration in nanoseconds; the command takes milliseconds.\<close>

definition clientPauseWrite :: "env \<Rightarrow> replClient \<Rightarrow> int \<Rightarrow> string option op" where
  "clientPauseWrite env c timeout =
     do_err env c [''CLIENT'', ''PAUSE'', Itoa (timeout sdiv 1000000), ''WRITE'']"

definition clientUnpause :: "env \<Rightarrow> replClient \<Rightarrow> string option op" where
  "clientUnpause env c = do_err env c [''CLIENT'', ''UNPAUSE'']"

definition clusterNodes :: "env \<Rightarrow> replClient \<Rightarrow> string option op" where
  "clusterNodes env c = do {
     r \<leftarrow> rdb_Do env c [''CLUSTER'', ''NODES''];
     State_Monad.return (reply_text r) }"

definition clusterFailover :: "env \<Rightarrow> replClient \<Rightarrow> string option op" where
  "clusterFailover env c = do_err env c [''CLUSTER'', ''FAILOVER'']"

definition clusterFailoverTakeover :: "env \<Rightarrow> replClient \<Rightarrow> string option op" where
  "clusterFailoverTakeover env c = do_err env c [''CLUSTER'', ''FAILOVER'', ''TAKEOVER'']"

definition clusterInfoMap :: "env \<Rightarrow> replClient \<Rightarrow> (string \<rightharpoonup> string) option op" where
  "clusterInfoMap env c = do {
     r \<leftarrow> rdb_Do env c [''CLUSTER'', ''INFO''];
     State_Monad.return (map_option (parse_kv False) (reply_text r)) }"

definition sentinelFailover :: "env \<Rightarrow> replClient \<Rightarrow> string \<Rightarrow> string option op" where
  "sentinelFailover env c masterName = do_err env c [''SENTINEL'', ''FAILOVER'', masterName]"

section \<open>Which commands the methods send\<close>

lemma emits_dialReplClient [emits_rules]:
  "(\<And>ok. A (ADial host port pw ok)) \<Longrightarrow> emits A (dialReplClient env host port pw tls cert)"
  unfolding dialReplClient_def by (auto intro!: emits_rules)

lemma emits_loadMTLSClientCert [emits_rules]: "emits A (loadMTLSClientCert env vc)"
  unfolding loadMTLSClientCert_def by (auto intro!: emits_rules)

lemma emits_dialPod [emits_rules]:
  "(\<And>ok. A (ADial host (dataPort vc) pw ok)) \<Longrightarrow> emits A (dialPod env vc host pw)"
  unfolding dialPod_def by (auto intro!: emits_rules)

lemma emits_rdb_Do [emits_rules]:
  "(\<And>ok. A (ACmd (rc_host c) args ok)) \<Longrightarrow> emits A (rdb_Do env c args)"
  unfolding rdb_Do_def by (auto intro!: emits_rules)

lemma emits_do_err [emits_rules]:
  "(\<And>ok. A (ACmd (rc_host c) args ok)) \<Longrightarrow> emits A (do_err env c args)"
  unfolding do_err_def by (auto intro!: emits_rules)

lemmas client_defs =
  infoSection_def info_def dbsize_def replicaOfNoOne_def configSet_def aclSetDefaultPassword_def
  aclAddDefaultPassword_def aclSetManagedUser_def aclSave_def replicaOf_def clientPauseWrite_def
  clientUnpause_def clusterNodes_def clusterFailover_def clusterFailoverTakeover_def
  clusterInfoMap_def sentinelFailover_def

lemma emits_methods [emits_rules]:
  "(\<And>ok. A (ACmd (rc_host c) [''INFO'', sec] ok)) \<Longrightarrow> emits A (infoSection env c sec)"
  "(\<And>ok. A (ACmd (rc_host c) [''INFO'', ''replication''] ok)) \<Longrightarrow> emits A (info env c)"
  "(\<And>ok. A (ACmd (rc_host c) [''DBSIZE''] ok)) \<Longrightarrow> emits A (dbsize env c)"
  "(\<And>ok. A (ACmd (rc_host c) [''REPLICAOF'', ''NO'', ''ONE''] ok)) \<Longrightarrow> emits A (replicaOfNoOne env c)"
  "(\<And>ok. A (ACmd (rc_host c) [''CONFIG'', ''SET'', p, v] ok)) \<Longrightarrow> emits A (configSet env c p v)"
  "(\<And>ok. A (ACmd (rc_host c) [''ACL'', ''SAVE''] ok)) \<Longrightarrow> emits A (aclSave env c)"
  "(\<And>ok. A (ACmd (rc_host c) [''REPLICAOF'', h, Itoa pt] ok)) \<Longrightarrow> emits A (replicaOf env c h pt)"
  "(\<And>ok. A (ACmd (rc_host c) [''CLUSTER'', ''NODES''] ok)) \<Longrightarrow> emits A (clusterNodes env c)"
  "(\<And>ok. A (ACmd (rc_host c) [''CLUSTER'', ''INFO''] ok)) \<Longrightarrow> emits A (clusterInfoMap env c)"
  "(\<And>ok. A (ACmd (rc_host c) [''CLUSTER'', ''FAILOVER''] ok)) \<Longrightarrow> emits A (clusterFailover env c)"
  "(\<And>ok. A (ACmd (rc_host c) [''CLUSTER'', ''FAILOVER'', ''TAKEOVER''] ok)) \<Longrightarrow>
     emits A (clusterFailoverTakeover env c)"
  "(\<And>ok. A (ACmd (rc_host c) [''CLIENT'', ''UNPAUSE''] ok)) \<Longrightarrow> emits A (clientUnpause env c)"
  "(\<And>ok. A (ACmd (rc_host c) [''SENTINEL'', ''FAILOVER'', nm] ok)) \<Longrightarrow> emits A (sentinelFailover env c nm)"
  unfolding client_defs by (auto intro!: emits_rules)

lemma keeps_cur_client [hoare_rules]:
  "keeps_cur (loadMTLSClientCert env vc)" "keeps_cur (dialReplClient env h p pw tls cert)"
  "keeps_cur (dialPod env vc h pw)" "keeps_cur (rdb_Do env c args)" "keeps_cur (do_err env c args)"
  unfolding loadMTLSClientCert_def dialReplClient_def dialPod_def rdb_Do_def do_err_def
  by (auto intro!: hoare_rules)

lemma keeps_cur_methods [hoare_rules]:
  "keeps_cur (infoSection env c sec)" "keeps_cur (info env c)" "keeps_cur (dbsize env c)"
  "keeps_cur (replicaOfNoOne env c)" "keeps_cur (configSet env c p v)"
  "keeps_cur (aclSetDefaultPassword env c v)" "keeps_cur (aclAddDefaultPassword env c v)"
  "keeps_cur (aclSetManagedUser env c n ru v ad)" "keeps_cur (aclSave env c)"
  "keeps_cur (replicaOf env c h pt)" "keeps_cur (clientPauseWrite env c d)"
  "keeps_cur (clientUnpause env c)" "keeps_cur (clusterNodes env c)"
  "keeps_cur (clusterFailover env c)" "keeps_cur (clusterFailoverTakeover env c)"
  "keeps_cur (clusterInfoMap env c)" "keeps_cur (sentinelFailover env c nm)"
  unfolding client_defs by (auto intro!: hoare_rules)

section \<open>The runs of the client\<close>

lemma run_dialReplClient:
  "run_state (dialReplClient env host port pw tls cert) w =
     (let ok = env_dial env (acts w) host port pw tls cert
      in (if ok then Some \<lparr>rc_host = host, rc_port = port\<rparr> else None,
          w\<lparr>acts := acts w @ [ADial host port pw ok]\<rparr>))"
  by (simp add: dialReplClient_def Let_def)

lemma loadMTLSClientCert_state: "snd (run_state (loadMTLSClientCert env vc) w) = w"
  by (simp add: loadMTLSClientCert_def)

lemma dialPod_cases:
  assumes "run_state (dialPod env vc host pw) w = (r, w')"
  obtains (refused) "r = None" "w' = w\<lparr>acts := acts w @ [ADial host (dataPort vc) pw False]\<rparr>"
    | (connected) "r = Some \<lparr>rc_host = host, rc_port = dataPort vc\<rparr>"
        "w' = w\<lparr>acts := acts w @ [ADial host (dataPort vc) pw True]\<rparr>"
proof -
  have s: "snd (run_state (loadMTLSClientCert env vc) w) = w" by (rule loadMTLSClientCert_state)
  show thesis
    using assms s that
    by (cases "run_state (loadMTLSClientCert env vc) w")
      (auto simp: dialPod_def run_dialReplClient Let_def split: if_splits)
qed

lemma set_state_dialPod [dest!]:
  "Some c \<in> set_state (dialPod env vc host pw) \<Longrightarrow> c = \<lparr>rc_host = host, rc_port = dataPort vc\<rparr>"
  by (auto simp: set_state_iff elim: dialPod_cases)

lemma set_state_dialReplClient [dest!]:
  "Some c \<in> set_state (dialReplClient env host port pw tls cert) \<Longrightarrow>
     c = \<lparr>rc_host = host, rc_port = port\<rparr>"
  by (auto simp: set_state_iff run_dialReplClient Let_def split: if_splits)

lemma run_do_err:
  "run_state (do_err env c args) w =
     (let r = env_cmd env (acts w) (rc_host c) args
      in (reply_err r, w\<lparr>acts := acts w @ [ACmd (rc_host c) args (reply_err r = None)]\<rparr>))"
  by (simp add: do_err_def rdb_Do_def reply_err_def Let_def split: sum.splits)

text \<open>A field of an INFO text: printed one per line, it is found again.\<close>

lemma parse_kv_line_field:
  assumes "k \<noteq> []" and "CHR '':'' \<notin> set k" and "\<And>c. c \<in> set (k @ v) \<Longrightarrow> \<not> is_space c"
    and "hd k \<noteq> CHR ''#''"
  shows "parse_kv_line b (k @ '':'' @ v) m = m(k \<mapsto> v)"
proof -
  have "TrimSpace (k @ '':'' @ v) = k @ '':'' @ v"
    by (rule TrimSpace_no_space) (use assms(3) in \<open>auto simp: is_space_def\<close>)
  moreover have "IndexByte (k @ '':'' @ v) (CHR '':'') = Some (length k)"
    using assms(2) by (simp add: IndexByte_append_notin)
  moreover have "TrimSpace v = v" by (rule TrimSpace_no_space) (use assms(3) in auto)
  moreover have "\<not> HasPrefix (k @ '':'' @ v) ''#''"
    using assms(1,4) by (cases k) (auto simp: HasPrefix_def)
  ultimately show ?thesis using assms(1) by (simp add: parse_kv_line_def)
qed

end
