(* ===== verification/Demo.thy ===== *)
theory Demo
  imports Valkey_Client
begin

text \<open>
  Concrete inputs on which the properties of the library are applied: a three-pod cluster
  \<open>demo\<close> in the namespace \<open>prod\<close>, the world that holds it, and an environment in which every
  pod answers and every command succeeds.
\<close>

definition demo_vc :: ValkeyCluster where
  "demo_vc = zero_cluster\<lparr>vc_Name := ''demo'', vc_Namespace := ''prod'',
     vc_Spec := zero_spec\<lparr>sp_Topology := TopologyReplication, sp_Profile := ProfileCache,
       sp_Image := ''valkey/valkey:8.0'', sp_Replicas := 3\<rparr>,
     vc_Status := zero_status\<lparr>st_Primary := ''demo-0''\<rparr>\<rparr>"

definition demo_host :: "int \<Rightarrow> string" where
  "demo_host i = fqdn (podName demo_vc i) (headlessServiceName demo_vc) (vc_Namespace demo_vc)"

definition answering_env :: env where
  "answering_env = silent_env\<lparr>env_dial := (\<lambda>_ _ _ _ _ _. True),
     env_cmd := (\<lambda>_ _ _. Inr (RText ''OK'')), env_now := (\<lambda>_. seconds 100)\<rparr>"

definition demo_world :: world where
  "demo_world = \<lparr>cur = demo_vc, acts = []\<rparr>"

text \<open>Three shards of one primary and one replica each, in the Cluster topology.\<close>

definition demo_cluster :: ValkeyCluster where
  "demo_cluster = demo_vc\<lparr>vc_Spec := (vc_Spec demo_vc)\<lparr>sp_Topology := TopologyCluster,
       sp_Shards := Some 3, sp_ReplicasPerShard := Some 1\<rparr>,
     vc_Status := zero_status\<lparr>st_ClusterInitialized := True, st_LastAppliedReplicas := 6\<rparr>\<rparr>"

end
