(* ===== verification/Debounce.thy ===== *)
theory Debounce
  imports World
begin

text \<open>
  The interface of a debounce marker: a timestamp in the status that starts at the first pass
  that observes an outage, is cleared by a pass that observes health, and opens a gate once it
  is old enough. The failover of the Replication topology and the quorum recovery of the
  Cluster topology each have one. The marker is stored in whole seconds, so it may be up to one
  second older than the pass that set it.
\<close>

locale debounce =
  fixes marker :: "ValkeyClusterStatus \<Rightarrow> int option"
    and longEnough :: "env \<Rightarrow> bool op"
    and clear :: "env \<Rightarrow> unit op"
    and window :: int
  assumes clear_marker: "marker (vc_Status (cur (snd (run_state (clear env) w)))) = None"
    and start_marker: "marker (vc_Status (cur w)) = None \<Longrightarrow>
      fst (run_state (longEnough env) w) = False \<and>
      (\<exists>since. marker (vc_Status (cur (snd (run_state (longEnough env) w)))) = Some since \<and>
        env_now env (acts w) - seconds 1 < since \<and> since \<le> env_now env (acts w))"
    and keep_marker: "marker (vc_Status (cur w)) = Some since \<Longrightarrow>
      run_state (longEnough env) w = (time_Sub (env_now env (acts w)) since \<ge> window, w)"
begin

lemma gate_open:
  assumes "fst (run_state (longEnough env) w)"
  obtains since where "marker (vc_Status (cur w)) = Some since"
    "time_Sub (env_now env (acts w)) since \<ge> window" "run_state (longEnough env) w = (True, w)"
proof (cases "marker (vc_Status (cur w))")
  case None
  then show thesis using assms start_marker by auto
next
  case (Some since)
  then show thesis using assms keep_marker [OF Some, of env] that [OF Some] by auto
qed

lemma cleared_gate_closed: "\<not> fst (run_state (longEnough env') (snd (run_state (clear env) w)))"
  using start_marker [OF clear_marker] by simp

lemma gate_from_start:
  assumes "marker (vc_Status (cur w)) = None"
    and "marker (vc_Status (cur w')) = marker (vc_Status (cur (snd (run_state (longEnough env) w))))"
    and "fst (run_state (longEnough env') w')"
  obtains since where "env_now env (acts w) - seconds 1 < since" "since \<le> env_now env (acts w)"
    "time_Sub (env_now env' (acts w')) since \<ge> window"
  using gate_open [OF assms(3)] start_marker [OF assms(1), of env] assms(2) that by (metis option.inject)

end

end
