(* ===== verification/Failover.thy ===== *)
theory Failover
  imports Demo Debounce
begin

text \<open>
  The failover loop of the Replication topology, \<open>src/internal/controller/failover.go\<close>:
  the survey of the pods, the choice of the authoritative master, the empty-master guard,
  the debounced promotion of a replica, the re-pointing of the others, and the manual
  failover. Every handler reads the object under reconciliation with \<^const>\<open>get_vc\<close>, as the
  Go methods read \<open>vc\<close>, and threads the trace of commands.
\<close>

section \<open>The survey\<close>

record podRole =
  pl_ordinal :: int
  pl_host :: string
  pl_role :: string
  pl_masterHost :: string
  pl_masterPort :: int
  pl_masterLink :: string
  pl_offset :: int
  pl_keys :: int
  pl_reachable :: bool

definition failoverDownAfter :: int where
  "failoverDownAfter = seconds 20"

definition blankRole :: "int \<Rightarrow> string \<Rightarrow> podRole" where
  "blankRole i host = \<lparr>pl_ordinal = i, pl_host = host, pl_role = [], pl_masterHost = [],
     pl_masterPort = 0, pl_masterLink = [], pl_offset = 0, pl_keys = 0, pl_reachable = False\<rparr>"

text \<open>\<open>if v, err := strconv.ParseInt(x, 10, bits); err == nil { field = v }\<close>\<close>

definition parse_or :: "nat \<Rightarrow> string \<Rightarrow> int \<Rightarrow> int" where
  "parse_or bits x old = (case ParseInt x bits of Some v \<Rightarrow> v | None \<Rightarrow> old)"

definition fill_info :: "(string \<rightharpoonup> string) \<Rightarrow> podRole \<Rightarrow> podRole" where
  "fill_info m r =
     (let r = r\<lparr>pl_role := mget m ''role'', pl_masterHost := mget m ''master_host'',
               pl_masterLink := mget m ''master_link_status''\<rparr>;
          r = r\<lparr>pl_masterPort := parse_or 32 (mget m ''master_port'') (pl_masterPort r)\<rparr>
      in if pl_role r = roleMaster
         then r\<lparr>pl_offset := parse_or 64 (mget m ''master_repl_offset'') (pl_offset r)\<rparr>
         else if pl_role r = roleSlave
         then r\<lparr>pl_offset := parse_or 64 (mget m ''slave_repl_offset'') (pl_offset r)\<rparr>
         else r)"

definition surveyPod :: "env \<Rightarrow> string \<Rightarrow> int \<Rightarrow> podRole op" where
  "surveyPod env password i = do {
     vc \<leftarrow> get_vc;
     let host = fqdn (podName vc i) (headlessServiceName vc) (vc_Namespace vc);
     let role = blankRole i host;
     c \<leftarrow> dialPod env vc host password;
     case c of
       None \<Rightarrow> State_Monad.return role
     | Some c \<Rightarrow> do {
         let role = role\<lparr>pl_reachable := True\<rparr>;
         im \<leftarrow> info env c;
         let role = (case im of Some m \<Rightarrow> fill_info m role | None \<Rightarrow> role);
         n \<leftarrow> dbsize env c;
         State_Monad.return (case n of Some k \<Rightarrow> role\<lparr>pl_keys := k\<rparr> | None \<Rightarrow> role) } }"

definition surveyReplication :: "env \<Rightarrow> string \<Rightarrow> podRole list op" where
  "surveyReplication env password = do {
     vc \<leftarrow> get_vc;
     map_state (surveyPod env password) (range_int (sp_Replicas (vc_Spec vc))) }"

section \<open>Choices\<close>

definition betterMaster :: "ValkeyCluster \<Rightarrow> podRole \<Rightarrow> podRole \<Rightarrow> bool" where
  "betterMaster vc a b =
     (if pl_keys a \<noteq> pl_keys b then pl_keys a > pl_keys b
      else let aPrimary = (podName vc (pl_ordinal a) = st_Primary (vc_Status vc));
               bPrimary = (podName vc (pl_ordinal b) = st_Primary (vc_Status vc))
           in if aPrimary \<noteq> bPrimary then aPrimary else pl_ordinal a < pl_ordinal b)"

text \<open>The Go function panics on an empty slice; its only caller checks that first.\<close>

definition pickAuthoritativeMaster :: "ValkeyCluster \<Rightarrow> podRole list \<Rightarrow> podRole option" where
  "pickAuthoritativeMaster vc masters =
     (case masters of [] \<Rightarrow> None | m # ms \<Rightarrow> pick_best (betterMaster vc) ms (Some m))"

definition betterReplica :: "podRole \<Rightarrow> podRole \<Rightarrow> bool" where
  "betterReplica s b \<longleftrightarrow> pl_keys s > pl_keys b \<or> (pl_keys s = pl_keys b \<and> pl_offset s > pl_offset b)"

definition betterOffset :: "podRole \<Rightarrow> podRole \<Rightarrow> bool" where
  "betterOffset s b \<longleftrightarrow> pl_offset s > pl_offset b"

text \<open>The counting loop of \<open>reconcileFailover\<close>: reachable pods, masters, best replica.\<close>

fun tally :: "podRole list \<Rightarrow> int \<times> podRole list \<times> podRole option \<Rightarrow>
    int \<times> podRole list \<times> podRole option" where
  "tally [] acc = acc"
| "tally (s # ss) (reachable, masters, bestReplica) =
     (if \<not> pl_reachable s then tally ss (reachable, masters, bestReplica)
      else if pl_role s = roleMaster then tally ss (reachable + 1, masters @ [s], bestReplica)
      else if pl_role s = roleSlave then
        tally ss (reachable + 1, masters,
          (case bestReplica of None \<Rightarrow> Some s
           | Some b \<Rightarrow> if betterReplica s b then Some s else Some b))
      else tally ss (reachable + 1, masters, bestReplica))"

fun find_named :: "ValkeyCluster \<Rightarrow> podRole list \<Rightarrow> string \<Rightarrow> podRole option" where
  "find_named vc [] targetPod = None"
| "find_named vc (s # ss) targetPod =
     (if podName vc (pl_ordinal s) = targetPod
      then (if pl_reachable s \<and> pl_role s = roleSlave then Some s else None)
      else find_named vc ss targetPod)"

definition pickFailoverTarget :: "ValkeyCluster \<Rightarrow> podRole list \<Rightarrow> string \<Rightarrow> podRole option" where
  "pickFailoverTarget vc survey targetPod =
     (if targetPod \<noteq> [] then find_named vc survey targetPod
      else pick_best betterOffset (filter (\<lambda>s. pl_reachable s \<and> pl_role s = roleSlave) survey) None)"

section \<open>The debounce marker\<close>

definition downElapsed :: "int \<Rightarrow> int \<Rightarrow> int \<Rightarrow> bool" where
  "downElapsed since now threshold \<longleftrightarrow> time_Sub now since \<ge> threshold"

text \<open>A patch that succeeds overwrites the object with the response of the API server; one that fails
  leaves it as it is in memory.\<close>

definition setPrimaryDown :: "env \<Rightarrow> int option \<Rightarrow> unit op" where
  "setPrimaryDown env t = do {
     modify_status (\<lambda>s. s\<lparr>st_PrimaryDownSince := t\<rparr>);
     err \<leftarrow> patch_status env;
     case err of
       None \<Rightarrow> modify_status (\<lambda>s. s\<lparr>st_PrimaryDownSince := map_option whole_seconds t\<rparr>)
     | Some _ \<Rightarrow> State_Monad.return () }"

definition clearPrimaryDown :: "env \<Rightarrow> unit op" where
  "clearPrimaryDown env = do {
     vc \<leftarrow> get_vc;
     if st_PrimaryDownSince (vc_Status vc) \<noteq> None then setPrimaryDown env None
     else State_Monad.return () }"

definition primaryDownLongEnough :: "env \<Rightarrow> bool op" where
  "primaryDownLongEnough env = do {
     vc \<leftarrow> get_vc;
     now \<leftarrow> ask (env_now env);
     case st_PrimaryDownSince (vc_Status vc) of
       None \<Rightarrow> do { setPrimaryDown env (Some now); State_Monad.return False }
     | Some since \<Rightarrow> State_Monad.return (downElapsed since now failoverDownAfter) }"

section \<open>Commands\<close>

definition enforceOne :: "env \<Rightarrow> string \<Rightarrow> podRole \<Rightarrow> podRole \<Rightarrow> unit op" where
  "enforceOne env password primary s = do {
     vc \<leftarrow> get_vc;
     if \<not> pl_reachable s \<or> pl_ordinal s = pl_ordinal primary then State_Monad.return ()
     else if pl_role s = roleSlave \<and> pl_masterHost s = pl_host primary \<and> pl_masterLink s = ''up''
     then State_Monad.return ()
     else do {
       c \<leftarrow> dialPod env vc (pl_host s) password;
       case c of
         None \<Rightarrow> State_Monad.return ()
       | Some c \<Rightarrow> do { _ \<leftarrow> replicaOf env c (pl_host primary) (dataPort vc); State_Monad.return () } } }"

definition enforceReplication :: "env \<Rightarrow> string \<Rightarrow> podRole list \<Rightarrow> podRole \<Rightarrow> unit op" where
  "enforceReplication env password survey primary = for_each survey (enforceOne env password primary)"

definition promoteReplica :: "env \<Rightarrow> string \<Rightarrow> podRole list \<Rightarrow> podRole \<Rightarrow> string op" where
  "promoteReplica env password survey target = do {
     vc \<leftarrow> get_vc;
     c \<leftarrow> dialPod env vc (pl_host target) password;
     case c of
       None \<Rightarrow> State_Monad.return (st_Primary (vc_Status vc))
     | Some c \<Rightarrow> do {
         err \<leftarrow> replicaOfNoOne env c;
         case err of
           Some _ \<Rightarrow> State_Monad.return (st_Primary (vc_Status vc))
         | None \<Rightarrow> do {
             emit (AMetric ''failover_total'' ''promotion'');
             enforceReplication env password survey target;
             State_Monad.return (podName vc (pl_ordinal target)) } } }"

text \<open>The tail of the happy path: count an adoption, re-point the other pods at the chosen master.\<close>

definition adoptMaster :: "env \<Rightarrow> string \<Rightarrow> podRole list \<Rightarrow> podRole \<Rightarrow> string op" where
  "adoptMaster env password survey chosen = do {
     vc \<leftarrow> get_vc;
     let want = podName vc (pl_ordinal chosen);
     (if st_Primary (vc_Status vc) \<noteq> [] \<and> st_Primary (vc_Status vc) \<noteq> want
      then emit (AMetric ''failover_total'' ''adoption'') else State_Monad.return ());
     enforceReplication env password survey chosen;
     State_Monad.return want }"

definition reconcileFailover :: "env \<Rightarrow> string \<Rightarrow> podRole list \<Rightarrow> string op" where
  "reconcileFailover env password survey = do {
     vc \<leftarrow> get_vc;
     let (reachable, masters, bestReplica) = tally survey (0, [], None);
     if reachable < 2 then State_Monad.return (st_Primary (vc_Status vc))
     else (case pickAuthoritativeMaster vc masters of
       Some chosen \<Rightarrow> do {
         clearPrimaryDown env;
         (case bestReplica of
            Some b \<Rightarrow>
              if pl_keys chosen = 0 \<and> pl_keys b > 0 then promoteReplica env password survey b
              else adoptMaster env password survey chosen
          | None \<Rightarrow> adoptMaster env password survey chosen) }
     | None \<Rightarrow>
         (case bestReplica of
            None \<Rightarrow> State_Monad.return (st_Primary (vc_Status vc))
          | Some b \<Rightarrow> do {
              down \<leftarrow> primaryDownLongEnough env;
              if \<not> down then State_Monad.return (st_Primary (vc_Status vc))
              else do {
                clearPrimaryDown env;
                promoteReplica env password survey b } })) }"

definition manualFailover :: "env \<Rightarrow> string \<Rightarrow> podRole list \<Rightarrow> string \<Rightarrow> string op" where
  "manualFailover env password survey token = do {
     vc \<leftarrow> get_vc;
     case pickFailoverTarget vc survey (mget (vc_Annotations vc) failoverTargetAnnotation) of
       None \<Rightarrow> State_Monad.return []
     | Some target \<Rightarrow> do {
         c \<leftarrow> dialPod env vc (pl_host target) password;
         case c of
           None \<Rightarrow> State_Monad.return []
         | Some c \<Rightarrow> do {
             err \<leftarrow> replicaOfNoOne env c;
             case err of
               Some _ \<Rightarrow> State_Monad.return []
             | None \<Rightarrow> do {
                 emit (AMetric ''failover_total'' ''manual'');
                 enforceReplication env password survey target;
                 modify_status (\<lambda>s. s\<lparr>st_LastFailoverToken := token\<rparr>);
                 _ \<leftarrow> patch_status env;
                 State_Monad.return (podName vc (pl_ordinal target)) } } } }"

section \<open>What the properties speak of\<close>

definition masters_of :: "podRole list \<Rightarrow> podRole list" where
  "masters_of survey = filter (\<lambda>s. pl_reachable s \<and> pl_role s = roleMaster) survey"

definition replicas_of :: "podRole list \<Rightarrow> podRole list" where
  "replicas_of survey = filter (\<lambda>s. pl_reachable s \<and> pl_role s = roleSlave) survey"

text \<open>The host a command re-points its receiver at, and the host a command promotes.\<close>

fun repoints_at :: "action \<Rightarrow> string option" where
  "repoints_at (ACmd h [c, t, p] ok) =
     (if c = ''REPLICAOF'' \<and> \<not> (t = ''NO'' \<and> p = ''ONE'') then Some t else None)"
| "repoints_at _ = None"

fun promotes :: "action \<Rightarrow> string option" where
  "promotes (ACmd h [c, t, p] ok) =
     (if c = ''REPLICAOF'' \<and> t = ''NO'' \<and> p = ''ONE'' then Some h else None)"
| "promotes _ = None"

text \<open>
  A node it is safe to copy from: a reachable pod that holds data, or any reachable pod
  when no reachable master or replica holds data.
\<close>

definition safe_source :: "podRole list \<Rightarrow> string \<Rightarrow> bool" where
  "safe_source survey t \<longleftrightarrow>
     (\<exists>p\<in>set survey. pl_reachable p \<and> pl_host p = t \<and>
        (pl_keys p > 0 \<or> (\<forall>q\<in>set (masters_of survey @ replicas_of survey). pl_keys q = 0)))"

text \<open>Valkey's reaction to REPLICAOF: which host each host replicates from.\<close>

fun apply_replicaof :: "action \<Rightarrow> (string \<rightharpoonup> string) \<Rightarrow> (string \<rightharpoonup> string)" where
  "apply_replicaof (ACmd h [c, t, p] True) m =
     (if c = ''REPLICAOF'' then (if t = ''NO'' \<and> p = ''ONE'' then m(h := None) else m(h \<mapsto> t)) else m)"
| "apply_replicaof _ m = m"

definition follows :: "(string \<rightharpoonup> string) \<Rightarrow> world \<Rightarrow> (string \<rightharpoonup> string)" where
  "follows m w = fold apply_replicaof (acts w) m"

text \<open>
  An environment in which the reachable pods of the survey keep answering and accept
  REPLICAOF, and a replication graph that is the one the survey saw.
\<close>

definition responsive :: "env \<Rightarrow> podRole list \<Rightarrow> bool" where
  "responsive env survey \<longleftrightarrow>
     (\<forall>s\<in>set survey. pl_reachable s \<longrightarrow>
        (\<forall>t port pw tls cert. env_dial env t (pl_host s) port pw tls cert) \<and>
        (\<forall>t host port. reply_err (env_cmd env t (pl_host s) [''REPLICAOF'', host, port]) = None))"

definition seen :: "(string \<rightharpoonup> string) \<Rightarrow> podRole list \<Rightarrow> bool" where
  "seen m survey \<longleftrightarrow>
     (\<forall>s\<in>set survey. pl_reachable s \<longrightarrow>
        (pl_role s = roleMaster \<longrightarrow> m (pl_host s) = None) \<and>
        (pl_role s = roleSlave \<longrightarrow> m (pl_host s) = Some (pl_masterHost s)))"

text \<open>The commands that re-point the reachable pods other than \<open>p\<close> at \<open>p\<close>.\<close>

definition points_at :: "podRole list \<Rightarrow> podRole \<Rightarrow> action \<Rightarrow> bool" where
  "points_at survey p a \<longleftrightarrow>
     (\<exists>s\<in>set survey. \<exists>port ok. pl_reachable s \<and> pl_ordinal s \<noteq> pl_ordinal p \<and>
        a = ACmd (pl_host s) [''REPLICAOF'', pl_host p, Itoa port] ok)"

definition promotes_pod :: "podRole \<Rightarrow> action \<Rightarrow> bool" where
  "promotes_pod p a \<longleftrightarrow> (\<exists>ok. a = ACmd (pl_host p) [''REPLICAOF'', ''NO'', ''ONE''] ok)"

definition is_status_patch :: "action \<Rightarrow> bool" where
  "is_status_patch a \<longleftrightarrow> (\<exists>s r. a = APatchStatus s r)"

text \<open>
  The situation the guard is for: pod 0 came back empty and masters itself, pods 1 and 2
  still hold the data.
\<close>

definition demo_survey :: "podRole list" where
  "demo_survey =
     [(blankRole 0 (demo_host 0))\<lparr>pl_reachable := True, pl_role := roleMaster\<rparr>,
      (blankRole 1 (demo_host 1))\<lparr>pl_reachable := True, pl_role := roleSlave,
         pl_masterHost := demo_host 0, pl_keys := 40, pl_offset := 900\<rparr>,
      (blankRole 2 (demo_host 2))\<lparr>pl_reachable := True, pl_role := roleSlave,
         pl_masterHost := demo_host 0, pl_keys := 42, pl_offset := 950\<rparr>]"

text \<open>An empty master and an empty replica beside a pod with 42 keys whose INFO got no answer.\<close>

definition unread_survey :: "podRole list" where
  "unread_survey =
     [(blankRole 0 (demo_host 0))\<lparr>pl_reachable := True, pl_role := roleMaster\<rparr>,
      (blankRole 1 (demo_host 1))\<lparr>pl_reachable := True, pl_role := roleSlave, pl_masterHost := demo_host 0\<rparr>,
      (blankRole 2 (demo_host 2))\<lparr>pl_reachable := True, pl_keys := 42\<rparr>]"

section \<open>Choices are maximal\<close>

interpretation master_pref: preference "betterMaster vc" for vc
  by unfold_locales (auto simp: betterMaster_def Let_def split: if_splits)

interpretation replica_pref: preference betterReplica
  by unfold_locales (auto simp: betterReplica_def)

interpretation offset_pref: preference betterOffset
  by unfold_locales (auto simp: betterOffset_def)

lemma role_distinct [simp]: "roleMaster \<noteq> roleSlave" "roleSlave \<noteq> roleMaster"
  by (simp_all add: roleMaster_def roleSlave_def)

lemma tally_eq:
  "tally ss (r, ms, b) =
     (r + int (length (filter pl_reachable ss)), ms @ masters_of ss,
      pick_best betterReplica (replicas_of ss) b)"
  by (induction ss "(r, ms, b)" arbitrary: r ms b rule: tally.induct)
    (auto simp: masters_of_def replicas_of_def)

lemma pickAuthoritativeMaster_member:
  "pickAuthoritativeMaster vc ms = Some m \<Longrightarrow> m \<in> set ms"
  by (cases ms) (auto simp: pickAuthoritativeMaster_def dest: pick_best_Some_member)

lemma pickAuthoritativeMaster_None_iff: "pickAuthoritativeMaster vc ms = None \<longleftrightarrow> ms = []"
  by (cases ms) (auto simp: pickAuthoritativeMaster_def, metis option.distinct(1) pick_best_Some_ex)

lemma pickAuthoritativeMaster_maximal:
  "pickAuthoritativeMaster vc ms = Some m \<Longrightarrow> x \<in> set ms \<Longrightarrow> \<not> betterMaster vc x m"
  by (cases ms) (auto simp: pickAuthoritativeMaster_def dest: master_pref.pick_best_Some_maximal)

lemma pickAuthoritativeMaster_keys:
  "pickAuthoritativeMaster vc ms = Some m \<Longrightarrow> x \<in> set ms \<Longrightarrow> pl_keys x \<le> pl_keys m"
  by (drule (1) pickAuthoritativeMaster_maximal) (auto simp: betterMaster_def split: if_splits)

lemma best_replica_keys:
  "pick_best betterReplica rs None = Some b \<Longrightarrow> r \<in> set rs \<Longrightarrow>
     pl_keys r < pl_keys b \<or> pl_keys r = pl_keys b \<and> pl_offset r \<le> pl_offset b"
  by (drule (1) replica_pref.pick_best_maximal) (auto simp: betterReplica_def not_less)

section \<open>Which commands the handlers send\<close>

lemma Itoa_not_ONE [simp]: "Itoa i \<noteq> ''ONE''"
  using Itoa_chars [of "CHR ''O''" i] by (auto simp: is_digit_def)

lemma repoints_at_read [simp]: "is_read a \<Longrightarrow> repoints_at a = None"
  by (cases a) (auto simp: is_read_def)

lemma promotes_read [simp]: "is_read a \<Longrightarrow> promotes a = None"
  by (cases a) (auto simp: is_read_def)

lemma points_at_simps:
  "points_at survey p a \<Longrightarrow> repoints_at a = Some (pl_host p)"
  "points_at survey p a \<Longrightarrow> promotes a = None"
  by (auto simp: points_at_def)

lemma promotes_pod_simps:
  "promotes_pod p a \<Longrightarrow> repoints_at a = None" "promotes_pod p a \<Longrightarrow> promotes a = Some (pl_host p)"
  by (auto simp: promotes_pod_def)

lemma status_patch_simps:
  "is_status_patch a \<Longrightarrow> repoints_at a = None" "is_status_patch a \<Longrightarrow> promotes a = None"
  by (auto simp: is_status_patch_def)

lemma emits_enforceReplication:
  "emits (\<lambda>a. is_read a \<or> points_at survey p a) (enforceReplication env pw survey p)"
  unfolding enforceReplication_def enforceOne_def
  by (intro emits_rules) (auto simp: points_at_def)


lemma emits_promoteReplica:
  "emits (\<lambda>a. is_read a \<or> promotes_pod b a \<or> points_at survey b a)
     (promoteReplica env pw survey b)"
  unfolding promoteReplica_def
  by (intro emits_rules emits_mono [OF emits_enforceReplication]) (auto simp: promotes_pod_def)

lemma emits_adoptMaster:
  "emits (\<lambda>a. is_read a \<or> points_at survey m a) (adoptMaster env pw survey m)"
  unfolding adoptMaster_def
  by (intro emits_rules emits_mono [OF emits_enforceReplication]) auto

lemma emits_setPrimaryDown: "emits is_status_patch (setPrimaryDown env t)"
  unfolding setPrimaryDown_def by (intro emits_rules) (auto simp: is_status_patch_def)

lemma emits_clearPrimaryDown: "emits is_status_patch (clearPrimaryDown env)"
  unfolding clearPrimaryDown_def by (intro emits_rules emits_setPrimaryDown)

lemma emits_primaryDownLongEnough: "emits is_status_patch (primaryDownLongEnough env)"
  unfolding primaryDownLongEnough_def by (intro emits_rules emits_setPrimaryDown)

interpretation primary_marker: debounce st_PrimaryDownSince primaryDownLongEnough clearPrimaryDown failoverDownAfter
proof unfold_locales
  fix env :: env and w :: world and since :: int
  show "st_PrimaryDownSince (vc_Status (cur (snd (run_state (clearPrimaryDown env) w)))) = None"
    by (auto simp: clearPrimaryDown_def setPrimaryDown_def patch_status_def split: option.splits)
  show "fst (run_state (primaryDownLongEnough env) w) = False \<and>
      (\<exists>since. st_PrimaryDownSince (vc_Status (cur (snd (run_state (primaryDownLongEnough env) w)))) = Some since \<and>
        env_now env (acts w) - seconds 1 < since \<and> since \<le> env_now env (acts w))"
    if "st_PrimaryDownSince (vc_Status (cur w)) = None"
    using that whole_seconds_bounds [of "env_now env (acts w)"]
    by (auto simp: primaryDownLongEnough_def setPrimaryDown_def patch_status_def seconds_def split: option.splits)
  show "run_state (primaryDownLongEnough env) w = (time_Sub (env_now env (acts w)) since \<ge> failoverDownAfter, w)"
    if "st_PrimaryDownSince (vc_Status (cur w)) = Some since"
    using that by (simp add: primaryDownLongEnough_def downElapsed_def)
qed

lemma reconcileFailover_cases:
  fixes w :: world and survey :: "podRole list"
  defines "vc \<equiv> cur w" and "best \<equiv> pick_best betterReplica (replicas_of survey) None"
  obtains (blind) "length (filter pl_reachable survey) < 2"
      "run_state (reconcileFailover env pw survey) w = (st_Primary (vc_Status vc), w)"
    | (adopt) chosen where "2 \<le> length (filter pl_reachable survey)"
        "pickAuthoritativeMaster vc (masters_of survey) = Some chosen"
        "pl_keys chosen \<noteq> 0 \<or> (\<forall>b. best = Some b \<longrightarrow> pl_keys b \<le> 0)"
        "run_state (reconcileFailover env pw survey) w =
           run_state (do { clearPrimaryDown env; adoptMaster env pw survey chosen }) w"
    | (guard) chosen b where "2 \<le> length (filter pl_reachable survey)"
        "pickAuthoritativeMaster vc (masters_of survey) = Some chosen"
        "best = Some b" "pl_keys chosen = 0" "pl_keys b > 0"
        "run_state (reconcileFailover env pw survey) w =
           run_state (do { clearPrimaryDown env; promoteReplica env pw survey b }) w"
    | (nobody) "2 \<le> length (filter pl_reachable survey)" "masters_of survey = []" "best = None"
        "run_state (reconcileFailover env pw survey) w = (st_Primary (vc_Status vc), w)"
    | (debounce) b where "2 \<le> length (filter pl_reachable survey)" "masters_of survey = []"
        "best = Some b" "fst (run_state (primaryDownLongEnough env) w) = False"
        "run_state (reconcileFailover env pw survey) w =
           (st_Primary (vc_Status vc), snd (run_state (primaryDownLongEnough env) w))"
    | (promote) b since where "2 \<le> length (filter pl_reachable survey)" "masters_of survey = []"
        "best = Some b" "st_PrimaryDownSince (vc_Status vc) = Some since"
        "time_Sub (env_now env (acts w)) since \<ge> failoverDownAfter"
        "run_state (reconcileFailover env pw survey) w =
           run_state (do { clearPrimaryDown env; promoteReplica env pw survey b }) w"
proof (cases "length (filter pl_reachable survey) < 2")
  case True
  then show thesis
    by (intro blind) (auto simp: reconcileFailover_def tally_eq vc_def)
next
  case False
  note r = False
  show thesis
  proof (cases "pickAuthoritativeMaster vc (masters_of survey)")
    case (Some chosen)
    show thesis
    proof (cases "\<exists>b. best = Some b \<and> pl_keys chosen = 0 \<and> pl_keys b > 0")
      case True
      then obtain b where b: "best = Some b" "pl_keys chosen = 0" "pl_keys b > 0" by blast
      show thesis
        by (rule guard [OF _ Some b])
          (use r Some b in \<open>simp_all add: reconcileFailover_def tally_eq vc_def best_def\<close>)
    next
      case False
      then show thesis
        using r Some adopt [OF _ Some]
        by (cases best) (auto simp: reconcileFailover_def tally_eq vc_def best_def)
    qed
  next
    case None
    then have ms: "masters_of survey = []" by (simp add: pickAuthoritativeMaster_None_iff)
    show thesis
    proof (cases best)
      case None
      then show thesis
        using r ms nobody
        by (auto simp: reconcileFailover_def tally_eq vc_def best_def pickAuthoritativeMaster_def)
    next
      case (Some b)
      note run = reconcileFailover_def tally_eq vc_def best_def pickAuthoritativeMaster_def
      show thesis
      proof (cases "fst (run_state (primaryDownLongEnough env) w)")
        case True
        then obtain since where "st_PrimaryDownSince (vc_Status (cur w)) = Some since"
          "time_Sub (env_now env (acts w)) since \<ge> failoverDownAfter"
          "run_state (primaryDownLongEnough env) w = (True, w)" by (rule primary_marker.gate_open)
        then show thesis using r ms Some promote [OF _ ms Some, of since] by (auto simp: run)
      next
        case False
        then show thesis using r ms Some debounce [OF _ ms Some]
          by (cases "run_state (primaryDownLongEnough env) w") (auto simp: run)
      qed
    qed
  qed
qed

section \<open>Safety of a failover pass\<close>

lemma masters_replicas_simps:
  "p \<in> set (masters_of survey) \<longleftrightarrow> p \<in> set survey \<and> pl_reachable p \<and> pl_role p = roleMaster"
  "p \<in> set (replicas_of survey) \<longleftrightarrow> p \<in> set survey \<and> pl_reachable p \<and> pl_role p = roleSlave"
  by (auto simp: masters_of_def replicas_of_def)

lemma emits_clear_then:
  assumes "emits A m" and "\<And>a. is_status_patch a \<Longrightarrow> A a"
  shows "emits A (do { clearPrimaryDown env; m })"
  by (intro emits_rules assms(1) emits_mono [OF emits_clearPrimaryDown] assms(2))

lemma emits_clear_promote:
  "emits (\<lambda>a. is_read a \<or> is_status_patch a \<or> promotes_pod b a \<or> points_at survey b a)
     (do { clearPrimaryDown env; promoteReplica env pw survey b })"
  by (intro emits_clear_then emits_mono [OF emits_promoteReplica]) auto

lemma emits_clear_adopt:
  "emits (\<lambda>a. is_read a \<or> is_status_patch a \<or> points_at survey m a)
     (do { clearPrimaryDown env; adoptMaster env pw survey m })"
  by (intro emits_clear_then emits_mono [OF emits_adoptMaster]) auto

lemma safe_source_data:
  "p \<in> set survey \<Longrightarrow> pl_reachable p \<Longrightarrow> pl_keys p > 0 \<Longrightarrow> safe_source survey (pl_host p)"
  by (auto simp: safe_source_def)

lemma safe_source_best:
  assumes "masters_of survey = []" and "pick_best betterReplica (replicas_of survey) None = Some b"
    and "\<forall>p\<in>set survey. 0 \<le> pl_keys p"
  shows "safe_source survey (pl_host b)"
proof -
  have b: "b \<in> set (replicas_of survey)" using assms(2) by (rule pick_best_member)
  have "pl_keys b > 0 \<or> (\<forall>q\<in>set (masters_of survey @ replicas_of survey). pl_keys q = 0)"
    using assms(1,3) best_replica_keys [OF assms(2)] by (fastforce simp: masters_replicas_simps)
  then show ?thesis using b unfolding safe_source_def masters_replicas_simps by blast
qed

lemma safe_source_chosen:
  assumes "pickAuthoritativeMaster vc (masters_of survey) = Some m"
    and "pl_keys m \<noteq> 0 \<or> (\<forall>b. pick_best betterReplica (replicas_of survey) None = Some b \<longrightarrow> pl_keys b \<le> 0)"
    and nonneg: "\<forall>p\<in>set survey. 0 \<le> pl_keys p"
  shows "safe_source survey (pl_host m)"
proof -
  have m: "m \<in> set survey" "pl_reachable m"
    using pickAuthoritativeMaster_member [OF assms(1)] by (auto simp: masters_replicas_simps)
  have zero: "pl_keys q = 0"
    if "pl_keys m = 0" and q: "q \<in> set (masters_of survey @ replicas_of survey)" for q
  proof -
    have "pl_keys q \<le> 0"
    proof (cases "q \<in> set (masters_of survey)")
      case True
      then show ?thesis using pickAuthoritativeMaster_keys [OF assms(1) True] that(1) by simp
    next
      case False
      then have r: "q \<in> set (replicas_of survey)" using q by simp
      then obtain b where b: "pick_best betterReplica (replicas_of survey) None = Some b"
        by (cases "pick_best betterReplica (replicas_of survey) None") auto
      then show ?thesis using assms(2) that(1) best_replica_keys [OF b r] by auto
    qed
    moreover have "q \<in> set survey" using q by (auto simp: masters_replicas_simps)
    ultimately show ?thesis using nonneg by (simp add: order_antisym)
  qed
  show ?thesis
  proof (cases "pl_keys m = 0")
    case True
    then show ?thesis unfolding safe_source_def using m zero by blast
  next
    case False
    then have "0 < pl_keys m" using m(1) nonneg by (simp add: order_less_le)
    then show ?thesis using m by (rule safe_source_data [rotated 2])
  qed
qed

text \<open>
  C1. No pass of the failover loop re-points a pod at a node without data while a reachable pod
  that reported itself as a master or a replica holds data: every REPLICAOF target is a reachable
  pod that holds keys, or no reachable master and no reachable replica does. This covers the empty
  master that comes back after a restart, and holds for every answer of the servers. A reachable
  pod whose role could not be read is not covered.
\<close>

theorem reconcileFailover_keeps_data:
  assumes "\<forall>p\<in>set survey. 0 \<le> pl_keys p"
    and "a \<in> set (new_acts w (snd (run_state (reconcileFailover env pw survey) w)))"
    and "repoints_at a = Some t"
  shows "safe_source survey t"
proof (cases rule: reconcileFailover_cases [of survey env pw w])
  case (adopt chosen)
  then have "is_read a \<or> is_status_patch a \<or> points_at survey chosen a"
    using emits_new_acts [OF emits_clear_adopt, of a w env pw survey chosen] assms(2) by simp
  then have "t = pl_host chosen" using assms(3) by (auto simp: points_at_simps status_patch_simps)
  then show ?thesis using safe_source_chosen [OF adopt(2,3) assms(1)] by simp
next
  case (guard chosen b)
  then have "is_read a \<or> is_status_patch a \<or> promotes_pod b a \<or> points_at survey b a"
    using emits_new_acts [OF emits_clear_promote, of a w env pw survey b] assms(2) by simp
  then have "t = pl_host b"
    using assms(3) by (auto simp: points_at_simps status_patch_simps promotes_pod_simps)
  moreover have "b \<in> set (replicas_of survey)" using guard(3) by (rule pick_best_member)
  ultimately show ?thesis using guard(5) safe_source_data by (auto simp: masters_replicas_simps)
next
  case (debounce b)
  then have "is_status_patch a"
    using emits_new_acts [OF emits_primaryDownLongEnough, of a w env] assms(2) by simp
  then show ?thesis using assms(3) by (simp add: status_patch_simps)
next
  case (promote b since)
  then have "is_read a \<or> is_status_patch a \<or> promotes_pod b a \<or> points_at survey b a"
    using emits_new_acts [OF emits_clear_promote, of a w env pw survey b] assms(2) by simp
  then have "t = pl_host b"
    using assms(3) by (auto simp: points_at_simps status_patch_simps promotes_pod_simps)
  then show ?thesis using safe_source_best [OF promote(2,3) assms(1)] by simp
qed (use assms(2) in \<open>simp_all add: new_acts_def\<close>)

theorem reconcileFailover_keeps_data_witness:
  "ACmd (demo_host 0) [''REPLICAOF'', demo_host 2, ''6379''] True \<in>
       set (new_acts demo_world (snd (run_state (reconcileFailover answering_env [] demo_survey) demo_world)))
     \<and> safe_source demo_survey (demo_host 2)"
proof -
  have nonneg: "\<forall>p\<in>set demo_survey. 0 \<le> pl_keys p" by code_simp
  have sent: "ACmd (demo_host 0) [''REPLICAOF'', demo_host 2, ''6379''] True \<in>
       set (new_acts demo_world (snd (run_state (reconcileFailover answering_env [] demo_survey) demo_world)))"
    by code_simp
  then show ?thesis
    using reconcileFailover_keeps_data [OF nonneg sent] by simp
qed

text \<open>
  C2. Promotion is never rash. A REPLICAOF NO ONE sent by a pass goes to a reachable replica
  that no other reachable replica beats in keys, then in offset. With no master reachable, the status
  holds a marker of the outage that is at least 20 seconds old; with a master reachable, every
  reachable master is empty and the promoted replica holds keys.
\<close>

theorem reconcileFailover_promotion:
  assumes "a \<in> set (new_acts w (snd (run_state (reconcileFailover env pw survey) w)))"
    and "promotes a = Some h"
  shows "\<exists>b\<in>set (replicas_of survey). pl_host b = h \<and>
      (\<forall>r\<in>set (replicas_of survey). pl_keys r < pl_keys b \<or>
         pl_keys r = pl_keys b \<and> pl_offset r \<le> pl_offset b) \<and>
      (if masters_of survey = []
       then \<exists>since. st_PrimaryDownSince (vc_Status (cur w)) = Some since \<and>
              time_Sub (env_now env (acts w)) since \<ge> seconds 20
       else pl_keys b > 0 \<and> (\<forall>m\<in>set (masters_of survey). pl_keys m \<le> 0))"
proof (cases rule: reconcileFailover_cases [of survey env pw w])
  case (adopt chosen)
  then have "is_read a \<or> is_status_patch a \<or> points_at survey chosen a"
    using emits_new_acts [OF emits_clear_adopt, of a w env pw survey chosen] assms(1) by simp
  then show ?thesis using assms(2) by (auto simp: points_at_simps status_patch_simps)
next
  case (guard chosen b)
  then have "is_read a \<or> is_status_patch a \<or> promotes_pod b a \<or> points_at survey b a"
    using emits_new_acts [OF emits_clear_promote, of a w env pw survey b] assms(1) by simp
  then have h: "h = pl_host b"
    using assms(2) by (auto simp: points_at_simps status_patch_simps promotes_pod_simps)
  have "masters_of survey \<noteq> []" using guard(2) by (auto simp: pickAuthoritativeMaster_def)
  moreover have "\<forall>m\<in>set (masters_of survey). pl_keys m \<le> 0"
    using pickAuthoritativeMaster_keys [OF guard(2)] guard(4) by simp
  ultimately show ?thesis
    using h pick_best_member [OF guard(3)] best_replica_keys [OF guard(3)] guard(5) by auto
next
  case (debounce b)
  then have "is_status_patch a"
    using emits_new_acts [OF emits_primaryDownLongEnough, of a w env] assms(1) by simp
  then show ?thesis using assms(2) by (simp add: status_patch_simps)
next
  case (promote b since)
  then have "is_read a \<or> is_status_patch a \<or> promotes_pod b a \<or> points_at survey b a"
    using emits_new_acts [OF emits_clear_promote, of a w env pw survey b] assms(1) by simp
  then have "h = pl_host b"
    using assms(2) by (auto simp: points_at_simps status_patch_simps promotes_pod_simps)
  then show ?thesis
    using promote pick_best_member [OF promote(3)] best_replica_keys [OF promote(3)]
    by (auto simp: failoverDownAfter_def)
qed (use assms(1) in \<open>simp_all add: new_acts_def\<close>)

theorem reconcileFailover_promotion_witness:
  "ACmd (demo_host 2) [''REPLICAOF'', ''NO'', ''ONE''] True \<in>
       set (new_acts demo_world (snd (run_state (reconcileFailover answering_env [] demo_survey) demo_world)))
   \<and> (\<exists>b\<in>set (replicas_of demo_survey). pl_host b = demo_host 2 \<and> pl_keys b > 0)
   \<and> list_all (\<lambda>m. pl_keys m \<le> 0) (masters_of demo_survey)"
proof -
  have sent: "ACmd (demo_host 2) [''REPLICAOF'', ''NO'', ''ONE''] True \<in>
       set (new_acts demo_world (snd (run_state (reconcileFailover answering_env [] demo_survey) demo_world)))"
    by code_simp
  moreover have "masters_of demo_survey \<noteq> []" by code_simp
  ultimately show ?thesis using reconcileFailover_promotion [OF sent] by (auto simp: list_all_iff)
qed

section \<open>One pass leaves one primary\<close>

lemma dialPod_responsive:
  assumes "responsive env survey" and "s \<in> set survey" and "pl_reachable s"
  shows "run_state (dialPod env vc (pl_host s) pw) w =
     (Some \<lparr>rc_host = pl_host s, rc_port = dataPort vc\<rparr>,
      w\<lparr>acts := acts w @ [ADial (pl_host s) (dataPort vc) pw True]\<rparr>)"
  using loadMTLSClientCert_state [of env vc w] assms
  by (cases "run_state (loadMTLSClientCert env vc) w")
    (auto simp: dialPod_def run_dialReplClient responsive_def Let_def)

lemma enforceOne_follows:
  assumes "responsive env survey" and "s \<in> set survey"
    and "pl_reachable s \<Longrightarrow> pl_role s = roleSlave \<Longrightarrow> pl_ordinal s \<noteq> pl_ordinal p \<Longrightarrow>
           follows m w (pl_host s) = Some (pl_masterHost s)"
    and "run_state (enforceOne env pw p s) w = (u, w')"
  shows "follows m w' = (if pl_reachable s \<and> pl_ordinal s \<noteq> pl_ordinal p
      then (follows m w)(pl_host s \<mapsto> pl_host p) else follows m w)" and "cur w' = cur w"
proof -
  show "cur w' = cur w"
    using assms(4) by (rule keeps_curD [rotated]) (auto simp: enforceOne_def intro!: hoare_rules)
  show "follows m w' = (if pl_reachable s \<and> pl_ordinal s \<noteq> pl_ordinal p
      then (follows m w)(pl_host s \<mapsto> pl_host p) else follows m w)"
  proof (cases "pl_reachable s")
    case True
    have ok: "reply_err (env_cmd env t (pl_host s) [''REPLICAOF'', h, pt]) = None" for t h pt
      using assms(1,2) True by (simp add: responsive_def)
    note run = dialPod_responsive [OF assms(1,2) True] replicaOf_def run_do_err Let_def ok
    show ?thesis
    proof (cases "pl_ordinal s = pl_ordinal p \<or>
        pl_role s = roleSlave \<and> pl_masterHost s = pl_host p \<and> pl_masterLink s = ''up''")
      case True
      then have "w' = w" using assms(4) by (auto simp: enforceOne_def split: if_splits)
      then show ?thesis using True assms(3) by (auto simp: fun_upd_idem)
    next
      case False
      then show ?thesis using assms(4) \<open>pl_reachable s\<close> by (auto simp: enforceOne_def run follows_def)
    qed
  next
    case False
    then show ?thesis using assms(4) by (auto simp: enforceOne_def)
  qed
qed

lemma enforceReplication_follows:
  assumes "responsive env survey" and "set ss \<subseteq> set survey" and "distinct (map pl_host ss)"
    and "\<And>s. s \<in> set ss \<Longrightarrow> pl_reachable s \<Longrightarrow> pl_role s = roleSlave \<Longrightarrow>
           pl_ordinal s \<noteq> pl_ordinal p \<Longrightarrow> follows m w (pl_host s) = Some (pl_masterHost s)"
    and "run_state (for_each ss (enforceOne env pw p)) w = (u, w')"
  shows "follows m w' h = (if \<exists>s\<in>set ss. pl_host s = h \<and> pl_reachable s \<and> pl_ordinal s \<noteq> pl_ordinal p
      then Some (pl_host p) else follows m w h)"
  using assms(2-5)
proof (induction ss arbitrary: w)
  case (Cons s ss)
  obtain v w1 where one: "run_state (enforceOne env pw p s) w = (v, w1)"
    by (cases "run_state (enforceOne env pw p s) w")
  have rest: "run_state (for_each ss (enforceOne env pw p)) w1 = (u, w')"
    using Cons.prems(4) one by simp
  have s: "s \<in> set survey" using Cons.prems(1) by simp
  note w1 = enforceOne_follows [OF assms(1) s Cons.prems(3) one]
  have other: "follows m w1 (pl_host x) = follows m w (pl_host x)" if "x \<in> set ss" for x
  proof -
    have "pl_host x \<in> pl_host ` set ss" using that by (rule imageI)
    then have "pl_host x \<noteq> pl_host s" using Cons.prems(2) by auto
    then show ?thesis by (simp add: w1(1))
  qed
  have "follows m w' h = (if \<exists>x\<in>set ss. pl_host x = h \<and> pl_reachable x \<and> pl_ordinal x \<noteq> pl_ordinal p
      then Some (pl_host p) else follows m w1 h)"
  proof (rule Cons.IH [OF _ _ _ rest])
    show "set ss \<subseteq> set survey" "distinct (map pl_host ss)" using Cons.prems(1,2) by simp_all
    show "follows m w1 (pl_host x) = Some (pl_masterHost x)"
      if "x \<in> set ss" "pl_reachable x" "pl_role x = roleSlave" "pl_ordinal x \<noteq> pl_ordinal p" for x
      using Cons.prems(3) other that by simp
  qed
  then show ?case by (auto simp: w1(1))
qed simp

lemma clearPrimaryDown_frame:
  assumes "run_state (clearPrimaryDown env) w = (u, w')"
  shows "follows m w' = follows m w" and "vc_Name (cur w') = vc_Name (cur w)"
  using assms
  by (auto simp: clearPrimaryDown_def setPrimaryDown_def patch_status_def follows_def
      split: if_splits option.splits)

lemma enforceReplication_single_primary:
  assumes "responsive env survey" and "distinct (map pl_host survey)"
    and "distinct (map pl_ordinal survey)"
    and "\<And>s. s \<in> set survey \<Longrightarrow> pl_reachable s \<Longrightarrow> pl_role s = roleSlave \<Longrightarrow>
           pl_ordinal s \<noteq> pl_ordinal p \<Longrightarrow> follows m w (pl_host s) = Some (pl_masterHost s)"
    and "p \<in> set survey" and "follows m w (pl_host p) = None"
    and "run_state (enforceReplication env pw survey p) w = (u, w')"
  shows "follows m w' (pl_host p) = None"
    and "s \<in> set survey \<Longrightarrow> pl_reachable s \<Longrightarrow> s \<noteq> p \<Longrightarrow> follows m w' (pl_host s) = Some (pl_host p)"
proof -
  have f: "follows m w' h = (if \<exists>s\<in>set survey. pl_host s = h \<and> pl_reachable s \<and> pl_ordinal s \<noteq> pl_ordinal p
      then Some (pl_host p) else follows m w h)" for h
    by (rule enforceReplication_follows [OF assms(1) _ assms(2) assms(4)])
      (use assms(7) in \<open>auto simp: enforceReplication_def\<close>)
  have "s = p" if "s \<in> set survey" "pl_host s = pl_host p" for s
    using assms(2,5) that by (metis distinct_map inj_onD)
  then show "follows m w' (pl_host p) = None" using f [of "pl_host p"] assms(6) by auto
  have "pl_ordinal s \<noteq> pl_ordinal p" if "s \<in> set survey" "s \<noteq> p" for s
    using assms(3,5) that by (metis distinct_map inj_onD)
  then show "s \<in> set survey \<Longrightarrow> pl_reachable s \<Longrightarrow> s \<noteq> p \<Longrightarrow> follows m w' (pl_host s) = Some (pl_host p)"
    using f by auto
qed

lemma promoteReplica_single_primary:
  assumes "responsive env survey" and "distinct (map pl_host survey)"
    and "distinct (map pl_ordinal survey)" and "seen (follows m w) survey"
    and "b \<in> set survey" and "pl_reachable b"
    and "run_state (promoteReplica env pw survey b) w = (r, w')"
  shows "r = podName (cur w) (pl_ordinal b) \<and> follows m w' (pl_host b) = None \<and>
    (\<forall>s\<in>set survey. pl_reachable s \<and> s \<noteq> b \<longrightarrow> follows m w' (pl_host s) = Some (pl_host b))"
proof -
  have ok: "reply_err (env_cmd env t (pl_host b) [''REPLICAOF'', h, pt]) = None" for t h pt
    using assms(1,5,6) by (simp add: responsive_def)
  define w1 where "w1 = w\<lparr>acts := acts w @ [ADial (pl_host b) (dataPort (cur w)) pw True,
    ACmd (pl_host b) [''REPLICAOF'', ''NO'', ''ONE''] True, AMetric ''failover_total'' ''promotion'']\<rparr>"
  obtain u w2 where enf: "run_state (enforceReplication env pw survey b) w1 = (u, w2)"
    by (cases "run_state (enforceReplication env pw survey b) w1")
  have res: "r = podName (cur w) (pl_ordinal b)" "w' = w2"
    using assms(7) enf
    by (simp_all add: promoteReplica_def dialPod_responsive [OF assms(1,5,6)] replicaOfNoOne_def
        run_do_err ok w1_def)
  have f1: "follows m w1 = (follows m w)(pl_host b := None)" by (simp add: w1_def follows_def)
  have "follows m w1 (pl_host s) = Some (pl_masterHost s)"
    if s: "s \<in> set survey" "pl_reachable s" "pl_role s = roleSlave" "pl_ordinal s \<noteq> pl_ordinal b" for s
  proof -
    have "pl_host s \<noteq> pl_host b" using assms(2,5) s(1,4) by (metis distinct_map inj_onD)
    then show ?thesis using assms(4) s by (simp add: f1 seen_def)
  qed
  then show ?thesis
    using enforceReplication_single_primary [OF assms(1-3) _ assms(5) _ enf] res f1 by auto
qed

lemma adoptMaster_single_primary:
  assumes "responsive env survey" and "distinct (map pl_host survey)"
    and "distinct (map pl_ordinal survey)" and "seen (follows m w) survey"
    and "c \<in> set survey" and "pl_reachable c" and "pl_role c = roleMaster"
    and "run_state (adoptMaster env pw survey c) w = (r, w')"
  shows "r = podName (cur w) (pl_ordinal c) \<and> follows m w' (pl_host c) = None \<and>
    (\<forall>s\<in>set survey. pl_reachable s \<and> s \<noteq> c \<longrightarrow> follows m w' (pl_host s) = Some (pl_host c))"
proof -
  define xs where "xs = (if st_Primary (vc_Status (cur w)) \<noteq> [] \<and>
    st_Primary (vc_Status (cur w)) \<noteq> podName (cur w) (pl_ordinal c)
    then [AMetric ''failover_total'' ''adoption''] else [])"
  obtain u w2 where e: "run_state (enforceReplication env pw survey c) (w\<lparr>acts := acts w @ xs\<rparr>) = (u, w2)"
    by (cases "run_state (enforceReplication env pw survey c) (w\<lparr>acts := acts w @ xs\<rparr>)")
  have r: "r = podName (cur w) (pl_ordinal c)" and w2: "w2 = w'"
    using assms(8) e by (simp_all add: adoptMaster_def xs_def split: if_splits)
  note enf = e [unfolded w2]
  have f1: "follows m (w\<lparr>acts := acts w @ xs\<rparr>) = follows m w"
    by (simp add: follows_def xs_def)
  have "follows m w (pl_host c) = None" using assms(4-7) by (simp add: seen_def)
  moreover have "follows m w (pl_host s) = Some (pl_masterHost s)"
    if "s \<in> set survey" "pl_reachable s" "pl_role s = roleSlave" for s
    using assms(4) that by (simp add: seen_def)
  ultimately show ?thesis
    using enforceReplication_single_primary [OF assms(1-3) _ assms(5) _ enf, of m] r f1 by auto
qed

text \<open>
  C3. One pass ends the split brain. When the survey found at least two reachable pods and a
  reachable master among them, when the replication is as the survey found it and the reachable
  pods keep answering, the pass returns the name of one reachable pod, that pod replicates from
  nobody, and every other reachable pod replicates from it, however many masters there were.
\<close>

theorem reconcileFailover_single_primary:
  assumes "responsive env survey" and "distinct (map pl_host survey)"
    and "distinct (map pl_ordinal survey)" and "seen (follows m w) survey"
    and "2 \<le> length (filter pl_reachable survey)" and "masters_of survey \<noteq> []"
    and "run_state (reconcileFailover env pw survey) w = (r, w')"
  shows "\<exists>p\<in>set survey. pl_reachable p \<and> r = podName (cur w) (pl_ordinal p) \<and>
    follows m w' (pl_host p) = None \<and>
    (\<forall>s\<in>set survey. pl_reachable s \<and> s \<noteq> p \<longrightarrow> follows m w' (pl_host s) = Some (pl_host p))"
proof -
  obtain u w1 where clear: "run_state (clearPrimaryDown env) w = (u, w1)"
    by (cases "run_state (clearPrimaryDown env) w")
  note frame = clearPrimaryDown_frame [OF clear]
  have name: "podName (cur w1) = podName (cur w)" using frame(2) by (auto simp: podName_def statefulSetName_def)
  have seen1: "seen (follows m w1) survey" using assms(4) frame(1) by simp
  show ?thesis
  proof (cases rule: reconcileFailover_cases [of survey env pw w])
    case (adopt chosen)
    have c: "chosen \<in> set survey" "pl_reachable chosen" "pl_role chosen = roleMaster"
      using pickAuthoritativeMaster_member [OF adopt(2)] by (auto simp: masters_replicas_simps)
    obtain v w2 where enf: "run_state (adoptMaster env pw survey chosen) w1 = (v, w2)"
      by (cases "run_state (adoptMaster env pw survey chosen) w1")
    have r: "r = v" "w' = w2" using adopt(4) assms(7) clear enf by simp_all
    show ?thesis
      using adoptMaster_single_primary [OF assms(1-3) seen1 c enf] c r name by auto
  next
    case (guard chosen b)
    have b: "b \<in> set survey" "pl_reachable b"
      using pick_best_member [OF guard(3)] by (auto simp: masters_replicas_simps)
    obtain v w2 where enf: "run_state (promoteReplica env pw survey b) w1 = (v, w2)"
      by (cases "run_state (promoteReplica env pw survey b) w1")
    have r: "r = v" "w' = w2" using guard(6) assms(7) clear enf by simp_all
    show ?thesis
      using promoteReplica_single_primary [OF assms(1-3) seen1 b enf] b r name by auto
  qed (use assms(5,6) in simp_all)
qed

lemma responsive_answering: "responsive answering_env survey"
  by (simp add: responsive_def answering_env_def reply_err_def)

theorem reconcileFailover_single_primary_witness:
  "\<exists>p\<in>set demo_survey. pl_reachable p \<and>
     fst (run_state (reconcileFailover answering_env [] demo_survey) demo_world) = podName demo_vc (pl_ordinal p) \<and>
     pl_ordinal p = 2"
proof -
  let ?m = "[demo_host 1 \<mapsto> demo_host 0, demo_host 2 \<mapsto> demo_host 0]"
  obtain r w' where run: "run_state (reconcileFailover answering_env [] demo_survey) demo_world = (r, w')"
    by (cases "run_state (reconcileFailover answering_env [] demo_survey) demo_world")
  have d: "distinct (map pl_host demo_survey)" "distinct (map pl_ordinal demo_survey)"
    "seen (follows ?m demo_world) demo_survey" "2 \<le> length (filter pl_reachable demo_survey)"
    "masters_of demo_survey \<noteq> []"
    by code_simp+
  have "fst (run_state (reconcileFailover answering_env [] demo_survey) demo_world) = ''demo-2''"
    by code_simp
  moreover have "podName demo_vc 2 = ''demo-2''" by code_simp
  ultimately have "r = podName demo_vc 2" using run by simp
  moreover obtain p where "p \<in> set demo_survey" "pl_reachable p" "r = podName (cur demo_world) (pl_ordinal p)"
    using reconcileFailover_single_primary [OF responsive_answering d run] by blast
  ultimately show ?thesis using run by (auto simp: demo_world_def)
qed

text \<open>
  C12. A reachable pod whose role could not be read is emptied. When a master is adopted and the
  reachable masters and replicas hold no keys, a reachable pod that answered the survey without a
  role (its INFO failed) ends the pass replicating from an empty master, whatever keys it holds:
  the guard against an empty master only looks at the pods that reported being replicas.
\<close>

theorem reconcileFailover_unread_role:
  assumes "responsive env survey" and "distinct (map pl_host survey)"
    and "distinct (map pl_ordinal survey)" and "seen (follows m w) survey"
    and "2 \<le> length (filter pl_reachable survey)" and "masters_of survey \<noteq> []"
    and empty: "\<forall>p\<in>set (masters_of survey @ replicas_of survey). pl_keys p = 0"
    and q: "q \<in> set survey" "pl_reachable q" "pl_role q \<notin> {roleMaster, roleSlave}"
    and run: "run_state (reconcileFailover env pw survey) w = (r, w')"
  shows "\<exists>p\<in>set (masters_of survey). pl_keys p = 0 \<and> follows m w' (pl_host q) = Some (pl_host p)"
proof -
  obtain u w1 where clear: "run_state (clearPrimaryDown env) w = (u, w1)"
    by (cases "run_state (clearPrimaryDown env) w")
  have seen1: "seen (follows m w1) survey" using assms(4) clearPrimaryDown_frame(1) [OF clear] by simp
  show ?thesis
  proof (cases rule: reconcileFailover_cases [of survey env pw w])
    case (adopt chosen)
    have c: "chosen \<in> set survey" "pl_reachable chosen" "pl_role chosen = roleMaster"
      using pickAuthoritativeMaster_member [OF adopt(2)] by (auto simp: masters_replicas_simps)
    obtain v w2 where enf: "run_state (adoptMaster env pw survey chosen) w1 = (v, w2)"
      by (cases "run_state (adoptMaster env pw survey chosen) w1")
    have w2: "w' = w2" using adopt(4) run clear enf by simp
    have "q \<noteq> chosen" using q(3) c(3) by auto
    then have "follows m w' (pl_host q) = Some (pl_host chosen)"
      using adoptMaster_single_primary [OF assms(1-3) seen1 c enf] q w2 by auto
    then show ?thesis using pickAuthoritativeMaster_member [OF adopt(2)] empty by auto
  next
    case (guard chosen b)
    then show ?thesis using pick_best_member [OF guard(3)] empty by auto
  qed (use assms(5,6) in simp_all)
qed

theorem reconcileFailover_unread_role_witness:
  "pl_keys (unread_survey ! 2) = 42 \<and>
   follows [demo_host 1 \<mapsto> demo_host 0]
     (snd (run_state (reconcileFailover answering_env [] unread_survey) demo_world)) (demo_host 2) = Some (demo_host 0)"
proof -
  let ?m = "[demo_host 1 \<mapsto> demo_host 0]"
  have d: "distinct (map pl_host unread_survey)" "distinct (map pl_ordinal unread_survey)"
    "seen (follows ?m demo_world) unread_survey" "2 \<le> length (filter pl_reachable unread_survey)"
    "masters_of unread_survey \<noteq> []"
    "\<forall>p\<in>set (masters_of unread_survey @ replicas_of unread_survey). pl_keys p = 0"
    by code_simp+
  have q: "unread_survey ! 2 \<in> set unread_survey" "pl_reachable (unread_survey ! 2)"
    "pl_role (unread_survey ! 2) \<notin> {roleMaster, roleSlave}" "pl_host (unread_survey ! 2) = demo_host 2"
    by code_simp+
  have one: "masters_of unread_survey = [unread_survey ! 0]" "pl_host (unread_survey ! 0) = demo_host 0"
    "pl_keys (unread_survey ! 2) = 42" by code_simp+
  show ?thesis
    using reconcileFailover_unread_role [OF responsive_answering d q(1-3) prod.collapse [symmetric]] q(4) one by simp
qed

section \<open>The survey and the manual failover\<close>

lemma run_map_state_spec:
  assumes "\<And>x w. x \<in> set xs \<Longrightarrow> cur w = vc \<Longrightarrow>
      P x (fst (run_state (f x) w)) \<and> cur (snd (run_state (f x) w)) = vc"
    and "cur w = vc"
  shows "list_all2 P xs (fst (run_state (map_state f xs) w))"
  using assms
proof (induction xs arbitrary: w)
  case (Cons x xs)
  obtain y w1 where y: "run_state (f x) w = (y, w1)" by (cases "run_state (f x) w")
  obtain ys w2 where ys: "run_state (map_state f xs) w1 = (ys, w2)" by (cases "run_state (map_state f xs) w1")
  have "P x y" "cur w1 = vc" using Cons.prems(1) [of x w] Cons.prems(2) y by simp_all
  moreover have "list_all2 P xs ys" using Cons.IH [of w1] Cons.prems(1) calculation(2) ys by simp
  ultimately show ?case by (simp add: y ys)
qed simp

lemma fill_info_frame [simp]:
  "pl_ordinal (fill_info m r) = pl_ordinal r" "pl_host (fill_info m r) = pl_host r"
  "pl_reachable (fill_info m r) = pl_reachable r"
  by (simp_all add: fill_info_def Let_def)

lemma keeps_cur_surveyPod [hoare_rules]: "keeps_cur (surveyPod env pw i)"
  unfolding surveyPod_def by (intro hoare_rules)

lemma surveyPod_result:
  assumes "run_state (surveyPod env pw i) w = (r, w')"
  shows "pl_ordinal r = i"
    and "pl_host r = fqdn (podName (cur w) i) (headlessServiceName (cur w)) (vc_Namespace (cur w))"
    and "pl_reachable r \<or> r = blankRole i (pl_host r)"
proof -
  define host where "host = fqdn (podName (cur w) i) (headlessServiceName (cur w)) (vc_Namespace (cur w))"
  obtain c w1 where dial: "run_state (dialPod env (cur w) host pw) w = (c, w1)"
    by (cases "run_state (dialPod env (cur w) host pw) w")
  have "pl_ordinal r = i \<and> pl_host r = host \<and> (pl_reachable r \<or> r = blankRole i host)"
    using assms dial unfolding surveyPod_def host_def
    by (auto simp: blankRole_def Let_def split: option.splits prod.splits)
  then show "pl_ordinal r = i" "pl_reachable r \<or> r = blankRole i (pl_host r)"
    "pl_host r = fqdn (podName (cur w) i) (headlessServiceName (cur w)) (vc_Namespace (cur w))"
    by (auto simp: host_def)
qed

text \<open>
  The survey has exactly one entry per pod of the StatefulSet, in ordinal order and under
  the pod's own DNS name; a pod that did not answer has the blank entry, so nothing stale
  is ever read from it.
\<close>

lemma surveyReplication_entries:
  "list_all2 (\<lambda>i r. pl_ordinal r = i \<and>
       pl_host r = fqdn (podName (cur w) i) (headlessServiceName (cur w)) (vc_Namespace (cur w)) \<and>
       (pl_reachable r \<or> r = blankRole i (pl_host r)))
     (range_int (sp_Replicas (vc_Spec (cur w))))
     (fst (run_state (surveyReplication env pw) w))"
  unfolding surveyReplication_def
proof (simp, rule run_map_state_spec [where vc = "cur w"])
  fix i and v :: world
  assume v: "cur v = cur w"
  obtain r v' where run: "run_state (surveyPod env pw i) v = (r, v')"
    by (cases "run_state (surveyPod env pw i) v")
  show "(pl_ordinal (fst (run_state (surveyPod env pw i) v)) = i \<and>
      pl_host (fst (run_state (surveyPod env pw i) v)) =
        fqdn (podName (cur w) i) (headlessServiceName (cur w)) (vc_Namespace (cur w)) \<and>
      (pl_reachable (fst (run_state (surveyPod env pw i) v)) \<or>
        fst (run_state (surveyPod env pw i) v) =
          blankRole i (pl_host (fst (run_state (surveyPod env pw i) v))))) \<and>
      cur (snd (run_state (surveyPod env pw i) v)) = cur w"
    using surveyPod_result [OF run] keeps_curD [OF keeps_cur_surveyPod run] v run by simp
qed simp

lemma find_named_SomeD:
  "find_named vc survey t = Some b \<Longrightarrow> b \<in> set (replicas_of survey) \<and> podName vc (pl_ordinal b) = t"
  by (induction survey) (auto simp: replicas_of_def split: if_splits)

lemma pickFailoverTarget_replica:
  "pickFailoverTarget vc survey t = Some b \<Longrightarrow> b \<in> set (replicas_of survey)"
  by (auto simp: pickFailoverTarget_def replicas_of_def [symmetric] dest: find_named_SomeD pick_best_member
      split: if_splits)

lemma keeps_cur_enforceReplication [hoare_rules]: "keeps_cur (enforceReplication env pw survey p)"
  unfolding enforceReplication_def enforceOne_def by (intro hoare_rules)

text \<open>
  The manual failover runs once per request: it either does nothing to the object (and
  the request stays open), or it has promoted a reachable replica and recorded the token of
  the request.
\<close>

theorem manualFailover_token:
  "let (r, w') = run_state (manualFailover env pw survey token) w
   in if r = [] then cur w' = cur w
      else st_LastFailoverToken (vc_Status (cur w')) = token \<and>
           (\<exists>b\<in>set (replicas_of survey). r = podName (cur w) (pl_ordinal b) \<and>
              ACmd (pl_host b) [''REPLICAOF'', ''NO'', ''ONE''] True \<in> set (acts w'))"
proof (cases "pickFailoverTarget (cur w) survey (mget (vc_Annotations (cur w)) failoverTargetAnnotation)")
  case (Some b)
  note b = pickFailoverTarget_replica [OF Some]
  obtain c w1 where dial: "run_state (dialPod env (cur w) (pl_host b) pw) w = (c, w1)"
    by (cases "run_state (dialPod env (cur w) (pl_host b) pw) w")
  from dial show ?thesis
  proof (cases rule: dialPod_cases)
    case refused
    then show ?thesis by (simp add: manualFailover_def Some dial)
  next
    case connected
    define w2 where "w2 = w1\<lparr>acts := acts w1 @ [ACmd (pl_host b) [''REPLICAOF'', ''NO'', ''ONE''] True,
      AMetric ''failover_total'' ''manual'']\<rparr>"
    obtain u w3 where enf: "run_state (enforceReplication env pw survey b) w2 = (u, w3)"
      by (cases "run_state (enforceReplication env pw survey b) w2")
    have "set (acts w2) \<subseteq> set (acts w3)"
      by (rule emits_acts_mono [OF emits_enforceReplication enf])
    then have sent: "ACmd (pl_host b) [''REPLICAOF'', ''NO'', ''ONE''] True \<in> set (acts w3)"
      by (auto simp: w2_def)
    have c: "cur w1 = cur w" "cur w3 = cur w"
      using connected(2) keeps_curD [OF keeps_cur_enforceReplication enf] by (simp_all add: w2_def)
    show ?thesis
    proof (cases "reply_err (env_cmd env (acts w1) (pl_host b) [''REPLICAOF'', ''NO'', ''ONE''])")
      case None
      then have "run_state (manualFailover env pw survey token) w =
          (podName (cur w) (pl_ordinal b),
           snd (run_state (do { modify_status (\<lambda>s. s\<lparr>st_LastFailoverToken := token\<rparr>); patch_status env }) w3))"
        using connected(1) enf
        by (simp add: manualFailover_def Some dial replicaOfNoOne_def run_do_err w2_def patch_status_def)
      then show ?thesis using b sent by (auto simp: podName_def patch_status_def c)
    next
      case (Some e)
      then show ?thesis
        using connected(1) \<open>pickFailoverTarget _ _ _ = Some b\<close>
        by (simp add: manualFailover_def dial replicaOfNoOne_def run_do_err c)
    qed
  qed
qed (simp add: manualFailover_def)

end
