(* ===== verification/Rollout.thy ===== *)
theory Rollout
  imports Failover "HOL-Library.List_Lexorder" "HOL-Library.Char_ord"
begin

text \<open>
  The operator-driven rolling restart of \<open>src/internal/controller/rollout.go\<close>: the pure
  decisions \<open>nextRolloutStep\<close> (Replication) and \<open>nextClusterRolloutStep\<close> (Cluster), and the
  handler that performs a Replication step. A Go map from pod names is a lookup in the pod
  list (the last entry of a name wins).
\<close>

section \<open>Definitions\<close>

definition proactiveRolloutEnabled :: "ValkeyCluster \<Rightarrow> bool" where
  "proactiveRolloutEnabled vc \<longleftrightarrow>
     ParseBool (mget (vc_Annotations vc) proactiveRolloutAnnotation) = Some True"

record rolloutPod =
  rp_name :: string
  rp_ordinal :: int
  rp_revision :: string
  rp_ready :: bool

datatype rolloutAction =
    rolloutNone
  | rolloutWait
  | rolloutRollReplica string
  | rolloutPromote string

definition nextRolloutStep :: "rolloutPod list \<Rightarrow> string \<Rightarrow> string \<Rightarrow> rolloutAction" where
  "nextRolloutStep pods desiredRevision primary =
     (if pods = [] \<or> desiredRevision = [] then rolloutNone
      else let stale = filter (\<lambda>p. rp_revision p \<noteq> desiredRevision) pods;
               allReady = list_all rp_ready pods
           in if stale = [] then rolloutNone
              else if \<not> allReady then rolloutWait
              else (case find (\<lambda>p. rp_name p \<noteq> primary) (sort_key rp_ordinal stale) of
                      Some p \<Rightarrow> rolloutRollReplica (rp_name p)
                    | None \<Rightarrow> rolloutPromote primary))"

definition freshReady :: "rolloutPod list \<Rightarrow> string \<Rightarrow> string \<Rightarrow> int \<Rightarrow> bool" where
  "freshReady pods desiredRevision primary ord \<longleftrightarrow>
     list_ex (\<lambda>p. rp_revision p = desiredRevision \<and> rp_ready p \<and> rp_name p \<noteq> primary \<and> rp_ordinal p = ord) pods"

definition bestRolloutTarget ::
  "podRole list \<Rightarrow> rolloutPod list \<Rightarrow> string \<Rightarrow> string \<Rightarrow> podRole option" where
  "bestRolloutTarget survey pods desiredRevision primary =
     pick_best betterOffset
       (filter (\<lambda>s. pl_reachable s \<and> pl_role s = roleSlave
                    \<and> freshReady pods desiredRevision primary (pl_ordinal s)) survey) None"

definition rolloutPodOf :: "ValkeyCluster \<Rightarrow> Pod \<Rightarrow> rolloutPod option" where
  "rolloutPodOf vc p =
     (if pod_DeletionTimestamp p \<noteq> None then None
      else (case ordinalFromPodName (pod_Name p) (statefulSetName vc) of
              None \<Rightarrow> None
            | Some ord \<Rightarrow> Some \<lparr>rp_name = pod_Name p, rp_ordinal = ord,
                rp_revision = mget (map_of (pod_Labels p)) revisionLabel, rp_ready = podIsReady p\<rparr>))"

definition listRolloutPods :: "env \<Rightarrow> (kerr + rolloutPod list) op" where
  "listRolloutPods env = do {
     vc \<leftarrow> get_vc;
     r \<leftarrow> ask (\<lambda>t. env_pods env t [(instanceLabel, vc_Name vc)]);
     State_Monad.return (case r of Inl e \<Rightarrow> Inl e
                         | Inr items \<Rightarrow> Inr (List.map_filter (rolloutPodOf vc) items)) }"

definition deletePodByName :: "env \<Rightarrow> string \<Rightarrow> kerr option op" where
  "deletePodByName env name = do {
     r \<leftarrow> delete_obj env ''Pod'' name;
     State_Monad.return (if r = Some NotFound then None else r) }"

text \<open>The switch of \<open>driveReplicationRollout\<close> over the next action.\<close>

definition performRollout ::
  "env \<Rightarrow> string \<Rightarrow> podRole list \<Rightarrow> rolloutPod list \<Rightarrow> string \<Rightarrow> string \<Rightarrow>
    (string \<times> bool \<times> kerr option) op" where
  "performRollout env password survey pods desiredRevision primary =
     (case nextRolloutStep pods desiredRevision primary of
        rolloutNone \<Rightarrow> State_Monad.return (primary, False, None)
      | rolloutWait \<Rightarrow> State_Monad.return (primary, True, None)
      | rolloutRollReplica pod \<Rightarrow> do {
          err \<leftarrow> deletePodByName env pod;
          State_Monad.return (primary, True, err) }
      | rolloutPromote pod \<Rightarrow>
          (case bestRolloutTarget survey pods desiredRevision primary of
             None \<Rightarrow> State_Monad.return (primary, True, None)
           | Some target \<Rightarrow> do {
               newPrimary \<leftarrow> promoteReplica env password survey target;
               err \<leftarrow> deletePodByName env pod;
               State_Monad.return (newPrimary, True, err) }))"

definition driveReplicationRollout ::
  "env \<Rightarrow> string \<Rightarrow> podRole list \<Rightarrow> (string \<times> bool \<times> kerr option) op" where
  "driveReplicationRollout env password survey = do {
     vc \<leftarrow> get_vc;
     let primary = st_Primary (vc_Status vc);
     s \<leftarrow> ask (\<lambda>t. env_sts env t (statefulSetName vc));
     case s of
       Inl e \<Rightarrow> State_Monad.return (primary, False, Some e)
     | Inr sts \<Rightarrow>
       if sts_UpdateRevision sts = [] then State_Monad.return (primary, False, None)
       else do {
         ps \<leftarrow> listRolloutPods env;
         case ps of
           Inl e \<Rightarrow> State_Monad.return (primary, False, Some e)
         | Inr pods \<Rightarrow>
           if int32 (int (length pods)) < totalReplicas vc then State_Monad.return (primary, True, None)
           else performRollout env password survey pods (sts_UpdateRevision sts) primary } }"

section \<open>Cluster topology\<close>

record clusterShard =
  cs_primary :: string
  cs_replicas :: "string list"

datatype clusterRolloutAction =
    clusterRolloutNone
  | clusterRolloutWait
  | clusterRolloutRollReplica string
  | clusterRolloutFailover string
  | clusterRolloutRollMaster string

definition lookup_pod :: "rolloutPod list \<Rightarrow> string \<Rightarrow> rolloutPod option" where
  "lookup_pod pods name = find (\<lambda>p. rp_name p = name) (rev pods)"

definition revOf :: "rolloutPod list \<Rightarrow> string \<Rightarrow> string" where
  "revOf pods name = (case lookup_pod pods name of Some p \<Rightarrow> rp_revision p | None \<Rightarrow> [])"

definition readyOf :: "rolloutPod list \<Rightarrow> string \<Rightarrow> bool" where
  "readyOf pods name = (case lookup_pod pods name of Some p \<Rightarrow> rp_ready p | None \<Rightarrow> False)"

definition staleReplicas :: "rolloutPod list \<Rightarrow> clusterShard list \<Rightarrow> string \<Rightarrow> string list" where
  "staleReplicas pods shards desired =
     concat (map (\<lambda>s. filter (\<lambda>rp. revOf pods rp \<noteq> desired) (cs_replicas s)) shards)"

fun handOver :: "rolloutPod list \<Rightarrow> string \<Rightarrow> clusterShard list \<Rightarrow> clusterRolloutAction" where
  "handOver pods desired [] = clusterRolloutNone"
| "handOver pods desired (s # ss) =
     (if revOf pods (cs_primary s) = desired then handOver pods desired ss
      else (case find (\<lambda>rp. revOf pods rp = desired \<and> readyOf pods rp) (cs_replicas s) of
              Some rp \<Rightarrow> clusterRolloutFailover rp
            | None \<Rightarrow> if cs_replicas s = [] then clusterRolloutRollMaster (cs_primary s)
                      else clusterRolloutWait))"

definition nextClusterRolloutStep ::
  "rolloutPod list \<Rightarrow> clusterShard list \<Rightarrow> string \<Rightarrow> clusterRolloutAction" where
  "nextClusterRolloutStep pods shards desired =
     (if pods = [] \<or> desired = [] \<or> shards = [] then clusterRolloutNone
      else if \<not> list_ex (\<lambda>p. rp_revision p \<noteq> desired) pods then clusterRolloutNone
      else if \<not> list_all rp_ready pods then clusterRolloutWait
      else (case sort (staleReplicas pods shards desired) of
              rp # _ \<Rightarrow> clusterRolloutRollReplica rp
            | [] \<Rightarrow> handOver pods desired (sort_key cs_primary shards)))"

section \<open>What the properties speak of\<close>

text \<open>The pods that are behind a revision.\<close>

definition stale :: "string \<Rightarrow> rolloutPod list \<Rightarrow> rolloutPod list" where
  "stale desired pods = filter (\<lambda>p. rp_revision p \<noteq> desired) pods"

text \<open>A two-pod cluster whose pods are both behind the revision \<open>r2\<close>.\<close>

definition demo_pods :: "rolloutPod list" where
  "demo_pods = [\<lparr>rp_name = ''demo-0'', rp_ordinal = 0, rp_revision = ''r1'', rp_ready = True\<rparr>,
                \<lparr>rp_name = ''demo-1'', rp_ordinal = 1, rp_revision = ''r1'', rp_ready = True\<rparr>]"

text \<open>The pod an action deletes.\<close>

definition deletes :: "action \<Rightarrow> string option" where
  "deletes a = (case a of ADelete k n _ \<Rightarrow> if k = ''Pod'' then Some n else None | _ \<Rightarrow> None)"

text \<open>
  The same cluster with only its primary behind, as the API server lists it, and a survey in
  which the replica answers; every dial that follows is refused.
\<close>

definition demo_pod :: "string \<Rightarrow> string \<Rightarrow> Pod" where
  "demo_pod name revision = \<lparr>pod_Name = name, pod_Labels = [(instanceLabel, ''demo''), (revisionLabel, revision)],
     pod_Conditions = [(''Ready'', ConditionTrue)], pod_Phase = ''Running'', pod_NodeName = ''node-1'', pod_IP = ''10.0.0.1'',
     pod_DeletionTimestamp = None\<rparr>"

definition demo_pod_spec :: PodSpec where
  "demo_pod_spec = \<lparr>po_RestartPolicy = [], po_InitContainers = [], po_Containers = [], po_Volumes = [], po_NodeSelector = [],
     po_Tolerations = [], po_Affinity = None, po_TopologySpreadConstraints = [], po_ImagePullSecrets = [],
     po_SecurityContext = None, po_TerminationGracePeriodSeconds = None\<rparr>"

definition demo_sts :: StatefulSet where
  "demo_sts = \<lparr>sts_Name = ''demo'', sts_Replicas = Some 3, sts_Labels = [], sts_ServiceName = ''demo-headless'',
     sts_OnDelete = True, sts_Annotations = [],
     sts_Template = \<lparr>pt_Labels = [], pt_Annotations = [], pt_Spec = demo_pod_spec\<rparr>,
     sts_Selector = [], sts_PodManagementPolicy = ''Parallel'', sts_VolumeClaimTemplates = [], sts_Generation = 1, sts_ObservedGeneration = 1,
     sts_ReadyReplicas = 3, sts_UpdatedReplicas = 2, sts_StatusReplicas = 3,
     sts_CurrentRevision = ''r1'', sts_UpdateRevision = ''r2''\<rparr>"

definition refusing_env :: env where
  "refusing_env = silent_env\<lparr>env_sts := (\<lambda>_ _. Inr demo_sts),
     env_pods := (\<lambda>_ _. Inr [demo_pod ''demo-0'' ''r1'', demo_pod ''demo-1'' ''r2'', demo_pod ''demo-2'' ''r2''])\<rparr>"

section \<open>Safety of one decision\<close>

lemma nextRolloutStep_unfold:
  "nextRolloutStep pods d pr =
     (if pods = [] \<or> d = [] \<or> stale d pods = [] then rolloutNone
      else if \<not> list_all rp_ready pods then rolloutWait
      else (case find (\<lambda>p. rp_name p \<noteq> pr) (sort_key rp_ordinal (stale d pods)) of
              Some p \<Rightarrow> rolloutRollReplica (rp_name p) | None \<Rightarrow> rolloutPromote pr))"
  by (simp add: nextRolloutStep_def stale_def Let_def)

lemma nextRolloutStep_replica:
  assumes "nextRolloutStep pods d pr = rolloutRollReplica n"
  shows "list_all rp_ready pods" and "n \<noteq> pr"
    and "\<exists>p\<in>set pods. rp_name p = n \<and> rp_revision p \<noteq> d \<and>
           (\<forall>q\<in>set pods. rp_revision q \<noteq> d \<and> rp_name q \<noteq> pr \<longrightarrow> rp_ordinal p \<le> rp_ordinal q)"
proof -
  define xs where "xs = sort_key rp_ordinal (stale d pods)"
  obtain p where p: "find (\<lambda>p. rp_name p \<noteq> pr) xs = Some p" and n: "n = rp_name p"
    and ready: "list_all rp_ready pods"
    using assms by (auto simp: nextRolloutStep_unfold xs_def split: if_splits option.splits)
  show "list_all rp_ready pods" by (rule ready)
  obtain i where i: "i < length xs" "rp_name (xs ! i) \<noteq> pr" "p = xs ! i"
    "\<forall>j<i. rp_name (xs ! j) = pr"
    using p by (auto simp: find_Some_iff)
  show "n \<noteq> pr" using i n by simp
  have srt: "sorted (map rp_ordinal xs)" by (simp add: xs_def)
  have "rp_ordinal p \<le> rp_ordinal q" if q: "q \<in> set pods" "rp_revision q \<noteq> d" "rp_name q \<noteq> pr" for q
  proof -
    have "q \<in> set xs" using q by (simp add: xs_def stale_def)
    then obtain k where k: "k < length xs" "xs ! k = q" by (auto simp: in_set_conv_nth)
    then have "i \<le> k" using i(4) q(3) by (meson not_le_imp_less)
    then show ?thesis using srt k i by (auto simp: sorted_iff_nth_mono)
  qed
  moreover have "p \<in> set pods" "rp_revision p \<noteq> d"
    using i nth_mem [of i xs] by (auto simp: xs_def stale_def)
  ultimately show "\<exists>p\<in>set pods. rp_name p = n \<and> rp_revision p \<noteq> d \<and>
      (\<forall>q\<in>set pods. rp_revision q \<noteq> d \<and> rp_name q \<noteq> pr \<longrightarrow> rp_ordinal p \<le> rp_ordinal q)"
    using n by blast
qed

lemma nextRolloutStep_promote:
  assumes "nextRolloutStep pods d pr = rolloutPromote n"
  shows "list_all rp_ready pods" and "n = pr" and "stale d pods \<noteq> []"
    and "\<forall>p\<in>set pods. rp_name p \<noteq> pr \<longrightarrow> rp_revision p = d"
  using assms
  by (auto simp: nextRolloutStep_unfold find_None_iff stale_def split: if_splits option.splits)

lemma nextRolloutStep_none:
  "nextRolloutStep pods d pr = rolloutNone \<longleftrightarrow> pods = [] \<or> d = [] \<or> (\<forall>p\<in>set pods. rp_revision p = d)"
  by (auto simp: nextRolloutStep_unfold stale_def filter_empty_conv split: option.splits)

text \<open>
  C7. The rolling restart never disturbs a cluster that is still converging and keeps the
  primary for last. It acts only when every pod is Ready; it deletes a stale pod that is not
  the primary, the lowest ordinal first; it restarts the primary only when every other pod
  already runs the new revision; and it stops exactly when all pods do.
\<close>

theorem nextRolloutStep_safe:
  "case nextRolloutStep pods d pr of
     rolloutNone \<Rightarrow> pods = [] \<or> d = [] \<or> (\<forall>p\<in>set pods. rp_revision p = d)
   | rolloutWait \<Rightarrow> \<not> list_all rp_ready pods
   | rolloutRollReplica n \<Rightarrow> list_all rp_ready pods \<and> n \<noteq> pr \<and>
       (\<exists>p\<in>set pods. rp_name p = n \<and> rp_revision p \<noteq> d \<and>
          (\<forall>q\<in>set pods. rp_revision q \<noteq> d \<and> rp_name q \<noteq> pr \<longrightarrow> rp_ordinal p \<le> rp_ordinal q))
   | rolloutPromote n \<Rightarrow> list_all rp_ready pods \<and> n = pr \<and>
       (\<forall>p\<in>set pods. rp_name p \<noteq> pr \<longrightarrow> rp_revision p = d) \<and>
       (\<exists>p\<in>set pods. rp_name p = pr \<and> rp_revision p \<noteq> d)"
proof (cases "nextRolloutStep pods d pr")
  case rolloutNone
  then have "pods = [] \<or> d = [] \<or> (\<forall>p\<in>set pods. rp_revision p = d)"
    by (simp only: nextRolloutStep_none)
  then show ?thesis by (simp only: rolloutNone rolloutAction.simps)
next
  case rolloutWait
  then show ?thesis by (auto simp: nextRolloutStep_unfold split: if_splits option.splits)
next
  case (rolloutRollReplica n)
  then show ?thesis using nextRolloutStep_replica [OF rolloutRollReplica] by simp
next
  case (rolloutPromote n)
  note p = nextRolloutStep_promote [OF rolloutPromote]
  obtain x where "x \<in> set pods" "rp_revision x \<noteq> d"
    using p(3) by (auto simp: stale_def filter_empty_conv)
  then show ?thesis using p rolloutPromote by auto
qed

theorem nextRolloutStep_safe_witness:
  "nextRolloutStep demo_pods ''r2'' ''demo-0'' = rolloutRollReplica ''demo-1'' \<and>
   list_all rp_ready demo_pods \<and> (\<exists>p\<in>set demo_pods. rp_name p = ''demo-1'' \<and> rp_revision p \<noteq> ''r2'')"
proof -
  have "nextRolloutStep demo_pods ''r2'' ''demo-0'' = rolloutRollReplica ''demo-1''" by code_simp
  then show ?thesis using nextRolloutStep_safe [of demo_pods "''r2''" "''demo-0''"] by auto
qed

section \<open>The handler\<close>

lemma deletes_simps [simp]:
  "deletes (ADelete ''Pod'' n r) = Some n" "is_read a \<Longrightarrow> deletes a = None"
  "deletes (ACmd h args ok) = None" "deletes (APatchStatus st r) = None"
  by (cases a; simp add: deletes_def is_read_def)+

lemma points_at_deletes [simp]: "points_at survey p a \<Longrightarrow> deletes a = None"
  by (auto simp: points_at_def)

lemma promotes_pod_deletes [simp]: "promotes_pod p a \<Longrightarrow> deletes a = None"
  by (auto simp: promotes_pod_def)

lemma emits_deletePodByName [emits_rules]:
  "(\<And>r. A (ADelete ''Pod'' n r)) \<Longrightarrow> emits A (deletePodByName env n)"
  unfolding deletePodByName_def by (intro emits_rules)

lemma emits_listRolloutPods [emits_rules]: "emits A (listRolloutPods env)"
  unfolding listRolloutPods_def by (intro emits_rules)

lemma emits_performRollout:
  "emits (\<lambda>a. \<forall>n. deletes a = Some n \<longrightarrow>
      nextRolloutStep pods d pr = rolloutRollReplica n \<or>
      nextRolloutStep pods d pr = rolloutPromote n \<and> bestRolloutTarget survey pods d pr \<noteq> None)
    (performRollout env pw survey pods d pr)"
proof (cases "nextRolloutStep pods d pr")
  case (rolloutRollReplica k)
  then show ?thesis unfolding performRollout_def rolloutRollReplica
    by (simp only: rolloutAction.simps) (intro emits_rules; simp)
next
  case (rolloutPromote k)
  then show ?thesis unfolding performRollout_def rolloutPromote
    by (simp only: rolloutAction.simps)
      (intro emits_rules emits_mono [OF emits_promoteReplica]; auto)
qed (simp_all add: performRollout_def emits_return)

text \<open>
  The handler deletes a pod only on the decision's word: a deleted pod is either a stale
  pod that is not the primary, or the primary when a reachable replica that already runs
  the new revision has been chosen to take over.
\<close>

theorem driveReplicationRollout_deletes:
  assumes "a \<in> set (new_acts w (snd (run_state (driveReplicationRollout env pw survey) w)))"
    and "deletes a = Some n"
  shows "\<exists>sts items. env_sts env (acts w) (statefulSetName (cur w)) = Inr sts \<and>
     env_pods env (acts w) [(instanceLabel, vc_Name (cur w))] = Inr items \<and>
     (let pods = List.map_filter (rolloutPodOf (cur w)) items; d = sts_UpdateRevision sts;
          primary = st_Primary (vc_Status (cur w))
      in nextRolloutStep pods d primary = rolloutRollReplica n \<or>
         nextRolloutStep pods d primary = rolloutPromote n \<and>
         bestRolloutTarget survey pods d primary \<noteq> None)"
proof (cases "env_sts env (acts w) (statefulSetName (cur w))")
  case (Inl e)
  then show ?thesis using assms(1) by (simp add: driveReplicationRollout_def Let_def new_acts_def)
next
  case (Inr sts)
  note sts = Inr
  show ?thesis
  proof (cases "env_pods env (acts w) [(instanceLabel, vc_Name (cur w))]")
    case (Inl e)
    then show ?thesis
      using assms(1) sts by (auto simp: driveReplicationRollout_def listRolloutPods_def Let_def new_acts_def
        split: if_splits)
  next
    case (Inr items)
    let ?pods = "List.map_filter (rolloutPodOf (cur w)) items"
    let ?act = "performRollout env pw survey ?pods (sts_UpdateRevision sts) (st_Primary (vc_Status (cur w)))"
    have "a \<in> set (new_acts w (snd (run_state ?act w)))"
      using assms(1) sts Inr
      by (auto simp: driveReplicationRollout_def listRolloutPods_def Let_def new_acts_def split: if_splits)
    then show ?thesis
      using emits_new_acts [OF emits_performRollout] assms(2) sts Inr by (simp add: Let_def)
  qed
qed

theorem driveReplicationRollout_deletes_witness:
  "ADelete ''Pod'' ''demo-0'' None \<in>
     set (new_acts demo_world (snd (run_state (driveReplicationRollout refusing_env [] demo_survey) demo_world)))
   \<and> nextRolloutStep (List.map_filter (rolloutPodOf demo_vc)
        [demo_pod ''demo-0'' ''r1'', demo_pod ''demo-1'' ''r2'', demo_pod ''demo-2'' ''r2'']) ''r2'' ''demo-0''
      = rolloutPromote ''demo-0''"
proof -
  have d: "ADelete ''Pod'' ''demo-0'' None \<in>
     set (new_acts demo_world (snd (run_state (driveReplicationRollout refusing_env [] demo_survey) demo_world)))"
    by code_simp
  show ?thesis
    using d driveReplicationRollout_deletes [OF d, of "''demo-0''"]
    by (auto simp: refusing_env_def demo_world_def demo_sts_def demo_vc_def Let_def
        dest: nextRolloutStep_replica(2))
qed

text \<open>A pass that finds the whole set goes on to the decision.\<close>

lemma driveReplicationRollout_performs:
  assumes "env_sts env (acts w) (statefulSetName (cur w)) = Inr sts" and "sts_UpdateRevision sts \<noteq> []"
    and "env_pods env (acts w) [(instanceLabel, vc_Name (cur w))] = Inr items"
    and "pods = List.map_filter (rolloutPodOf (cur w)) items"
    and "totalReplicas (cur w) \<le> int32 (int (length pods))"
  shows "run_state (driveReplicationRollout env pw survey) w =
    run_state (performRollout env pw survey pods (sts_UpdateRevision sts) (st_Primary (vc_Status (cur w)))) w"
  using assms by (simp add: driveReplicationRollout_def listRolloutPods_def Let_def)

lemma run_deletePodByName:
  "run_state (deletePodByName env n) w =
     (let r = env_write env (acts w) (WDelete ''Pod'' n)
      in (if r = Some NotFound then None else r, w\<lparr>acts := acts w @ [ADelete ''Pod'' n r]\<rparr>))"
  by (simp add: deletePodByName_def delete_obj_def Let_def)





lemma dialPod_refused:
  assumes "\<forall>t port pw tls cert. \<not> env_dial env t host port pw tls cert"
  shows "run_state (dialPod env vc host pw) w = (None, w\<lparr>acts := acts w @ [ADial host (dataPort vc) pw False]\<rparr>)"
  using loadMTLSClientCert_state [of env vc w] assms
  by (cases "run_state (loadMTLSClientCert env vc) w") (simp add: dialPod_def run_dialReplClient)

text \<open>A promotion that the pod refuses: the old primary is returned and nothing has been promoted.\<close>

lemma promoteReplica_refused:
  assumes "(\<forall>t port pw tls cert. \<not> env_dial env t (pl_host b) port pw tls cert) \<or>
      (\<forall>t. reply_err (env_cmd env t (pl_host b) [''REPLICAOF'', ''NO'', ''ONE'']) \<noteq> None)"
    and "run_state (promoteReplica env pw survey b) w = (r, w')"
  shows "r = st_Primary (vc_Status (cur w)) \<and>
    (\<exists>xs. acts w' = acts w @ xs \<and> (\<forall>a\<in>set xs. is_read a \<or> a = ACmd (pl_host b) [''REPLICAOF'', ''NO'', ''ONE''] False))"
proof -
  obtain c w1 where dial: "run_state (dialPod env (cur w) (pl_host b) pw) w = (c, w1)"
    by (cases "run_state (dialPod env (cur w) (pl_host b) pw) w")
  obtain ok where w1: "w1 = w\<lparr>acts := acts w @ [ADial (pl_host b) (dataPort (cur w)) pw ok]\<rparr>"
    and c: "c = None \<or> c = Some \<lparr>rc_host = pl_host b, rc_port = dataPort (cur w)\<rparr>"
    using dial loadMTLSClientCert_state [of env "cur w" w]
    by (cases "run_state (loadMTLSClientCert env (cur w)) w")
      (auto simp: dialPod_def run_dialReplClient Let_def split: if_splits)
  show ?thesis
  proof (cases c)
    case None
    then show ?thesis using assms(2) dial w1 by (auto simp: promoteReplica_def is_read_def)
  next
    case (Some k)
    then obtain e where "reply_err (env_cmd env (acts w1) (pl_host b) [''REPLICAOF'', ''NO'', ''ONE'']) = Some e"
      using assms(1) dialPod_refused [of env "pl_host b" "cur w" pw w] dial by auto
    then show ?thesis
      using assms(2) dial w1 c Some
      by (auto simp: promoteReplica_def replicaOfNoOne_def run_do_err Let_def is_read_def)
  qed
qed

text \<open>
  C22. The promotion is not checked before the old primary is deleted. Whenever the primary is the
  only stale pod and the replica chosen to take over refuses the connection or the REPLICAOF NO ONE,
  the pass promotes nobody, still names the old primary as the primary, and deletes its pod, so the
  write outage the proactive restart exists to avoid happens anyway.
\<close>

theorem driveReplicationRollout_unpromoted:
  assumes sts: "env_sts env (acts w) (statefulSetName (cur w)) = Inr sts" "sts_UpdateRevision sts = d" "d \<noteq> []"
    and items: "env_pods env (acts w) [(instanceLabel, vc_Name (cur w))] = Inr items"
      "pods = List.map_filter (rolloutPodOf (cur w)) items"
    and full: "totalReplicas (cur w) \<le> int32 (int (length pods))"
    and pr: "pr = st_Primary (vc_Status (cur w))"
    and step: "nextRolloutStep pods d pr = rolloutPromote pr" "bestRolloutTarget survey pods d pr = Some b"
    and refused: "(\<forall>t port pw tls cert. \<not> env_dial env t (pl_host b) port pw tls cert) \<or>
      (\<forall>t. reply_err (env_cmd env t (pl_host b) [''REPLICAOF'', ''NO'', ''ONE'']) \<noteq> None)"
    and run: "run_state (driveReplicationRollout env pw survey) w = ((newPrimary, inProgress, err), w')"
  shows "newPrimary = pr \<and> inProgress \<and> (\<exists>r. ADelete ''Pod'' pr r \<in> set (new_acts w w')) \<and>
    (\<forall>h. ACmd h [''REPLICAOF'', ''NO'', ''ONE''] True \<notin> set (new_acts w w'))"
proof -
  have perform: "run_state (performRollout env pw survey pods d pr) w = ((newPrimary, inProgress, err), w')"
    using driveReplicationRollout_performs [OF sts(1) _ items full] run sts(2,3) pr by simp
  obtain np w1 where np: "run_state (promoteReplica env pw survey b) w = (np, w1)"
    by (cases "run_state (promoteReplica env pw survey b) w")
  obtain xs where "acts w1 = acts w @ xs" and np': "np = pr"
    "\<forall>a\<in>set xs. is_read a \<or> a = ACmd (pl_host b) [''REPLICAOF'', ''NO'', ''ONE''] False"
    using promoteReplica_refused [OF refused np] pr by auto
  moreover have "w' = w1\<lparr>acts := acts w1 @ [ADelete ''Pod'' pr (env_write env (acts w1) (WDelete ''Pod'' pr))]\<rparr>"
    "newPrimary = np" "inProgress"
    using perform step np by (auto simp: performRollout_def run_deletePodByName Let_def)
  ultimately show ?thesis by (auto simp: new_acts_def is_read_def)
qed

theorem driveReplicationRollout_unpromoted_witness:
  "fst (fst (run_state (driveReplicationRollout refusing_env [] demo_survey) demo_world)) = ''demo-0'' \<and>
   (\<exists>r. ADelete ''Pod'' ''demo-0'' r \<in>
      set (new_acts demo_world (snd (run_state (driveReplicationRollout refusing_env [] demo_survey) demo_world))))"
proof -
  let ?items = "[demo_pod ''demo-0'' ''r1'', demo_pod ''demo-1'' ''r2'', demo_pod ''demo-2'' ''r2'']"
  let ?pods = "List.map_filter (rolloutPodOf (cur demo_world)) ?items"
  have read: "env_sts refusing_env (acts demo_world) (statefulSetName (cur demo_world)) = Inr demo_sts"
    "env_pods refusing_env (acts demo_world) [(instanceLabel, vc_Name (cur demo_world))] = Inr ?items"
    by (simp_all add: refusing_env_def)
  have vals: "sts_UpdateRevision demo_sts = ''r2''" "''r2'' \<noteq> []"
    "totalReplicas (cur demo_world) \<le> int32 (int (length ?pods))" "''demo-0'' = st_Primary (vc_Status (cur demo_world))"
    "nextRolloutStep ?pods ''r2'' ''demo-0'' = rolloutPromote ''demo-0''"
    "bestRolloutTarget demo_survey ?pods ''r2'' ''demo-0'' = Some (demo_survey ! 2)" by code_simp+
  have refused: "(\<forall>t port pw tls cert. \<not> env_dial refusing_env t (pl_host (demo_survey ! 2)) port pw tls cert) \<or>
      (\<forall>t. reply_err (env_cmd refusing_env t (pl_host (demo_survey ! 2)) [''REPLICAOF'', ''NO'', ''ONE'']) \<noteq> None)"
    by (simp add: refusing_env_def silent_env_def)
  obtain np busy err w' where run: "run_state (driveReplicationRollout refusing_env [] demo_survey) demo_world = ((np, busy, err), w')"
    by (metis prod.exhaust)
  show ?thesis
    using driveReplicationRollout_unpromoted [OF read(1) vals(1,2) read(2) refl vals(3-6) refused run] run by simp
qed

section \<open>The decision of the Cluster rollout\<close>

lemma handOver_cases:
  "case handOver pods d ss of
     clusterRolloutFailover rp \<Rightarrow> \<exists>s\<in>set ss. rp \<in> set (cs_replicas s) \<and> revOf pods (cs_primary s) \<noteq> d \<and>
       revOf pods rp = d \<and> readyOf pods rp
   | clusterRolloutRollMaster p \<Rightarrow> \<exists>s\<in>set ss. p = cs_primary s \<and> cs_replicas s = [] \<and> revOf pods p \<noteq> d
   | clusterRolloutRollReplica _ \<Rightarrow> False
   | clusterRolloutWait \<Rightarrow> \<exists>s\<in>set ss. cs_replicas s \<noteq> [] \<and> revOf pods (cs_primary s) \<noteq> d \<and>
       (\<forall>rp\<in>set (cs_replicas s). \<not> (revOf pods rp = d \<and> readyOf pods rp))
   | clusterRolloutNone \<Rightarrow> \<forall>s\<in>set ss. revOf pods (cs_primary s) = d"
proof (induction ss)
  case (Cons s ss)
  show ?case
  proof (cases "revOf pods (cs_primary s) = d")
    case True
    then show ?thesis using Cons by (auto split: clusterRolloutAction.splits)
  next
    case False
    show ?thesis
    proof (cases "find (\<lambda>rp. revOf pods rp = d \<and> readyOf pods rp) (cs_replicas s)")
      case None
      then have "\<forall>rp\<in>set (cs_replicas s). \<not> (revOf pods rp = d \<and> readyOf pods rp)"
        by (simp add: find_None_iff)
      then show ?thesis using False None by simp
    next
      case (Some rp)
      then have "rp \<in> set (cs_replicas s)" "revOf pods rp = d" "readyOf pods rp"
        by (auto simp: find_Some_iff)
      then show ?thesis using False Some by simp
    qed
  qed
qed simp

lemma nextClusterRolloutStep_decision:
  "case nextClusterRolloutStep pods shards d of
     clusterRolloutRollReplica rp \<Rightarrow> list_all rp_ready pods \<and>
       (\<exists>s\<in>set shards. rp \<in> set (cs_replicas s)) \<and> revOf pods rp \<noteq> d
   | clusterRolloutFailover rp \<Rightarrow> list_all rp_ready pods \<and> staleReplicas pods shards d = [] \<and>
       (\<exists>s\<in>set shards. rp \<in> set (cs_replicas s) \<and> revOf pods (cs_primary s) \<noteq> d \<and>
          revOf pods rp = d \<and> readyOf pods rp)
   | clusterRolloutRollMaster p \<Rightarrow> list_all rp_ready pods \<and> staleReplicas pods shards d = [] \<and>
       (\<exists>s\<in>set shards. p = cs_primary s \<and> cs_replicas s = [] \<and> revOf pods p \<noteq> d)
   | clusterRolloutWait \<Rightarrow> \<not> list_all rp_ready pods \<or>
       (\<exists>s\<in>set shards. cs_replicas s \<noteq> [] \<and> revOf pods (cs_primary s) \<noteq> d)
   | clusterRolloutNone \<Rightarrow> pods = [] \<or> d = [] \<or> shards = [] \<or> (\<forall>p\<in>set pods. rp_revision p = d) \<or>
       staleReplicas pods shards d = [] \<and> (\<forall>s\<in>set shards. revOf pods (cs_primary s) = d)"
proof (cases "pods = [] \<or> d = [] \<or> shards = [] \<or> \<not> list_ex (\<lambda>p. rp_revision p \<noteq> d) pods \<or> \<not> list_all rp_ready pods")
  case True
  then show ?thesis by (auto simp: nextClusterRolloutStep_def list_ex_iff)
next
  case False
  show ?thesis
  proof (cases "sort (staleReplicas pods shards d)")
    case Nil
    then have "staleReplicas pods shards d = []" by (metis set_empty set_sort)
    moreover have "nextClusterRolloutStep pods shards d = handOver pods d (sort_key cs_primary shards)"
      using False Nil by (simp add: nextClusterRolloutStep_def)
    ultimately show ?thesis
      using handOver_cases [where pods = pods and d = d and ss = "sort_key cs_primary shards"] False
      by (cases "handOver pods d (sort_key cs_primary shards)") auto
  next
    case (Cons rp rest)
    then have "rp \<in> set (staleReplicas pods shards d)" by (metis list.set_intros(1) set_sort)
    then show ?thesis
      using False Cons by (auto simp: nextClusterRolloutStep_def staleReplicas_def)
  qed
qed

text \<open>
  C9. The Cluster rollout disturbs one node at a time and never takes a slot owner down while
  it has a replica. It acts only when every pod is Ready. A deleted replica is stale; a master
  is handed over only after every replica of every shard is fresh, to a fresh Ready replica of
  its own shard; a master is deleted directly only when its shard has no replica at all.
\<close>

theorem nextClusterRolloutStep_safe:
  "case nextClusterRolloutStep pods shards d of
     clusterRolloutRollReplica rp \<Rightarrow> list_all rp_ready pods \<and>
       (\<exists>s\<in>set shards. rp \<in> set (cs_replicas s)) \<and> revOf pods rp \<noteq> d
   | clusterRolloutFailover rp \<Rightarrow> list_all rp_ready pods \<and> staleReplicas pods shards d = [] \<and>
       (\<exists>s\<in>set shards. rp \<in> set (cs_replicas s) \<and> revOf pods (cs_primary s) \<noteq> d \<and>
          revOf pods rp = d \<and> readyOf pods rp)
   | clusterRolloutRollMaster p \<Rightarrow> list_all rp_ready pods \<and> staleReplicas pods shards d = [] \<and>
       (\<exists>s\<in>set shards. p = cs_primary s \<and> cs_replicas s = [] \<and> revOf pods p \<noteq> d)
   | clusterRolloutWait \<Rightarrow> \<not> list_all rp_ready pods \<or>
       (\<exists>s\<in>set shards. cs_replicas s \<noteq> [] \<and> revOf pods (cs_primary s) \<noteq> d)
   | clusterRolloutNone \<Rightarrow> pods = [] \<or> d = [] \<or> shards = [] \<or> (\<forall>p\<in>set pods. rp_revision p = d) \<or>
       staleReplicas pods shards d = [] \<and> (\<forall>s\<in>set shards. revOf pods (cs_primary s) = d)"
  by (rule nextClusterRolloutStep_decision)

theorem nextClusterRolloutStep_safe_witness:
  "nextClusterRolloutStep demo_pods [\<lparr>cs_primary = ''demo-0'', cs_replicas = [''demo-1'']\<rparr>] ''r2''
     = clusterRolloutRollReplica ''demo-1'' \<and>
   list_all rp_ready demo_pods \<and> revOf demo_pods ''demo-1'' \<noteq> ''r2''"
proof -
  have "nextClusterRolloutStep demo_pods [\<lparr>cs_primary = ''demo-0'', cs_replicas = [''demo-1'']\<rparr>] ''r2''
     = clusterRolloutRollReplica ''demo-1''" by code_simp
  then show ?thesis
    using nextClusterRolloutStep_safe [where pods = demo_pods and d = "''r2''"
        and shards = "[\<lparr>cs_primary = ''demo-0'', cs_replicas = [''demo-1'']\<rparr>]"]
    by simp
qed

end
