(* ===== verification/Cluster_Survey.thy ===== *)
theory Cluster_Survey
  imports Rollout
begin

text \<open>
  The view the operator has of a Cluster (\<open>src/internal/controller/cluster.go\<close>): the parser
  of CLUSTER NODES, the slot count, the shard table built from it, the replication lag, and
  the status the table is summarised into. The lemmas relate the parser to the printed form
  of a node table and the two-pass construction of the shards to a direct description.
\<close>

section \<open>CLUSTER NODES\<close>

record clusterNode =
  cn_id :: string
  cn_podName :: string
  cn_flags :: "string list"
  cn_masterID :: string
  cn_slots :: "string list"
  cn_linkState :: string

definition isMaster :: "clusterNode \<Rightarrow> bool" where
  "isMaster n \<longleftrightarrow> roleMaster \<in> set (cn_flags n)"

definition isHealthy :: "clusterNode \<Rightarrow> bool" where
  "isHealthy n \<longleftrightarrow> cn_linkState n = ''connected'' \<and>
     list_all (\<lambda>f. f \<noteq> ''fail'' \<and> f \<noteq> ''fail?'' \<and> f \<noteq> ''noaddr'') (cn_flags n)"

definition addrPodName :: "string \<Rightarrow> string" where
  "addrPodName addr =
     (case IndexByte addr (CHR '','') of
        Some i \<Rightarrow> podNameFromFQDN (drop (Suc i) addr)
      | None \<Rightarrow> (case IndexByte addr (CHR ''@'') of
                  Some i \<Rightarrow> podNameFromFQDN (take i addr)
                | None \<Rightarrow> []))"

definition parseClusterLine :: "string \<Rightarrow> clusterNode option" where
  "parseClusterLine line =
     (let fields = Fields line
      in if length fields < 8 then None
         else Some \<lparr>cn_id = fields ! 0, cn_podName = addrPodName (fields ! 1),
           cn_flags = SplitByte (fields ! 2) (CHR '',''),
           cn_masterID = (if fields ! 3 \<noteq> ''-'' then fields ! 3 else []),
           cn_slots = filter (\<lambda>tok. \<not> HasPrefix tok ''['') (drop 8 fields),
           cn_linkState = fields ! 7\<rparr>)"

definition parseClusterNodes :: "string \<Rightarrow> clusterNode list" where
  "parseClusterNodes raw = List.map_filter parseClusterLine (SplitByte (TrimSpace raw) (CHR 0x0A))"

definition slotTokenCount :: "string \<Rightarrow> int" where
  "slotTokenCount t =
     (case IndexByte t (CHR ''-'') of
        Some (Suc k) \<Rightarrow>
          (case (Atoi (take (Suc k) t), Atoi (drop (Suc (Suc k)) t)) of
             (Some lo, Some hi) \<Rightarrow> if hi \<ge> lo then int32 (hi - lo + 1) else 0
           | _ \<Rightarrow> 0)
      | _ \<Rightarrow> (case Atoi t of Some _ \<Rightarrow> 1 | None \<Rightarrow> 0))"

definition slotsCount :: "string list \<Rightarrow> int" where
  "slotsCount tokens = fold (\<lambda>t total. int32 (total + slotTokenCount t)) tokens 0"

section \<open>The shard table\<close>

definition masterShard :: "int \<Rightarrow> clusterNode \<Rightarrow> ShardStatus" where
  "masterShard idx n = \<lparr>sh_Index = idx, sh_Primary = cn_podName n, sh_PrimaryNodeID = cn_id n,
     sh_Replicas = [], sh_SlotRanges = cn_slots n, sh_SlotCount = slotsCount (cn_slots n),
     sh_Health = (if isHealthy n then ShardHealthReady else ShardHealthDown),
     sh_PrimaryOffset = 0, sh_ReplicaOffsets = [], sh_MaxLagBytes = 0\<rparr>"

fun masterShards :: "int \<Rightarrow> clusterNode list \<Rightarrow> ShardStatus list" where
  "masterShards idx [] = []"
| "masterShards idx (n # ns) =
     (if isMaster n then masterShard idx n # masterShards (int32 (idx + 1)) ns
      else masterShards idx ns)"

definition attach :: "clusterNode \<Rightarrow> ShardStatus \<Rightarrow> ShardStatus" where
  "attach n s = s\<lparr>sh_Replicas := sh_Replicas s @ [cn_podName n],
     sh_Health := (if \<not> isHealthy n \<and> sh_Health s = ShardHealthReady then ShardHealthDegraded
                   else sh_Health s)\<rparr>"

text \<open>\<open>byID[n.masterID]\<close>: the last shard recorded under that node ID.\<close>

fun attach_last :: "clusterNode \<Rightarrow> ShardStatus list \<Rightarrow> ShardStatus list" where
  "attach_last n [] = []"
| "attach_last n (s # ss) =
     (if \<exists>x\<in>set ss. sh_PrimaryNodeID x = cn_masterID n then s # attach_last n ss
      else if sh_PrimaryNodeID s = cn_masterID n then attach n s # ss
      else s # ss)"

definition attachReplica :: "clusterNode \<Rightarrow> ShardStatus list \<Rightarrow> ShardStatus list" where
  "attachReplica n shards =
     (if isMaster n \<or> cn_masterID n = [] then shards else attach_last n shards)"

definition buildShards :: "clusterNode list \<Rightarrow> ShardStatus list" where
  "buildShards nodes = fold attachReplica nodes (masterShards 0 nodes)"

definition dialShardPod :: "env \<Rightarrow> string \<Rightarrow> string \<Rightarrow> replClient option op" where
  "dialShardPod env password pod = do {
     vc \<leftarrow> get_vc;
     dialPod env vc (podFQDN vc pod) password }"

text \<open>\<open>if v, ok := info[key]; ok { if n, err := strconv.ParseInt(v, 10, 64); err == nil { x = n } }\<close>\<close>

definition offsetField :: "(string \<rightharpoonup> string) \<Rightarrow> string \<Rightarrow> int \<Rightarrow> int" where
  "offsetField m key old = (case m key of Some v \<Rightarrow> parse_or 64 v old | None \<Rightarrow> old)"

definition replicaLag :: "env \<Rightarrow> string \<Rightarrow> string \<Rightarrow> ShardStatus \<times> int \<Rightarrow> (ShardStatus \<times> int) op" where
  "replicaLag env password pod acc = do {
     rc \<leftarrow> dialShardPod env password pod;
     case rc of
       None \<Rightarrow> State_Monad.return acc
     | Some c \<Rightarrow> do {
         im \<leftarrow> info env c;
         State_Monad.return (case im of
             None \<Rightarrow> acc
           | Some m \<Rightarrow>
               (let (s, maxLag) = acc;
                    off = offsetField m ''slave_repl_offset'' 0;
                    s = s\<lparr>sh_ReplicaOffsets := sh_ReplicaOffsets s @ [\<lparr>ro_Pod = pod, ro_Offset = off\<rparr>]\<rparr>;
                    lag = int64 (sh_PrimaryOffset s - off)
                in (s, if lag > maxLag then lag else maxLag))) } }"

definition shardLag :: "env \<Rightarrow> string \<Rightarrow> ShardStatus \<Rightarrow> ShardStatus op" where
  "shardLag env password s =
     (if sh_Health s = ShardHealthDown \<or> sh_Primary s = [] then State_Monad.return s
      else do {
        pc \<leftarrow> dialShardPod env password (sh_Primary s);
        case pc of
          None \<Rightarrow> State_Monad.return s
        | Some c \<Rightarrow> do {
            im \<leftarrow> info env c;
            case im of
              None \<Rightarrow> State_Monad.return s
            | Some m \<Rightarrow> do {
                let s = s\<lparr>sh_PrimaryOffset := offsetField m ''master_repl_offset'' (sh_PrimaryOffset s)\<rparr>;
                (s, maxLag) \<leftarrow> fold_state (replicaLag env password) (sh_Replicas s) (s, 0);
                State_Monad.return (s\<lparr>sh_MaxLagBytes := maxLag\<rparr>) } } })"

definition fillReplicaLag :: "env \<Rightarrow> string \<Rightarrow> ShardStatus list \<Rightarrow> ShardStatus list op" where
  "fillReplicaLag env password shards = map_state (shardLag env password) shards"

definition surveyCluster :: "env \<Rightarrow> string \<Rightarrow> ShardStatus list op" where
  "surveyCluster env password = do {
     vc \<leftarrow> get_vc;
     c \<leftarrow> dialPod env vc (clusterAnyPodHost vc) password;
     case c of
       None \<Rightarrow> State_Monad.return []
     | Some c \<Rightarrow> do {
         raw \<leftarrow> clusterNodes env c;
         case raw of
           None \<Rightarrow> State_Monad.return []
         | Some raw \<Rightarrow> fillReplicaLag env password (buildShards (parseClusterNodes raw)) } }"

section \<open>The status\<close>

definition healthName :: "ShardHealth \<Rightarrow> string" where
  "healthName h = (case h of ShardHealthReady \<Rightarrow> ''Ready'' | ShardHealthDegraded \<Rightarrow> ''Degraded''
     | ShardHealthDown \<Rightarrow> ''Down'' | ShardHealthUnknown \<Rightarrow> ''Unknown'')"

fun summarizeShards :: "ShardStatus list \<Rightarrow> int \<times> string list" where
  "summarizeShards [] = (0, [])"
| "summarizeShards (s # ss) =
     (let (ready, bad) = summarizeShards ss
      in if sh_Health s = ShardHealthReady then (int32 (ready + 1), bad)
         else (ready, (Itoa (sh_Index s) @ '':'' @ healthName (sh_Health s)) # bad))"

section \<open>The printed form of a node table\<close>

definition word :: "string \<Rightarrow> bool" where
  "word s \<longleftrightarrow> s \<noteq> [] \<and> list_all (\<lambda>c. \<not> is_space c) s"

text \<open>
  One line of CLUSTER NODES as the servers print it: the node, its address \<open>ip:port@bus\<close>, its
  announced host name and the three time and epoch fields.
\<close>

definition nodeFields :: "clusterNode \<Rightarrow> string \<Rightarrow> string \<Rightarrow> string list \<Rightarrow> string list" where
  "nodeFields n ep host ts =
     [cn_id n, ep @ '','' @ host, Join (cn_flags n) '','',
      if cn_masterID n = [] then ''-'' else cn_masterID n] @ ts @ [cn_linkState n] @ cn_slots n"

definition nodeLine :: "clusterNode \<times> string \<times> string \<times> string list \<Rightarrow> string" where
  "nodeLine e = (case e of (n, ep, host, ts) \<Rightarrow> Join (nodeFields n ep host ts) '' '')"

definition wf_entry :: "clusterNode \<times> string \<times> string \<times> string list \<Rightarrow> bool" where
  "wf_entry e = (case e of (n, ep, host, ts) \<Rightarrow>
     word (cn_id n) \<and> word ep \<and> CHR '','' \<notin> set ep \<and> word host \<and> cn_podName n = podNameFromFQDN host \<and>
     cn_flags n \<noteq> [] \<and> list_all (\<lambda>f. word f \<and> CHR '','' \<notin> set f) (cn_flags n) \<and>
     (cn_masterID n = [] \<or> word (cn_masterID n) \<and> cn_masterID n \<noteq> ''-'') \<and>
     length ts = 3 \<and> list_all word ts \<and> word (cn_linkState n) \<and>
     list_all (\<lambda>t. word t \<and> \<not> HasPrefix t ''['') (cn_slots n))"

text \<open>What a shard of the table should be, read off the nodes directly.\<close>

definition replicas_in :: "clusterNode list \<Rightarrow> string \<Rightarrow> clusterNode list" where
  "replicas_in nodes mid = filter (\<lambda>n. \<not> isMaster n \<and> cn_masterID n = mid) nodes"

definition shard_of :: "clusterNode list \<Rightarrow> int \<Rightarrow> clusterNode \<Rightarrow> ShardStatus" where
  "shard_of nodes idx m = (masterShard idx m)\<lparr>
     sh_Replicas := map cn_podName (replicas_in nodes (cn_id m)),
     sh_Health := (if \<not> isHealthy m then ShardHealthDown
                   else if list_all isHealthy (replicas_in nodes (cn_id m)) then ShardHealthReady
                   else ShardHealthDegraded)\<rparr>"

definition demo_nodes :: "(clusterNode \<times> string \<times> string \<times> string list) list" where
  "demo_nodes =
    [(\<lparr>cn_id = ''a1'', cn_podName = ''demo-0'', cn_flags = [''myself'', ''master''], cn_masterID = [],
       cn_slots = [''0-5460''], cn_linkState = ''connected''\<rparr>,
      ''10.0.0.1:6379@16379'', demo_host 0, [''0'', ''0'', ''1'']),
     (\<lparr>cn_id = ''b2'', cn_podName = ''demo-1'', cn_flags = [''slave''], cn_masterID = ''a1'',
       cn_slots = [], cn_linkState = ''connected''\<rparr>,
      ''10.0.0.2:6379@16379'', demo_host 1, [''0'', ''17'', ''1''])]"

text \<open>A slot token and the slots it stands for.\<close>

definition slotToken :: "int \<times> int \<Rightarrow> string" where
  "slotToken r = (if fst r = snd r then Itoa (fst r) else Itoa (fst r) @ ''-'' @ Itoa (snd r))"

definition slotsIn :: "(int \<times> int) list \<Rightarrow> int list" where
  "slotsIn rs = concat (map (\<lambda>(lo, hi). [lo..hi]) rs)"

section \<open>The parser and the printed form\<close>

lemma word_space: "word w \<Longrightarrow> c \<in> set w \<Longrightarrow> \<not> is_space c"
  by (simp add: word_def list_all_iff)

lemma Join_chars: "c \<in> set (Join ws sep) \<Longrightarrow> c \<in> set sep \<or> (\<exists>w\<in>set ws. c \<in> set w)"
  by (induction ws sep rule: Join.induct) auto

lemma Join_word:
  assumes "ws \<noteq> []" and "\<And>w. w \<in> set ws \<Longrightarrow> word w" and "\<And>c. c \<in> set sep \<Longrightarrow> \<not> is_space c"
  shows "word (Join ws sep)"
  using assms by (induction ws sep rule: Join.induct) (auto simp: word_def list_all_iff)

lemma Join_eq_Nil: "Join ws sep = [] \<Longrightarrow> ws \<noteq> [] \<Longrightarrow> word (hd ws) \<Longrightarrow> False"
  by (induction ws sep rule: Join.induct) (auto simp: word_def)

lemma hd_Join: "ws \<noteq> [] \<Longrightarrow> word (hd ws) \<Longrightarrow> hd (Join ws sep) = hd (hd ws)"
  by (induction ws sep rule: Join.induct) (auto simp: word_def)

lemma Join_eq_Nil_last: "Join ws sep = [] \<Longrightarrow> ws \<noteq> [] \<Longrightarrow> word (last ws) \<Longrightarrow> False"
  by (induction ws sep rule: Join.induct) (auto simp: word_def)

lemma last_Join: "ws \<noteq> [] \<Longrightarrow> word (last ws) \<Longrightarrow> last (Join ws sep) = last (last ws)"
proof (induction ws sep rule: Join.induct)
  case (3 w v ws sep)
  then have "Join (v # ws) sep \<noteq> []" using Join_eq_Nil_last [of "v # ws" sep] by auto
  then show ?case using 3 by simp
qed (auto simp: word_def)

lemma TrimSpace_id: "s \<noteq> [] \<Longrightarrow> \<not> is_space (hd s) \<Longrightarrow> \<not> is_space (last s) \<Longrightarrow> TrimSpace s = s"
proof -
  assume ne: "s \<noteq> []" and h: "\<not> is_space (hd s)" and l: "\<not> is_space (last s)"
  have "dropWhile is_space s = s" using ne h by (cases s) auto
  moreover have "dropWhile is_space (rev s) = rev s" using ne l
    by (cases s rule: rev_cases) auto
  ultimately show ?thesis by (simp add: TrimSpace_def)
qed

lemma TrimSpace_Join:
  assumes "ls \<noteq> []" and "\<And>l. l \<in> set ls \<Longrightarrow> l \<noteq> [] \<and> \<not> is_space (hd l) \<and> \<not> is_space (last l)"
  shows "TrimSpace (Join ls sep) = Join ls sep"
proof -
  have "Join ls sep \<noteq> [] \<and> hd (Join ls sep) = hd (hd ls) \<and> last (Join ls sep) = last (last ls)"
    using assms by (induction ls sep rule: Join.induct) auto
  then show ?thesis using assms by (intro TrimSpace_id) auto
qed

lemma not_space_chars: "\<not> is_space (CHR '','')" "is_space (CHR '' '')" "is_space (CHR 0x0A)"
  by (simp_all add: is_space_def)

lemma nodeFields_words:
  assumes "wf_entry (n, ep, host, ts)"
  shows "list_all word (nodeFields n ep host ts)"
proof -
  have "word (Join (cn_flags n) '','')"
    using assms by (intro Join_word) (auto simp: wf_entry_def list_all_iff not_space_chars)
  moreover have "word (ep @ '','' @ host)"
    using assms by (auto simp: wf_entry_def word_def not_space_chars)
  moreover have "word ''-''" by (simp add: word_def is_space_def)
  ultimately show ?thesis using assms by (auto simp: wf_entry_def nodeFields_def list_all_iff)
qed

lemma Fields_nodeLine:
  "wf_entry (n, ep, host, ts) \<Longrightarrow> Fields (nodeLine (n, ep, host, ts)) = nodeFields n ep host ts"
  using nodeFields_words [of n ep host ts] unfolding nodeLine_def
  by (simp add: Fields_Join list_all_iff word_def not_space_chars)

lemma parseClusterLine_nodeLine:
  assumes wf: "wf_entry (n, ep, host, ts)"
  shows "parseClusterLine (nodeLine (n, ep, host, ts)) = Some n"
proof -
  obtain a b c where ts: "ts = [a, b, c]" using wf
    by (auto simp: wf_entry_def numeral_3_eq_3 length_Suc_conv)
  have flags: "SplitByte (Join (cn_flags n) '','') (CHR '','') = cn_flags n"
    using wf by (intro SplitByte_Join) (auto simp: wf_entry_def list_all_iff)
  have pod: "addrPodName (ep @ CHR '','' # host) = cn_podName n"
    using wf by (simp add: addrPodName_def wf_entry_def IndexByte_append_notin)
  have slots: "filter (\<lambda>tok. \<not> HasPrefix tok ''['') (cn_slots n) = cn_slots n"
    using wf by (auto simp: wf_entry_def list_all_iff filter_id_conv)
  have fields: "Fields (nodeLine (n, ep, host, ts)) =
      [cn_id n, ep @ '','' @ host, Join (cn_flags n) '','',
       if cn_masterID n = [] then ''-'' else cn_masterID n, a, b, c, cn_linkState n] @ cn_slots n"
    using Fields_nodeLine [OF wf] by (simp add: nodeFields_def ts)
  show ?thesis using wf unfolding parseClusterLine_def fields
    by (auto simp: Let_def flags pod slots wf_entry_def word_def)
qed

lemma nodeLine_chars: "wf_entry e \<Longrightarrow> CHR 0x0A \<notin> set (nodeLine e)"
proof (cases e)
  fix n ep host ts assume wf: "wf_entry e" and e: "e = (n, ep, host, ts)"
  show ?thesis
  proof
    assume "CHR 0x0A \<in> set (nodeLine e)"
    then have "\<exists>w\<in>set (nodeFields n ep host ts). CHR 0x0A \<in> set w"
      using Join_chars [of "CHR 0x0A" "nodeFields n ep host ts" "'' ''"] by (simp add: nodeLine_def e)
    then obtain w where w: "w \<in> set (nodeFields n ep host ts)" "CHR 0x0A \<in> set w" by blast
    have "word w" using nodeFields_words [of n ep host ts] wf e w(1) by (simp add: list_all_iff)
    then show False using word_space [OF _ w(2)] not_space_chars(3) by blast
  qed
qed

lemma nodeLine_ends:
  assumes "wf_entry e"
  shows "nodeLine e \<noteq> [] \<and> \<not> is_space (hd (nodeLine e)) \<and> \<not> is_space (last (nodeLine e))"
proof (cases e)
  fix n ep host ts assume e: "e = (n, ep, host, ts)"
  let ?ws = "nodeFields n ep host ts"
  have words: "list_all word ?ws" using nodeFields_words assms e by simp
  have ne: "?ws \<noteq> []" by (simp add: nodeFields_def)
  have w: "word (hd ?ws)" "word (last ?ws)" using words ne by (auto simp: list_all_iff)
  have "hd (hd ?ws) \<in> set (hd ?ws)" "last (last ?ws) \<in> set (last ?ws)"
    using w by (auto simp: word_def)
  then show ?thesis using w ne Join_eq_Nil [of ?ws "'' ''"] word_space
    by (auto simp: nodeLine_def e hd_Join last_Join)
qed

text \<open>
  C20. A node table printed line by line by the servers is read back exactly: for every list of
  well-formed entries, \<open>parseClusterNodes\<close> returns the nodes, in order, with their pod name,
  flags, primary, link state and slots.
\<close>

theorem parseClusterNodes_roundtrip:
  assumes "es \<noteq> []" and wf: "\<And>e. e \<in> set es \<Longrightarrow> wf_entry e"
  shows "parseClusterNodes (Join (map nodeLine es) [CHR 0x0A]) = map fst es"
proof -
  let ?ls = "map nodeLine es"
  have line: "parseClusterLine (nodeLine e) = Some (fst e)" if "e \<in> set es" for e
    using parseClusterLine_nodeLine wf [OF that] by (cases e) auto
  have sub: "List.map_filter parseClusterLine (map nodeLine xs) = map fst xs"
    if "set xs \<subseteq> set es" for xs
    using that by (induction xs) (auto simp: List.map_filter_simps line)
  have ends: "l \<noteq> []" "\<not> is_space (hd l)" "\<not> is_space (last l)" if "l \<in> set ?ls" for l
    using nodeLine_ends wf that by auto
  have "TrimSpace (Join ?ls [CHR 0x0A]) = Join ?ls [CHR 0x0A]"
    using assms(1) ends by (intro TrimSpace_Join) auto
  moreover have "SplitByte (Join ?ls [CHR 0x0A]) (CHR 0x0A) = ?ls"
    using assms nodeLine_chars by (intro SplitByte_Join) auto
  ultimately show ?thesis using sub [of es] by (simp add: parseClusterNodes_def)
qed

theorem parseClusterNodes_roundtrip_witness:
  "list_all wf_entry demo_nodes \<and>
   parseClusterNodes (Join (map nodeLine demo_nodes) [CHR 0x0A]) = map fst demo_nodes"
proof -
  have wf: "list_all wf_entry demo_nodes" by code_simp
  then show ?thesis using parseClusterNodes_roundtrip [of demo_nodes]
    by (auto simp: list_all_iff demo_nodes_def)
qed

section \<open>The shard table against its direct description\<close>

lemma masterShards_enumerate:
  "0 \<le> idx \<Longrightarrow> idx + int (length nodes) < 2 ^ 31 \<Longrightarrow>
   masterShards idx nodes =
     map (\<lambda>(i, m). masterShard (int i) m) (enumerate (nat idx) (filter isMaster nodes))"
proof (induction nodes arbitrary: idx)
  case (Cons n ns)
  have "int32 (idx + 1) = idx + 1" using Cons.prems by (intro int32_id) auto
  then show ?case using Cons by (simp add: nat_add_distrib)
qed simp

lemma attach_last_distinct:
  "distinct (map sh_PrimaryNodeID ss) \<Longrightarrow>
   attach_last n ss = map (\<lambda>s. if sh_PrimaryNodeID s = cn_masterID n then attach n s else s) ss"
proof (induction ss)
  case (Cons s ss)
  have "map (\<lambda>s. if sh_PrimaryNodeID s = cn_masterID n then attach n s else s) ss = ss"
    if "\<not> (\<exists>x\<in>set ss. sh_PrimaryNodeID x = cn_masterID n)"
    using that by (intro map_idI) auto
  then show ?case using Cons by (auto simp: image_iff)
qed simp

lemma shard_of_Nil: "shard_of [] idx m = masterShard idx m"
  by (simp add: shard_of_def replicas_in_def masterShard_def)

lemma sh_PrimaryNodeID_shard_of [simp]: "sh_PrimaryNodeID (shard_of ns idx m) = cn_id m"
  by (simp add: shard_of_def masterShard_def)

lemma shard_of_attach:
  "\<not> isMaster n \<Longrightarrow> cn_masterID n = cn_id m \<Longrightarrow>
   attach n (shard_of ns idx m) = shard_of (ns @ [n]) idx m"
  by (simp add: attach_def shard_of_def replicas_in_def)

lemma shard_of_other:
  "isMaster n \<or> cn_masterID n \<noteq> cn_id m \<Longrightarrow> shard_of (ns @ [n]) idx m = shard_of ns idx m"
  by (auto simp: shard_of_def replicas_in_def)

lemma attachReplica_shard_of:
  assumes "distinct (map (cn_id \<circ> snd) es)" and "\<And>m. m \<in> snd ` set es \<Longrightarrow> cn_id m \<noteq> []"
  shows "attachReplica n (map (\<lambda>(i, m). shard_of ns (int i) m) es) =
         map (\<lambda>(i, m). shard_of (ns @ [n]) (int i) m) es"
proof (cases "isMaster n \<or> cn_masterID n = []")
  case True
  then have "shard_of (ns @ [n]) (int i) m = shard_of ns (int i) m" if "(i, m) \<in> set es" for i m
    using assms(2) that by (intro shard_of_other) force
  then show ?thesis using True by (auto simp: attachReplica_def)
next
  case False
  have "map sh_PrimaryNodeID (map (\<lambda>(i, m). shard_of ns (int i) m) es) = map (cn_id \<circ> snd) es"
    by auto
  then have "attachReplica n (map (\<lambda>(i, m). shard_of ns (int i) m) es) =
      map (\<lambda>s. if sh_PrimaryNodeID s = cn_masterID n then attach n s else s)
        (map (\<lambda>(i, m). shard_of ns (int i) m) es)"
    using False assms(1) by (simp only: attachReplica_def attach_last_distinct if_False)
  then show ?thesis using False by (auto simp: shard_of_attach shard_of_other)
qed

lemma fold_attachReplica:
  assumes "distinct (map (cn_id \<circ> snd) es)" and "\<And>m. m \<in> snd ` set es \<Longrightarrow> cn_id m \<noteq> []"
  shows "fold attachReplica xs (map (\<lambda>(i, m). shard_of ns (int i) m) es) =
         map (\<lambda>(i, m). shard_of (ns @ xs) (int i) m) es"
proof (induction xs arbitrary: ns)
  case (Cons n xs)
  show ?case using Cons.IH [of "ns @ [n]"] by (simp add: attachReplica_shard_of [OF assms])
qed simp

text \<open>
  C21. The shard table is what the node table says: one shard per primary, in the order of the
  node table and numbered from 0, holding the primary's slots, exactly the pods of the nodes
  that replicate it, and the health Down when the primary is unhealthy, Degraded when only one
  of its replicas is, Ready otherwise.
\<close>

theorem buildShards_table:
  assumes "distinct (map cn_id (filter isMaster nodes))"
    and "[] \<notin> cn_id ` set nodes" and "int (length nodes) < 2 ^ 31"
  shows "buildShards nodes =
    map (\<lambda>(i, m). shard_of nodes (int i) m) (enumerate 0 (filter isMaster nodes))"
proof -
  let ?es = "enumerate 0 (filter isMaster nodes)"
  have "map (cn_id \<circ> snd) ?es = map cn_id (filter isMaster nodes)"
    by (simp flip: map_map)
  then have distinct: "distinct (map (cn_id \<circ> snd) ?es)" using assms(1) by simp
  have "snd ` set ?es = set (filter isMaster nodes)"
    by (metis map_snd_enumerate set_map)
  then have ids: "cn_id m \<noteq> []" if "m \<in> snd ` set ?es" for m using assms(2) that by force
  have "masterShards 0 nodes = map (\<lambda>(i, m). shard_of [] (int i) m) ?es"
    using assms(3) by (simp add: masterShards_enumerate shard_of_Nil)
  then show ?thesis
    using fold_attachReplica [OF distinct ids, of nodes "[]"] by (simp add: buildShards_def)
qed

theorem buildShards_table_witness:
  "sh_Replicas (hd (buildShards (map fst demo_nodes))) = [''demo-1''] \<and>
   buildShards (map fst demo_nodes) =
     map (\<lambda>(i, m). shard_of (map fst demo_nodes) (int i) m)
       (enumerate 0 (filter isMaster (map fst demo_nodes)))"
  by (rule conjI, code_simp, rule buildShards_table) (code_simp, code_simp, simp add: demo_nodes_def)

section \<open>Counting slots\<close>

lemma Atoi_Itoa: "0 \<le> i \<Longrightarrow> i < 2 ^ 31 \<Longrightarrow> Atoi (Itoa i) = Some i"
  unfolding Atoi_def by (rule ParseInt_Itoa) auto

lemma dash_notin_Itoa: "0 \<le> i \<Longrightarrow> CHR ''-'' \<notin> set (Itoa i)"
  using Itoa_nonneg_digits not_digit_signs(1) by blast

lemma slotTokenCount_token:
  assumes "0 \<le> lo" and "lo \<le> hi" and "hi < 16384"
  shows "slotTokenCount (slotToken (lo, hi)) = hi - lo + 1"
proof (cases "lo = hi")
  case True
  then have "IndexByte (slotToken (lo, hi)) (CHR ''-'') = None"
    using assms dash_notin_Itoa by (simp add: slotToken_def IndexByte_None_iff)
  then show ?thesis using True assms by (simp add: slotTokenCount_def slotToken_def Atoi_Itoa)
next
  case False
  have idx: "IndexByte (slotToken (lo, hi)) (CHR ''-'') = Some (length (Itoa lo))"
    using False assms dash_notin_Itoa by (simp add: slotToken_def IndexByte_append_notin)
  obtain k where k: "length (Itoa lo) = Suc k" by (cases "Itoa lo") auto
  have "take (Suc k) (slotToken (lo, hi)) = Itoa lo" "drop (Suc (Suc k)) (slotToken (lo, hi)) = Itoa hi"
    using False k by (simp_all add: slotToken_def)
  then show ?thesis using assms idx k by (simp add: slotTokenCount_def Atoi_Itoa int32_id)
qed

lemma slotsCount_fold:
  assumes "\<And>lo hi. (lo, hi) \<in> set rs \<Longrightarrow> 0 \<le> lo \<and> lo \<le> hi \<and> hi < 16384"
    and "0 \<le> a" and "a + int (length (slotsIn rs)) \<le> 16384"
  shows "fold (\<lambda>t total. int32 (total + slotTokenCount t)) (map slotToken rs) a
         = a + int (length (slotsIn rs))"
  using assms
proof (induction rs arbitrary: a)
  case (Cons r rs)
  obtain lo hi where r: "r = (lo, hi)" by (cases r)
  have b: "0 \<le> lo" "lo \<le> hi" "hi < 16384" using Cons.prems(1) r by auto
  have len: "int (length (slotsIn (r # rs))) = hi - lo + 1 + int (length (slotsIn rs))"
    using b by (simp add: slotsIn_def r)
  have step: "int32 (a + slotTokenCount (slotToken r)) = a + (hi - lo + 1)"
    using Cons.prems(2,3) b len by (simp add: slotTokenCount_token r int32_id)
  have "fold (\<lambda>t total. int32 (total + slotTokenCount t)) (map slotToken rs) (a + (hi - lo + 1))
      = a + (hi - lo + 1) + int (length (slotsIn rs))"
    by (rule Cons.IH) (use Cons.prems b len in auto)
  then show ?case using len step by simp
qed (simp add: slotsIn_def)

text \<open>
  The slot count of a shard is the number of hash slots its ranges cover: for printed
  ranges (\<open>lo-hi\<close> or a single slot) within the 16384 slots of a Cluster that do not overlap,
  \<open>slotsCount\<close> is the size of their union, with no overflow of the 32-bit total.
\<close>

theorem slotsCount_card:
  assumes "\<And>lo hi. (lo, hi) \<in> set rs \<Longrightarrow> 0 \<le> lo \<and> lo \<le> hi \<and> hi < 16384"
    and "distinct (slotsIn rs)"
  shows "slotsCount (map slotToken rs) = int (card (set (slotsIn rs)))"
proof -
  have "set (slotsIn rs) \<subseteq> {0..<16384}" using assms(1) by (fastforce simp: slotsIn_def)
  then have "card (set (slotsIn rs)) \<le> card {0..<16384 :: int}" by (intro card_mono) auto
  then have "int (length (slotsIn rs)) \<le> 16384" using assms(2) by (simp add: distinct_card)
  then show ?thesis
    using slotsCount_fold [of rs 0] assms by (simp add: slotsCount_def distinct_card)
qed

theorem slotsCount_card_witness:
  "map slotToken [(0, 5), (9, 9)] = [''0-5'', ''9''] \<and>
   slotsCount (map slotToken [(0, 5), (9, 9)]) = int (card (set (slotsIn [(0, 5), (9, 9)])))"
  by (rule conjI, code_simp, rule slotsCount_card) (auto, code_simp)

end
