(* ===== verification/Status.thy ===== *)
theory Status
  imports Cluster_Survey
begin

text \<open>
  What the operator reports: \<open>updateStatus\<close>, \<open>setPhase\<close> and \<open>reconcileHibernated\<close> of
  \<open>src/internal/controller/valkeycluster_controller.go\<close>, \<open>updateClusterStatus\<close> of
  \<open>cluster.go\<close> and \<open>recordShards\<close> of \<open>metrics.go\<close>. The lemmas say what the conditions of the
  written status mean.
\<close>

section \<open>Outcome of a reconcile\<close>

text \<open>
  \<open>(ctrl.Result, error)\<close>: the requeue delay in nanoseconds (0 is the empty result), an error,
  or a nil dereference.
\<close>

datatype outcome = Requeue int | Fail kerr | Panic

definition returns :: "kerr option \<Rightarrow> outcome" where
  "returns e = (case e of None \<Rightarrow> Requeue 0 | Some k \<Rightarrow> Fail k)"

section \<open>Conditions\<close>

definition phaseName :: "ValkeyClusterPhase \<Rightarrow> string" where
  "phaseName p = (case p of PhaseUnset \<Rightarrow> [] | PhasePending \<Rightarrow> ''Pending'' | PhaseCreating \<Rightarrow> ''Creating''
     | PhaseReady \<Rightarrow> ''Ready'' | PhaseUpdating \<Rightarrow> ''Updating'' | PhaseFailed \<Rightarrow> ''Failed''
     | PhaseHibernated \<Rightarrow> ''Hibernated'')"

definition condition ::
  "string \<Rightarrow> ConditionStatus \<Rightarrow> string \<Rightarrow> string \<Rightarrow> int \<Rightarrow> int \<Rightarrow> Condition" where
  "condition ty st reason msg gen now = \<lparr>co_Type = ty, co_Status = st, co_Reason = reason,
     co_Message = msg, co_ObservedGeneration = gen, co_LastTransitionTime = now\<rparr>"

definition setReadyCondition ::
  "bool \<Rightarrow> string \<Rightarrow> string \<Rightarrow> int \<Rightarrow> ValkeyClusterStatus \<Rightarrow> ValkeyClusterStatus" where
  "setReadyCondition ready reason msg now st =
     st\<lparr>st_Conditions := setCondition (st_Conditions st)
         (condition ''Ready'' (condStatus ready) reason msg (st_ObservedGeneration st) now)\<rparr>"

text \<open>The Available condition and the Ready condition that mirrors it.\<close>

definition setAvailable ::
  "bool \<Rightarrow> string \<Rightarrow> string \<Rightarrow> int \<Rightarrow> int \<Rightarrow> ValkeyClusterStatus \<Rightarrow> ValkeyClusterStatus" where
  "setAvailable ready reason msg gen now st =
     setReadyCondition ready reason msg now
       (st\<lparr>st_Conditions := setCondition (st_Conditions st)
           (condition ''Available'' (condStatus ready) reason msg gen now)\<rparr>)"

section \<open>The handlers\<close>

definition stsPhase :: "int \<Rightarrow> int \<Rightarrow> ValkeyClusterPhase" where
  "stsPhase ready want = (if ready = want \<and> ready > 0 then PhaseReady
     else if ready > 0 then PhaseUpdating else PhaseCreating)"

definition updateStatus :: "env \<Rightarrow> StatefulSet \<Rightarrow> string \<Rightarrow> outcome op" where
  "updateStatus env sts observedPrimary =
     (case sts_Replicas sts of
        None \<Rightarrow> State_Monad.return Panic
      | Some want \<Rightarrow> do {
          vc \<leftarrow> get_vc;
          now \<leftarrow> ask (env_now env);
          let ready = sts_ReadyReplicas sts;
          let phase = stsPhase ready want;
          let primary = (if observedPrimary = [] \<and> ready > 0 then sts_Name sts @ ''-0'' else observedPrimary);
          let msg = Itoa ready @ ''/'' @ Itoa want @ '' ready, primary='' @ primary;
          modify_status (\<lambda>s. setAvailable (phase = PhaseReady) (phaseName phase) msg (vc_Generation vc) now
            (s\<lparr>st_Phase := phase, st_ReadyReplicas := ready, st_Primary := primary,
               st_InternalEndpoint := internalEndpoint vc, st_ObservedGeneration := vc_Generation vc\<rparr>));
          err \<leftarrow> patch_status env;
          State_Monad.return (returns err) })"

definition setPhase :: "env \<Rightarrow> string \<Rightarrow> string \<Rightarrow> outcome op" where
  "setPhase env reason msg = do {
     vc \<leftarrow> get_vc;
     now \<leftarrow> ask (env_now env);
     modify_status (\<lambda>s. setAvailable False reason msg 0 now
       (s\<lparr>st_Phase := PhaseFailed, st_ObservedGeneration := vc_Generation vc\<rparr>));
     err \<leftarrow> patch_status env;
     State_Monad.return (returns err) }"

definition hibMsg :: string where
  "hibMsg = ''cluster is hibernated (scaled to 0); remove the valkey.wellcake.io/hibernate annotation to wake it''"

definition reportHibernated :: "env \<Rightarrow> int \<Rightarrow> outcome op" where
  "reportHibernated env ready = do {
     vc \<leftarrow> get_vc;
     now \<leftarrow> ask (env_now env);
     modify_status (\<lambda>s. setAvailable False ''Hibernated'' hibMsg (vc_Generation vc) now
       (s\<lparr>st_Phase := PhaseHibernated, st_ReadyReplicas := ready,
          st_ObservedGeneration := vc_Generation vc\<rparr>));
     err \<leftarrow> patch_status env;
     State_Monad.return (returns err) }"

definition reconcileHibernated :: "env \<Rightarrow> outcome op" where
  "reconcileHibernated env = do {
     vc \<leftarrow> get_vc;
     s \<leftarrow> ask (\<lambda>t. env_sts env t (statefulSetName vc));
     case s of
       Inr sts \<Rightarrow>
         if sts_Replicas sts = Some 0 then reportHibernated env (sts_ReadyReplicas sts)
         else do {
           err \<leftarrow> update_obj env (KStatefulSet (sts\<lparr>sts_Replicas := Some 0\<rparr>));
           case err of
             Some e \<Rightarrow> State_Monad.return (Fail e)
           | None \<Rightarrow> reportHibernated env (sts_ReadyReplicas sts) }
     | Inl e \<Rightarrow> if e = NotFound then reportHibernated env 0 else State_Monad.return (Fail e) }"

definition recordShards :: "ShardStatus list \<Rightarrow> unit op" where
  "recordShards shards = do {
     for_each [ShardHealthReady, ShardHealthDegraded, ShardHealthDown, ShardHealthUnknown]
       (\<lambda>h. emit (AMetric ''cluster_shards_zero'' (healthName h)));
     for_each shards (\<lambda>s. emit (AMetric ''cluster_shards_inc'' (healthName (sh_Health s)))) }"

definition shardsHealthy :: "int \<Rightarrow> string list \<Rightarrow> int \<Rightarrow> int \<Rightarrow> Condition" where
  "shardsHealthy readyShards degraded gen now =
     (if degraded = []
      then condition ''ShardsHealthy'' ConditionTrue ''AllHealthy''
             (Itoa readyShards @ '' shards healthy'') gen now
      else condition ''ShardsHealthy'' ConditionFalse ''ShardsNotHealthy''
             (''unhealthy shards: '' @ Join degraded '', '') gen now)"

text \<open>Phase, reason and message of the three branches of \<open>updateClusterStatus\<close>.\<close>

definition clusterPhase ::
  "bool \<Rightarrow> bool \<Rightarrow> int \<Rightarrow> int \<Rightarrow> int \<Rightarrow> int \<Rightarrow> ValkeyClusterPhase \<times> string \<times> string" where
  "clusterPhase allReady initialized readyReplicas want shards readyShards =
     (if \<not> allReady
      then (PhaseCreating, ''PodsNotReady'', Itoa readyReplicas @ ''/'' @ Itoa want @ '' pods ready'')
      else if \<not> initialized
      then (PhaseCreating, ''Bootstrapping'', ''Running valkey-cli --cluster create'')
      else (PhaseReady, ''Ready'', ''Cluster of '' @ Itoa shards @ '' shards is ready ('' @
              Itoa readyShards @ '' healthy)''))"

definition updateClusterStatus :: "env \<Rightarrow> int \<Rightarrow> bool \<Rightarrow> ShardStatus list \<Rightarrow> outcome op" where
  "updateClusterStatus env readyReplicas allReady shardDetails = do {
     vc \<leftarrow> get_vc;
     case sp_Shards (vc_Spec vc) of
       None \<Rightarrow> State_Monad.return Panic
     | Some shards \<Rightarrow> do {
         let (readyShards, degraded) = summarizeShards shardDetails;
         recordShards shardDetails;
         now \<leftarrow> ask (env_now env);
         let (phase, reason, msg) = clusterPhase allReady (st_ClusterInitialized (vc_Status vc))
               readyReplicas (totalReplicas vc) shards readyShards;
         modify_status (\<lambda>s. setAvailable (phase = PhaseReady) reason msg (vc_Generation vc) now
           (s\<lparr>st_Shards := shards, st_ReadyReplicas := readyReplicas,
              st_InternalEndpoint := internalEndpoint vc, st_ObservedGeneration := vc_Generation vc,
              st_ShardDetails := shardDetails, st_ReadyShards := readyShards, st_Phase := phase\<rparr>));
         (if shardDetails = [] then State_Monad.return ()
          else modify_status (\<lambda>s. s\<lparr>st_Conditions := setCondition (st_Conditions s)
                 (shardsHealthy readyShards degraded (vc_Generation vc) now)\<rparr>));
         err \<leftarrow> patch_status env;
         State_Monad.return (returns err) } }"

section \<open>Reading conditions back\<close>

definition cond_of :: "string \<Rightarrow> ValkeyClusterStatus \<Rightarrow> Condition option" where
  "cond_of ty st = find (\<lambda>c. co_Type c = ty) (st_Conditions st)"

definition reported :: "string \<Rightarrow> ValkeyClusterStatus \<Rightarrow> ConditionStatus option" where
  "reported ty st = map_option co_Status (cond_of ty st)"

text \<open>A per-shard Cluster whose shard StatefulSets run two pods each.\<close>

definition pershard_world :: world where
  "pershard_world = \<lparr>cur = demo_cluster\<lparr>vc_Spec := (vc_Spec demo_cluster)\<lparr>sp_PerShardWorkload := Some True\<rparr>\<rparr>,
     acts = []\<rparr>"

definition pershard_env :: env where
  "pershard_env = answering_env\<lparr>env_sts := (\<lambda>_ n.
     if n \<in> {''demo-sh0'', ''demo-sh1'', ''demo-sh2''}
     then Inr (demo_sts\<lparr>sts_Name := n, sts_Replicas := Some 2\<rparr>) else Inl NotFound)\<rparr>"

lemma co_Type_condition [simp]: "co_Type (condition ty st r m g n) = ty"
  and co_Status_condition [simp]: "co_Status (condition ty st r m g n) = st"
  and co_Gen_condition [simp]: "co_ObservedGeneration (condition ty st r m g n) = g"
  by (simp_all add: condition_def)

lemma merge_condition_fields [simp]:
  "co_Type (merge_condition d c) = co_Type c" "co_Status (merge_condition d c) = co_Status c"
  "co_ObservedGeneration (merge_condition d c) = co_ObservedGeneration c"
  by (simp_all add: merge_condition_def)

lemma find_setCondition_other:
  "ty \<noteq> co_Type c \<Longrightarrow> find (\<lambda>c. co_Type c = ty) (setCondition ds c) = find (\<lambda>c. co_Type c = ty) ds"
  by (induction ds) auto

lemma find_setCondition_same:
  "\<exists>e. find (\<lambda>d. co_Type d = co_Type c) (setCondition ds c) = Some e \<and> co_Status e = co_Status c
     \<and> co_ObservedGeneration e = co_ObservedGeneration c"
  by (induction ds) auto

lemma reported_setCondition [simp]:
  "reported ty (st\<lparr>st_Conditions := setCondition ds c\<rparr>) =
     (if ty = co_Type c then Some (co_Status c) else reported ty (st\<lparr>st_Conditions := ds\<rparr>))"
  using find_setCondition_same [of c ds] by (auto simp: reported_def cond_of_def find_setCondition_other)

lemma generation_setCondition:
  "map_option co_ObservedGeneration (cond_of ty (st\<lparr>st_Conditions := setCondition ds c\<rparr>)) =
     (if ty = co_Type c then Some (co_ObservedGeneration c)
      else map_option co_ObservedGeneration (cond_of ty (st\<lparr>st_Conditions := ds\<rparr>)))"
  using find_setCondition_same [of c ds] by (auto simp: cond_of_def find_setCondition_other)

lemma reported_setAvailable:
  "reported ty (setAvailable ready reason msg gen now st) =
     (if ty = ''Available'' \<or> ty = ''Ready'' then Some (condStatus ready) else reported ty st)"
  by (simp add: setAvailable_def setReadyCondition_def)

lemma reported_same_conditions:
  "st_Conditions s = st_Conditions t \<Longrightarrow> reported ty s = reported ty t"
  by (simp add: reported_def cond_of_def)

lemma setAvailable_fields [simp]:
  "st_Phase (setAvailable b r m g n s) = st_Phase s"
  "st_ReadyShards (setAvailable b r m g n s) = st_ReadyShards s"
  "st_ObservedGeneration (setAvailable b r m g n s) = st_ObservedGeneration s"
  "st_ShardDetails (setAvailable b r m g n s) = st_ShardDetails s"
  by (simp_all add: setAvailable_def setReadyCondition_def)

lemma summarizeShards_spec:
  "int (length ss) < 2 ^ 31 \<Longrightarrow>
   fst (summarizeShards ss) = int (length (filter (\<lambda>s. sh_Health s = ShardHealthReady) ss))"
proof (induction ss)
  case (Cons s ss)
  let ?n = "int (length (filter (\<lambda>s. sh_Health s = ShardHealthReady) ss))"
  have "?n + 1 \<le> int (length (s # ss))" by simp
  then have "int32 (?n + 1) = ?n + 1" using Cons.prems by (intro int32_id) linarith+
  then show ?case using Cons by (auto simp: Let_def split_beta)
qed simp

lemma summarizeShards_bad:
  "snd (summarizeShards ss) = [] \<longleftrightarrow> list_all (\<lambda>s. sh_Health s = ShardHealthReady) ss"
  by (induction ss) (auto simp: Let_def split_beta)

lemma run_metrics:
  "\<exists>xs. run_state (for_each ss (\<lambda>s. emit (AMetric m (f s)))) w = ((), w\<lparr>acts := acts w @ xs\<rparr>)"
proof (induction ss arbitrary: w)
  case (Cons s ss)
  show ?case using Cons.IH [of "w\<lparr>acts := acts w @ [AMetric m (f s)]\<rparr>"] by auto
qed (simp add: exI [of _ "[]"])

lemma run_recordShards: "\<exists>xs. run_state (recordShards ss) w = ((), w\<lparr>acts := acts w @ xs\<rparr>)"
proof -
  let ?zero = "for_each [ShardHealthReady, ShardHealthDegraded, ShardHealthDown, ShardHealthUnknown]
       (\<lambda>h. emit (AMetric ''cluster_shards_zero'' (healthName h)))"
  let ?inc = "for_each ss (\<lambda>s. emit (AMetric ''cluster_shards_inc'' (healthName (sh_Health s))))"
  obtain xs where xs: "run_state ?zero w = ((), w\<lparr>acts := acts w @ xs\<rparr>)" using run_metrics by blast
  let ?w = "w\<lparr>acts := acts w @ xs\<rparr>"
  obtain ys where "run_state ?inc ?w = ((), ?w\<lparr>acts := acts ?w @ ys\<rparr>)"
    using run_metrics [of ss "''cluster_shards_inc''" "\<lambda>s. healthName (sh_Health s)" ?w] by blast
  then have "run_state (recordShards ss) w = ((), w\<lparr>acts := acts w @ xs @ ys\<rparr>)"
    unfolding recordShards_def by (simp add: xs del: for_each.simps)
  then show ?thesis by blast
qed

text \<open>
  What a Cluster reports is what was observed. Available and Ready are True exactly when
  all pods are ready and the cluster is bootstrapped, and then the phase is Ready; readyShards
  counts the shards in health Ready; ShardsHealthy is True exactly when every observed shard is
  Ready, and keeps its last value when no shard was observed; the status sent to the API server
  is this one.
\<close>

theorem updateClusterStatus_reports:
  assumes "sp_Shards (vc_Spec (cur w)) = Some n" and "int (length details) < 2 ^ 31"
    and run: "run_state (updateClusterStatus env r allReady details) w = (res, w')"
    and st: "st = vc_Status (cur w')" and up: "up = (allReady \<and> st_ClusterInitialized (vc_Status (cur w)))"
  shows "reported ''Available'' st = Some (condStatus up) \<and> reported ''Ready'' st = Some (condStatus up) \<and>
    (st_Phase st = PhaseReady \<longleftrightarrow> up) \<and>
    st_ReadyShards st = int (length (filter (\<lambda>s. sh_Health s = ShardHealthReady) details)) \<and>
    reported ''ShardsHealthy'' st =
      (if details = [] then reported ''ShardsHealthy'' (vc_Status (cur w))
       else Some (condStatus (list_all (\<lambda>s. sh_Health s = ShardHealthReady) details))) \<and>
    (\<exists>e. last (acts w') = APatchStatus st e)"
proof -
  obtain readyShards degraded where sum: "summarizeShards details = (readyShards, degraded)"
    by (cases "summarizeShards details")
  obtain phase reason msg where ph: "clusterPhase allReady (st_ClusterInitialized (vc_Status (cur w)))
      r (totalReplicas (cur w)) n readyShards = (phase, reason, msg)" by (metis prod_cases3)
  obtain xs where xs: "run_state (recordShards details) w = ((), w\<lparr>acts := acts w @ xs\<rparr>)"
    using run_recordShards by blast
  define new where "new s = setAvailable (phase = PhaseReady) reason msg (vc_Generation (cur w)) (env_now env (acts w @ xs))
     (s\<lparr>st_Shards := n, st_ReadyReplicas := r, st_InternalEndpoint := internalEndpoint (cur w),
        st_ObservedGeneration := vc_Generation (cur w), st_ShardDetails := details,
        st_ReadyShards := readyShards, st_Phase := phase\<rparr>)" for s
  define fin where "fin = (if details = [] then new (vc_Status (cur w)) else (new (vc_Status (cur w)))
     \<lparr>st_Conditions := setCondition (st_Conditions (new (vc_Status (cur w))))
        (shardsHealthy readyShards degraded (vc_Generation (cur w)) (env_now env (acts w @ xs)))\<rparr>)"
  have final: "st = fin \<and> (\<exists>e. last (acts w') = APatchStatus fin e)"
    using run assms(1) unfolding st
    by (auto simp: updateClusterStatus_def sum ph xs patch_status_def new_def fin_def split: if_splits)
  have "up \<longleftrightarrow> phase = PhaseReady" using ph up by (auto simp: clusterPhase_def split: if_splits)
  moreover have "readyShards = int (length (filter (\<lambda>s. sh_Health s = ShardHealthReady) details))"
    using summarizeShards_spec [OF assms(2)] sum by simp
  moreover have "degraded = [] \<longleftrightarrow> list_all (\<lambda>s. sh_Health s = ShardHealthReady) details"
    using summarizeShards_bad [of details] sum by simp
  moreover have "reported ty (new s) = (if ty = ''Available'' \<or> ty = ''Ready''
      then Some (condStatus (phase = PhaseReady)) else reported ty s)" for ty s
    by (auto simp: new_def reported_setAvailable intro: reported_same_conditions)
  ultimately show ?thesis using final
    by (auto simp: fin_def shardsHealthy_def condStatus_def new_def)
qed

theorem updateClusterStatus_reports_witness:
  "reported ''Available'' (vc_Status (cur (snd (run_state
     (updateClusterStatus answering_env 6 True (buildShards (map fst demo_nodes))) pershard_world)))) = Some ConditionTrue \<and>
   reported ''ShardsHealthy'' (vc_Status (cur (snd (run_state
     (updateClusterStatus answering_env 6 True (buildShards (map fst demo_nodes))) pershard_world)))) = Some ConditionTrue"
proof -
  have "sp_Shards (vc_Spec (cur pershard_world)) = Some 3" by code_simp
  moreover have "int (length (buildShards (map fst demo_nodes))) < 2 ^ 31" by code_simp
  moreover have "st_ClusterInitialized (vc_Status (cur pershard_world))" by code_simp
  moreover have "buildShards (map fst demo_nodes) \<noteq> []" by code_simp
  moreover have "list_all (\<lambda>s. sh_Health s = ShardHealthReady) (buildShards (map fst demo_nodes))" by code_simp
  ultimately show ?thesis
    using updateClusterStatus_reports [OF _ _ prod.collapse [symmetric] refl refl, of pershard_world 3
        "buildShards (map fst demo_nodes)" answering_env 6 True] by (simp add: condStatus_def)
qed

text \<open>
  \<open>setPhase\<close> marks the cluster Failed with both conditions False, but the Available condition
  it writes observes generation 0 whatever the generation of the object is, while the Ready
  condition beside it observes the current one.
\<close>

lemma setPhase_generation:
  "case run_state (setPhase env reason msg) w of (res, w') \<Rightarrow>
     st_Phase (vc_Status (cur w')) = PhaseFailed \<and>
     reported ''Available'' (vc_Status (cur w')) = Some ConditionFalse \<and>
     reported ''Ready'' (vc_Status (cur w')) = Some ConditionFalse \<and>
     map_option co_ObservedGeneration (cond_of ''Available'' (vc_Status (cur w'))) = Some 0 \<and>
     map_option co_ObservedGeneration (cond_of ''Ready'' (vc_Status (cur w'))) = Some (vc_Generation (cur w))"
  by (simp add: setPhase_def patch_status_def reported_setAvailable condStatus_def
      setAvailable_def setReadyCondition_def generation_setCondition del: map_option_eq_Some)

text \<open>
  C23. Hibernation knows one StatefulSet only, the one named after the cluster. When it does not
  exist, the handler reports the phase Hibernated and writes nothing but that status. In the
  per-shard layout, whose StatefulSets are named after the shards, this is the case while every
  shard keeps running.
\<close>

theorem reconcileHibernated_other_workloads:
  assumes "env_sts env (acts w) (statefulSetName (cur w)) = Inl NotFound"
    and "run_state (reconcileHibernated env) w = (res, w')"
  shows "st_Phase (vc_Status (cur w')) = PhaseHibernated \<and>
    (\<exists>e. acts w' = acts w @ [APatchStatus (vc_Status (cur w')) e])"
  using assms by (auto simp: reconcileHibernated_def reportHibernated_def patch_status_def)

theorem reconcileHibernated_other_workloads_witness:
  "env_sts pershard_env [] (shardStsName (cur pershard_world) 0) =
     Inr (demo_sts\<lparr>sts_Name := ''demo-sh0'', sts_Replicas := Some 2\<rparr>) \<and>
   st_Phase (vc_Status (cur (snd (run_state (reconcileHibernated pershard_env) pershard_world)))) = PhaseHibernated \<and>
   length (acts (snd (run_state (reconcileHibernated pershard_env) pershard_world))) = 1"
proof -
  have none: "env_sts pershard_env (acts pershard_world) (statefulSetName (cur pershard_world)) = Inl NotFound"
    and empty: "acts pershard_world = []"
    and shard: "env_sts pershard_env [] (shardStsName (cur pershard_world) 0) =
      Inr (demo_sts\<lparr>sts_Name := ''demo-sh0'', sts_Replicas := Some 2\<rparr>)"
    by code_simp+
  show ?thesis
    using shard empty reconcileHibernated_other_workloads [OF none prod.collapse [symmetric]] by auto
qed

end
