(* ===== verification/Config_Render.thy ===== *)
theory Config_Render
  imports Names "HOL-Library.List_Lexorder" "HOL-Library.Char_ord"
begin

text \<open>
  The configuration the operator writes: \<open>valkey.conf\<close> (\<open>renderValkeyConf\<close> and its helpers in
  \<open>src/internal/controller/resources.go\<close>), \<open>sentinel.conf\<close> (\<open>renderSentinelConf\<close> in
  \<open>sentinel.go\<close>) and the hashes that decide whether a change rolls the pods. A rendered file is
  the list of its lines until it is written out. The lemmas are about the quoting of arguments,
  the version gate, the defaults and their bounds, and what a hash depends on.
\<close>

section \<open>Constants and small accessors\<close>

definition dataMountPath :: string where "dataMountPath = ''/data''"
definition configMountPath :: string where "configMountPath = ''/etc/valkey''"
definition tlsMountPath :: string where "tlsMountPath = ''/etc/valkey/tls''"
definition tlsAutoReloadIntervalSec :: int where "tlsAutoReloadIntervalSec = 3600"
definition storageModeAOF :: string where "storageModeAOF = ''aof''"
definition storageModeBoth :: string where "storageModeBoth = ''both''"
definition storageModeNone :: string where "storageModeNone = ''none''"
definition defaultSentinelDownAfterMs :: int where "defaultSentinelDownAfterMs = 5000"
definition defaultSentinelFailoverTimeout :: int where "defaultSentinelFailoverTimeout = 60000"

definition newline :: string where "newline = [CHR 0x0A]"

definition write_lines :: "string list \<Rightarrow> string" where
  "write_lines ls = concat (map (\<lambda>l. l @ newline) ls)"

section \<open>Quoting and hashing\<close>

definition hex_digit :: "nat \<Rightarrow> char" where
  "hex_digit n = (if n < 10 then digit_char n else char_of (87 + n))"

definition quote_char :: "char \<Rightarrow> string" where
  "quote_char c =
     (if c = CHR 0x5C \<or> c = CHR 0x22 then [CHR 0x5C, c]
      else if c = CHR 0x07 then [CHR 0x5C, CHR ''a'']
      else if c = CHR 0x08 then [CHR 0x5C, CHR ''b'']
      else if c = CHR 0x0A then [CHR 0x5C, CHR ''n'']
      else if c = CHR 0x0D then [CHR 0x5C, CHR ''r'']
      else if c = CHR 0x09 then [CHR 0x5C, CHR ''t'']
      else if (of_char c :: nat) < 0x20 \<or> c = CHR 0x7F
      then [CHR 0x5C, CHR ''x'', hex_digit (of_char c div 16), hex_digit (of_char c mod 16)]
      else [c])"

definition valkeyConfigArg :: "string \<Rightarrow> string" where
  "valkeyConfigArg v = [CHR 0x22] @ concat (map quote_char v) @ [CHR 0x22]"

text \<open>The parameter \<open>sha\<close> is the hexadecimal SHA-256 of a byte string.\<close>

definition configHashFromData :: "(string \<Rightarrow> string) \<Rightarrow> (string \<times> string) list \<Rightarrow> string" where
  "configHashFromData sha data =
     take 16 (sha (concat (map (\<lambda>k. k @ [CHR 0x00] @ mget (map_of data) k @ [CHR 0x00]) (sort (map fst data)))))"

section \<open>The version gate\<close>

definition valkeyImageAtLeast :: "string \<Rightarrow> int \<Rightarrow> int \<Rightarrow> bool" where
  "valkeyImageAtLeast img maj mi =
     (let img = (case IndexByte img (CHR ''@'') of Some i \<Rightarrow> take i img | None \<Rightarrow> img)
      in case LastIndexByte img (CHR '':'') of
           None \<Rightarrow> False
         | Some colon \<Rightarrow>
             if (case LastIndexByte img (CHR ''/'') of None \<Rightarrow> False | Some slash \<Rightarrow> colon < slash) then False
             else (let parts = SplitByte (drop (Suc colon) img) (CHR ''.'')
                   in case Atoi (parts ! 0) of
                        None \<Rightarrow> False
                      | Some gotMaj \<Rightarrow>
                          (let gotMin = (if length parts > 1
                                 then Atoi_value (takeWhile is_digit (parts ! 1)) else 0)
                           in if gotMaj \<noteq> maj then gotMaj > maj else gotMin \<ge> mi)))"

section \<open>The parts of \<open>valkey.conf\<close>\<close>

definition sourceCAMergeEnabled :: "ValkeyCluster \<Rightarrow> bool" where
  "sourceCAMergeEnabled vc =
     (case sp_ReplicateFrom (vc_Spec vc) of
        None \<Rightarrow> False
      | Some r \<Rightarrow> rf_TLS r \<and> rf_CASecret r \<noteq> None \<and> tlsEnabled vc)"

definition caCertPath :: "ValkeyCluster \<Rightarrow> string" where
  "caCertPath vc = (if sourceCAMergeEnabled vc then dataMountPath @ ''/ca-bundle.crt''
     else tlsMountPath @ ''/ca.crt'')"

definition mutualTLS :: "ValkeyCluster \<Rightarrow> bool" where
  "mutualTLS vc = (case sp_TLS (vc_Spec vc) of None \<Rightarrow> False | Some t \<Rightarrow> tls_MutualTLS t)"

definition tlsConfig :: "ValkeyCluster \<Rightarrow> string list" where
  "tlsConfig vc =
     (if tlsEnabled vc
      then [''port 0'', ''tls-port '' @ Itoa valkeyTLSPort, ''tls-cluster yes'',
            ''tls-cert-file '' @ tlsMountPath @ ''/tls.crt'', ''tls-key-file '' @ tlsMountPath @ ''/tls.key'',
            ''tls-ca-cert-file '' @ caCertPath vc, ''tls-replication yes'',
            ''tls-auth-clients '' @ (if mutualTLS vc then ''yes'' else ''optional'')]
           @ (if valkeyImageAtLeast (sp_Image (vc_Spec vc)) 9 1
              then [''tls-auto-reload-interval '' @ Itoa tlsAutoReloadIntervalSec] else [])
      else [''port '' @ Itoa valkeyPort])"

definition renderAuthConfig :: "ValkeyCluster \<Rightarrow> string \<Rightarrow> string list" where
  "renderAuthConfig vc password =
     (if password = [] then []
      else [''requirepass '' @ valkeyConfigArg password, ''masterauth '' @ valkeyConfigArg password]
           @ (if topologyReplicates vc then [''masteruser '' @ replicationACLUser] else []))"

definition persistenceMode :: "ValkeyCluster \<Rightarrow> string" where
  "persistenceMode vc =
     (if usesMemoryStorage vc then storageModeNone
      else case sp_Storage (vc_Spec vc) of
             Some s \<Rightarrow> if sto_Mode s \<noteq> [] then sto_Mode s
                      else if sp_Profile (vc_Spec vc) = ProfileDurable then storageModeBoth else storageModeNone
           | None \<Rightarrow> if sp_Profile (vc_Spec vc) = ProfileDurable then storageModeBoth else storageModeNone)"

definition persistenceConfig :: "ValkeyCluster \<Rightarrow> string list" where
  "persistenceConfig vc =
     (let mode = persistenceMode vc
      in if mode = storageModeAOF then [''appendonly yes'', ''save '' @ [CHR 0x22, CHR 0x22]]
         else if mode = storageModeBoth then [''appendonly yes'', ''save 3600 1 300 100 60 10000'']
         else if mode = storageModeNone then [''appendonly no'', ''save '' @ [CHR 0x22, CHR 0x22]]
         else [''appendonly no'', ''save 3600 1 300 100 60 10000''])"

definition newFeatures :: "ValkeyCluster \<Rightarrow> string list" where
  "newFeatures vc =
     (case sp_LoggingFormat (vc_Spec vc) of
        Some f \<Rightarrow> if f \<noteq> [] \<and> valkeyImageAtLeast (sp_Image (vc_Spec vc)) 9 1 then [''log-format '' @ f] else []
      | None \<Rightarrow> [])
     @ (if vc_UID vc \<noteq> [] \<and> valkeyImageAtLeast (sp_Image (vc_Spec vc)) 9 1
        then [''hash-seed '' @ valkeyConfigArg (vc_UID vc)] else [])"

definition clusterConfig :: "ValkeyCluster \<Rightarrow> string list" where
  "clusterConfig vc =
     (let durable = (sp_Profile (vc_Spec vc) = ProfileDurable)
      in if sp_Topology (vc_Spec vc) = TopologyCluster
         then [''cluster-enabled yes'', ''cluster-config-file '' @ dataMountPath @ ''/nodes.conf'',
               ''cluster-node-timeout 5000'',
               if durable then ''cluster-require-full-coverage yes'' else ''cluster-require-full-coverage no'',
               ''cluster-allow-replica-migration no'']
              @ (if durable then [] else [''cluster-replica-validity-factor 0''])
              @ (if valkeyImageAtLeast (sp_Image (vc_Spec vc)) 9 0
                 then [if durable then ''shutdown-on-sigterm failover safe'' else ''shutdown-on-sigterm failover'']
                 else [])
              @ (if usesMemoryStorage vc \<and> valkeyImageAtLeast (sp_Image (vc_Spec vc)) 9 1
                 then [''cluster-config-save-behavior best-effort''] else [])
         else [])"

text \<open>\<open>sp_MemoryLimit\<close> is the memory entry of \<open>spec.resources.limits\<close>, in bytes.\<close>

definition computeMaxmemory :: "ValkeyCluster \<Rightarrow> string" where
  "computeMaxmemory vc =
     (case sp_MemoryLimit (vc_Spec vc) of
        None \<Rightarrow> []
      | Some lim \<Rightarrow> if lim = 0 then []
          else (let bytes = int64 (lim * 60) sdiv 100
                in if bytes \<le> 0 then [] else Itoa bytes @ ''b''))"

definition computeReplBacklog :: "ValkeyCluster \<Rightarrow> string" where
  "computeReplBacklog vc =
     (case sp_MemoryLimit (vc_Spec vc) of
        None \<Rightarrow> []
      | Some lim \<Rightarrow> if lim = 0 then []
          else Itoa (min (max (lim sdiv 16) (16 * 1024 * 1024)) (256 * 1024 * 1024)) @ ''b'')"

definition setDefault :: "string \<Rightarrow> string \<Rightarrow> (string \<times> string) list \<Rightarrow> (string \<times> string) list" where
  "setDefault k v cfg = (if v = [] \<or> k \<in> set (map fst cfg) then cfg else cfg @ [(k, v)])"

text \<open>
  The map the Go code ends up with. It is written into \<open>vc.Spec.Config\<close> itself when that map
  exists.
\<close>

definition effectiveConfig :: "ValkeyCluster \<Rightarrow> (string \<times> string) list" where
  "effectiveConfig vc =
     setDefault ''repl-backlog-size''
       (if sp_Topology (vc_Spec vc) \<noteq> TopologyStandalone then computeReplBacklog vc else [])
     (setDefault ''maxmemory'' (computeMaxmemory vc)
     (setDefault ''maxmemory-policy''
       (if sp_Profile (vc_Spec vc) = ProfileDurable then ''noeviction'' else ''allkeys-lru'')
       (sp_Config (vc_Spec vc))))"

definition userConfig :: "ValkeyCluster \<Rightarrow> string list" where
  "userConfig vc = (let cfg = effectiveConfig vc
     in map (\<lambda>k. k @ '' '' @ mget (map_of cfg) k) (sort (map fst cfg)))"

definition operatorConfig :: "ValkeyCluster \<Rightarrow> string \<Rightarrow> string list" where
  "operatorConfig vc password =
     tlsConfig vc @ [''bind 0.0.0.0'', ''protected-mode no'', ''dir '' @ dataMountPath]
     @ renderAuthConfig vc password @ [''aclfile '' @ dataMountPath @ ''/users.acl'']
     @ newFeatures vc @ clusterConfig vc @ persistenceConfig vc"

definition renderValkeyConf :: "ValkeyCluster \<Rightarrow> string \<Rightarrow> string" where
  "renderValkeyConf vc password = write_lines (operatorConfig vc password @ userConfig vc)"

section \<open>\<open>sentinel.conf\<close>\<close>

definition sentinel_spec :: "ValkeyCluster \<Rightarrow> SentinelSpec" where
  "sentinel_spec vc = Deref (sp_Sentinel (vc_Spec vc))
     \<lparr>se_Replicas = 0, se_Quorum = 0, se_Image = [], se_DownAfterMilliseconds = 0, se_FailoverTimeout = 0, se_Resources = (None, [])\<rparr>"

definition sentinelDownAfterMs :: "ValkeyCluster \<Rightarrow> int" where
  "sentinelDownAfterMs vc = (let v = se_DownAfterMilliseconds (sentinel_spec vc)
     in if v > 0 then v else defaultSentinelDownAfterMs)"

definition sentinelFailoverTimeout :: "ValkeyCluster \<Rightarrow> int" where
  "sentinelFailoverTimeout vc = (let v = se_FailoverTimeout (sentinel_spec vc)
     in if v > 0 then v else defaultSentinelFailoverTimeout)"

definition sentinelListenPort :: "ValkeyCluster \<Rightarrow> int" where
  "sentinelListenPort vc = (if tlsEnabled vc then sentinelTLSPort else sentinelPort)"

definition sentinelConfLines :: "ValkeyCluster \<Rightarrow> string \<Rightarrow> string list" where
  "sentinelConfLines vc password =
     (let quorum = (if se_Quorum (sentinel_spec vc) = 0 then se_Replicas (sentinel_spec vc) sdiv 2 + 1
                    else se_Quorum (sentinel_spec vc));
          primary = fqdn (statefulSetName vc @ ''-0'') (headlessServiceName vc) (vc_Namespace vc);
          m = sentinelMasterName
      in [''port '' @ Itoa sentinelPort, ''dir '' @ dataMountPath,
          ''sentinel monitor '' @ m @ '' '' @ primary @ '' '' @ Itoa (dataPort vc) @ '' '' @ Itoa quorum,
          ''sentinel down-after-milliseconds '' @ m @ '' '' @ Itoa (sentinelDownAfterMs vc),
          ''sentinel failover-timeout '' @ m @ '' '' @ Itoa (sentinelFailoverTimeout vc),
          ''sentinel parallel-syncs '' @ m @ '' 1'',
          ''sentinel resolve-hostnames yes'', ''sentinel announce-hostnames yes'']
         @ (if password = [] then []
            else [''sentinel auth-user '' @ m @ '' '' @ sentinelACLUser,
                  ''sentinel auth-pass '' @ m @ '' '' @ valkeyConfigArg password,
                  ''requirepass '' @ valkeyConfigArg password])
         @ (if tlsEnabled vc
            then [''tls-port '' @ Itoa sentinelTLSPort, ''port 0'',
                  ''tls-cert-file '' @ tlsMountPath @ ''/tls.crt'', ''tls-key-file '' @ tlsMountPath @ ''/tls.key'',
                  ''tls-ca-cert-file '' @ tlsMountPath @ ''/ca.crt'', ''tls-replication yes'',
                  ''tls-auth-clients optional'']
            else []))"

definition renderSentinelConf :: "ValkeyCluster \<Rightarrow> string \<Rightarrow> string" where
  "renderSentinelConf vc password = write_lines (sentinelConfLines vc password)"

definition sentinelLineKept :: "bool \<Rightarrow> string \<Rightarrow> bool" where
  "sentinelLineKept livePassword line \<longleftrightarrow>
     \<not> (HasPrefix line ''sentinel down-after-milliseconds '' \<or> HasPrefix line ''sentinel failover-timeout '') \<and>
     \<not> (livePassword \<and> (HasPrefix line ''sentinel auth-pass '' \<or> HasPrefix line ''requirepass ''))"

definition sentinelConfigHash :: "(string \<Rightarrow> string) \<Rightarrow> string \<Rightarrow> bool \<Rightarrow> string" where
  "sentinelConfigHash sha conf livePassword =
     configHashFromData sha [(''sentinel.conf'',
       Join (filter (sentinelLineKept livePassword) (SplitByte conf (CHR 0x0A))) newline)]"

definition sentinelPasswordRotatesLive :: "ValkeyCluster \<Rightarrow> bool" where
  "sentinelPasswordRotatesLive vc =
     (case sp_Auth (vc_Spec vc) of None \<Rightarrow> True | Some a \<Rightarrow> au_ExistingSecret a = [])"

section \<open>Quoting\<close>

text \<open>The directive of a line, the part before the first space.\<close>

definition directive :: "string \<Rightarrow> string" where
  "directive line = takeWhile (\<lambda>c. c \<noteq> CHR '' '') line"

text \<open>Directives and values that a server before 9.0 refuses.\<close>

definition gatedDirectives :: "string set" where
  "gatedDirectives = {''tls-auto-reload-interval'', ''log-format'', ''hash-seed'', ''shutdown-on-sigterm'',
     ''cluster-config-save-behavior''}"

text \<open>The text between quotes has no quote that is not escaped.\<close>

fun quoted_body :: "string \<Rightarrow> bool" where
  "quoted_body [] = True"
| "quoted_body (c # cs) =
     (if c = CHR 0x22 then False
      else if c = CHR 0x5C then (case cs of [] \<Rightarrow> False | _ # ds \<Rightarrow> quoted_body ds)
      else quoted_body cs)"

definition printable :: "char \<Rightarrow> bool" where
  "printable c \<longleftrightarrow> 0x20 \<le> (of_char c :: nat) \<and> (of_char c :: nat) \<noteq> 0x7F"

text \<open>Reading back one quoted character: the inverse that the injectivity of the quoting rests on.\<close>

definition hex_value :: "char \<Rightarrow> nat" where
  "hex_value c = (if is_digit c then of_char c - 48 else of_char c - 87)"

definition unescape :: "char \<Rightarrow> char" where
  "unescape c = (if c = CHR ''a'' then CHR 0x07 else if c = CHR ''b'' then CHR 0x08 else if c = CHR ''n'' then CHR 0x0A
     else if c = CHR ''r'' then CHR 0x0D else if c = CHR ''t'' then CHR 0x09 else c)"

definition unquote_char :: "string \<Rightarrow> char \<times> string" where
  "unquote_char s = (case s of
      [] \<Rightarrow> (CHR 0x00, [])
    | e # r \<Rightarrow> if e \<noteq> CHR 0x5C then (e, r)
              else (case r of
                  [] \<Rightarrow> (e, r)
                | x # r' \<Rightarrow> if x = CHR ''x'' then (char_of (16 * hex_value (r' ! 0) + hex_value (r' ! 1)), drop 2 r')
                           else (unescape x, r')))"

lemma char_eq_nat: "(c :: char) = d \<longleftrightarrow> (of_char c :: nat) = of_char d"
  by (metis char_of_char)

lemma of_char_hex_digit: "n < 16 \<Longrightarrow> (of_char (hex_digit n) :: nat) = (if n < 10 then 48 + n else 87 + n)"
  by (simp add: hex_digit_def digit_char_def)

lemma hex_value_digit: "n < 16 \<Longrightarrow> hex_value (hex_digit n) = n"
  by (simp add: hex_value_def is_digit_def of_char_hex_digit)

lemma hex_digit_plain: "n < 16 \<Longrightarrow> printable (hex_digit n) \<and> hex_digit n \<noteq> CHR 0x22 \<and> hex_digit n \<noteq> CHR 0x5C"
  by (simp add: char_eq_nat printable_def of_char_hex_digit)

lemma nibbles: "(of_char c :: nat) div 16 < 16" "(of_char c :: nat) mod 16 < 16"
proof -
  have "(of_char c :: nat) < 256" by simp
  then show "(of_char c :: nat) div 16 < 16" by (simp add: div_less_iff_less_mult)
qed simp

text \<open>The three shapes of a quoted character.\<close>

lemma quote_char_cases:
  obtains (plain) "quote_char c = [c]" "printable c" "c \<noteq> CHR 0x5C" "c \<noteq> CHR 0x22"
    | (escape) x where "quote_char c = [CHR 0x5C, x]" "printable x" "x \<noteq> CHR ''x''" "unescape x = c"
    | (hex) a b where "quote_char c = [CHR 0x5C, CHR ''x'', a, b]" "printable a" "printable b"
        "{a, b} \<inter> {CHR 0x22, CHR 0x5C} = {}" "char_of (16 * hex_value a + hex_value b) = c"
proof (cases "c \<in> {CHR 0x5C, CHR 0x22, CHR 0x07, CHR 0x08, CHR 0x0A, CHR 0x0D, CHR 0x09}")
  case True
  then obtain x where "(c, x) \<in> {(CHR 0x5C, CHR 0x5C), (CHR 0x22, CHR 0x22), (CHR 0x07, CHR ''a''),
      (CHR 0x08, CHR ''b''), (CHR 0x0A, CHR ''n''), (CHR 0x0D, CHR ''r''), (CHR 0x09, CHR ''t'')}" by blast
  then show ?thesis
    by (intro escape [of x]) (auto simp: quote_char_def printable_def unescape_def)
next
  case False
  show ?thesis
  proof (cases "(of_char c :: nat) < 0x20 \<or> c = CHR 0x7F")
    case True
    let ?a = "hex_digit (of_char c div 16)" and ?b = "hex_digit (of_char c mod 16)"
    have "quote_char c = [CHR 0x5C, CHR ''x'', ?a, ?b]" using False True by (auto simp: quote_char_def)
    moreover have "char_of (16 * hex_value ?a + hex_value ?b) = c"
      by (simp add: hex_value_digit nibbles)
    ultimately show ?thesis using hex_digit_plain [OF nibbles(1)] hex_digit_plain [OF nibbles(2)]
      by (intro hex) auto
  next
    case False': False
    show ?thesis by (rule plain) (use False False' in \<open>auto simp: quote_char_def printable_def char_eq_nat\<close>)
  qed
qed

lemma quote_char_printable: "list_all printable (quote_char c)"
  by (cases rule: quote_char_cases [of c]) (simp_all add: printable_def)

lemma unquote_quote_char: "unquote_char (quote_char c @ s) = (c, s)"
  by (cases rule: quote_char_cases [of c]) (simp_all add: unquote_char_def)

lemma quoted_body_append: "quoted_body (quote_char c @ s) \<longleftrightarrow> quoted_body s"
proof (cases rule: quote_char_cases [of c])
  case (hex a b)
  then have "a \<noteq> CHR 0x22" "a \<noteq> CHR 0x5C" "b \<noteq> CHR 0x22" "b \<noteq> CHR 0x5C" by auto
  then show ?thesis by (simp add: hex(1))
qed simp_all

lemma quote_char_nonempty: "quote_char c \<noteq> []"
  by (cases rule: quote_char_cases [of c]) simp_all

lemma quote_chars_inject: "concat (map quote_char v) = concat (map quote_char u) \<Longrightarrow> v = u"
proof (induction v arbitrary: u)
  case Nil
  then show ?case using quote_char_nonempty by (cases u) simp_all
next
  case (Cons c v)
  then obtain d u' where u: "u = d # u'" using quote_char_nonempty by (cases u) simp_all
  have eq: "quote_char c @ concat (map quote_char v) = quote_char d @ concat (map quote_char u')"
    using Cons.prems by (simp add: u)
  have "(c, concat (map quote_char v)) = (d, concat (map quote_char u'))"
    using arg_cong [OF eq, of unquote_char] by (simp only: unquote_quote_char)
  then show ?case using Cons.IH [of u'] u by simp
qed

text \<open>
  C13. Quoting a configuration argument loses nothing and cannot be broken out of: different values
  have different quoted forms, the quoted form is one line of printable characters between two
  quotes, and no quote inside it is unescaped.
\<close>

theorem valkeyConfigArg_quotes:
  "(valkeyConfigArg v = valkeyConfigArg u \<longleftrightarrow> v = u) \<and>
   list_all printable (valkeyConfigArg v) \<and>
   (\<exists>body. valkeyConfigArg v = [CHR 0x22] @ body @ [CHR 0x22] \<and> quoted_body body)"
proof (intro conjI)
  show "valkeyConfigArg v = valkeyConfigArg u \<longleftrightarrow> v = u"
    by (auto simp: valkeyConfigArg_def dest: quote_chars_inject)
  have "list_all printable (concat (map quote_char v))"
    using quote_char_printable by (induction v) auto
  then show "list_all printable (valkeyConfigArg v)" by (simp add: valkeyConfigArg_def printable_def)
  have "quoted_body (concat (map quote_char v))" by (induction v) (simp_all add: quoted_body_append)
  then show "\<exists>body. valkeyConfigArg v = [CHR 0x22] @ body @ [CHR 0x22] \<and> quoted_body body"
    by (auto simp: valkeyConfigArg_def)
qed

section \<open>The version gate reads a tag\<close>

lemma plain_digits: "0 \<le> n \<Longrightarrow> c \<in> {CHR ''@'', CHR '':'', CHR ''/'', CHR ''.''} \<Longrightarrow> c \<notin> set (Itoa n)"
  using Itoa_nonneg_digits [of n c] by (auto simp: is_digit_def)

lemma takeWhile_digits:
  "0 \<le> n \<Longrightarrow> a = [] \<or> \<not> is_digit (hd a) \<Longrightarrow> takeWhile is_digit (Itoa n @ a) = Itoa n"
  using Itoa_nonneg_digits [of n] by (cases a) (auto simp: takeWhile_append)

lemma LastIndexByte_less:
  assumes "CHR ''/'' \<notin> set t" and "LastIndexByte (r @ c # t) (CHR ''/'') = Some i" and "c \<noteq> CHR ''/''"
  shows "i < length r"
proof -
  have "LastIndexByte (r @ c # t) (CHR ''/'') \<noteq> None" using assms(2) by simp
  then have r: "CHR ''/'' \<in> set r" using assms(1,3) by (auto simp: LastIndexByte_None_iff)
  then obtain a b where ab: "r = a @ CHR ''/'' # b" "CHR ''/'' \<notin> set b" by (metis split_list_last)
  then have "LastIndexByte (r @ c # t) (CHR ''/'') = Some (length a)"
    using LastIndexByte_append_notin [of "CHR ''/''" "b @ c # t" a] assms(1,3) by simp
  then show ?thesis using assms(2) ab by simp
qed

text \<open>
  The version gate reads the tag of an image. For an image \<open>repo:M.m\<close> or \<open>repo:M.m<suffix>\<close>, with
  any registry host and port in \<open>repo\<close> and a suffix such as \<open>.3\<close>, \<open>-rc1\<close> or \<open>-alpine\<close>,
  \<open>valkeyImageAtLeast\<close> is the comparison of \<open>(M, m)\<close> with the required version.
\<close>

lemma valkeyImageAtLeast_tag:
  assumes "0 \<le> M" and "M < 2 ^ 31" and "0 \<le> m" and "m < 2 ^ 31" and "CHR ''@'' \<notin> set repo"
    and rest: "rest = [] \<or> \<not> is_digit (hd rest)" "set rest \<inter> {CHR ''@'', CHR '':'', CHR ''/''} = {}"
  shows "valkeyImageAtLeast (repo @ '':'' @ Itoa M @ ''.'' @ Itoa m @ rest) maj mi \<longleftrightarrow>
    maj < M \<or> M = maj \<and> mi \<le> m"
proof -
  let ?tag = "Itoa M @ CHR ''.'' # Itoa m @ rest" and ?img = "repo @ CHR '':'' # Itoa M @ CHR ''.'' # Itoa m @ rest"
  note digits = plain_digits [OF assms(1)] plain_digits [OF assms(3)]
  have notin: "CHR ''@'' \<notin> set ?tag" "CHR '':'' \<notin> set ?tag" "CHR ''/'' \<notin> set ?tag"
    using digits rest(2) by auto
  have at: "IndexByte ?img (CHR ''@'') = None" using notin(1) assms(5) by (simp add: IndexByte_None_iff)
  have colon: "LastIndexByte ?img (CHR '':'') = Some (length repo)"
    using LastIndexByte_append_notin [OF notin(2), of repo] by simp
  have slash: "\<not> (case LastIndexByte ?img (CHR ''/'') of None \<Rightarrow> False | Some j \<Rightarrow> length repo < j)"
    using LastIndexByte_less [OF notin(3), of repo "CHR '':''"] by (auto split: option.splits)
  have dot: "CHR ''.'' \<notin> set (Itoa M)" "CHR ''.'' \<notin> set (Itoa m)" using digits by auto
  obtain x xs where tail: "SplitByte (Itoa m @ rest) (CHR ''.'') = x # xs" by (meson SplitByte_nonempty neq_Nil_conv)
  have parts: "SplitByte ?tag (CHR ''.'') = Itoa M # x # xs"
    using SplitByte_append [OF dot(1)] tail by simp
  have minor: "takeWhile is_digit x = Itoa m"
  proof (cases "CHR ''.'' \<in> set rest")
    case True
    then obtain a b where ab: "rest = a @ CHR ''.'' # b" "CHR ''.'' \<notin> set a" by (metis split_list_first)
    then have "x = Itoa m @ a" using SplitByte_append [of "CHR ''.''" "Itoa m @ a" b] dot tail by simp
    moreover have "a = [] \<or> \<not> is_digit (hd a)" using ab rest(1) by (cases a) auto
    ultimately show ?thesis using takeWhile_digits [OF assms(3)] by blast
  next
    case False
    then have "x = Itoa m @ rest" using SplitByte_notin [of "CHR ''.''" "Itoa m @ rest"] dot tail by simp
    then show ?thesis using takeWhile_digits [OF assms(3)] rest(1) by blast
  qed
  have atoi: "Atoi (Itoa M) = Some M" "Atoi (Itoa m) = Some m"
    using assms(1-4) by (auto simp: Atoi_def intro!: ParseInt_Itoa)
  show ?thesis using at colon slash parts minor atoi
    by (auto simp: valkeyImageAtLeast_def Atoi_value Let_def)
qed

lemma valkeyImageAtLeast_tag_witness:
  "\<not> valkeyImageAtLeast (''registry:5000/valkey'' @ '':'' @ Itoa 9 @ ''.'' @ Itoa 0 @ ''.3'') 9 1 \<and>
   valkeyImageAtLeast (''registry:5000/valkey'' @ '':'' @ Itoa 9 @ ''.'' @ Itoa 1 @ ''-rc1'') 9 1"
  using valkeyImageAtLeast_tag [of 9 0 "''registry:5000/valkey''" "''.3''" 9 1]
    valkeyImageAtLeast_tag [of 9 1 "''registry:5000/valkey''" "''-rc1''" 9 1]
  by (simp add: is_digit_def)

section \<open>What an old server is given\<close>

lemma valkeyImageAtLeast_mono:
  "mi \<le> mi' \<Longrightarrow> valkeyImageAtLeast img maj mi' \<Longrightarrow> valkeyImageAtLeast img maj mi"
  by (auto simp: valkeyImageAtLeast_def Let_def split: option.splits if_splits)

lemma setDefault_keys: "set (map fst (setDefault k v cfg)) \<subseteq> insert k (set (map fst cfg))"
  by (auto simp: setDefault_def)

text \<open>
  C14. A server older than 9.0 is never given a directive it refuses to start on: none of the
  directives the operator writes is one of the 9.x directives, and the settings appended after
  them are those of the user and the three memory defaults.
\<close>

theorem renderValkeyConf_gated:
  assumes "\<not> valkeyImageAtLeast (sp_Image (vc_Spec vc)) 9 0"
  shows "directive ` set (operatorConfig vc password) \<inter> gatedDirectives = {} \<and>
    set (map fst (effectiveConfig vc)) \<subseteq>
      set (map fst (sp_Config (vc_Spec vc))) \<union> {''maxmemory-policy'', ''maxmemory'', ''repl-backlog-size''}"
proof
  have new: "\<not> valkeyImageAtLeast (sp_Image (vc_Spec vc)) 9 1"
    using assms valkeyImageAtLeast_mono [of 0 1] by auto
  have "directive ` set (tlsConfig vc) \<inter> gatedDirectives = {}"
    by (auto simp: tlsConfig_def new directive_def gatedDirectives_def)
  moreover have "directive ` set (renderAuthConfig vc password) \<inter> gatedDirectives = {}"
    by (auto simp: renderAuthConfig_def directive_def gatedDirectives_def)
  moreover have "newFeatures vc = []" by (auto simp: newFeatures_def new split: option.splits)
  moreover have "directive ` set (clusterConfig vc) \<inter> gatedDirectives = {}"
    by (auto simp: clusterConfig_def new assms directive_def gatedDirectives_def Let_def)
  moreover have "directive ` set (persistenceConfig vc) \<inter> gatedDirectives = {}"
    by (auto simp: persistenceConfig_def directive_def gatedDirectives_def Let_def)
  moreover have "directive ` set [''bind 0.0.0.0'', ''protected-mode no'', ''dir '' @ dataMountPath,
      ''aclfile '' @ dataMountPath @ ''/users.acl''] \<inter> gatedDirectives = {}"
    by (auto simp: directive_def gatedDirectives_def)
  ultimately show "directive ` set (operatorConfig vc password) \<inter> gatedDirectives = {}"
    by (auto simp: operatorConfig_def)
  show "set (map fst (effectiveConfig vc)) \<subseteq>
      set (map fst (sp_Config (vc_Spec vc))) \<union> {''maxmemory-policy'', ''maxmemory'', ''repl-backlog-size''}"
    unfolding effectiveConfig_def by (intro order_trans [OF setDefault_keys] insert_subsetI) auto
qed

theorem renderValkeyConf_gated_witness:
  "directive ` set (operatorConfig (zero_cluster\<lparr>vc_UID := ''u1'',
       vc_Spec := zero_spec\<lparr>sp_Topology := TopologyCluster, sp_Image := ''valkey:8.1''\<rparr>\<rparr>) ''pw'') \<inter> gatedDirectives = {}"
  by (rule conjunct1 [OF renderValkeyConf_gated]) code_simp

section \<open>The defaults of the settings\<close>

lemma setDefault_keeps: "map_of cfg k = Some v \<Longrightarrow> map_of (setDefault d u cfg) k = Some v"
  by (auto simp: setDefault_def map_add_def)

lemma setDefault_id: "v = [] \<or> k \<in> set (map fst cfg) \<Longrightarrow> setDefault k v cfg = cfg"
  by (auto simp: setDefault_def)

lemma setDefault_member: "v = [] \<or> k \<in> set (map fst (setDefault k v cfg))"
  by (auto simp: setDefault_def)

lemma setDefault_member_other: "k \<in> set (map fst cfg) \<Longrightarrow> k \<in> set (map fst (setDefault d u cfg))"
  by (auto simp: setDefault_def)

lemma setDefault_absorb:
  "setDefault a x (setDefault c z (setDefault b y (setDefault a x cfg))) = setDefault c z (setDefault b y (setDefault a x cfg))"
  "setDefault b y (setDefault c z (setDefault b y cfg)) = setDefault c z (setDefault b y cfg)"
  "setDefault c z (setDefault c z cfg) = setDefault c z cfg"
  using setDefault_member [of x a cfg] setDefault_member [of y b cfg] setDefault_member [of z c cfg]
  by (auto intro!: setDefault_id intro: setDefault_member_other simp del: set_map)

text \<open>
  Rendering is stable although it writes its defaults into the object's own settings map: a
  second rendering of the object that the first one left behind has the same settings, and a
  value the user chose is never replaced by a default.
\<close>

theorem effectiveConfig_stable:
  "effectiveConfig (vc\<lparr>vc_Spec := (vc_Spec vc)\<lparr>sp_Config := effectiveConfig vc\<rparr>\<rparr>) = effectiveConfig vc \<and>
   (map_of (sp_Config (vc_Spec vc)) k = Some v \<longrightarrow> map_of (effectiveConfig vc) k = Some v)"
proof
  let ?vc = "vc\<lparr>vc_Spec := (vc_Spec vc)\<lparr>sp_Config := effectiveConfig vc\<rparr>\<rparr>"
  let ?policy = "if sp_Profile (vc_Spec vc) = ProfileDurable then ''noeviction'' else ''allkeys-lru''"
  let ?backlog = "if sp_Topology (vc_Spec vc) \<noteq> TopologyStandalone then computeReplBacklog vc else []"
  have same: "computeMaxmemory ?vc = computeMaxmemory vc" "computeReplBacklog ?vc = computeReplBacklog vc"
    by (simp_all add: computeMaxmemory_def computeReplBacklog_def)
  have "setDefault ''maxmemory-policy'' ?policy (effectiveConfig vc) = effectiveConfig vc"
    "setDefault ''maxmemory'' (computeMaxmemory vc) (effectiveConfig vc) = effectiveConfig vc"
    "setDefault ''repl-backlog-size'' ?backlog (effectiveConfig vc) = effectiveConfig vc"
    unfolding effectiveConfig_def by (rule setDefault_absorb)+
  then show "effectiveConfig ?vc = effectiveConfig vc"
    unfolding effectiveConfig_def [of ?vc] same by simp
  show "map_of (sp_Config (vc_Spec vc)) k = Some v \<longrightarrow> map_of (effectiveConfig vc) k = Some v"
    by (auto simp: effectiveConfig_def setDefault_keeps)
qed

theorem effectiveConfig_stable_witness:
  "map_of (effectiveConfig (zero_cluster\<lparr>vc_Spec := zero_spec\<lparr>sp_MemoryLimit := Some 1073741824,
      sp_Config := [(''maxmemory'', ''100mb'')]\<rparr>\<rparr>)) ''maxmemory'' = Some ''100mb''"
  using effectiveConfig_stable [of "zero_cluster\<lparr>vc_Spec := zero_spec\<lparr>sp_MemoryLimit := Some 1073741824,
      sp_Config := [(''maxmemory'', ''100mb'')]\<rparr>\<rparr>" "''maxmemory''" "''100mb''"] by simp

text \<open>
  The memory defaults stay within their bounds: with a memory limit, \<open>maxmemory\<close> is 60 percent of
  it, rounded down, and the replication backlog is between 16 MiB and 256 MiB, a sixteenth of the
  limit when that lies between the two. The bound on the limit is the range in which the product
  with 60 fits 64 bits.
\<close>

theorem memory_defaults_bounds:
  assumes "sp_MemoryLimit (vc_Spec vc) = Some lim" and "1 < lim" and "lim < 2 ^ 57"
  shows "(\<exists>m. computeMaxmemory vc = Itoa m @ ''b'' \<and> 100 * m \<le> 60 * lim \<and> 60 * lim < 100 * (m + 1)) \<and>
    (\<exists>b. computeReplBacklog vc = Itoa b @ ''b'' \<and> 16 * 1024 * 1024 \<le> b \<and> b \<le> 256 * 1024 * 1024 \<and>
       (b \<in> {16 * 1024 * 1024, 256 * 1024 * 1024} \<or> 16 * b \<le> lim \<and> lim < 16 * (b + 1)))"
proof
  have "int64 (lim * 60) = lim * 60" using assms(2,3) by (intro int64_id) auto
  moreover have "lim * 60 sdiv 100 = lim * 60 div 100" using assms(2) by (simp add: signed_divide_int_def)
  moreover have "0 < lim * 60 div 100" using assms(2) by simp
  ultimately have "computeMaxmemory vc = Itoa (lim * 60 div 100) @ ''b''"
    using assms(1,2) by (simp add: computeMaxmemory_def)
  then show "\<exists>m. computeMaxmemory vc = Itoa m @ ''b'' \<and> 100 * m \<le> 60 * lim \<and> 60 * lim < 100 * (m + 1)"
    by (intro exI [of _ "lim * 60 div 100"]) auto
  have "lim sdiv 16 = lim div 16" using assms(2) by (simp add: signed_divide_int_def)
  then have "computeReplBacklog vc = Itoa (min (max (lim div 16) (16 * 1024 * 1024)) (256 * 1024 * 1024)) @ ''b''"
    using assms(1,2) by (simp add: computeReplBacklog_def)
  then show "\<exists>b. computeReplBacklog vc = Itoa b @ ''b'' \<and> 16 * 1024 * 1024 \<le> b \<and> b \<le> 256 * 1024 * 1024 \<and>
       (b \<in> {16 * 1024 * 1024, 256 * 1024 * 1024} \<or> 16 * b \<le> lim \<and> lim < 16 * (b + 1))"
    by (intro exI [of _ "min (max (lim div 16) (16 * 1024 * 1024)) (256 * 1024 * 1024)"]) (auto simp: min_def max_def)
qed

theorem memory_defaults_bounds_witness:
  "\<exists>m. computeMaxmemory (zero_cluster\<lparr>vc_Spec := zero_spec\<lparr>sp_MemoryLimit := Some 1073741824\<rparr>\<rparr>) = Itoa m @ ''b'' \<and>
     100 * m \<le> 60 * 1073741824 \<and> 60 * 1073741824 < 100 * (m + 1)"
  using memory_defaults_bounds [of "zero_cluster\<lparr>vc_Spec := zero_spec\<lparr>sp_MemoryLimit := Some 1073741824\<rparr>\<rparr>" 1073741824]
  by simp

end
