(* ===== verification/Trace_Logic.thy ===== *)
theory Trace_Logic
  imports Valkey_Client
begin

text \<open>
  A weakest-precondition calculus for the handlers. A guarantee relates the trace so far to the
  next action; \<open>wp G m Q w\<close> says that every action that \<open>m\<close> issues from \<open>w\<close> meets the guarantee
  at the moment it is issued, and that the result and the world satisfy \<open>Q\<close> at the end. The
  rules of the collection \<open>wp_rules\<close> follow the program text. Safety properties that depend on
  the order of actions, such as "this command only after that deletion", are guarantees.
\<close>

section \<open>Definitions\<close>

fun guarded :: "(action list \<Rightarrow> action \<Rightarrow> bool) \<Rightarrow> action list \<Rightarrow> action list \<Rightarrow> bool" where
  "guarded G t [] = True"
| "guarded G t (a # as) = (G t a \<and> guarded G (t @ [a]) as)"

definition wp ::
  "(action list \<Rightarrow> action \<Rightarrow> bool) \<Rightarrow> 'a op \<Rightarrow> ('a \<Rightarrow> world \<Rightarrow> bool) \<Rightarrow> world \<Rightarrow> bool" where
  "wp G m Q w \<longleftrightarrow> (\<exists>xs. acts (snd (run_state m w)) = acts w @ xs \<and> guarded G (acts w) xs \<and>
     Q (fst (run_state m w)) (snd (run_state m w)))"

text \<open>The action \<open>a\<close> was issued between two worlds, when the trace was \<open>t\<close>.\<close>

definition issued :: "world \<Rightarrow> world \<Rightarrow> action list \<Rightarrow> action \<Rightarrow> bool" where
  "issued w w' t a \<longleftrightarrow> (\<exists>xs ys. t = acts w @ xs \<and> acts w' = t @ a # ys)"

definition appended :: "world \<Rightarrow> action \<Rightarrow> world" where
  "appended w a = w\<lparr>acts := acts w @ [a]\<rparr>"

text \<open>The later world holds the same object and a longer trace.\<close>

definition grows :: "world \<Rightarrow> world \<Rightarrow> bool" where
  "grows w w' \<longleftrightarrow> cur w' = cur w \<and> (\<exists>xs. acts w' = acts w @ xs)"

text \<open>The traces between two worlds of a run.\<close>

definition between :: "world \<Rightarrow> world \<Rightarrow> action list \<Rightarrow> bool" where
  "between w w' t \<longleftrightarrow> (\<exists>xs ys. t = acts w @ xs \<and> acts w' = t @ ys)"

named_theorems wp_rules \<open>weakest-precondition rules, one per program construct\<close>

section \<open>Consequences\<close>

lemma guarded_append [simp]: "guarded G t (xs @ ys) \<longleftrightarrow> guarded G t xs \<and> guarded G (t @ xs) ys"
  by (induction xs arbitrary: t) auto

lemma wp_issued:
  assumes "wp G m Q w" and "run_state m w = (r, w')" and "issued w w' t a"
  shows "G t a"
proof -
  obtain xs where xs: "acts w' = acts w @ xs" "guarded G (acts w) xs"
    using assms(1,2) by (auto simp: wp_def)
  obtain us ys where "t = acts w @ us" "acts w' = t @ a # ys" using assms(3) by (auto simp: issued_def)
  then have "xs = us @ a # ys" "t = acts w @ us" using xs(1) by auto
  then show ?thesis using xs(2) by simp
qed

lemma issued_member: "acts w = [] \<Longrightarrow> a \<in> set (acts w') \<Longrightarrow> \<exists>t. issued w w' t a"
  by (auto simp: issued_def dest: split_list)

lemma wp_result: "wp G m Q w \<Longrightarrow> run_state m w = (r, w') \<Longrightarrow> Q r w'"
  by (auto simp: wp_def)

lemma wp_conseq:
  "wp G m Q w \<Longrightarrow> (\<And>x w'. Q x w' \<Longrightarrow> Q' x w') \<Longrightarrow> wp G m Q' w"
  unfolding wp_def by blast

lemma guarded_mono:
  "guarded G t xs \<Longrightarrow> (\<And>us a. G (t @ us) a \<Longrightarrow> G' (t @ us) a) \<Longrightarrow> guarded G' t xs"
proof (induction xs arbitrary: t)
  case (Cons a xs)
  have "G' t a" using Cons.prems(1) Cons.prems(2) [of "[]"] by simp
  moreover have "guarded G' (t @ [a]) xs"
    by (rule Cons.IH) (use Cons.prems(1) Cons.prems(2) [of "a # _"] in auto)
  ultimately show ?case by simp
qed simp

lemma wp_guarantee:
  "wp G m Q w \<Longrightarrow> (\<And>us a. G (acts w @ us) a \<Longrightarrow> G' (acts w @ us) a) \<Longrightarrow> wp G' m Q w"
  unfolding wp_def by (blast intro: guarded_mono)

lemma wp_conj: "wp G m Q w \<Longrightarrow> wp G m R w \<Longrightarrow> wp G m (\<lambda>x w'. Q x w' \<and> R x w') w"
  by (auto simp: wp_def)

lemma acts_appended [simp]: "acts (appended w a) = acts w @ [a]"
  and cur_appended [simp]: "cur (appended w a) = cur w"
  by (simp_all add: appended_def)

lemma grows_refl [simp]: "grows w w"
  by (simp add: grows_def)

lemma grows_trans [trans]: "grows u v \<Longrightarrow> grows v w \<Longrightarrow> grows u w"
  by (auto simp: grows_def)

lemma grows_appended [simp]: "grows w v \<Longrightarrow> grows w (appended v a)"
  by (auto simp: grows_def)

lemma grows_cur: "grows w v \<Longrightarrow> cur v = cur w"
  by (simp add: grows_def)

section \<open>Rules\<close>

lemma wp_return [wp_rules]: "Q x w \<Longrightarrow> wp G (State_Monad.return x) Q w"
  by (simp add: wp_def)

lemma wp_bind [wp_rules]:
  assumes "wp G m (\<lambda>x. wp G (f x) Q) w"
  shows "wp G (State_Monad.bind m f) Q w"
proof -
  obtain a v where m: "run_state m w = (a, v)" by (cases "run_state m w")
  obtain b u where f: "run_state (f a) v = (b, u)" by (cases "run_state (f a) v")
  obtain xs where xs: "acts v = acts w @ xs" "guarded G (acts w) xs" "wp G (f a) Q v"
    using assms m by (auto simp: wp_def)
  obtain ys where "acts u = acts v @ ys" "guarded G (acts v) ys" "Q b u"
    using xs(3) f by (auto simp: wp_def)
  then show ?thesis using m f xs by (auto simp: wp_def intro!: exI [of _ "xs @ ys"])
qed

lemma wp_get_vc [wp_rules]: "Q (cur w) w \<Longrightarrow> wp G get_vc Q w"
  by (simp add: wp_def)

lemma wp_ask [wp_rules]: "Q (f (acts w)) w \<Longrightarrow> wp G (ask f) Q w"
  by (simp add: wp_def)

lemma wp_emit [wp_rules]: "G (acts w) a \<Longrightarrow> Q () (appended w a) \<Longrightarrow> wp G (emit a) Q w"
  by (simp add: wp_def appended_def)

lemma wp_modify_status [wp_rules]:
  "Q () (w\<lparr>cur := (cur w)\<lparr>vc_Status := f (vc_Status (cur w))\<rparr>\<rparr>) \<Longrightarrow> wp G (modify_status f) Q w"
  by (simp add: wp_def)

lemma wp_set_vc [wp_rules]: "Q () (w\<lparr>cur := v\<rparr>) \<Longrightarrow> wp G (set_vc v) Q w"
  by (simp add: wp_def)

lemma wp_if [wp_rules]:
  "(b \<Longrightarrow> wp G m Q w) \<Longrightarrow> (\<not> b \<Longrightarrow> wp G n Q w) \<Longrightarrow> wp G (if b then m else n) Q w"
  by simp

lemma wp_option [wp_rules]:
  "(x = None \<Longrightarrow> wp G m Q w) \<Longrightarrow> (\<And>y. x = Some y \<Longrightarrow> wp G (f y) Q w) \<Longrightarrow>
   wp G (case x of None \<Rightarrow> m | Some y \<Rightarrow> f y) Q w"
  by (cases x) simp_all

lemma wp_sum [wp_rules]:
  "(\<And>y. x = Inl y \<Longrightarrow> wp G (f y) Q w) \<Longrightarrow> (\<And>y. x = Inr y \<Longrightarrow> wp G (g y) Q w) \<Longrightarrow>
   wp G (case x of Inl y \<Rightarrow> f y | Inr y \<Rightarrow> g y) Q w"
  by (cases x) simp_all

lemma wp_prod [wp_rules]:
  "(\<And>a b. x = (a, b) \<Longrightarrow> wp G (f a b) Q w) \<Longrightarrow> wp G (case x of (a, b) \<Rightarrow> f a b) Q w"
  by (cases x) simp

lemma wp_Let [wp_rules]: "(\<And>x. x = v \<Longrightarrow> wp G (f x) Q w) \<Longrightarrow> wp G (Let v f) Q w"
  by simp

text \<open>Loops carry an invariant; a handler that is known by what it emits needs no unfolding.\<close>

lemma wp_for_each:
  assumes "I w" and "\<And>x v. x \<in> set xs \<Longrightarrow> I v \<Longrightarrow> wp G (f x) (\<lambda>_. I) v" and "\<And>v. I v \<Longrightarrow> Q () v"
  shows "wp G (for_each xs f) Q w"
  using assms
proof (induction xs arbitrary: w)
  case (Cons x xs)
  have "wp G (f x) (\<lambda>_. I) w" using Cons.prems by simp
  then have "wp G (f x) (\<lambda>_. wp G (for_each xs f) Q) w"
    by (rule wp_conseq) (use Cons in auto)
  then show ?case by (auto intro: wp_bind)
qed (auto intro: wp_return)

lemma wp_fold_state:
  assumes "I a w" and "\<And>x b v. x \<in> set xs \<Longrightarrow> I b v \<Longrightarrow> wp G (f x b) I v" and "\<And>b v. I b v \<Longrightarrow> Q b v"
  shows "wp G (fold_state f xs a) Q w"
  using assms
proof (induction xs arbitrary: a w)
  case (Cons x xs)
  have "wp G (f x a) I w" using Cons.prems by simp
  then have "wp G (f x a) (\<lambda>b. wp G (fold_state f xs b) Q) w"
    by (rule wp_conseq) (use Cons in auto)
  then show ?case by (auto intro: wp_bind)
qed (auto intro: wp_return)

lemma wp_map_state:
  assumes "I w" and "\<And>x v. x \<in> set xs \<Longrightarrow> I v \<Longrightarrow> wp G (f x) (\<lambda>y v'. I v' \<and> P x y) v"
    and "\<And>ys v. I v \<Longrightarrow> list_all2 P xs ys \<Longrightarrow> Q ys v"
  shows "wp G (map_state f xs) Q w"
  using assms
proof (induction xs arbitrary: w Q)
  case (Cons x xs)
  have "wp G (f x) (\<lambda>y v'. I v' \<and> P x y) w" using Cons.prems by simp
  then have "wp G (f x) (\<lambda>y. wp G (map_state f xs) (\<lambda>ys v. I v \<and> list_all2 P xs ys \<and> P x y)) w"
    by (rule wp_conseq) (use Cons in auto)
  then show ?case using Cons.prems(3)
    by (auto intro!: wp_bind wp_return elim!: wp_conseq)
qed (auto intro: wp_return)

text \<open>For results that speak of the trace, and stay true when it grows.\<close>

lemma wp_map_state_grows:
  assumes "\<And>x v. x \<in> set xs \<Longrightarrow> grows w v \<Longrightarrow> wp G (f x) (\<lambda>y v'. grows v v' \<and> P x y v') v"
    and mono: "\<And>x y v v'. P x y v \<Longrightarrow> grows v v' \<Longrightarrow> P x y v'"
    and "\<And>ys v. grows w v \<Longrightarrow> list_all2 (\<lambda>x y. P x y v) xs ys \<Longrightarrow> Q ys v"
  shows "wp G (map_state f xs) Q w"
  using assms(1,3)
proof (induction xs arbitrary: w Q)
  case (Cons x xs)
  have "wp G (f x) (\<lambda>y v'. grows w v' \<and> P x y v') w" using Cons.prems(1) by simp
  then have "wp G (f x) (\<lambda>y. wp G (map_state f xs) (\<lambda>ys v. grows w v \<and> list_all2 (\<lambda>x y. P x y v) xs ys \<and> P x y v)) w"
  proof (rule wp_conseq)
    fix y v' assume y: "grows w v' \<and> P x y v'"
    show "wp G (map_state f xs) (\<lambda>ys v. grows w v \<and> list_all2 (\<lambda>x y. P x y v) xs ys \<and> P x y v) v'"
      by (rule Cons.IH) (use y Cons.prems(1) mono in \<open>auto intro: grows_trans\<close>)
  qed
  then show ?case using Cons.prems(2) by (auto intro!: wp_bind wp_return elim!: wp_conseq)
qed (auto intro: wp_return)

lemma wp_first_state:
  assumes "I w" and "\<And>x v. x \<in> set xs \<Longrightarrow> I v \<Longrightarrow> wp G (f x) (\<lambda>r v'. case r of None \<Rightarrow> I v' | Some y \<Rightarrow> Q (Some y) v') v"
    and "\<And>v. I v \<Longrightarrow> Q None v"
  shows "wp G (first_state f xs) Q w"
  using assms
proof (induction xs arbitrary: w)
  case (Cons x xs)
  have "wp G (f x) (\<lambda>r v'. case r of None \<Rightarrow> I v' | Some y \<Rightarrow> Q (Some y) v') w" using Cons.prems by simp
  then have "wp G (f x) (\<lambda>r. wp G (case r of Some y \<Rightarrow> State_Monad.return (Some y) | None \<Rightarrow> first_state f xs) Q) w"
    by (rule wp_conseq) (use Cons in \<open>auto intro!: wp_return split: option.splits\<close>)
  then show ?case by (auto intro: wp_bind)
qed (auto intro: wp_return)

text \<open>
  A property of the trace that every guaranteed action keeps holds at the end, and a loop that
  stops at the first error establishes such a property for each of its elements.
\<close>

lemma guarded_stable:
  "guarded G t xs \<Longrightarrow> S t \<Longrightarrow> (\<And>t a. S t \<Longrightarrow> G t a \<Longrightarrow> S (t @ [a])) \<Longrightarrow> S (t @ xs)"
proof (induction xs arbitrary: t)
  case (Cons a xs)
  then have "S (t @ [a])" and "guarded G (t @ [a]) xs" by simp_all
  then show ?case using Cons.IH [of "t @ [a]"] Cons.prems(3) by simp
qed simp

lemma wp_stable:
  assumes "wp G m Q w" and "S (acts w)" and "\<And>t a. S t \<Longrightarrow> G t a \<Longrightarrow> S (t @ [a])"
  shows "wp G m (\<lambda>x v. Q x v \<and> S (acts v)) w"
  using assms guarded_stable [of G "acts w" _ S] by (auto simp: wp_def)

lemma wp_between:
  assumes "wp G m Q w" and "run_state m w = (r, w')" and "between w w' t"
    and "S (acts w)" and "\<And>t a. S t \<Longrightarrow> G t a \<Longrightarrow> S (t @ [a])"
  shows "S t"
proof -
  obtain xs where xs: "acts w' = acts w @ xs" "guarded G (acts w) xs"
    using assms(1,2) by (auto simp: wp_def)
  obtain us ys where "t = acts w @ us" "acts w' = t @ ys" using assms(3) by (auto simp: between_def)
  then have "xs = us @ ys" "t = acts w @ us" using xs(1) by auto
  then show ?thesis using xs(2) guarded_stable [of G "acts w" us S] assms(4,5) by simp
qed

lemma wp_first_state_each:
  assumes "I w"
    and "\<And>x v. x \<in> set xs \<Longrightarrow> I v \<Longrightarrow> wp G (f x) (\<lambda>r v'. case r of None \<Rightarrow> I v' \<and> P x (acts v') | Some y \<Rightarrow> Q (Some y) v') v"
    and stable: "\<And>x t a. P x t \<Longrightarrow> G t a \<Longrightarrow> P x (t @ [a])"
    and "\<And>v. I v \<Longrightarrow> (\<And>x. x \<in> set xs \<Longrightarrow> P x (acts v)) \<Longrightarrow> Q None v"
  shows "wp G (first_state f xs) Q w"
  using assms(1,2,4)
proof (induction xs arbitrary: w Q)
  case (Cons x xs)
  have "wp G (first_state f xs) Q v" if "I v" "P x (acts v)" for v
  proof -
    have "wp G (first_state f xs) (\<lambda>r v'. (P x (acts v') \<longrightarrow> Q r v') \<and> P x (acts v')) v"
    proof (rule wp_stable [where S = "P x"])
      show "wp G (first_state f xs) (\<lambda>r v'. P x (acts v') \<longrightarrow> Q r v') v"
      proof (rule Cons.IH)
        show "wp G (f y) (\<lambda>r v'. case r of None \<Rightarrow> I v' \<and> P y (acts v') | Some z \<Rightarrow> P x (acts v') \<longrightarrow> Q (Some z) v') v'"
          if "y \<in> set xs" "I v'" for y v'
          by (rule wp_conseq [OF Cons.prems(2)]) (use that in \<open>auto split: option.splits\<close>)
        show "P x (acts v') \<longrightarrow> Q None v'" if "I v'" "\<And>y. y \<in> set xs \<Longrightarrow> P y (acts v')" for v'
          using Cons.prems(3) [of v'] that by auto
      qed (fact that(1))
    qed (use that stable in auto)
    then show ?thesis by (rule wp_conseq) simp
  qed
  moreover have "wp G (f x) (\<lambda>r v'. case r of None \<Rightarrow> I v' \<and> P x (acts v') | Some y \<Rightarrow> Q (Some y) v') w"
    using Cons.prems by simp
  ultimately have "wp G (f x) (\<lambda>r. wp G (case r of Some y \<Rightarrow> State_Monad.return (Some y) | None \<Rightarrow> first_state f xs) Q) w"
    by (auto intro!: wp_return elim!: wp_conseq split: option.splits)
  then show ?case by (auto intro: wp_bind)
qed (auto intro: wp_return)

lemma wp_poll_loop:
  assumes "I s w" and "\<And>s v. I s v \<Longrightarrow> wp G (cond s) (\<lambda>p v'. case snd p of None \<Rightarrow> I (fst p) v' | Some r \<Rightarrow> Q (Some r) v') v"
    and "\<And>s v. I s v \<Longrightarrow> Q None v"
  shows "wp G (poll_loop n cond s) Q w"
  using assms(1)
proof (induction n arbitrary: s w)
  case 0
  have "wp G (cond s) (\<lambda>p. wp G (State_Monad.return (snd p)) Q) w"
  proof (rule wp_conseq [OF assms(2) [OF 0]])
    fix p v' assume "case snd p of None \<Rightarrow> I (fst p) v' | Some r \<Rightarrow> Q (Some r) v'"
    then show "wp G (State_Monad.return (snd p)) Q v'"
      by (cases "snd p") (auto intro!: wp_return assms(3))
  qed
  then show ?case by (auto intro: wp_bind)
next
  case (Suc n)
  have "wp G (cond s) (\<lambda>p. wp G (case snd p of Some r \<Rightarrow> State_Monad.return (Some r) | None \<Rightarrow> poll_loop n cond (fst p)) Q) w"
    by (rule wp_conseq [OF assms(2) [OF Suc.prems]]) (auto intro: Suc.IH wp_return split: option.splits)
  then show ?case by (auto intro: wp_bind)
qed

lemma wp_poll_until:
  assumes "I s w" and "\<And>s v. I s v \<Longrightarrow> wp G (cond s) (\<lambda>p v'. case snd p of None \<Rightarrow> I (fst p) v' | Some r \<Rightarrow> Q (Some r) v') v"
    and "\<And>s v. I s v \<Longrightarrow> Q None v"
  shows "wp G (poll_until env interval timeout cond s) Q w"
  unfolding poll_until_def by (intro wp_bind wp_ask wp_poll_loop [where I = I] assms)

section \<open>The client and the API server\<close>

lemma guarded_all: "(\<And>x. x \<in> set xs \<Longrightarrow> A x) \<Longrightarrow> (\<And>t a. A a \<Longrightarrow> G t a) \<Longrightarrow> guarded G t xs"
  by (induction xs arbitrary: t) auto

lemma wp_emits:
  assumes "emits A m" and "keeps_cur m" and "\<And>t a. A a \<Longrightarrow> G t a"
    and "\<And>x v. grows w v \<Longrightarrow> x \<in> set_state m \<Longrightarrow> Q x v"
  shows "wp G m Q w"
proof -
  obtain x v where run: "run_state m w = (x, v)" by (cases "run_state m w")
  obtain xs where xs: "acts v = acts w @ xs" "\<And>y. y \<in> set xs \<Longrightarrow> A y" using emitsE [OF assms(1) run] by blast
  have "guarded G (acts w) xs" using guarded_all [of xs A G] xs(2) assms(3) by blast
  moreover have "grows w v" using xs(1) keeps_curD [OF assms(2) run] by (simp add: grows_def)
  moreover have "x \<in> set_state m" using run by (auto simp: set_state_iff)
  ultimately show ?thesis using run xs(1) assms(4) by (auto simp: wp_def)
qed

lemma wp_loadMTLSClientCert [wp_rules]:
  "(\<And>cert. Q cert w) \<Longrightarrow> wp G (loadMTLSClientCert env vc) Q w"
  using loadMTLSClientCert_state [of env vc w] by (simp add: wp_def)

lemma wp_dialReplClient [wp_rules]:
  assumes "\<And>ok. ok = env_dial env (acts w) host port pw tls cert \<Longrightarrow> G (acts w) (ADial host port pw ok)"
    and "env_dial env (acts w) host port pw tls cert \<Longrightarrow>
      Q (Some \<lparr>rc_host = host, rc_port = port\<rparr>) (appended w (ADial host port pw True))"
    and "\<not> env_dial env (acts w) host port pw tls cert \<Longrightarrow> Q None (appended w (ADial host port pw False))"
  shows "wp G (dialReplClient env host port pw tls cert) Q w"
  using assms by (auto simp: wp_def run_dialReplClient Let_def appended_def)

lemma wp_dialPod [wp_rules]:
  assumes "\<And>ok. G (acts w) (ADial host (dataPort vc) pw ok)"
    and "Q (Some \<lparr>rc_host = host, rc_port = dataPort vc\<rparr>) (appended w (ADial host (dataPort vc) pw True))"
    and "Q None (appended w (ADial host (dataPort vc) pw False))"
  shows "wp G (dialPod env vc host pw) Q w"
  unfolding dialPod_def using assms by (auto intro!: wp_rules)

lemma wp_rdb_Do [wp_rules]:
  assumes "\<And>r. r = env_cmd env (acts w) (rc_host c) args \<Longrightarrow>
      G (acts w) (ACmd (rc_host c) args (reply_err r = None)) \<and>
      Q r (appended w (ACmd (rc_host c) args (reply_err r = None)))"
  shows "wp G (rdb_Do env c args) Q w"
  unfolding rdb_Do_def using assms
  by (auto intro!: wp_rules simp: reply_err_def split: sum.splits)

lemma wp_do_err [wp_rules]:
  assumes "\<And>r. r = reply_err (env_cmd env (acts w) (rc_host c) args) \<Longrightarrow>
      G (acts w) (ACmd (rc_host c) args (r = None)) \<and> Q r (appended w (ACmd (rc_host c) args (r = None)))"
  shows "wp G (do_err env c args) Q w"
  unfolding do_err_def using assms by (auto intro!: wp_rules)

lemma wp_patch_status [wp_rules]:
  assumes "\<And>r. r = env_write env (acts w) (WPatchStatus (vc_Status (cur w))) \<Longrightarrow>
      G (acts w) (APatchStatus (vc_Status (cur w)) r) \<and> Q r (appended w (APatchStatus (vc_Status (cur w)) r))"
  shows "wp G (patch_status env) Q w"
  unfolding patch_status_def using assms by (auto intro!: wp_rules)

lemma wp_create_obj [wp_rules]:
  assumes "\<And>r. r = env_write env (acts w) (WCreate ob) \<Longrightarrow>
      G (acts w) (ACreate ob r) \<and> Q r (appended w (ACreate ob r))"
  shows "wp G (create_obj env ob) Q w"
  unfolding create_obj_def using assms by (auto intro!: wp_rules)

lemma wp_update_obj [wp_rules]:
  assumes "\<And>r. r = env_write env (acts w) (WUpdate ob) \<Longrightarrow>
      G (acts w) (AUpdate ob r) \<and> Q r (appended w (AUpdate ob r))"
  shows "wp G (update_obj env ob) Q w"
  unfolding update_obj_def using assms by (auto intro!: wp_rules)

lemma wp_delete_obj [wp_rules]:
  assumes "\<And>r. r = env_write env (acts w) (WDelete kind name) \<Longrightarrow>
      G (acts w) (ADelete kind name r) \<and> Q r (appended w (ADelete kind name r))"
  shows "wp G (delete_obj env kind name) Q w"
  unfolding delete_obj_def using assms by (auto intro!: wp_rules)

lemma wp_patch_pod_labels [wp_rules]:
  assumes "\<And>r. r = env_write env (acts w) (WPatchPodLabels name ls) \<Longrightarrow>
      G (acts w) (APatchPodLabels name ls r) \<and> Q r (appended w (APatchPodLabels name ls r))"
  shows "wp G (patch_pod_labels env name ls) Q w"
  unfolding patch_pod_labels_def using assms by (auto intro!: wp_rules)

lemma wp_patch_storage [wp_rules]:
  assumes "\<And>r. r = env_write env (acts w) (WPatchStorage name bytes) \<Longrightarrow>
      G (acts w) (APatchStorage name bytes r) \<and> Q r (appended w (APatchStorage name bytes r))"
  shows "wp G (patch_storage env name bytes) Q w"
  unfolding patch_storage_def using assms by (auto intro!: wp_rules)

lemma wp_update_status [wp_rules]:
  assumes "\<And>r. r = env_write env (acts w) (WUpdateStatus s) \<Longrightarrow>
      G (acts w) (AUpdateStatus s r) \<and> Q r (appended w (AUpdateStatus s r))"
  shows "wp G (update_status env s) Q w"
  unfolding update_status_def using assms by (auto intro!: wp_rules)

text \<open>Repeating on conflict: an invariant that each attempt keeps and that gives the result.\<close>

lemma wp_retry_on_conflict:
  assumes "I w" and "\<And>v. I v \<Longrightarrow> wp G f (\<lambda>r v'. Q r v' \<and> I v') v"
  shows "wp G (retry_on_conflict n f) Q w"
  using assms(1)
proof (induction n arbitrary: w)
  case 0
  then show ?case by (auto intro: wp_conseq [OF assms(2)])
next
  case (Suc n)
  have "wp G f (\<lambda>r. wp G (case r of
      Inl e \<Rightarrow> if e = Conflict then retry_on_conflict n f else State_Monad.return (Inl e)
    | Inr x \<Rightarrow> State_Monad.return (Inr x)) Q) w"
    by (rule wp_conseq [OF assms(2) [OF Suc.prems]]) (auto intro: Suc.IH wp_return split: sum.splits)
  then show ?case by (auto intro: wp_bind)
qed

end
