(* ===== verification/Sentinel.thy ===== *)
theory Sentinel
  imports Rollout Config_Render Trace_Logic
begin

text \<open>
  The upkeep of running Sentinels, \<open>src/internal/controller/sentinel.go\<close>: pushing changed timings,
  reading every Sentinel's view of the master, the reset of a Sentinel that counts dead peers, the
  repair of a data pod that replicates from the wrong place, and the Sentinel steps of a password
  rotation. The listing of the Sentinel pods is that of \<open>rollout_sentinel.go\<close>. A Go \<open>any\<close> that
  holds a server reply is a value of \<^typ>\<open>reply\<close>.
\<close>

section \<open>Package net\<close>

text \<open>Whether \<open>net.ParseIP(s)\<close> is not \<open>nil\<close>. A zone makes it \<open>nil\<close>.\<close>

definition is_hex :: "char \<Rightarrow> bool" where
  "is_hex c \<longleftrightarrow> is_digit c \<or> 97 \<le> (of_char c :: nat) \<and> (of_char c :: nat) \<le> 102 \<or>
     65 \<le> (of_char c :: nat) \<and> (of_char c :: nat) \<le> 70"

definition ipv4_field :: "string \<Rightarrow> bool" where
  "ipv4_field f = (case parse_unsigned f of None \<Rightarrow> False
     | Some n \<Rightarrow> n \<le> 255 \<and> (length f = 1 \<or> hd f \<noteq> CHR ''0''))"

definition is_ipv4 :: "string \<Rightarrow> bool" where
  "is_ipv4 s = (let fs = SplitByte s (CHR ''.'') in length fs = 4 \<and> list_all ipv4_field fs)"

text \<open>The groups of an IPv6 address; the first argument counts the groups that still fit.\<close>

primrec ipv6_groups :: "nat \<Rightarrow> bool \<Rightarrow> string \<Rightarrow> bool" where
  "ipv6_groups 0 ellipsis s \<longleftrightarrow> s = [] \<and> \<not> ellipsis"
| "ipv6_groups (Suc n) ellipsis s =
     (let g = takeWhile is_hex s; rest = dropWhile is_hex s
      in if g = [] \<or> length g > 4 then False
         else (case rest of
             [] \<Rightarrow> (if n = 0 then \<not> ellipsis else ellipsis)
           | c # cs \<Rightarrow>
               if c = CHR ''.'' then
                 1 \<le> n \<and> (ellipsis \<or> n = 1) \<and> is_ipv4 s \<and> (if n = 1 then \<not> ellipsis else ellipsis)
               else if c \<noteq> CHR '':'' \<or> cs = [] then False
               else if hd cs = CHR '':'' then
                 (if ellipsis then False
                  else if tl cs = [] then n \<noteq> 0 else ipv6_groups n True (tl cs))
               else ipv6_groups n ellipsis cs))"

definition is_ipv6 :: "string \<Rightarrow> bool" where
  "is_ipv6 s = (if HasPrefix s ''::'' then drop 2 s = [] \<or> ipv6_groups 8 True (drop 2 s)
                else ipv6_groups 8 False s)"

definition ParseIP :: "string \<Rightarrow> bool" where
  "ParseIP s =
     (if CHR ''%'' \<in> set s then False
      else (case find (\<lambda>c. c = CHR ''.'' \<or> c = CHR '':'') s of
              None \<Rightarrow> False
            | Some c \<Rightarrow> if c = CHR ''.'' then is_ipv4 s else is_ipv6 s))"

section \<open>Replies of a Sentinel\<close>

text \<open>
  \<open>fmt.Sprint\<close> of a reply. The pairs of an \<open>RMap\<close> stand in the order in which \<open>fmt\<close> prints the
  keys of a map.
\<close>

fun Sprint :: "reply \<Rightarrow> string" where
  "Sprint (RText s) = s"
| "Sprint (RInt n) = Itoa n"
| "Sprint (RArray rs) = ''['' @ Join (map Sprint rs) '' '' @ '']''"
| "Sprint (RMap kvs) = ''map['' @ Join (map (\<lambda>(k, v). Sprint k @ '':'' @ Sprint v) kvs) '' '' @ '']''"

fun field_pairs :: "reply list \<Rightarrow> (reply \<times> reply) list" where
  "field_pairs (k # v # rest) = (k, v) # field_pairs rest"
| "field_pairs _ = []"

definition field_map :: "(reply \<times> reply) list \<Rightarrow> (string \<rightharpoonup> string)" where
  "field_map kvs = fold (\<lambda>(k, v) out. out(Sprint k \<mapsto> Sprint v)) kvs (\<lambda>_. None)"

definition parseSentinelMaster :: "reply \<Rightarrow> string + (string \<rightharpoonup> string)" where
  "parseSentinelMaster res =
     (case res of
        RArray v \<Rightarrow> Inr (field_map (field_pairs v))
      | RMap v \<Rightarrow> Inr (field_map v)
      | _ \<Rightarrow> Inl ''unexpected SENTINEL MASTER reply type'')"

definition sentinelMaster :: "env \<Rightarrow> replClient \<Rightarrow> string \<Rightarrow> (string + (string \<rightharpoonup> string)) op" where
  "sentinelMaster env c name = do {
     r \<leftarrow> rdb_Do env c [''SENTINEL'', ''MASTER'', name];
     State_Monad.return (case r of Inl e \<Rightarrow> Inl e | Inr res \<Rightarrow> parseSentinelMaster res) }"

definition sentinelSet :: "env \<Rightarrow> replClient \<Rightarrow> string \<Rightarrow> string list \<Rightarrow> string option op" where
  "sentinelSet env c name optionValues = do_err env c ([''SENTINEL'', ''SET'', name] @ optionValues)"

section \<open>The Sentinel pods\<close>

definition sentinelPodFQDN :: "ValkeyCluster \<Rightarrow> int \<Rightarrow> string" where
  "sentinelPodFQDN vc ord =
     (let sn = sentinelStatefulSetName vc in fqdn (sn @ ''-'' @ Itoa ord) sn (vc_Namespace vc))"

definition sentinelRolloutPodOf :: "ValkeyCluster \<Rightarrow> Pod \<Rightarrow> rolloutPod option" where
  "sentinelRolloutPodOf vc p =
     (if pod_DeletionTimestamp p \<noteq> None then None
      else (case ordinalFromPodName (pod_Name p) (sentinelStatefulSetName vc) of
              None \<Rightarrow> None
            | Some ord \<Rightarrow> Some \<lparr>rp_name = pod_Name p, rp_ordinal = ord,
                rp_revision = mget (map_of (pod_Labels p)) revisionLabel, rp_ready = podIsReady p\<rparr>))"

definition listSentinelRolloutPods :: "env \<Rightarrow> (kerr + rolloutPod list) op" where
  "listSentinelRolloutPods env = do {
     vc \<leftarrow> get_vc;
     r \<leftarrow> ask (\<lambda>t. env_pods env t [(instanceLabel, vc_Name vc), (componentLabel, ''sentinel'')]);
     State_Monad.return (case r of Inl e \<Rightarrow> Inl e
                         | Inr items \<Rightarrow> Inr (List.map_filter (sentinelRolloutPodOf vc) items)) }"

section \<open>Timings\<close>

definition sentinelTimings :: "ValkeyCluster \<Rightarrow> (string \<times> string) list" where
  "sentinelTimings vc =
     [(''down-after-milliseconds'', Itoa (sentinelDownAfterMs vc)),
      (''failover-timeout'', Itoa (sentinelFailoverTimeout vc))]"

text \<open>The option list of the single SENTINEL SET: the wanted pairs that differ.\<close>

definition out_of_sync :: "(string \<rightharpoonup> string) \<Rightarrow> (string \<times> string) list \<Rightarrow> string list" where
  "out_of_sync current want = concat (map (\<lambda>(k, v). if mget current k \<noteq> v then [k, v] else []) want)"

definition syncSentinelTimings :: "env \<Rightarrow> replClient \<Rightarrow> (string \<times> string) list \<Rightarrow> (bool \<times> string option) op" where
  "syncSentinelTimings env c want = do {
     m \<leftarrow> sentinelMaster env c sentinelMasterName;
     case m of
       Inl e \<Rightarrow> State_Monad.return (False, Some e)
     | Inr current \<Rightarrow>
         if out_of_sync current want = [] then State_Monad.return (False, None)
         else do {
           err \<leftarrow> sentinelSet env c sentinelMasterName (out_of_sync current want);
           State_Monad.return (True, err) } }"

definition applyTimingsTo :: "env \<Rightarrow> ValkeyCluster \<Rightarrow> string \<Rightarrow> string option \<Rightarrow> rolloutPod \<Rightarrow> bool \<Rightarrow> bool op" where
  "applyTimingsTo env vc password cert p pending =
     (if \<not> rp_ready p then State_Monad.return pending
      else do {
        c \<leftarrow> dialReplClient env (sentinelPodFQDN vc (rp_ordinal p)) (sentinelListenPort vc) password (tlsEnabled vc) cert;
        case c of
          None \<Rightarrow> State_Monad.return True
        | Some c \<Rightarrow> do {
            r \<leftarrow> syncSentinelTimings env c (sentinelTimings vc);
            State_Monad.return (if snd r \<noteq> None then True else pending) } })"

definition applySentinelTimings :: "env \<Rightarrow> string \<Rightarrow> bool op" where
  "applySentinelTimings env password = do {
     vc \<leftarrow> get_vc;
     pods \<leftarrow> listSentinelRolloutPods env;
     case pods of
       Inl _ \<Rightarrow> State_Monad.return True
     | Inr pods \<Rightarrow> do {
         cert \<leftarrow> loadMTLSClientCert env vc;
         fold_state (applyTimingsTo env vc password cert) pods False } }"

section \<open>Views\<close>

record sentinelView =
  sv_ordinal :: int
  sv_master :: string
  sv_flags :: string
  sv_otherSentinels :: int
  sv_staleReplicas :: int

definition scaledDownDataPod :: "ValkeyCluster \<Rightarrow> string \<Rightarrow> bool" where
  "scaledDownDataPod vc host =
     (if \<not> HasSuffix host (''.'' @ headlessServiceName vc @ ''.'' @ vc_Namespace vc @ ''.svc.cluster.local'') then False
      else (case ordinalFromPodName (podNameFromFQDN host) (statefulSetName vc) of
              None \<Rightarrow> False
            | Some ord \<Rightarrow> ord \<ge> sp_Replicas (vc_Spec vc)))"

text \<open>The loop over SENTINEL REPLICAS: the number of dead entries, or the first decoding error.\<close>

fun countStale :: "(string \<Rightarrow> bool) \<Rightarrow> reply list \<Rightarrow> int \<Rightarrow> string + int" where
  "countStale scaledDown [] n = Inr n"
| "countStale scaledDown (e # es) n =
     (case parseSentinelMaster e of
        Inl err \<Rightarrow> Inl err
      | Inr rep \<Rightarrow>
          if Contains (mget rep ''flags'') ''s_down'' \<and> (ParseIP (mget rep ''ip'') \<or> scaledDown (mget rep ''ip''))
          then countStale scaledDown es (n + 1)
          else countStale scaledDown es n)"

definition readSentinelView :: "env \<Rightarrow> replClient \<Rightarrow> string \<Rightarrow> (string \<Rightarrow> bool) \<Rightarrow> (string + sentinelView) op" where
  "readSentinelView env c name scaledDown = do {
     m \<leftarrow> sentinelMaster env c name;
     case m of
       Inl e \<Rightarrow> State_Monad.return (Inl e)
     | Inr m \<Rightarrow> do {
         res \<leftarrow> rdb_Do env c [''SENTINEL'', ''REPLICAS'', name];
         State_Monad.return (case res of
             Inl e \<Rightarrow> Inl e
           | Inr (RArray es) \<Rightarrow>
               (case countStale scaledDown es 0 of
                  Inl e \<Rightarrow> Inl e
                | Inr n \<Rightarrow> Inr \<lparr>sv_ordinal = 0, sv_master = mget m ''ip'' @ '':'' @ mget m ''port'',
                    sv_flags = mget m ''flags'', sv_otherSentinels = Atoi_value (mget m ''num-other-sentinels''),
                    sv_staleReplicas = n\<rparr>)
           | Inr _ \<Rightarrow> Inl ''unexpected SENTINEL REPLICAS reply type'') } }"

definition collectView :: "env \<Rightarrow> ValkeyCluster \<Rightarrow> string \<Rightarrow> string option \<Rightarrow> rolloutPod \<Rightarrow> sentinelView list \<Rightarrow> sentinelView list op" where
  "collectView env vc password cert p views =
     (if \<not> rp_ready p then State_Monad.return views
      else do {
        c \<leftarrow> dialReplClient env (sentinelPodFQDN vc (rp_ordinal p)) (sentinelListenPort vc) password (tlsEnabled vc) cert;
        case c of
          None \<Rightarrow> State_Monad.return views
        | Some c \<Rightarrow> do {
            v \<leftarrow> readSentinelView env c sentinelMasterName (scaledDownDataPod vc);
            State_Monad.return (case v of Inl _ \<Rightarrow> views
                                | Inr v \<Rightarrow> views @ [v\<lparr>sv_ordinal := rp_ordinal p\<rparr>]) } })"

definition collectSentinelViews :: "env \<Rightarrow> string \<Rightarrow> sentinelView list op" where
  "collectSentinelViews env password = do {
     vc \<leftarrow> get_vc;
     pods \<leftarrow> listSentinelRolloutPods env;
     case pods of
       Inl _ \<Rightarrow> State_Monad.return []
     | Inr pods \<Rightarrow> do {
         cert \<leftarrow> loadMTLSClientCert env vc;
         fold_state (collectView env vc password cert) pods [] } }"

section \<open>Resetting a Sentinel with dead entries\<close>

definition has_dead_entries :: "int \<Rightarrow> sentinelView \<Rightarrow> bool" where
  "has_dead_entries replicas v \<longleftrightarrow> sv_otherSentinels v > replicas - 1 \<or> sv_staleReplicas v > 0"

definition pickSentinelToReset :: "sentinelView list \<Rightarrow> int \<Rightarrow> int" where
  "pickSentinelToReset views replicas =
     (if views = [] \<or> int32 (int (length views)) \<noteq> replicas then -1
      else if list_ex (\<lambda>v. sv_master v \<noteq> sv_master (hd views) \<or> sv_flags v \<noteq> roleMaster \<or>
                sv_otherSentinels v < replicas - 1) views then -1
      else (case find (has_dead_entries replicas) views of Some v \<Rightarrow> sv_ordinal v | None \<Rightarrow> -1))"

definition resetStaleSentinels :: "env \<Rightarrow> string \<Rightarrow> sentinelView list \<Rightarrow> bool op" where
  "resetStaleSentinels env password views = do {
     vc \<leftarrow> get_vc;
     let replicas = se_Replicas (sentinel_spec vc);
     let dirty = list_ex (has_dead_entries replicas) views;
     let ord = pickSentinelToReset views replicas;
     if ord < 0 then State_Monad.return dirty
     else do {
       cert \<leftarrow> loadMTLSClientCert env vc;
       c \<leftarrow> dialReplClient env (sentinelPodFQDN vc ord) (sentinelListenPort vc) password (tlsEnabled vc) cert;
       case c of
         None \<Rightarrow> State_Monad.return True
       | Some c \<Rightarrow> do {
           _ \<leftarrow> do_err env c [''SENTINEL'', ''RESET'', sentinelMasterName];
           State_Monad.return True } } }"

section \<open>Repairing a misplaced data pod\<close>

definition agreedMaster :: "sentinelView list \<Rightarrow> int \<Rightarrow> string option" where
  "agreedMaster views replicas =
     (if views = [] \<or> int32 (int (length views)) \<noteq> replicas then None
      else if list_ex (\<lambda>v. sv_master v \<noteq> sv_master (hd views) \<or> sv_flags v \<noteq> roleMaster) views then None
      else Some (sv_master (hd views)))"

text \<open>The first misplaced pod itself, where the Go function returns its index.\<close>

definition misplacedDataPod :: "podRole list \<Rightarrow> int \<Rightarrow> (string \<Rightarrow> int option) \<Rightarrow> podRole option" where
  "misplacedDataPod survey masterOrd ordinalOf =
     find (\<lambda>s. pl_reachable s \<and> pl_ordinal s \<noteq> masterOrd \<and>
             \<not> (pl_role s = roleSlave \<and> ordinalOf (pl_masterHost s) = Some masterOrd)) survey"

definition pods_by_ip :: "string \<Rightarrow> Pod list \<Rightarrow> (string \<rightharpoonup> int)" where
  "pods_by_ip sts items =
     fold (\<lambda>p m. case ordinalFromPodName (pod_Name p) sts of
                   Some ord \<Rightarrow> if pod_IP p \<noteq> [] then m(pod_IP p \<mapsto> ord) else m
                 | None \<Rightarrow> m) items (\<lambda>_. None)"

definition ordinalOf :: "ValkeyCluster \<Rightarrow> Pod list \<Rightarrow> string \<Rightarrow> int option" where
  "ordinalOf vc items host =
     (case pods_by_ip (statefulSetName vc) items host of
        Some ord \<Rightarrow> Some ord
      | None \<Rightarrow> ordinalFromPodName (podNameFromFQDN host) (statefulSetName vc))"

text \<open>REPLICAOF, then CONFIG REWRITE when it was accepted.\<close>

definition repointDataPod :: "env \<Rightarrow> ValkeyCluster \<Rightarrow> string \<Rightarrow> podRole \<Rightarrow> string \<Rightarrow> bool op" where
  "repointDataPod env vc password s target = do {
     c \<leftarrow> dialPod env vc (pl_host s) password;
     case c of
       None \<Rightarrow> State_Monad.return False
     | Some c \<Rightarrow> do {
         err \<leftarrow> replicaOf env c target (dataPort vc);
         (if err = None then do { _ \<leftarrow> do_err env c [''CONFIG'', ''REWRITE'']; State_Monad.return () }
          else State_Monad.return ());
         State_Monad.return True } }"

definition host_part :: "string \<Rightarrow> string" where
  "host_part s = (case IndexByte s (CHR '':'') of Some i \<Rightarrow> take i s | None \<Rightarrow> s)"

text \<open>
  The result \<^const>\<open>None\<close> is the panic of \<open>survey[masterOrd]\<close> on a negative ordinal, which no pod of
  a StatefulSet has.
\<close>

definition repairSentinelDataPods :: "env \<Rightarrow> string \<Rightarrow> sentinelView list \<Rightarrow> bool option op" where
  "repairSentinelDataPods env password views = do {
     vc \<leftarrow> get_vc;
     case agreedMaster views (se_Replicas (sentinel_spec vc)) of
       None \<Rightarrow> State_Monad.return (Some False)
     | Some master \<Rightarrow> do {
         ps \<leftarrow> listRolloutPods env;
         case ps of
           Inl _ \<Rightarrow> State_Monad.return (Some False)
         | Inr pods \<Rightarrow>
             if int32 (int (length pods)) \<noteq> sp_Replicas (vc_Spec vc) \<or> \<not> list_all rp_ready pods
             then State_Monad.return (Some False)
             else do {
               pl \<leftarrow> ask (\<lambda>t. env_pods env t (labelsFor vc));
               case pl of
                 Inl _ \<Rightarrow> State_Monad.return (Some False)
               | Inr items \<Rightarrow>
                   (case ordinalOf vc items (host_part master) of
                      None \<Rightarrow> State_Monad.return (Some False)
                    | Some masterOrd \<Rightarrow> do {
                        survey \<leftarrow> surveyReplication env password;
                        if masterOrd \<ge> int (length survey) then State_Monad.return (Some False)
                        else if masterOrd < 0 then State_Monad.return None
                        else if \<not> pl_reachable (survey ! nat masterOrd) \<or> pl_role (survey ! nat masterOrd) \<noteq> roleMaster
                        then State_Monad.return (Some False)
                        else (case misplacedDataPod survey masterOrd (ordinalOf vc items) of
                            None \<Rightarrow> State_Monad.return (Some False)
                          | Some s \<Rightarrow> do {
                              b \<leftarrow> repointDataPod env vc password s (podFQDN vc (podName vc masterOrd));
                              State_Monad.return (Some b) }) }) } } }"

section \<open>Password rotation and rollout state\<close>

datatype rotateStep = rotateAdd | rotateSwitch | rotateCutover

definition rotateSentinelStep :: "env \<Rightarrow> replClient \<Rightarrow> string \<Rightarrow> rotateStep \<Rightarrow> string option op" where
  "rotateSentinelStep env c newPw step =
     (case step of
        rotateAdd \<Rightarrow> do_err env c [''ACL'', ''SETUSER'', ''default'', ''>'' @ newPw]
      | rotateSwitch \<Rightarrow> do {
          err \<leftarrow> do_err env c [''SENTINEL'', ''SET'', sentinelMasterName, ''auth-pass'', newPw];
          if err = None then do_err env c [''SENTINEL'', ''CONFIG'', ''SET'', ''sentinel-pass'', newPw]
          else State_Monad.return err }
      | rotateCutover \<Rightarrow> do_err env c [''ACL'', ''SETUSER'', ''default'', ''resetpass'', ''>'' @ newPw])"

text \<open>One Sentinel: the old password, then the new one, then the commands of the step.\<close>

definition rotateSentinel :: "env \<Rightarrow> ValkeyCluster \<Rightarrow> string option \<Rightarrow> string \<Rightarrow> string \<Rightarrow> rotateStep \<Rightarrow> int \<Rightarrow> string option op" where
  "rotateSentinel env vc cert oldPw newPw step i = do {
     let host = sentinelPodFQDN vc i;
     c \<leftarrow> dialReplClient env host (sentinelListenPort vc) oldPw (tlsEnabled vc) cert;
     c \<leftarrow> (if c = None then dialReplClient env host (sentinelListenPort vc) newPw (tlsEnabled vc) cert
          else State_Monad.return c);
     case c of
       None \<Rightarrow> State_Monad.return (Some (''rotate Sentinel '' @ host @ '': unreachable with current or new password''))
     | Some c \<Rightarrow> rotateSentinelStep env c newPw step }"

definition rotateSentinelPassword :: "env \<Rightarrow> string \<Rightarrow> string \<Rightarrow> rotateStep \<Rightarrow> string option op" where
  "rotateSentinelPassword env oldPw newPw step = do {
     vc \<leftarrow> get_vc;
     if sp_Topology (vc_Spec vc) \<noteq> TopologySentinel \<or> sp_Sentinel (vc_Spec vc) = None
     then State_Monad.return None
     else do {
       cert \<leftarrow> loadMTLSClientCert env vc;
       first_state (rotateSentinel env vc cert oldPw newPw step) (range_int (se_Replicas (sentinel_spec vc))) } }"

definition statefulSetRolling :: "StatefulSet option \<Rightarrow> bool" where
  "statefulSetRolling sts =
     (case sts of
        None \<Rightarrow> False
      | Some s \<Rightarrow>
          (let want = (case sts_Replicas s of Some n \<Rightarrow> n | None \<Rightarrow> 1)
           in sts_ObservedGeneration s < sts_Generation s \<or> sts_UpdateRevision s \<noteq> sts_CurrentRevision s \<or>
              sts_UpdatedReplicas s < want \<or> sts_ReadyReplicas s < want))"

section \<open>What the properties speak of\<close>

text \<open>At some point of the trace the host answered INFO with this role.\<close>

definition reports_role :: "env \<Rightarrow> action list \<Rightarrow> string \<Rightarrow> string \<Rightarrow> bool" where
  "reports_role env t host role \<longleftrightarrow> (\<exists>u v txt. t = u @ v \<and>
     reply_text (env_cmd env u host [''INFO'', ''replication'']) = Some txt \<and> mget (parse_kv True txt) ''role'' = role)"

text \<open>The Sentinel a command resets, and the commands that only read.\<close>

fun resets :: "action \<Rightarrow> string option" where
  "resets (ACmd h [c, s, m] ok) = (if c = ''SENTINEL'' \<and> s = ''RESET'' then Some h else None)"
| "resets _ = None"

definition reads_only :: "action \<Rightarrow> bool" where
  "reads_only a = (case a of ACmd _ args _ \<Rightarrow> args \<in> {[''INFO'', ''replication''], [''DBSIZE'']} | _ \<Rightarrow> is_read a)"

definition all_agree :: "sentinelView list \<Rightarrow> int \<Rightarrow> string \<Rightarrow> bool" where
  "all_agree views replicas master \<longleftrightarrow> views \<noteq> [] \<and> int32 (int (length views)) = replicas \<and>
     (\<forall>v\<in>set views. sv_master v = master \<and> sv_flags v = roleMaster)"

text \<open>
  What a command of the repair rests on when it is issued: the pods that the API server listed for
  this pass, which tell the pod of the address that the Sentinels name, and the survey of this pass.
\<close>

definition repair_guard :: "env \<Rightarrow> string \<Rightarrow> sentinelView list \<Rightarrow> world \<Rightarrow> action list \<Rightarrow> action \<Rightarrow> bool" where
  "repair_guard env pw views w t a \<longleftrightarrow> (let vc = cur w; survey = fst (run_state (surveyReplication env pw) w) in reads_only a \<or>
     (\<exists>master items ord host args ok u s. all_agree views (se_Replicas (sentinel_spec vc)) master \<and>
        env_pods env (acts w) (labelsFor vc) = Inr items \<and> ordinalOf vc items (host_part master) = Some ord \<and>
        0 \<le> ord \<and> ord < int (length survey) \<and> pl_role (survey ! nat ord) = roleMaster \<and>
        reports_role env t (fqdn (podName vc ord) (headlessServiceName vc) (vc_Namespace vc)) roleMaster \<and>
        s \<in> set survey \<and> pl_ordinal s \<noteq> ord \<and> pl_host s = host \<and>
        a = ACmd host args ok \<and> host \<noteq> fqdn (podName vc ord) (headlessServiceName vc) (vc_Namespace vc) \<and>
        (args = [''REPLICAOF'', podFQDN vc (podName vc ord), Itoa (dataPort vc)] \<or>
         args = [''CONFIG'', ''REWRITE''] \<and>
           t = u @ [ACmd host [''REPLICAOF'', podFQDN vc (podName vc ord), Itoa (dataPort vc)] True])))"

text \<open>SENTINEL SET with option-value pairs, as it acts on the settings of a master.\<close>

fun apply_options :: "string list \<Rightarrow> (string \<rightharpoonup> string) \<Rightarrow> (string \<rightharpoonup> string)" where
  "apply_options (k # v # rest) m = apply_options rest (m(k \<mapsto> v))"
| "apply_options _ m = m"

text \<open>
  Concrete input: three Sentinels and three data pods. Pod 2 came back as a master of its own, and
  Sentinel 1 counts one peer too many.
\<close>

definition trio_world :: world where
  "trio_world = \<lparr>cur = demo_vc\<lparr>vc_Spec := (vc_Spec demo_vc)\<lparr>sp_Topology := TopologySentinel,
     sp_Sentinel := Some \<lparr>se_Replicas = 3, se_Quorum = 2, se_Image = [], se_DownAfterMilliseconds = 0,
       se_FailoverTimeout = 30000, se_Resources = (None, [])\<rparr>\<rparr>\<rparr>, acts = []\<rparr>"

definition trio_views :: "sentinelView list" where
  "trio_views = map (\<lambda>i. \<lparr>sv_ordinal = i, sv_master = demo_host 0 @ '':6379'', sv_flags = roleMaster,
     sv_otherSentinels = (if i = 1 then 3 else 2), sv_staleReplicas = 0\<rparr>) [0, 1, 2]"

definition trio_env :: env where
  "trio_env = answering_env\<lparr>
     env_pods := (\<lambda>_ _. Inr [demo_pod ''demo-0'' ''r1'', demo_pod ''demo-1'' ''r1'', demo_pod ''demo-2'' ''r1'']),
     env_cmd := (\<lambda>_ h args. if args = [''INFO'', ''replication'']
        then Inr (RText (if h = demo_host 1 then ''role:slave'' @ [CHR 0x0A] @ ''master_host:'' @ demo_host 0 else ''role:master''))
        else if args = [''SENTINEL'', ''MASTER'', sentinelMasterName]
        then Inr (RArray [RText ''down-after-milliseconds'', RText ''5000'', RText ''failover-timeout'', RText ''60000''])
        else Inr (RText ''OK''))\<rparr>"

section \<open>Replies\<close>

text \<open>The two encodings of a field map, RESP2's flat array and RESP3's map, are read alike.\<close>

lemma field_pairs_flat: "field_pairs (concat (map (\<lambda>(k, v). [k, v]) kvs)) = kvs"
  by (induction kvs) auto

lemma parseSentinelMaster_protocols:
  "parseSentinelMaster (RArray (concat (map (\<lambda>(k, v). [k, v]) kvs))) = parseSentinelMaster (RMap kvs)"
  by (simp add: parseSentinelMaster_def field_pairs_flat)

section \<open>The survey and the trace\<close>

lemma reports_role_mono: "reports_role env (acts v) h r \<Longrightarrow> grows v v' \<Longrightarrow> reports_role env (acts v') h r"
  unfolding reports_role_def grows_def by (metis append_assoc)

lemma reports_role_append: "reports_role env t h r \<Longrightarrow> reports_role env (t @ u) h r"
  unfolding reports_role_def by (metis append_assoc)

lemma fill_info_simps [simp]:
  "pl_role (fill_info m r) = mget m ''role''" "pl_host (fill_info m r) = pl_host r"
  "pl_ordinal (fill_info m r) = pl_ordinal r" "pl_reachable (fill_info m r) = pl_reachable r"
  by (auto simp: fill_info_def Let_def)

text \<open>The entry of pod \<open>i\<close>: its role is empty or what the pod answered.\<close>

definition entry_of :: "env \<Rightarrow> ValkeyCluster \<Rightarrow> int \<Rightarrow> podRole \<Rightarrow> action list \<Rightarrow> bool" where
  "entry_of env vc i r t \<longleftrightarrow> pl_ordinal r = i \<and>
     pl_host r = fqdn (podName vc i) (headlessServiceName vc) (vc_Namespace vc) \<and>
     (pl_role r = [] \<or> reports_role env t (pl_host r) (pl_role r))"

lemma entry_of_mono: "entry_of env vc i r (acts v) \<Longrightarrow> grows v v' \<Longrightarrow> entry_of env vc i r (acts v')"
  unfolding entry_of_def by (blast intro: reports_role_mono)

lemma wp_surveyPod:
  assumes reads: "\<And>t a. reads_only a \<Longrightarrow> G t a"
  shows "wp G (surveyPod env pw i) (\<lambda>r v. grows w v \<and> entry_of env (cur w) i r (acts v)) w"
proof -
  have r: "reads_only (ADial h p pw ok)" "reads_only (ACmd h [''INFO'', ''replication''] ok)"
    "reads_only (ACmd h [''DBSIZE''] ok)" for h p pw ok by (simp_all add: reads_only_def)
  have seen: "reports_role env (acts w @ [a, b, c]) h (mget (parse_kv True ans) ''role'')"
    if "reply_text (env_cmd env (acts w @ [a]) h [''INFO'', ''replication'']) = Some ans" for a b c h ans
    using that unfolding reports_role_def by (intro exI [of _ "acts w @ [a]"] exI [of _ "[b, c]"] exI [of _ ans]) simp
  show ?thesis unfolding surveyPod_def client_defs
    by (auto intro!: wp_rules reads r simp: entry_of_def blankRole_def seen split: option.splits)
qed

lemma wp_surveyReplication:
  assumes reads: "\<And>t a. reads_only a \<Longrightarrow> G t a"
    and post: "\<And>survey v. grows w v \<Longrightarrow>
      list_all2 (\<lambda>i r. entry_of env (cur w) i r (acts v)) (range_int (sp_Replicas (vc_Spec (cur w)))) survey \<Longrightarrow> Q survey v"
  shows "wp G (surveyReplication env pw) Q w"
  unfolding surveyReplication_def
proof (rule wp_bind, rule wp_get_vc, rule wp_map_state_grows [where P = "\<lambda>i r v. cur v = cur w \<and> entry_of env (cur w) i r (acts v)"])
  fix i v assume "grows w v"
  then show "wp G (surveyPod env pw i) (\<lambda>r v'. grows v v' \<and> cur v' = cur w \<and> entry_of env (cur w) i r (acts v')) v"
    using wp_surveyPod [of G env pw i v, OF reads] by (auto elim!: wp_conseq simp: grows_cur)
qed (auto intro!: post elim: list_all2_mono intro: entry_of_mono simp: grows_cur)

text \<open>The survey is the one that a run from here gives, and it only reads.\<close>

lemma wp_survey_run:
  assumes reads: "\<And>t a. reads_only a \<Longrightarrow> G t a"
    and post: "\<And>survey v. grows w v \<Longrightarrow> survey = fst (run_state (surveyReplication env pw) w) \<Longrightarrow>
      list_all2 (\<lambda>i r. entry_of env (cur w) i r (acts v)) (range_int (sp_Replicas (vc_Spec (cur w)))) survey \<Longrightarrow>
      list_all reads_only (new_acts w v) \<Longrightarrow> Q survey v"
  shows "wp G (surveyReplication env pw) Q w"
proof -
  let ?Q = "\<lambda>survey v. grows w v \<and>
    list_all2 (\<lambda>i r. entry_of env (cur w) i r (acts v)) (range_int (sp_Replicas (vc_Spec (cur w)))) survey"
  have only: "wp (\<lambda>t a. reads_only a) (surveyReplication env pw) ?Q w"
    by (rule wp_surveyReplication) auto
  have "wp (\<lambda>t a. reads_only a) (surveyReplication env pw) (\<lambda>r v. ?Q r v \<and> list_all reads_only (drop (length (acts w)) (acts v))) w"
    by (rule wp_stable [OF only]) (auto simp: drop_Cons split: nat.splits)
  then have "wp (\<lambda>t a. reads_only a) (surveyReplication env pw) Q w"
    by (auto simp: wp_def new_acts_def intro!: post)
  then show ?thesis by (rule wp_guarantee) (rule reads)
qed

section \<open>Resets\<close>

lemma pickSentinelToReset_cases:
  assumes "pickSentinelToReset views n \<ge> 0"
  obtains v where "v \<in> set views" "pickSentinelToReset views n = sv_ordinal v" "has_dead_entries n v"
    "all_agree views n (sv_master (hd views))" "\<And>u. u \<in> set views \<Longrightarrow> n - 1 \<le> sv_otherSentinels u"
proof -
  have ok: "views \<noteq> []" "int32 (int (length views)) = n"
    "\<not> list_ex (\<lambda>v. sv_master v \<noteq> sv_master (hd views) \<or> sv_flags v \<noteq> roleMaster \<or> sv_otherSentinels v < n - 1) views"
    using assms by (auto simp: pickSentinelToReset_def split: if_splits)
  then obtain v where v: "find (has_dead_entries n) views = Some v" "pickSentinelToReset views n = sv_ordinal v"
    using assms by (auto simp: pickSentinelToReset_def split: option.splits)
  have "all_agree views n (sv_master (hd views))" "n - 1 \<le> sv_otherSentinels u" if "u \<in> set views" for u
    using ok that unfolding all_agree_def list_ex_iff by (blast, fastforce)
  moreover have "v \<in> set views" "has_dead_entries n v" using v(1) by (auto simp: find_Some_iff)
  ultimately show thesis using that [of v] v(2) by blast
qed

lemma resetStaleSentinels_acts:
  "\<exists>xs. acts (snd (run_state (resetStaleSentinels env pw views) w)) = acts w @ xs \<and>
     (let ord = pickSentinelToReset views (se_Replicas (sentinel_spec (cur w))); host = sentinelPodFQDN (cur w) ord
      in xs = [] \<or> ord \<ge> 0 \<and> (\<exists>p ok. xs \<in> {[ADial host p pw False],
           [ADial host p pw True, ACmd host [''SENTINEL'', ''RESET'', sentinelMasterName] ok]}))"
proof -
  have "wp (\<lambda>_ _. True) (resetStaleSentinels env pw views) (\<lambda>_ v. \<exists>xs. acts v = acts w @ xs \<and>
     (let ord = pickSentinelToReset views (se_Replicas (sentinel_spec (cur w))); host = sentinelPodFQDN (cur w) ord
      in xs = [] \<or> ord \<ge> 0 \<and> (\<exists>p ok. xs \<in> {[ADial host p pw False],
           [ADial host p pw True, ACmd host [''SENTINEL'', ''RESET'', sentinelMasterName] ok]}))) w"
    unfolding resetStaleSentinels_def Let_def by (auto intro!: wp_rules)
  then show ?thesis by (rule wp_result [OF _ prod.collapse [symmetric]])
qed

text \<open>
  C26. A Sentinel is reset only when that cannot cost the quorum. If a pass sends SENTINEL RESET, every
  Sentinel of the specification has answered, all of them name the same master and see it healthy
  with no failover under way, each counts at least its live peers, and the one that is reset counts
  dead entries; it is the only RESET of the pass, so the next one waits for another reading.
\<close>

theorem resetStaleSentinels_safe:
  assumes "run_state (resetStaleSentinels env pw views) w = (r, w')"
    and "a \<in> set (new_acts w w')" and "resets a = Some h"
  shows "(\<exists>v\<in>set views. h = sentinelPodFQDN (cur w) (sv_ordinal v) \<and>
      has_dead_entries (se_Replicas (sentinel_spec (cur w))) v) \<and>
    all_agree views (se_Replicas (sentinel_spec (cur w))) (sv_master (hd views)) \<and>
    (\<forall>v\<in>set views. se_Replicas (sentinel_spec (cur w)) - 1 \<le> sv_otherSentinels v) \<and>
    filter (\<lambda>b. resets b \<noteq> None) (new_acts w w') = [a]"
proof -
  let ?n = "se_Replicas (sentinel_spec (cur w))" and ?ord = "pickSentinelToReset views (se_Replicas (sentinel_spec (cur w)))"
  obtain xs where "acts w' = acts w @ xs" and "xs = [] \<or> ?ord \<ge> 0 \<and> (\<exists>p ok.
      xs \<in> {[ADial (sentinelPodFQDN (cur w) ?ord) p pw False], [ADial (sentinelPodFQDN (cur w) ?ord) p pw True,
             ACmd (sentinelPodFQDN (cur w) ?ord) [''SENTINEL'', ''RESET'', sentinelMasterName] ok]})"
    using resetStaleSentinels_acts [of env pw views w] assms(1) unfolding Let_def by auto
  then have run: "?ord \<ge> 0 \<and> h = sentinelPodFQDN (cur w) ?ord \<and> filter (\<lambda>b. resets b \<noteq> None) (new_acts w w') = [a]"
    using assms(2,3) by (auto simp: new_acts_def)
  then obtain v where "v \<in> set views" "?ord = sv_ordinal v" "has_dead_entries ?n v"
      "all_agree views ?n (sv_master (hd views))" "\<And>u. u \<in> set views \<Longrightarrow> ?n - 1 \<le> sv_otherSentinels u"
    using pickSentinelToReset_cases by blast
  with run show ?thesis by auto
qed

theorem resetStaleSentinels_safe_witness:
  "has_dead_entries 3 (trio_views ! 1) \<and>
   filter (\<lambda>b. resets b \<noteq> None) (new_acts trio_world (snd (run_state (resetStaleSentinels trio_env [] trio_views) trio_world)))
     = [ACmd (sentinelPodFQDN (cur trio_world) 1) [''SENTINEL'', ''RESET'', sentinelMasterName] True]"
proof -
  let ?a = "ACmd (sentinelPodFQDN (cur trio_world) 1) [''SENTINEL'', ''RESET'', sentinelMasterName] True"
  have "?a \<in> set (new_acts trio_world (snd (run_state (resetStaleSentinels trio_env [] trio_views) trio_world)))" by code_simp
  from resetStaleSentinels_safe [OF prod.collapse [symmetric] this]
  have "filter (\<lambda>b. resets b \<noteq> None) (new_acts trio_world
      (snd (run_state (resetStaleSentinels trio_env [] trio_views) trio_world))) = [?a]" by simp
  moreover have "has_dead_entries 3 (trio_views ! 1)" by code_simp
  ultimately show ?thesis by blast
qed

section \<open>Repairs\<close>

lemma agreedMaster_all_agree: "agreedMaster views n = Some m \<Longrightarrow> all_agree views n m"
  unfolding agreedMaster_def all_agree_def list_ex_iff by (metis (no_types, lifting) option.distinct(1) option.inject)

lemma reads_only_guard [simp]: "reads_only a \<Longrightarrow> repair_guard env pw views w t a"
  by (simp add: repair_guard_def Let_def)

lemma wp_repointDataPod:
  assumes "\<And>t h p pw ok. G t (ADial h p pw ok)"
    and "\<And>ok. G (acts w @ [ADial (pl_host s) (dataPort vc) pw True])
        (ACmd (pl_host s) [''REPLICAOF'', target, Itoa (dataPort vc)] ok)"
    and "\<And>ok. G (acts w @ [ADial (pl_host s) (dataPort vc) pw True, ACmd (pl_host s) [''REPLICAOF'', target, Itoa (dataPort vc)] True])
        (ACmd (pl_host s) [''CONFIG'', ''REWRITE''] ok)"
    and "\<And>b v. Q b v"
  shows "wp G (repointDataPod env vc pw s target) Q w"
  unfolding repointDataPod_def client_defs using assms by (auto intro!: wp_rules)

lemma wp_repairMisplaced:
  fixes w :: world
  defines "vc \<equiv> cur w"
  assumes agree: "agreedMaster views (se_Replicas (sentinel_spec vc)) = Some master"
    and items: "env_pods env (acts w) (labelsFor vc) = Inr items"
    and ord: "ordinalOf vc items (host_part master) = Some ord" "\<not> ord \<ge> int (length survey)" "\<not> ord < 0"
      "pl_role (survey ! nat ord) = roleMaster"
    and run: "survey = fst (run_state (surveyReplication env pw) w)"
    and survey: "list_all2 (\<lambda>i r. entry_of env vc i r (acts v)) (range_int (sp_Replicas (vc_Spec vc))) survey"
    and mis: "misplacedDataPod survey ord f = Some s" and post: "\<And>b v. Q b v"
  shows "wp (repair_guard env pw views w) (repointDataPod env vc pw s (podFQDN vc (podName vc ord))) Q v"
proof -
  have s: "s \<in> set survey" "pl_ordinal s \<noteq> ord" using mis by (auto simp: misplacedDataPod_def find_Some_iff)
  obtain i where "entry_of env vc i s (acts v)"
    using s(1) survey by (metis in_set_conv_nth list_all2_conv_all_nth)
  then have host: "pl_host s \<noteq> fqdn (podName vc ord) (headlessServiceName vc) (vc_Namespace vc)"
    using s(2) by (auto simp: entry_of_def fqdn_def)
  have "nat ord < length survey" "int (nat ord) = ord" using ord(2,3) by auto
  then have "entry_of env vc ord (survey ! nat ord) (acts v)"
    using survey by (auto simp: list_all2_conv_all_nth range_int_def dest!: spec [of _ "nat ord"])
  then have seen: "reports_role env (acts v @ us) (fqdn (podName vc ord) (headlessServiceName vc) (vc_Namespace vc)) roleMaster" for us
    using ord(4) reports_role_append by (auto simp: entry_of_def roleMaster_def)
  have bounds: "0 \<le> ord" "ord < int (length survey)" using ord(2,3) by simp_all
  have guard: "repair_guard env pw views w (acts v @ us) (ACmd (pl_host s) args ok)"
    if "args = [''REPLICAOF'', podFQDN vc (podName vc ord), Itoa (dataPort vc)] \<or> args = [''CONFIG'', ''REWRITE''] \<and>
       acts v @ us = u @ [ACmd (pl_host s) [''REPLICAOF'', podFQDN vc (podName vc ord), Itoa (dataPort vc)] True]" for us u args ok
    using agreedMaster_all_agree [OF agree] items ord(1,4) bounds seen s host that
    unfolding repair_guard_def Let_def vc_def [symmetric] run [symmetric] by blast
  show ?thesis
    by (intro wp_repointDataPod post guard [where u = "acts v @ [ADial (pl_host s) (dataPort vc) pw True]"])
      (auto simp: reads_only_def)
qed

lemma wp_repairSentinelDataPods:
  "wp (repair_guard env pw views w) (repairSentinelDataPods env pw views) (\<lambda>_ _. True) w"
  unfolding repairSentinelDataPods_def listRolloutPods_def
  by (auto intro!: wp_rules wp_survey_run wp_repairMisplaced simp: grows_cur split: sum.splits)

text \<open>
  C27. A data pod is re-pointed only at the master that every Sentinel agrees on. Whenever the repair
  sends anything but INFO and DBSIZE, all Sentinels of the specification named the same healthy
  master; that address is, in the list of pods that the pass read, the pod with the ordinal in the
  command, which in the survey of this pass answered INFO with \<open>role:master\<close>; the receiver is another
  pod of that survey; and CONFIG REWRITE follows a REPLICAOF that the receiver accepted.
\<close>

theorem repairSentinelDataPods_safe:
  assumes "run_state (repairSentinelDataPods env pw views) w = (r, w')" and "issued w w' t a"
  shows "repair_guard env pw views w t a"
  by (rule wp_issued [OF wp_repairSentinelDataPods assms])

theorem repairSentinelDataPods_safe_witness:
  "\<exists>t. issued trio_world (snd (run_state (repairSentinelDataPods trio_env [] trio_views) trio_world)) t
       (ACmd (demo_host 2) [''REPLICAOF'', demo_host 0, ''6379''] True) \<and>
     repair_guard trio_env [] trio_views trio_world t (ACmd (demo_host 2) [''REPLICAOF'', demo_host 0, ''6379''] True)"
proof -
  have "acts trio_world = []" by code_simp
  moreover have "ACmd (demo_host 2) [''REPLICAOF'', demo_host 0, ''6379''] True \<in>
      set (acts (snd (run_state (repairSentinelDataPods trio_env [] trio_views) trio_world)))" by code_simp
  ultimately obtain t where t: "issued trio_world (snd (run_state (repairSentinelDataPods trio_env [] trio_views) trio_world)) t
      (ACmd (demo_host 2) [''REPLICAOF'', demo_host 0, ''6379''] True)" using issued_member by blast
  then show ?thesis using repairSentinelDataPods_safe [OF prod.collapse [symmetric] t] by blast
qed

section \<open>Timings\<close>

lemma run_sentinelMaster:
  assumes "env_cmd env (acts w) (rc_host c) [''SENTINEL'', ''MASTER'', m] = Inr res"
  shows "run_state (sentinelMaster env c m) w =
    (parseSentinelMaster res, w\<lparr>acts := acts w @ [ACmd (rc_host c) [''SENTINEL'', ''MASTER'', m] True]\<rparr>)"
  using assms by (simp add: sentinelMaster_def rdb_Do_def)

text \<open>
  One pass over a Sentinel brings its timings to the configured ones with at most one command. The
  pass reads the settings of the master; it sends SENTINEL SET only when one of the two timings
  differs, with options under which both timings become the configured values and no other setting
  changes; and it reports a change exactly then.
\<close>

theorem syncSentinelTimings_in_sync:
  assumes "env_cmd env (acts w) (rc_host c) [''SENTINEL'', ''MASTER'', sentinelMasterName] = Inr res"
    and "parseSentinelMaster res = Inr current"
    and "run_state (syncSentinelTimings env c (sentinelTimings vc)) w = (r, w')"
  shows "\<exists>opts. acts w' = acts w @ ACmd (rc_host c) [''SENTINEL'', ''MASTER'', sentinelMasterName] True #
        (if opts = [] then [] else [ACmd (rc_host c) ([''SENTINEL'', ''SET'', sentinelMasterName] @ opts) (snd r = None)]) \<and>
      (fst r \<longleftrightarrow> opts \<noteq> []) \<and>
      mget (apply_options opts current) ''down-after-milliseconds'' = Itoa (sentinelDownAfterMs vc) \<and>
      mget (apply_options opts current) ''failover-timeout'' = Itoa (sentinelFailoverTimeout vc) \<and>
      (\<forall>k. k \<notin> {''down-after-milliseconds'', ''failover-timeout''} \<longrightarrow> apply_options opts current k = current k)"
  using assms(3)
  by (intro exI [of _ "out_of_sync current (sentinelTimings vc)"])
    (auto simp: syncSentinelTimings_def run_sentinelMaster [OF assms(1)] assms(2) sentinelSet_def run_do_err Let_def
      out_of_sync_def sentinelTimings_def mget_def split: if_splits option.splits)

theorem syncSentinelTimings_in_sync_witness:
  "\<exists>opts. acts (snd (run_state (syncSentinelTimings trio_env \<lparr>rc_host = ''s'', rc_port = 26379\<rparr> (sentinelTimings (cur trio_world))) trio_world))
     = ACmd ''s'' [''SENTINEL'', ''MASTER'', sentinelMasterName] True #
       (if opts = [] then [] else [ACmd ''s'' ([''SENTINEL'', ''SET'', sentinelMasterName] @ opts) True]) \<and>
     opts = [''failover-timeout'', ''30000'']"
proof -
  let ?res = "RArray [RText ''down-after-milliseconds'', RText ''5000'', RText ''failover-timeout'', RText ''60000'']"
  let ?run = "run_state (syncSentinelTimings trio_env \<lparr>rc_host = ''s'', rc_port = 26379\<rparr> (sentinelTimings (cur trio_world))) trio_world"
  have "env_cmd trio_env (acts trio_world) (rc_host \<lparr>rc_host = ''s'', rc_port = 26379\<rparr>)
      [''SENTINEL'', ''MASTER'', sentinelMasterName] = Inr ?res" by code_simp
  moreover obtain current where "parseSentinelMaster ?res = Inr current" by (simp add: parseSentinelMaster_def)
  ultimately obtain opts where "acts (snd ?run) = acts trio_world @ ACmd ''s'' [''SENTINEL'', ''MASTER'', sentinelMasterName] True #
      (if opts = [] then [] else [ACmd ''s'' ([''SENTINEL'', ''SET'', sentinelMasterName] @ opts) (snd (fst ?run) = None)])"
    using syncSentinelTimings_in_sync [OF _ _ prod.collapse [of ?run, symmetric]] unfolding replClient.select_convs by blast
  moreover have "acts (snd ?run) = [ACmd ''s'' [''SENTINEL'', ''MASTER'', sentinelMasterName] True,
      ACmd ''s'' [''SENTINEL'', ''SET'', sentinelMasterName, ''failover-timeout'', ''30000''] True]"
    "snd (fst ?run) = None" "acts trio_world = []" by code_simp+
  ultimately show ?thesis by (intro exI [of _ opts]) (auto split: if_splits)
qed

end
