(* ===== verification/Rollout_Sentinel.thy ===== *)
theory Rollout_Sentinel
  imports Sentinel
begin

text \<open>
  The proactive rolling restart of the Sentinel topology,
  \<open>src/internal/controller/rollout_sentinel.go\<close>: the data pods first, with a handover of the master
  through the Sentinels, then the Sentinel pods. The handover takes the way to dial a pod and to
  ask for a failover as arguments, as the Go function does. Its two waits are
  \<^const>\<open>poll_until\<close>.
\<close>

section \<open>Definitions\<close>

definition anyStale :: "rolloutPod list \<Rightarrow> string \<Rightarrow> bool" where
  "anyStale pods desiredRevision = list_ex (\<lambda>p. rp_revision p \<noteq> desiredRevision) pods"

fun dataMaster :: "ValkeyCluster \<Rightarrow> podRole list \<Rightarrow> string \<Rightarrow> string" where
  "dataMaster vc [] master = master"
| "dataMaster vc (s # ss) master =
     (if pl_reachable s \<and> pl_role s = roleMaster
      then (if master \<noteq> [] then [] else dataMaster vc ss (podName vc (pl_ordinal s)))
      else dataMaster vc ss master)"

definition sentinelDataMaster :: "ValkeyCluster \<Rightarrow> podRole list \<Rightarrow> string" where
  "sentinelDataMaster vc survey = dataMaster vc survey []"

text \<open>The loop: the verdict of the first Sentinel that answers, else the last dial error.\<close>

fun askSentinels :: "env \<Rightarrow> string \<Rightarrow> int list \<Rightarrow> string option \<Rightarrow> string option op" where
  "askSentinels env password [] lastErr = State_Monad.return lastErr"
| "askSentinels env password (i # is) lastErr = do {
     vc \<leftarrow> get_vc;
     cert \<leftarrow> loadMTLSClientCert env vc;
     c \<leftarrow> dialReplClient env (sentinelPodFQDN vc i) (sentinelListenPort vc) password (tlsEnabled vc) cert;
     case c of
       None \<Rightarrow> askSentinels env password is (Some (''dial sentinel '' @ sentinelPodFQDN vc i @ '' failed''))
     | Some c \<Rightarrow> sentinelFailover env c sentinelMasterName }"

definition issueSentinelFailover :: "env \<Rightarrow> string \<Rightarrow> string option op" where
  "issueSentinelFailover env password = do {
     vc \<leftarrow> get_vc;
     askSentinels env password (range_int (se_Replicas (sentinel_spec vc))) None }"

record handoverTimings =
  ht_pause :: int
  ht_catchUp :: int
  ht_promote :: int
  ht_poll :: int

definition sentinelHandoverTimings :: handoverTimings where
  "sentinelHandoverTimings = \<lparr>ht_pause = seconds 15, ht_catchUp = seconds 5, ht_promote = seconds 8, ht_poll = 100000000\<rparr>"

definition replicasLinked :: "(string \<rightharpoonup> string) \<Rightarrow> int \<Rightarrow> bool" where
  "replicasLinked im want =
     (case Atoi (mget im ''connected_slaves'') of
        None \<Rightarrow> False
      | Some n \<Rightarrow> n \<ge> want \<and> list_all (\<lambda>i. Contains (mget im (''slave'' @ Itoa i)) ''state=online'') (range_int n))"

text \<open>The comma-separated fields of a \<open>slave<i>\<close> line; the last one of a name counts.\<close>

definition slave_fields :: "string \<Rightarrow> (string \<rightharpoonup> string)" where
  "slave_fields line = fold (\<lambda>kv m. case IndexByte kv (CHR ''='') of
        Some i \<Rightarrow> m(take i kv \<mapsto> drop (Suc i) kv) | None \<Rightarrow> m) (SplitByte line (CHR '','')) (\<lambda>_. None)"

definition slaveCaughtUp :: "int \<Rightarrow> string \<Rightarrow> bool" where
  "slaveCaughtUp masterOffset line =
     (let fs = slave_fields line
      in case ParseInt (mget fs ''offset'') 64 of
           None \<Rightarrow> False
         | Some off \<Rightarrow> mget fs ''state'' = ''online'' \<and> off \<ge> masterOffset)"

definition replicasCaughtUp :: "(string \<rightharpoonup> string) \<Rightarrow> bool" where
  "replicasCaughtUp im =
     (case ParseInt (mget im ''master_repl_offset'') 64 of
        None \<Rightarrow> False
      | Some masterOffset \<Rightarrow>
          (case Atoi (mget im ''connected_slaves'') of
             None \<Rightarrow> False
           | Some n \<Rightarrow> n \<noteq> 0 \<and> list_all (\<lambda>i. slaveCaughtUp masterOffset (mget im (''slave'' @ Itoa i))) (range_int n)))"

text \<open>One look at the replicas: connections are kept in \<open>replicas\<close>; the first that is a master wins.\<close>

fun findPromoted :: "env \<Rightarrow> (string \<Rightarrow> replClient option op) \<Rightarrow> string list \<Rightarrow> (string \<rightharpoonup> replClient) \<Rightarrow>
    ((string \<rightharpoonup> replClient) \<times> string option) op" where
  "findPromoted env dial [] replicas = State_Monad.return (replicas, None)"
| "findPromoted env dial (h # hs) replicas = do {
     c \<leftarrow> (case replicas h of Some c \<Rightarrow> State_Monad.return (Some c) | None \<Rightarrow> dial h);
     case c of
       None \<Rightarrow> findPromoted env dial hs replicas
     | Some c \<Rightarrow> do {
         im \<leftarrow> info env c;
         if (case im of Some m \<Rightarrow> mget m ''role'' = roleMaster | None \<Rightarrow> False)
         then State_Monad.return (replicas(h \<mapsto> c), Some h)
         else findPromoted env dial hs (replicas(h \<mapsto> c)) } }"

text \<open>The part of \<open>handOverMaster\<close> that runs under the pause.\<close>

definition handOverPaused :: "env \<Rightarrow> (string \<Rightarrow> replClient option op) \<Rightarrow> string option op \<Rightarrow> replClient \<Rightarrow> string list \<Rightarrow> int \<Rightarrow>
    handoverTimings \<Rightarrow> string option op" where
  "handOverPaused env dial failover mc replicaHosts port t = do {
     caught \<leftarrow> poll_until env (ht_poll t) (ht_catchUp t) (\<lambda>_. do {
        im \<leftarrow> info env mc;
        State_Monad.return ((), case im of Some m \<Rightarrow> if replicasCaughtUp m then Some () else None | None \<Rightarrow> None) }) ();
     case caught of
       None \<Rightarrow> State_Monad.return (Some ''the replicas did not catch up with the master'')
     | Some _ \<Rightarrow> do {
         err \<leftarrow> failover;
         if (case err of Some e \<Rightarrow> \<not> HasPrefix e ''INPROG'' | None \<Rightarrow> False)
         then State_Monad.return (Some (''SENTINEL FAILOVER: '' @ (case err of Some e \<Rightarrow> e | None \<Rightarrow> [])))
         else do {
           promoted \<leftarrow> poll_until env (ht_poll t) (ht_promote t) (findPromoted env dial replicaHosts) (\<lambda>_. None);
           case promoted of
             None \<Rightarrow> State_Monad.return (Some ''no replica was promoted'')
           | Some h \<Rightarrow> do {
               err \<leftarrow> replicaOf env mc h port;
               State_Monad.return (map_option (\<lambda>e. ''REPLICAOF '' @ h @ '' on the old master: '' @ e) err) } } } }"

definition handOverMaster :: "env \<Rightarrow> (string \<Rightarrow> replClient option op) \<Rightarrow> string option op \<Rightarrow> string \<Rightarrow> string list \<Rightarrow> int \<Rightarrow>
    handoverTimings \<Rightarrow> string option op" where
  "handOverMaster env dial failover masterHost replicaHosts port t =
     (if masterHost = [] \<or> replicaHosts = [] then State_Monad.return (Some ''no master or no replica to hand over to'')
      else do {
        c \<leftarrow> dial masterHost;
        case c of
          None \<Rightarrow> State_Monad.return (Some (''dial master '' @ masterHost @ '' failed''))
        | Some mc \<Rightarrow> do {
            im \<leftarrow> info env mc;
            if (case im of Some m \<Rightarrow> \<not> replicasLinked m (int (length replicaHosts)) | None \<Rightarrow> True)
            then State_Monad.return (Some (''not every replica is linked to the master '' @ masterHost))
            else do {
              err \<leftarrow> clientPauseWrite env mc (ht_pause t);
              case err of
                Some e \<Rightarrow> State_Monad.return (Some (''CLIENT PAUSE: '' @ e))
              | None \<Rightarrow> do {
                  err \<leftarrow> handOverPaused env dial failover mc replicaHosts port t;
                  uerr \<leftarrow> clientUnpause env mc;
                  State_Monad.return (case (uerr, err) of
                      (Some u, None) \<Rightarrow> Some (''CLIENT UNPAUSE: '' @ u)
                    | _ \<Rightarrow> err) } } } })"

text \<open>The host of the master and the hosts of the other reachable pods, in the order of the survey.\<close>

definition masterHostOf :: "ValkeyCluster \<Rightarrow> podRole list \<Rightarrow> string \<Rightarrow> string" where
  "masterHostOf vc survey master =
     fold (\<lambda>s h. if podName vc (pl_ordinal s) = master then pl_host s else h) survey []"

definition replicaHostsOf :: "ValkeyCluster \<Rightarrow> podRole list \<Rightarrow> string \<Rightarrow> string list" where
  "replicaHostsOf vc survey master =
     map pl_host (filter (\<lambda>s. podName vc (pl_ordinal s) \<noteq> master \<and> pl_reachable s) survey)"

definition sentinelHandover :: "env \<Rightarrow> string \<Rightarrow> podRole list \<Rightarrow> string \<Rightarrow> string option op" where
  "sentinelHandover env password survey master = do {
     vc \<leftarrow> get_vc;
     cert \<leftarrow> loadMTLSClientCert env vc;
     handOverMaster env (\<lambda>host. dialReplClient env host (dataPort vc) password (tlsEnabled vc) cert)
       (issueSentinelFailover env password) (masterHostOf vc survey master) (replicaHostsOf vc survey master)
       (dataPort vc) sentinelHandoverTimings }"

text \<open>The Sentinel plane of \<open>driveSentinelRollout\<close>.\<close>

definition driveSentinelPlane :: "env \<Rightarrow> (bool \<times> kerr option) op" where
  "driveSentinelPlane env = do {
     vc \<leftarrow> get_vc;
     s \<leftarrow> ask (\<lambda>t. env_sts env t (sentinelStatefulSetName vc));
     case s of
       Inl e \<Rightarrow> State_Monad.return (False, Some e)
     | Inr senSTS \<Rightarrow>
         if sts_UpdateRevision senSTS = [] then State_Monad.return (False, None)
         else do {
           ps \<leftarrow> listSentinelRolloutPods env;
           case ps of
             Inl e \<Rightarrow> State_Monad.return (False, Some e)
           | Inr senPods \<Rightarrow>
               if int32 (int (length senPods)) < se_Replicas (sentinel_spec vc) then State_Monad.return (True, None)
               else (case nextRolloutStep senPods (sts_UpdateRevision senSTS) [] of
                   rolloutWait \<Rightarrow> State_Monad.return (True, None)
                 | rolloutRollReplica pod \<Rightarrow> do {
                     err \<leftarrow> deletePodByName env pod;
                     State_Monad.return (True, err) }
                 | _ \<Rightarrow> State_Monad.return (False, None)) } }"

text \<open>
  The data plane, when some data pod is stale. The result \<^const>\<open>None\<close> is the fall through to the
  Sentinel plane.
\<close>

definition driveDataPlane :: "env \<Rightarrow> string \<Rightarrow> rolloutPod list \<Rightarrow> string \<Rightarrow> (bool \<times> kerr option) option op" where
  "driveDataPlane env password dataPods dataRev = do {
     vc \<leftarrow> get_vc;
     survey \<leftarrow> surveyReplication env password;
     let master = sentinelDataMaster vc survey;
     if master = [] then State_Monad.return (Some (True, None))
     else (case nextRolloutStep dataPods dataRev master of
         rolloutWait \<Rightarrow> State_Monad.return (Some (True, None))
       | rolloutRollReplica pod \<Rightarrow> do {
           err \<leftarrow> deletePodByName env pod;
           State_Monad.return (Some (True, err)) }
       | rolloutPromote pod \<Rightarrow> do {
           _ \<leftarrow> sentinelHandover env password survey pod;
           State_Monad.return (Some (True, None)) }
       | rolloutNone \<Rightarrow> State_Monad.return None) }"

definition driveSentinelRollout :: "env \<Rightarrow> string \<Rightarrow> (bool \<times> kerr option) op" where
  "driveSentinelRollout env password = do {
     vc \<leftarrow> get_vc;
     s \<leftarrow> ask (\<lambda>t. env_sts env t (statefulSetName vc));
     case s of
       Inl e \<Rightarrow> State_Monad.return (False, Some e)
     | Inr dataSTS \<Rightarrow>
         if sts_UpdateRevision dataSTS = [] then State_Monad.return (False, None)
         else do {
           ps \<leftarrow> listRolloutPods env;
           case ps of
             Inl e \<Rightarrow> State_Monad.return (False, Some e)
           | Inr dataPods \<Rightarrow>
               if int32 (int (length dataPods)) < sp_Replicas (vc_Spec vc) then State_Monad.return (True, None)
               else do {
                 r \<leftarrow> (if anyStale dataPods (sts_UpdateRevision dataSTS)
                      then driveDataPlane env password dataPods (sts_UpdateRevision dataSTS)
                      else State_Monad.return None);
                 case r of
                   Some res \<Rightarrow> State_Monad.return res
                 | None \<Rightarrow> driveSentinelPlane env } } }"

section \<open>What the properties speak of\<close>

text \<open>
  The length in milliseconds of the last pause of writes that a host accepted and that no accepted
  UNPAUSE has lifted since. A pause also runs out by itself after that time; the trace has no clock for it.
\<close>

fun pause_step :: "string \<Rightarrow> string option \<Rightarrow> action \<Rightarrow> string option" where
  "pause_step host b (ACmd h args ok) =
     (if h \<noteq> host \<or> \<not> ok then b
      else if length args = 4 \<and> take 2 args = [''CLIENT'', ''PAUSE''] \<and> args ! 3 = ''WRITE'' then Some (args ! 2)
      else if args = [''CLIENT'', ''UNPAUSE''] then None else b)"
| "pause_step host b _ = b"

definition paused :: "string \<Rightarrow> action list \<Rightarrow> string option" where
  "paused host t = foldl (pause_step host) None t"

text \<open>Under the pause, the master reported every replica online and at its own offset.\<close>

definition caught_up :: "env \<Rightarrow> string \<Rightarrow> action list \<Rightarrow> bool" where
  "caught_up env host t \<longleftrightarrow> (\<exists>u v txt. t = u @ v \<and> paused host u = Some ''15000'' \<and>
     reply_text (env_cmd env u host [''INFO'', ''replication'']) = Some txt \<and> replicasCaughtUp (parse_kv True txt))"

definition handover_guard :: "env \<Rightarrow> string \<Rightarrow> string list \<Rightarrow> int \<Rightarrow> action list \<Rightarrow> action \<Rightarrow> bool" where
  "handover_guard env mh rhs port t a =
     (case a of
        ACmd h args ok \<Rightarrow>
          args = [''INFO'', ''replication''] \<or>
          h = mh \<and> (args = [''CLIENT'', ''UNPAUSE''] \<or> args = [''CLIENT'', ''PAUSE'', ''15000'', ''WRITE'']) \<or>
          paused mh t = Some ''15000'' \<and> caught_up env mh t \<and>
            (args = [''SENTINEL'', ''FAILOVER'', sentinelMasterName] \<or>
             h = mh \<and> (\<exists>p\<in>set rhs. args = [''REPLICAOF'', p, Itoa port] \<and> reports_role env t p roleMaster))
      | _ \<Rightarrow> is_read a)"

text \<open>A PAUSE that was accepted during a run is followed, as the very last action, by UNPAUSE.\<close>

definition pause_lifted :: "string \<Rightarrow> world \<Rightarrow> world \<Rightarrow> bool" where
  "pause_lifted host w w' \<longleftrightarrow> (\<forall>ms. ACmd host [''CLIENT'', ''PAUSE'', ms, ''WRITE''] True \<notin> set (new_acts w w')) \<or>
     (\<exists>u ok. acts w' = u @ [ACmd host [''CLIENT'', ''UNPAUSE''] ok])"

text \<open>The old master now follows a replica that called itself master, and its writes are open again.\<close>

definition handed_over :: "env \<Rightarrow> string \<Rightarrow> string list \<Rightarrow> int \<Rightarrow> action list \<Rightarrow> bool" where
  "handed_over env mh rhs port t \<longleftrightarrow> (\<exists>u p. p \<in> set rhs \<and> reports_role env u p roleMaster \<and>
     t = u @ [ACmd mh [''REPLICAOF'', p, Itoa port] True, ACmd mh [''CLIENT'', ''UNPAUSE''] True])"

section \<open>The handover\<close>

lemma paused_append: "paused host (t @ xs) = foldl (pause_step host) (paused host t) xs"
  by (simp add: paused_def)

lemma caught_up_append: "caught_up env host t \<Longrightarrow> caught_up env host (t @ u)"
  unfolding caught_up_def by (metis append_assoc)

text \<open>The state under the pause, and the actions that leave it alone.\<close>

definition under_pause :: "env \<Rightarrow> ValkeyCluster \<Rightarrow> string \<Rightarrow> world \<Rightarrow> bool" where
  "under_pause env vc mh v \<longleftrightarrow> cur v = vc \<and> paused mh (acts v) = Some ''15000'' \<and> caught_up env mh (acts v)"

lemma under_pause_appended [simp]:
  "under_pause env vc mh v \<Longrightarrow> under_pause env vc mh (appended v (ADial h p pw ok))"
  "under_pause env vc mh v \<Longrightarrow> under_pause env vc mh (appended v (ACmd h [''INFO'', x] ok))"
  "under_pause env vc mh v \<Longrightarrow> under_pause env vc mh (appended v (ACmd h [''SENTINEL'', x, y] ok))"
  "under_pause env vc mh v \<Longrightarrow> under_pause env vc mh (appended v (ACmd h [''REPLICAOF'', x, y] ok))"
  by (auto simp: under_pause_def paused_append intro: caught_up_append)

lemma handover_guard_simps [simp]:
  "handover_guard env mh rhs port t (ADial h p pw ok)"
  "handover_guard env mh rhs port t (ACmd h [''INFO'', ''replication''] ok)"
  "handover_guard env mh rhs port t (ACmd mh [''CLIENT'', ''UNPAUSE''] ok)"
  "handover_guard env mh rhs port t (ACmd mh [''CLIENT'', ''PAUSE'', ''15000'', ''WRITE''] ok)"
  by (auto simp: handover_guard_def)

lemma handover_guard_failover:
  "under_pause env vc mh v \<Longrightarrow> handover_guard env mh rhs port (acts v) (ACmd h [''SENTINEL'', ''FAILOVER'', sentinelMasterName] ok)"
  by (auto simp: handover_guard_def under_pause_def)

lemma wp_askSentinels:
  assumes "under_pause env vc mh w" and "\<And>r v. under_pause env vc mh v \<Longrightarrow> Q r v"
  shows "wp (handover_guard env mh rhs port) (askSentinels env pw is e) Q w"
  using assms(1)
proof (induction "is" arbitrary: e w)
  case Nil
  then show ?case by (auto intro!: wp_rules assms(2))
next
  case (Cons i "is")
  have "handover_guard env mh rhs port (acts w @ [ADial h p pw True]) (ACmd h [''SENTINEL'', ''FAILOVER'', sentinelMasterName] ok)"
    for h p ok using handover_guard_failover [of env vc mh "appended w (ADial h p pw True)"] Cons.prems by simp
  then show ?case using Cons.prems unfolding askSentinels.simps sentinelFailover_def
    by (auto intro!: wp_rules Cons.IH assms(2))
qed

lemma reports_roleI:
  "reply_text (env_cmd env t h [''INFO'', ''replication'']) = Some m \<Longrightarrow> mget (parse_kv True m) ''role'' = r \<Longrightarrow>
   reports_role env (t @ [a]) h r"
  unfolding reports_role_def by blast

lemma reports_roleI2:
  "reply_text (env_cmd env (t @ [a]) h [''INFO'', ''replication'']) = Some m \<Longrightarrow> mget (parse_kv True m) ''role'' = r \<Longrightarrow>
   reports_role env (t @ [a, b]) h r"
  using reports_roleI [of env "t @ [a]"] by simp

lemma wp_findPromoted:
  assumes "under_pause env vc mh w" and "\<And>h c. replicas h = Some c \<Longrightarrow> rc_host c = h"
    and post: "\<And>rs v. under_pause env vc mh v \<Longrightarrow> (\<And>h c. rs h = Some c \<Longrightarrow> rc_host c = h) \<Longrightarrow> Q (rs, None) v"
      "\<And>rs p v. under_pause env vc mh v \<Longrightarrow> p \<in> set hosts \<Longrightarrow> reports_role env (acts v) p roleMaster \<Longrightarrow> Q (rs, Some p) v"
  shows "wp (handover_guard env mh rhs port)
    (findPromoted env (\<lambda>h. dialReplClient env h dp pw tls cert) hosts replicas) Q w"
  using assms
proof (induction hosts arbitrary: replicas w)
  case Nil
  then show ?case by (auto intro!: wp_rules)
next
  case (Cons h hs)
  show ?case using Cons.prems unfolding findPromoted.simps client_defs
    by (auto intro!: wp_rules Cons.IH Cons.prems(4) reports_roleI reports_roleI2 split: option.splits if_splits)
qed

lemma wp_handOverPaused:
  assumes "paused (rc_host mc) (acts w) = Some ''15000''"
    and failover: "\<And>v R. under_pause env (cur w) (rc_host mc) v \<Longrightarrow> (\<And>r u. under_pause env (cur w) (rc_host mc) u \<Longrightarrow> R r u) \<Longrightarrow>
      wp (handover_guard env (rc_host mc) rhs port) failover R v"
    and post: "\<And>r v. (r = None \<Longrightarrow> \<exists>u p. p \<in> set rhs \<and> reports_role env u p roleMaster \<and>
      acts v = u @ [ACmd (rc_host mc) [''REPLICAOF'', p, Itoa port] True]) \<Longrightarrow> Q r v"
  shows "wp (handover_guard env (rc_host mc) rhs port)
    (handOverPaused env (\<lambda>h. dialReplClient env h dp pw tls cert) failover mc rhs port t) Q w"
proof -
  have caught: "under_pause env (cur w) (rc_host mc) (appended v (ACmd (rc_host mc) [''INFO'', ''replication''] ok))"
    if "reply_text (env_cmd env (acts v) (rc_host mc) [''INFO'', ''replication'']) = Some m" "replicasCaughtUp (parse_kv True m)"
      "paused (rc_host mc) (acts v) = Some ''15000''" "cur v = cur w" for v ok m
    using that unfolding under_pause_def caught_up_def by (auto simp: paused_append)
  have poll: "wp (handover_guard env (rc_host mc) rhs port) (poll_until env (ht_poll t) (ht_catchUp t) (\<lambda>_. do {
        im \<leftarrow> info env mc;
        State_Monad.return ((), case im of Some m \<Rightarrow> if replicasCaughtUp m then Some () else None | None \<Rightarrow> None) }) ()) R w"
    if "\<And>v. under_pause env (cur w) (rc_host mc) v \<Longrightarrow> R (Some ()) v" "\<And>v. R None v" for R
    by (rule wp_poll_until [where I = "\<lambda>_ v. cur v = (cur w) \<and> paused (rc_host mc) (acts v) = Some ''15000''"])
      (use assms(1) that in \<open>auto intro!: wp_rules that(1) intro: caught simp: client_defs paused_append split: option.splits if_splits\<close>)
  have promote: "wp (handover_guard env (rc_host mc) rhs port)
      (poll_until env (ht_poll t) (ht_promote t) (findPromoted env (\<lambda>h. dialReplClient env h dp pw tls cert) rhs) (\<lambda>_. None)) R v"
    if "under_pause env (cur w) (rc_host mc) v" "\<And>v. R None v"
      "\<And>p v. under_pause env (cur w) (rc_host mc) v \<Longrightarrow> p \<in> set rhs \<Longrightarrow> reports_role env (acts v) p roleMaster \<Longrightarrow> R (Some p) v" for R v
    by (rule wp_poll_until [where I = "\<lambda>rs v. under_pause env (cur w) (rc_host mc) v \<and> (\<forall>h c. rs h = Some c \<longrightarrow> rc_host c = h)"])
      (use that in \<open>auto intro!: wp_findPromoted\<close>)
  have repoint: "wp (handover_guard env (rc_host mc) rhs port) (replicaOf env mc p port) R v"
    if "under_pause env (cur w) (rc_host mc) v" "p \<in> set rhs" "reports_role env (acts v) p roleMaster"
      "\<And>e u. (e = None \<Longrightarrow> \<exists>u' p. p \<in> set rhs \<and> reports_role env u' p roleMaster \<and>
        acts u = u' @ [ACmd (rc_host mc) [''REPLICAOF'', p, Itoa port] True]) \<Longrightarrow> R e u" for p v R
    using that unfolding replicaOf_def
    by (auto intro!: wp_rules that(4) simp: handover_guard_def under_pause_def)
  show ?thesis unfolding handOverPaused_def
    by (auto intro!: wp_rules poll promote failover repoint post split: option.splits)
qed

lemma wp_sentinelHandover:
  fixes w survey m env pw
  defines "mh \<equiv> masterHostOf (cur w) survey m" and "rhs \<equiv> replicaHostsOf (cur w) survey m"
  shows "wp (handover_guard env mh rhs (dataPort (cur w))) (sentinelHandover env pw survey m)
    (\<lambda>r v. pause_lifted mh w v \<and> (r = None \<longrightarrow> handed_over env mh rhs (dataPort (cur w)) (acts v))) w"
proof -
  let ?G = "handover_guard env mh rhs (dataPort (cur w))"
  have failover: "wp ?G (issueSentinelFailover env pw) R v"
    if "under_pause env vc mh v" "\<And>r u. under_pause env vc mh u \<Longrightarrow> R r u" for vc v R
    unfolding issueSentinelFailover_def using that by (auto intro!: wp_rules wp_askSentinels)
  have lifted: "pause_lifted mh w (appended v (ACmd mh [''CLIENT'', ''UNPAUSE''] ok))" for v ok
    by (auto simp: pause_lifted_def)
  have over: "handed_over env mh rhs (dataPort (cur w)) (u @ [ACmd mh [''REPLICAOF'', p, Itoa (dataPort (cur w))] True,
      ACmd mh [''CLIENT'', ''UNPAUSE''] True])" if "p \<in> set rhs" "reports_role env u p roleMaster" for u p
    using that by (auto simp: handed_over_def)
  have under: "wp ?G (handOverPaused env (\<lambda>h. dialReplClient env h (dataPort (cur w)) pw tls cert) (issueSentinelFailover env pw)
      \<lparr>rc_host = mh, rc_port = dataPort (cur w)\<rparr> rhs (dataPort (cur w)) t) Q v"
    if "paused mh (acts v) = Some ''15000''" and post: "\<And>r u. (r = None \<Longrightarrow> \<exists>u' p. p \<in> set rhs \<and> reports_role env u' p roleMaster \<and>
      acts u = u' @ [ACmd mh [''REPLICAOF'', p, Itoa (dataPort (cur w))] True]) \<Longrightarrow> Q r u" for tls cert t Q v
    using wp_handOverPaused [where mc = "\<lparr>rc_host = mh, rc_port = dataPort (cur w)\<rparr>", unfolded replClient.select_convs,
        OF that(1) failover that(2)] .
  have ms: "Itoa (ht_pause sentinelHandoverTimings sdiv 1000000) = ''15000''" by code_simp
  show ?thesis unfolding sentinelHandover_def handOverMaster_def mh_def [symmetric] rhs_def [symmetric] client_defs ms
    by (auto intro!: wp_rules under failover lifted over
        simp: pause_lifted_def new_acts_def paused_append mh_def [symmetric] rhs_def [symmetric] split: option.splits)
qed

text \<open>
  C24. The master is handed over without losing acknowledged writes and without racing the Sentinels.
  In every environment: SENTINEL FAILOVER is sent only after the old master accepted a pause of its
  writes for 15 seconds, before that pause is lifted, and after the master reported, since it accepted
  the pause, every replica online at its own offset; the only REPLICAOF goes to the old master, also
  between the pause and its lifting, and names a pod that answered INFO with \<open>role:master\<close>; a pause that
  was accepted is followed by an UNPAUSE as the last command of the handover on every path, errors
  included; and a handover that reports success ends with the old master following the promoted pod
  and the pause lifted. Whether the 15 seconds have run out in between depends on how long the calls take.
\<close>

theorem sentinelHandover_safe:
  assumes "run_state (sentinelHandover env pw survey master) w = (err, w')"
    and "mh = masterHostOf (cur w) survey master" and "rhs = replicaHostsOf (cur w) survey master"
  shows "(\<forall>t a. issued w w' t a \<longrightarrow> handover_guard env mh rhs (dataPort (cur w)) t a) \<and>
    pause_lifted mh w w' \<and> (err = None \<longrightarrow> handed_over env mh rhs (dataPort (cur w)) (acts w'))"
  using wp_issued [OF wp_sentinelHandover assms(1)] wp_result [OF wp_sentinelHandover assms(1)]
  unfolding assms(2,3) by blast

text \<open>Concrete input: pod 1 becomes master once a Sentinel was asked to fail over.\<close>

definition handover_survey :: "podRole list" where
  "handover_survey = map (\<lambda>i. (blankRole i (demo_host i))\<lparr>pl_reachable := True,
     pl_role := (if i = 0 then roleMaster else roleSlave)\<rparr>) [0, 1, 2]"

definition handover_env :: env where
  "handover_env = answering_env\<lparr>env_cmd := (\<lambda>t h args.
     if args \<noteq> [''INFO'', ''replication''] then Inr (RText ''OK'')
     else if h = demo_host 0 then Inr (RText (Join [''role:master'', ''connected_slaves:2'', ''master_repl_offset:50'',
       ''slave0:state=online,offset=50'', ''slave1:state=online,offset=50''] [CHR 0x0A]))
     else if h = demo_host 1 \<and> list_ex (\<lambda>a. case a of ACmd _ c _ \<Rightarrow> take 2 c = [''SENTINEL'', ''FAILOVER''] | _ \<Rightarrow> False) t
     then Inr (RText ''role:master'') else Inr (RText ''role:slave''))\<rparr>"

theorem sentinelHandover_safe_witness:
  "handed_over handover_env (demo_host 0) [demo_host 1, demo_host 2] 6379
     (acts (snd (run_state (sentinelHandover handover_env [] handover_survey ''demo-0'') trio_world)))"
proof -
  have "fst (run_state (sentinelHandover handover_env [] handover_survey ''demo-0'') trio_world) = None"
    "masterHostOf (cur trio_world) handover_survey ''demo-0'' = demo_host 0"
    "replicaHostsOf (cur trio_world) handover_survey ''demo-0'' = [demo_host 1, demo_host 2]"
    "dataPort (cur trio_world) = 6379" by code_simp+
  then show ?thesis using sentinelHandover_safe [OF prod.collapse [symmetric] refl refl] by metis
qed

section \<open>The rollout\<close>

definition sole_master :: "ValkeyCluster \<Rightarrow> podRole list \<Rightarrow> string \<Rightarrow> bool" where
  "sole_master vc survey master \<longleftrightarrow>
     (\<exists>s. filter (\<lambda>s. pl_reachable s \<and> pl_role s = roleMaster) survey = [s] \<and> master = podName vc (pl_ordinal s))"

text \<open>The data pods as the pass read them, and the conditions of a deletion in each plane.\<close>

definition data_view :: "env \<Rightarrow> world \<Rightarrow> string \<Rightarrow> rolloutPod list \<Rightarrow> bool" where
  "data_view env w d pods \<longleftrightarrow> d \<noteq> [] \<and> (\<exists>sts items. env_sts env (acts w) (statefulSetName (cur w)) = Inr sts \<and>
     d = sts_UpdateRevision sts \<and> env_pods env (acts w) [(instanceLabel, vc_Name (cur w))] = Inr items \<and>
     pods = List.map_filter (rolloutPodOf (cur w)) items \<and> sp_Replicas (vc_Spec (cur w)) \<le> int32 (int (length pods)))"

definition stale_one :: "rolloutPod list \<Rightarrow> string \<Rightarrow> string \<Rightarrow> bool" where
  "stale_one pods d pod \<longleftrightarrow> list_all rp_ready pods \<and> (\<exists>p\<in>set pods. rp_name p = pod \<and> rp_revision p \<noteq> d)"

definition may_roll :: "env \<Rightarrow> string \<Rightarrow> world \<Rightarrow> action list \<Rightarrow> string \<Rightarrow> bool" where
  "may_roll env pw w t pod \<longleftrightarrow> (\<exists>us. t = acts w @ us \<and> list_all reads_only us) \<and> (\<exists>d pods. data_view env w d pods \<and>
     ((\<exists>master. stale_one pods d pod \<and> pod \<noteq> master \<and>
         sole_master (cur w) (fst (run_state (surveyReplication env pw) w)) master) \<or>
      \<not> anyStale pods d \<and>
        (\<exists>sts items. env_sts env t (sentinelStatefulSetName (cur w)) = Inr sts \<and>
           env_pods env t [(instanceLabel, vc_Name (cur w)), (componentLabel, ''sentinel'')] = Inr items \<and>
           stale_one (List.map_filter (sentinelRolloutPodOf (cur w)) items) (sts_UpdateRevision sts) pod \<and>
           se_Replicas (sentinel_spec (cur w)) \<le> int32 (int (length (List.map_filter (sentinelRolloutPodOf (cur w)) items))))))"

lemma podName_nonempty [simp]: "podName vc i \<noteq> []"
  by (simp add: podName_def)

lemma dataMaster_found: "m \<noteq> [] \<Longrightarrow> dataMaster vc ss m \<noteq> [] \<Longrightarrow>
    filter (\<lambda>s. pl_reachable s \<and> pl_role s = roleMaster) ss = [] \<and> dataMaster vc ss m = m"
  by (induction ss) (auto split: if_splits)

lemma sentinelDataMaster_sole: "sentinelDataMaster vc survey \<noteq> [] \<Longrightarrow> sole_master vc survey (sentinelDataMaster vc survey)"
proof (induction survey)
  case (Cons s ss)
  then show ?case using dataMaster_found [of "podName vc (pl_ordinal s)" vc ss]
    by (auto simp: sentinelDataMaster_def sole_master_def split: if_splits)
qed (simp add: sentinelDataMaster_def)

lemma deletes_Pod: "deletes (ADelete ''Pod'' n r) = Some n"
  by (simp add: deletes_def)

lemma wp_driveSentinelPlane:
  assumes "data_view env w d pods" "\<not> anyStale pods d" "cur v = cur w" "\<exists>us. acts v = acts w @ us \<and> list_all reads_only us"
  shows "wp (\<lambda>t a. \<forall>pod. deletes a = Some pod \<longrightarrow> may_roll env pw w t pod) (driveSentinelPlane env) (\<lambda>_ _. True) v"
proof -
  have roll: "may_roll env pw w (acts v) pod"
    if "env_sts env (acts v) (sentinelStatefulSetName (cur w)) = Inr sts"
      "env_pods env (acts v) [(instanceLabel, vc_Name (cur w)), (componentLabel, ''sentinel'')] = Inr items"
      "\<not> int32 (int (length (List.map_filter (sentinelRolloutPodOf (cur w)) items))) < se_Replicas (sentinel_spec (cur w))"
      "nextRolloutStep (List.map_filter (sentinelRolloutPodOf (cur w)) items) (sts_UpdateRevision sts) [] = rolloutRollReplica pod"
    for sts items pod
    using that(1-3) nextRolloutStep_replica [OF that(4)] assms
    unfolding may_roll_def stale_one_def by (metis not_le_imp_less)
  show ?thesis unfolding driveSentinelPlane_def listSentinelRolloutPods_def deletePodByName_def
    using assms(3) roll by (auto intro!: wp_rules simp: deletes_def split: sum.splits rolloutAction.splits)
qed

lemma wp_driveDataPlane:
  assumes view: "data_view env w d pods"
    and post: "\<And>r u. (r = None \<Longrightarrow> cur u = cur w \<and> \<not> anyStale pods d \<and> (\<exists>us. acts u = acts w @ us \<and> list_all reads_only us)) \<Longrightarrow> Q r u"
  shows "wp (\<lambda>t a. \<forall>pod. deletes a = Some pod \<longrightarrow> may_roll env pw w t pod) (driveDataPlane env pw pods d) Q w"
proof -
  let ?G = "\<lambda>t a. \<forall>pod. deletes a = Some pod \<longrightarrow> may_roll env pw w t pod"
  have read: "deletes a \<noteq> Some pod" if "reads_only a" for a pod
    using that by (auto simp: reads_only_def deletes_def is_read_def split: action.splits)
  have hand: "wp ?G (sentinelHandover env pw survey m) R u" if "\<And>r u. R r u" for survey m u R
  proof (rule wp_guarantee [OF wp_conseq [OF wp_sentinelHandover]])
    fix us a assume "handover_guard env (masterHostOf (cur u) survey m) (replicaHostsOf (cur u) survey m) (dataPort (cur u)) (acts u @ us) a"
    then show "?G (acts u @ us) a"
      by (auto simp: handover_guard_def deletes_def is_read_def split: action.splits)
  qed (rule that)
  have only: "\<exists>us. acts u = acts w @ us \<and> list_all reads_only us" if "grows w u" "list_all reads_only (new_acts w u)" for u
    using that by (auto simp: grows_def new_acts_def)
  have roll: "may_roll env pw w (acts u) pod"
    if "nextRolloutStep pods d (sentinelDataMaster (cur w) survey) = rolloutRollReplica pod" "sentinelDataMaster (cur w) survey \<noteq> []"
      "survey = fst (run_state (surveyReplication env pw) w)" "grows w u" "list_all reads_only (new_acts w u)" for survey pod u
    using nextRolloutStep_replica [OF that(1)] sentinelDataMaster_sole [OF that(2)] that(3) only [OF that(4,5)] view
    unfolding may_roll_def stale_one_def by blast
  have none: "\<not> anyStale pods d" if "nextRolloutStep pods d m = rolloutNone" for m
    using that view by (auto simp: nextRolloutStep_unfold data_view_def anyStale_def stale_def list_ex_iff filter_empty_conv split: if_splits option.splits)
  show ?thesis unfolding driveDataPlane_def deletePodByName_def using view
    by (auto intro!: wp_rules wp_survey_run hand post roll only simp: read grows_cur deletes_Pod Let_def
        dest: none split: rolloutAction.splits)
qed

text \<open>
  C25. The Sentinel rollout never restarts the master and never disrupts two things at once. Whenever a
  pass deletes a pod, everything the pass did before was to dial pods and to send INFO and DBSIZE, so it
  deletes at most one and none after it began a handover; every pod of that plane was listed, ready and
  complete, and the pod is stale. If it is a data pod, exactly one data pod is a master in the survey of
  this pass and it is another one. If it is a Sentinel, no data pod is stale any more.
\<close>

theorem driveSentinelRollout_safe:
  assumes "run_state (driveSentinelRollout env pw) w = (r, w')" and "issued w w' t a" and "deletes a = Some pod"
  shows "may_roll env pw w t pod"
proof -
  have "wp (\<lambda>t a. \<forall>pod. deletes a = Some pod \<longrightarrow> may_roll env pw w t pod) (driveSentinelRollout env pw) (\<lambda>_ _. True) w"
    unfolding driveSentinelRollout_def listRolloutPods_def
    by (auto intro!: wp_rules wp_driveDataPlane wp_driveSentinelPlane simp: data_view_def split: sum.splits)
  from wp_issued [OF this assms(1,2)] show ?thesis using assms(3) by blast
qed

definition trio_rollout_env :: env where
  "trio_rollout_env = refusing_env\<lparr>env_dial := (\<lambda>_ _ _ _ _ _. True),
     env_pods := (\<lambda>_ _. Inr [demo_pod ''demo-0'' ''r1'', demo_pod ''demo-1'' ''r1'', demo_pod ''demo-2'' ''r2'']),
     env_cmd := (\<lambda>_ h _. Inr (RText (if h = demo_host 0 then ''role:master'' else ''role:slave'')))\<rparr>"

theorem driveSentinelRollout_safe_witness:
  "\<exists>t. issued trio_world (snd (run_state (driveSentinelRollout trio_rollout_env []) trio_world)) t (ADelete ''Pod'' ''demo-1'' None) \<and>
     may_roll trio_rollout_env [] trio_world t ''demo-1''"
proof -
  have "acts trio_world = []" "deletes (ADelete ''Pod'' ''demo-1'' None) = Some ''demo-1''" by code_simp+
  moreover have "ADelete ''Pod'' ''demo-1'' None \<in>
      set (acts (snd (run_state (driveSentinelRollout trio_rollout_env []) trio_world)))" by code_simp
  ultimately obtain t where t: "issued trio_world (snd (run_state (driveSentinelRollout trio_rollout_env []) trio_world)) t
      (ADelete ''Pod'' ''demo-1'' None)" using issued_member by blast
  then show ?thesis using driveSentinelRollout_safe [OF prod.collapse [symmetric] t \<open>deletes _ = _\<close>] by blast
qed

end
