(* ===== verification/Objects.thy ===== *)
theory Objects
  imports Rollout_Sentinel
begin

text \<open>
  The Kubernetes objects around the StatefulSets: their builders in
  \<open>src/internal/controller/resources.go\<close> and \<open>sentinel.go\<close>, and the handlers that bring the live
  objects to the built ones, \<open>ensure...\<close> and \<open>apply...\<close> of \<open>valkeycluster_controller.go\<close> and
  \<open>primary_service.go\<close>. An update writes the live object with the operator's fields replaced.
  \<open>SetControllerReference\<close> on an object built in the same call does not fail and only adds the
  owner reference, which the model leaves out. A typed read that meets an object of another kind,
  which the API server excludes, is an error.
\<close>

section \<open>Typed reads\<close>

definition wrong_kind :: kerr where
  "wrong_kind = OtherError ''unexpected kind''"

definition get_service :: "env \<Rightarrow> string \<Rightarrow> (kerr + Service) op" where
  "get_service env name = do {
     r \<leftarrow> ask (\<lambda>t. env_object env t ''Service'' name);
     State_Monad.return (case r of Inl e \<Rightarrow> Inl e | Inr (KService s) \<Rightarrow> Inr s | Inr _ \<Rightarrow> Inl wrong_kind) }"

definition get_configmap :: "env \<Rightarrow> string \<Rightarrow> (kerr + ConfigMap) op" where
  "get_configmap env name = do {
     r \<leftarrow> ask (\<lambda>t. env_object env t ''ConfigMap'' name);
     State_Monad.return (case r of Inl e \<Rightarrow> Inl e | Inr (KConfigMap s) \<Rightarrow> Inr s | Inr _ \<Rightarrow> Inl wrong_kind) }"

definition get_pdb :: "env \<Rightarrow> string \<Rightarrow> (kerr + PodDisruptionBudget) op" where
  "get_pdb env name = do {
     r \<leftarrow> ask (\<lambda>t. env_object env t ''PodDisruptionBudget'' name);
     State_Monad.return (case r of Inl e \<Rightarrow> Inl e | Inr (KPDB s) \<Rightarrow> Inr s | Inr _ \<Rightarrow> Inl wrong_kind) }"

definition get_netpol :: "env \<Rightarrow> string \<Rightarrow> (kerr + NetworkPolicy) op" where
  "get_netpol env name = do {
     r \<leftarrow> ask (\<lambda>t. env_object env t ''NetworkPolicy'' name);
     State_Monad.return (case r of Inl e \<Rightarrow> Inl e | Inr (KNetworkPolicy s) \<Rightarrow> Inr s | Inr _ \<Rightarrow> Inl wrong_kind) }"

section \<open>The password Secret\<close>

text \<open>\<open>base64.RawURLEncoding\<close>: six bits per character, no padding.\<close>

definition b64_char :: "nat \<Rightarrow> char" where
  "b64_char n = (if n < 26 then char_of (65 + n) else if n < 52 then char_of (71 + n)
     else if n < 62 then char_of (n - 4) else if n = 62 then CHR ''-'' else CHR ''_'')"

fun RawURLEncoding :: "string \<Rightarrow> string" where
  "RawURLEncoding (a # b # c # r) =
     (let x = of_char a; y = of_char b; z = of_char c
      in map b64_char [x div 4, x mod 4 * 16 + y div 16, y mod 16 * 4 + z div 64, z mod 64] @ RawURLEncoding r)"
| "RawURLEncoding [a, b] =
     (let x = of_char a; y = of_char b in map b64_char [x div 4, x mod 4 * 16 + y div 16, y mod 16 * 4])"
| "RawURLEncoding [a] = (let x = of_char a in map b64_char [x div 4, x mod 4 * 16])"
| "RawURLEncoding [] = []"

text \<open>\<open>env_random\<close> is \<open>rand.Read\<close>: the bytes that fill the buffer, or an error.\<close>

definition generatePassword :: "env \<Rightarrow> nat \<Rightarrow> (kerr + string) op" where
  "generatePassword env n = do {
     r \<leftarrow> ask (env_random env);
     State_Monad.return (case r of Inl e \<Rightarrow> Inl (OtherError e) | Inr b \<Rightarrow> Inr (take n (RawURLEncoding b))) }"

text \<open>\<open>vc.Spec.Auth.ExistingSecret\<close>; the callers have checked that the pointer is set.\<close>

definition existingAuthSecret :: "ValkeyCluster \<Rightarrow> string" where
  "existingAuthSecret vc = (case sp_Auth (vc_Spec vc) of Some a \<Rightarrow> au_ExistingSecret a | None \<Rightarrow> [])"

definition ensurePasswordSecret :: "env \<Rightarrow> (kerr + string) op" where
  "ensurePasswordSecret env = do {
     vc \<leftarrow> get_vc;
     if \<not> AuthEnabled (vc_Spec vc) then State_Monad.return (Inr [])
     else if existingAuthSecret vc \<noteq> [] then do {
       s \<leftarrow> ask (\<lambda>t. env_secret env t (existingAuthSecret vc));
       State_Monad.return (case s of Inl e \<Rightarrow> Inl e
         | Inr sec \<Rightarrow> Inr (mget (map_of (sec_Data sec)) secretKeyPassword)) }
     else do {
       s \<leftarrow> ask (\<lambda>t. env_secret env t (passwordSecretName vc));
       case s of
         Inr sec \<Rightarrow> State_Monad.return (Inr (mget (map_of (sec_Data sec)) secretKeyPassword))
       | Inl e \<Rightarrow>
           if e \<noteq> NotFound then State_Monad.return (Inl e)
           else do {
             p \<leftarrow> generatePassword env 32;
             case p of
               Inl e \<Rightarrow> State_Monad.return (Inl e)
             | Inr pw \<Rightarrow> do {
                 err \<leftarrow> create_obj env (KSecret \<lparr>sec_Name = passwordSecretName vc, sec_Labels = labelsFor vc,
                    sec_Data = [(secretKeyPassword, pw)]\<rparr>);
                 State_Monad.return (case err of Some e \<Rightarrow> Inl e | None \<Rightarrow> Inr pw) } } } }"

section \<open>Comparisons\<close>

definition labelsContained :: "labels \<Rightarrow> labels \<Rightarrow> bool" where
  "labelsContained want have = list_all (\<lambda>(k, v). mget (map_of have) k = v) want"

text \<open>\<open>equality.Semantic.DeepEqual\<close> on two string maps.\<close>

definition same_labels :: "labels \<Rightarrow> labels \<Rightarrow> bool" where
  "same_labels a b = list_all (\<lambda>k. map_of a k = map_of b k) (map fst a @ map fst b)"

section \<open>Services\<close>

definition tcp_port :: "string \<Rightarrow> int \<Rightarrow> IntOrString \<Rightarrow> ServicePort" where
  "tcp_port name port target = \<lparr>svp_Name = name, svp_Port = port, svp_TargetPort = target, svp_Protocol = ''TCP''\<rparr>"

definition buildHeadlessService :: "ValkeyCluster \<Rightarrow> Service" where
  "buildHeadlessService vc = \<lparr>svc_Name = headlessServiceName vc, svc_Labels = labelsFor vc, svc_Headless = True,
     svc_PublishNotReady = True, svc_Selector = labelsFor vc,
     svc_Ports = [tcp_port ''valkey'' (dataPort vc) (StrVal ''valkey'')]
       @ (if sp_Topology (vc_Spec vc) = TopologyCluster then [tcp_port ''gossip'' clusterBusPort (StrVal ''gossip'')] else [])\<rparr>"

definition buildClientService :: "ValkeyCluster \<Rightarrow> Service" where
  "buildClientService vc = \<lparr>svc_Name = clientServiceName vc, svc_Labels = labelsFor vc, svc_Headless = False,
     svc_PublishNotReady = False, svc_Selector = labelsFor vc,
     svc_Ports = [tcp_port ''valkey'' (dataPort vc) (StrVal ''valkey'')]
       @ (if metricsEnabled vc then [tcp_port ''metrics'' exporterPort (StrVal ''metrics'')] else [])\<rparr>"

definition buildRoleService :: "ValkeyCluster \<Rightarrow> string \<Rightarrow> string \<Rightarrow> Service" where
  "buildRoleService vc name role = \<lparr>svc_Name = name, svc_Labels = labelsFor vc, svc_Headless = False,
     svc_PublishNotReady = False, svc_Selector = maps_Copy (labelsFor vc) [(roleLabel, role)],
     svc_Ports = [tcp_port ''valkey'' (dataPort vc) (IntVal (dataPort vc))]\<rparr>"

definition buildPrimaryService :: "ValkeyCluster \<Rightarrow> Service" where
  "buildPrimaryService vc = buildRoleService vc (primaryServiceName vc) rolePrimary"

definition buildReplicasService :: "ValkeyCluster \<Rightarrow> Service" where
  "buildReplicasService vc = buildRoleService vc (replicasServiceName vc) roleReplica"

definition buildShardHeadlessService :: "ValkeyCluster \<Rightarrow> int \<Rightarrow> Service" where
  "buildShardHeadlessService vc shard =
     (buildHeadlessService vc)\<lparr>svc_Name := shardHeadlessName vc shard, svc_Labels := shardLabelsFor vc shard,
        svc_Selector := shardLabelsFor vc shard\<rparr>"

definition applyService :: "env \<Rightarrow> Service \<Rightarrow> kerr option op" where
  "applyService env desired = do {
     r \<leftarrow> get_service env (svc_Name desired);
     case r of
       Inl e \<Rightarrow> if e = NotFound then create_obj env (KService desired) else State_Monad.return (Some e)
     | Inr existing \<Rightarrow>
         if svc_Ports desired = svc_Ports existing \<and> same_labels (svc_Selector desired) (svc_Selector existing) \<and>
            labelsContained (svc_Labels desired) (svc_Labels existing)
         then State_Monad.return None
         else update_obj env (KService (existing\<lparr>svc_Ports := svc_Ports desired,
                svc_Selector := svc_Selector desired, svc_Labels := svc_Labels desired\<rparr>)) }"

definition ensureHeadlessService :: "env \<Rightarrow> kerr option op" where
  "ensureHeadlessService env = do { vc \<leftarrow> get_vc; applyService env (buildHeadlessService vc) }"

definition ensureClientService :: "env \<Rightarrow> kerr option op" where
  "ensureClientService env = do { vc \<leftarrow> get_vc; applyService env (buildClientService vc) }"

definition ensurePrimaryService :: "env \<Rightarrow> kerr option op" where
  "ensurePrimaryService env = do { vc \<leftarrow> get_vc; applyService env (buildPrimaryService vc) }"

definition ensureReplicasService :: "env \<Rightarrow> kerr option op" where
  "ensureReplicasService env = do { vc \<leftarrow> get_vc; applyService env (buildReplicasService vc) }"

definition ensureShardHeadlessService :: "env \<Rightarrow> int \<Rightarrow> kerr option op" where
  "ensureShardHeadlessService env shard = do { vc \<leftarrow> get_vc; applyService env (buildShardHeadlessService vc shard) }"

definition sentinelLabels :: "ValkeyCluster \<Rightarrow> labels" where
  "sentinelLabels vc = maps_Copy (labelsFor vc) [(componentLabel, ''sentinel'')]"

definition sentinelPodLabels :: "ValkeyCluster \<Rightarrow> labels" where
  "sentinelPodLabels vc = maps_Copy (sentinelLabels vc) [(sentinelPlaneLabel, ''sentinel'')]"

definition sentinelPodsLabeled :: "env \<Rightarrow> (kerr + bool) op" where
  "sentinelPodsLabeled env = do {
     vc \<leftarrow> get_vc;
     r \<leftarrow> ask (\<lambda>t. env_pods env t (sentinelLabels vc));
     State_Monad.return (case r of Inl e \<Rightarrow> Inl e
       | Inr items \<Rightarrow> Inr (list_all (\<lambda>p. ordinalFromPodName (pod_Name p) (sentinelStatefulSetName vc) = None \<or>
            mget (map_of (pod_Labels p)) sentinelPlaneLabel = ''sentinel'') items)) }"

text \<open>The Service of the Sentinels, for a plane whose pods all carry the label of the plane or not yet.\<close>

definition sentinelService :: "ValkeyCluster \<Rightarrow> bool \<Rightarrow> Service" where
  "sentinelService vc labeled =
     \<lparr>svc_Name = sentinelStatefulSetName vc, svc_Labels = sentinelLabels vc,
      svc_Headless = True, svc_PublishNotReady = True,
      svc_Selector = (if labeled then sentinelPodLabels vc else sentinelLabels vc),
      svc_Ports = [tcp_port ''sentinel'' (sentinelListenPort vc) (StrVal ''sentinel'')]
        @ (if sentinelMetricsEnabled vc then [tcp_port ''sentinel-metrics'' exporterPort (StrVal ''exporter'')] else [])\<rparr>"

definition ensureSentinelService :: "env \<Rightarrow> kerr option op" where
  "ensureSentinelService env = do {
     vc \<leftarrow> get_vc;
     l \<leftarrow> sentinelPodsLabeled env;
     case l of
       Inl e \<Rightarrow> State_Monad.return (Some e)
     | Inr labeled \<Rightarrow> applyService env (sentinelService vc labeled) }"

section \<open>Role labels\<close>

definition labelPod :: "env \<Rightarrow> string \<Rightarrow> Pod \<Rightarrow> unit op" where
  "labelPod env primary pod =
     (let want = (if pod_Name pod = primary then rolePrimary else roleReplica)
      in if mget (map_of (pod_Labels pod)) roleLabel = want then State_Monad.return ()
         else do {
           _ \<leftarrow> patch_pod_labels env (pod_Name pod) (maps_Copy (pod_Labels pod) [(roleLabel, want)]);
           State_Monad.return () })"

definition ensureRoleLabels :: "env \<Rightarrow> string \<Rightarrow> kerr option op" where
  "ensureRoleLabels env primary =
     (if primary = [] then State_Monad.return None
      else do {
        vc \<leftarrow> get_vc;
        r \<leftarrow> ask (\<lambda>t. env_pods env t (labelsFor vc));
        case r of
          Inl e \<Rightarrow> State_Monad.return (Some e)
        | Inr pods \<Rightarrow> do { for_each pods (labelPod env primary); State_Monad.return None } })"

section \<open>Disruption budgets\<close>

definition pdbEnabled :: "ValkeyCluster \<Rightarrow> bool" where
  "pdbEnabled vc = (case sp_PodDisruptionBudget (vc_Spec vc) of
     None \<Rightarrow> sp_Replicas (vc_Spec vc) > 1 | Some b \<Rightarrow> Deref (pdb_Enabled b) True)"

definition sentinelPodNames :: "ValkeyCluster \<Rightarrow> string list" where
  "sentinelPodNames vc = (case sp_Sentinel (vc_Spec vc) of
     None \<Rightarrow> [] | Some s \<Rightarrow> map (\<lambda>i. sentinelStatefulSetName vc @ ''-'' @ Itoa i) (range_int (se_Replicas s)))"

definition buildPDB :: "ValkeyCluster \<Rightarrow> PodDisruptionBudget" where
  "buildPDB vc = \<lparr>pd_Name = vc_Name vc @ ''-pdb'', pd_Labels = labelsFor vc,
     pd_Spec = \<lparr>
       ds_MinAvailable = (case sp_PodDisruptionBudget (vc_Spec vc) of Some s \<Rightarrow> pdb_MinAvailable s | None \<Rightarrow> None),
       ds_MaxUnavailable = (case sp_PodDisruptionBudget (vc_Spec vc) of
           Some s \<Rightarrow> if pdb_MinAvailable s \<noteq> None then None
             else if pdb_MaxUnavailable s \<noteq> None then pdb_MaxUnavailable s else Some (IntVal 1)
         | None \<Rightarrow> Some (IntVal 1)),
       ds_MatchLabels = labelsFor vc,
       ds_PodNames = (if sp_Topology (vc_Spec vc) = TopologySentinel \<and> sentinelPodNames vc \<noteq> []
         then Some (False, sentinelPodNames vc) else None)\<rparr>\<rparr>"

definition buildSentinelPDB :: "ValkeyCluster \<Rightarrow> PodDisruptionBudget" where
  "buildSentinelPDB vc = \<lparr>pd_Name = sentinelStatefulSetName vc @ ''-pdb'', pd_Labels = sentinelLabels vc,
     pd_Spec = \<lparr>ds_MinAvailable = None, ds_MaxUnavailable = Some (IntVal 1), ds_MatchLabels = sentinelLabels vc,
       ds_PodNames = Some (True, sentinelPodNames vc)\<rparr>\<rparr>"

text \<open>
  The first parameter is \<open>equality.Semantic.DeepDerivative\<close> of the Kubernetes machinery on two budget
  specs.
\<close>

definition resourceSettled :: "(DisruptionSpec \<Rightarrow> DisruptionSpec \<Rightarrow> bool) \<Rightarrow>
    DisruptionSpec \<Rightarrow> DisruptionSpec \<Rightarrow> labels \<Rightarrow> labels \<Rightarrow> bool" where
  "resourceSettled derivative desiredSpec liveSpec desiredLabels liveLabels \<longleftrightarrow>
     derivative desiredSpec liveSpec \<and> labelsContained desiredLabels liveLabels"

definition updatePDB :: "env \<Rightarrow> (DisruptionSpec \<Rightarrow> DisruptionSpec \<Rightarrow> bool) \<Rightarrow> PodDisruptionBudget \<Rightarrow> (kerr + unit) op" where
  "updatePDB env derivative desired = do {
     c \<leftarrow> get_pdb env (pd_Name desired);
     case c of
       Inl e \<Rightarrow> State_Monad.return (Inl e)
     | Inr live \<Rightarrow>
         if resourceSettled derivative (pd_Spec desired) (pd_Spec live) (pd_Labels desired) (pd_Labels live)
         then State_Monad.return (Inr ())
         else do {
           err \<leftarrow> update_obj env (KPDB (live\<lparr>pd_Spec := pd_Spec desired, pd_Labels := pd_Labels desired\<rparr>));
           State_Monad.return (as_result err) } }"

definition applyPDB :: "env \<Rightarrow> (DisruptionSpec \<Rightarrow> DisruptionSpec \<Rightarrow> bool) \<Rightarrow> PodDisruptionBudget \<Rightarrow> kerr option op" where
  "applyPDB env derivative desired = do {
     vc \<leftarrow> get_vc;
     r \<leftarrow> get_pdb env (pd_Name desired);
     if \<not> pdbEnabled vc
     then (case r of Inr _ \<Rightarrow> delete_obj env ''PodDisruptionBudget'' (pd_Name desired) | Inl _ \<Rightarrow> State_Monad.return None)
     else (case r of
         Inl e \<Rightarrow> if e = NotFound then create_obj env (KPDB desired) else State_Monad.return (Some e)
       | Inr _ \<Rightarrow> do {
           res \<leftarrow> retry_on_conflict (env_retries env) (updatePDB env derivative desired);
           State_Monad.return (as_error res) }) }"

definition ensurePDB :: "env \<Rightarrow> (DisruptionSpec \<Rightarrow> DisruptionSpec \<Rightarrow> bool) \<Rightarrow> kerr option op" where
  "ensurePDB env derivative = do { vc \<leftarrow> get_vc; applyPDB env derivative (buildPDB vc) }"

section \<open>Network policies\<close>

abbreviation np_tcp :: "int \<Rightarrow> NetworkPolicyPort" where
  "np_tcp port \<equiv> (Some ''TCP'', port)"

definition networkPolicyEnabled :: "ValkeyCluster \<Rightarrow> bool" where
  "networkPolicyEnabled vc = (case sp_NetworkPolicy (vc_Spec vc) of None \<Rightarrow> False | Some n \<Rightarrow> np_Enabled n)"

definition peerPorts :: "ValkeyCluster \<Rightarrow> NetworkPolicyPort list" where
  "peerPorts vc = [np_tcp (dataPort vc)]
     @ (if sp_Topology (vc_Spec vc) = TopologyCluster then [np_tcp clusterBusPort] else [])
     @ (if sp_Topology (vc_Spec vc) = TopologySentinel then [np_tcp (sentinelListenPort vc)] else [])"

definition withDefaultProtocol :: "NetworkPolicyRule \<Rightarrow> NetworkPolicyRule" where
  "withDefaultProtocol r = r\<lparr>npr_Ports := map (\<lambda>(p, n). (Some (Deref p ''TCP''), n)) (npr_Ports r)\<rparr>"

text \<open>\<^const>\<open>None\<close> is Go's \<open>nil\<close>: egress is off.\<close>

definition buildNetworkPolicyEgress :: "ValkeyCluster \<Rightarrow> NetworkPolicyPeer \<Rightarrow> NetworkPolicyRule list option" where
  "buildNetworkPolicyEgress vc self =
     (case sp_NetworkPolicy (vc_Spec vc) of
        None \<Rightarrow> None
      | Some n \<Rightarrow> (case np_Egress n of
            None \<Rightarrow> None
          | Some e \<Rightarrow>
              if \<not> npe_Enabled e then None
              else Some ([\<lparr>npr_Peers = (if npe_DNS e = [] then [SystemDNS] else npe_DNS e),
                          npr_Ports = [(Some ''UDP'', 53), (Some ''TCP'', 53)]\<rparr>,
                         \<lparr>npr_Peers = [self], npr_Ports = peerPorts vc\<rparr>] @ map withDefaultProtocol (npe_Extra e))))"

definition metricsFrom :: "ValkeyCluster \<Rightarrow> NetworkPolicyPeer list" where
  "metricsFrom vc = (case sp_NetworkPolicy (vc_Spec vc) of None \<Rightarrow> [] | Some n \<Rightarrow> np_MetricsFrom n)"

definition allowFrom :: "ValkeyCluster \<Rightarrow> NetworkPolicyPeer list" where
  "allowFrom vc = (case sp_NetworkPolicy (vc_Spec vc) of None \<Rightarrow> [] | Some n \<Rightarrow> np_AllowFrom n)"

definition buildNetworkPolicy :: "ValkeyCluster \<Rightarrow> NetworkPolicy" where
  "buildNetworkPolicy vc =
     (let self = PodSelector (labelsFor vc);
          ports = [np_tcp (dataPort vc)]
            @ (if metricsEnabled vc \<and> metricsFrom vc = [] then [np_tcp exporterPort] else [])
            @ (if sp_Topology (vc_Spec vc) = TopologySentinel then [np_tcp (sentinelListenPort vc)] else []);
          peers = (if allowFrom vc \<noteq> [] then allowFrom vc else [PodSelector []]) @ [self];
          ingress = [\<lparr>npr_Peers = peers, npr_Ports = ports\<rparr>]
            @ (if sp_Topology (vc_Spec vc) = TopologyCluster
               then [\<lparr>npr_Peers = [self], npr_Ports = [np_tcp clusterBusPort]\<rparr>] else [])
            @ (if metricsEnabled vc \<and> metricsFrom vc \<noteq> []
               then [\<lparr>npr_Peers = metricsFrom vc, npr_Ports = [np_tcp exporterPort]\<rparr>] else []);
          egress = buildNetworkPolicyEgress vc self
      in \<lparr>npol_Name = vc_Name vc @ ''-allow'', npol_Labels = labelsFor vc,
          npol_Spec = \<lparr>ps_PodSelector = labelsFor vc,
            ps_PolicyTypes = [''Ingress''] @ (if egress \<noteq> None then [''Egress''] else []),
            ps_Ingress = ingress, ps_Egress = egress\<rparr>\<rparr>)"

text \<open>\<open>equality.Semantic.DeepEqual\<close> on two specs: a \<open>nil\<close> list equals an empty one.\<close>

definition same_policy :: "PolicySpec \<Rightarrow> PolicySpec \<Rightarrow> bool" where
  "same_policy a b \<longleftrightarrow> same_labels (ps_PodSelector a) (ps_PodSelector b) \<and> ps_PolicyTypes a = ps_PolicyTypes b \<and>
     ps_Ingress a = ps_Ingress b \<and> Deref (ps_Egress a) [] = Deref (ps_Egress b) []"

definition ensureNetworkPolicy :: "env \<Rightarrow> kerr option op" where
  "ensureNetworkPolicy env = do {
     vc \<leftarrow> get_vc;
     r \<leftarrow> get_netpol env (vc_Name vc @ ''-allow'');
     if \<not> networkPolicyEnabled vc
     then (case r of Inr _ \<Rightarrow> delete_obj env ''NetworkPolicy'' (vc_Name vc @ ''-allow'') | Inl _ \<Rightarrow> State_Monad.return None)
     else (let desired = buildNetworkPolicy vc
       in case r of
         Inl e \<Rightarrow> if e = NotFound then create_obj env (KNetworkPolicy desired) else State_Monad.return (Some e)
       | Inr existing \<Rightarrow>
           if same_policy (npol_Spec desired) (npol_Spec existing) \<and> labelsContained (npol_Labels desired) (npol_Labels existing)
           then State_Monad.return None
           else update_obj env (KNetworkPolicy (existing\<lparr>npol_Spec := npol_Spec desired, npol_Labels := npol_Labels desired\<rparr>))) }"

section \<open>ConfigMaps\<close>

definition buildConfigMap :: "ValkeyCluster \<Rightarrow> string \<Rightarrow> ConfigMap" where
  "buildConfigMap vc password = \<lparr>cm_Name = configMapName vc, cm_Labels = labelsFor vc,
     cm_Data = [(''valkey.conf'', renderValkeyConf vc password)]\<rparr>"

text \<open>
  The hash of the rendered data, or an error. The defaults that rendering writes into
  \<open>vc.Spec.Config\<close> stay in the object in memory.
\<close>

definition ensureConfigMap :: "env \<Rightarrow> string \<Rightarrow> (kerr + string) op" where
  "ensureConfigMap env password = do {
     vc \<leftarrow> get_vc;
     let desired = buildConfigMap vc password;
     (if sp_Config (vc_Spec vc) = [] then State_Monad.return ()
      else set_vc (vc\<lparr>vc_Spec := (vc_Spec vc)\<lparr>sp_Config := effectiveConfig vc\<rparr>\<rparr>));
     let hash = configHashFromData (env_sha256 env) (cm_Data desired);
     r \<leftarrow> get_configmap env (cm_Name desired);
     case r of
       Inl e \<Rightarrow>
         if e = NotFound then do {
           err \<leftarrow> create_obj env (KConfigMap desired);
           State_Monad.return (case err of Some e \<Rightarrow> Inl e | None \<Rightarrow> Inr hash) }
         else State_Monad.return (Inl e)
     | Inr existing \<Rightarrow>
         if same_labels (cm_Data desired) (cm_Data existing) \<and> labelsContained (cm_Labels desired) (cm_Labels existing)
         then State_Monad.return (Inr hash)
         else do {
           err \<leftarrow> update_obj env (KConfigMap (existing\<lparr>cm_Data := cm_Data desired, cm_Labels := cm_Labels desired\<rparr>));
           State_Monad.return (case err of Some e \<Rightarrow> Inl e | None \<Rightarrow> Inr hash) } }"

definition ensureSentinelConfigMap :: "env \<Rightarrow> string \<Rightarrow> (kerr + string) op" where
  "ensureSentinelConfigMap env password = do {
     vc \<leftarrow> get_vc;
     let cm = \<lparr>cm_Name = vc_Name vc @ ''-sentinel-config'', cm_Labels = sentinelLabels vc,
       cm_Data = [(''sentinel.conf'', renderSentinelConf vc password)]\<rparr>;
     let hash = sentinelConfigHash (env_sha256 env) (renderSentinelConf vc password) (sentinelPasswordRotatesLive vc);
     r \<leftarrow> get_configmap env (cm_Name cm);
     case r of
       Inl e \<Rightarrow>
         if e = NotFound then do {
           err \<leftarrow> create_obj env (KConfigMap cm);
           State_Monad.return (case err of Some e \<Rightarrow> Inl e | None \<Rightarrow> Inr hash) }
         else State_Monad.return (Inl e)
     | Inr existing \<Rightarrow> do {
         err \<leftarrow> update_obj env (KConfigMap (existing\<lparr>cm_Data := cm_Data cm, cm_Labels := cm_Labels cm\<rparr>));
         State_Monad.return (case err of Some e \<Rightarrow> Inl e | None \<Rightarrow> Inr hash) } }"

section \<open>Volume claims\<close>

definition dataSize :: "ValkeyCluster \<Rightarrow> int" where
  "dataSize vc =
     (let def = (if sp_Profile (vc_Spec vc) = ProfileCache then 1 else 10) * 1024 * 1024 * 1024
      in case sp_Storage (vc_Spec vc) of Some s \<Rightarrow> if sto_Size s \<noteq> 0 then sto_Size s else def | None \<Rightarrow> def)"

definition growClaim :: "env \<Rightarrow> ValkeyCluster \<Rightarrow> int \<Rightarrow> PersistentVolumeClaim \<Rightarrow> kerr option op" where
  "growClaim env vc desired p =
     (if HasPrefix (pvc_Name p) (''data-'' @ sentinelStatefulSetName vc @ ''-'') then State_Monad.return None
      else if pvc_Storage p \<ge> desired then State_Monad.return None
      else patch_storage env (pvc_Name p) desired)"

definition ensurePVCSize :: "env \<Rightarrow> kerr option op" where
  "ensurePVCSize env = do {
     vc \<leftarrow> get_vc;
     if usesMemoryStorage vc \<or> dataSize vc = 0 then State_Monad.return None
     else do {
       r \<leftarrow> ask (\<lambda>t. env_pvcs env t [(instanceLabel, vc_Name vc)]);
       case r of
         Inl e \<Rightarrow> State_Monad.return (Some e)
       | Inr pvcs \<Rightarrow> first_state (growClaim env vc (dataSize vc)) pvcs } }"

section \<open>StatefulSets\<close>

definition appliedHashAnnotation :: string where
  "appliedHashAnnotation = ''valkey.wellcake.io/applied-hash''"

text \<open>
  The first parameter is \<open>appliedSpecHash\<close> of the reconciled fields, a SHA-256 of their JSON. The
  result is the object the caller goes on with.
\<close>

definition reconcileSts :: "env \<Rightarrow> string \<Rightarrow> StatefulSet \<Rightarrow> (kerr + StatefulSet) op" where
  "reconcileSts env hash desired = do {
     c \<leftarrow> ask (\<lambda>t. env_sts env t (sts_Name desired));
     case c of
       Inl e \<Rightarrow> State_Monad.return (Inl e)
     | Inr live \<Rightarrow>
         if mget (map_of (sts_Annotations live)) appliedHashAnnotation = hash then State_Monad.return (Inr live)
         else do {
           let new = live\<lparr>sts_Replicas := sts_Replicas desired, sts_Template := sts_Template desired,
             sts_OnDelete := sts_OnDelete desired, sts_Labels := sts_Labels desired,
             sts_Annotations := maps_Copy (sts_Annotations live) [(appliedHashAnnotation, hash)]\<rparr>;
           err \<leftarrow> update_obj env (KStatefulSet new);
           State_Monad.return (case err of Some e \<Rightarrow> Inl e | None \<Rightarrow> Inr new) } }"

definition applyStatefulSet :: "env \<Rightarrow> (StatefulSet \<Rightarrow> string) \<Rightarrow> StatefulSet \<Rightarrow> (kerr + StatefulSet) op" where
  "applyStatefulSet env specHash desired = do {
     let hash = specHash desired;
     let desired = desired\<lparr>sts_Annotations := maps_Copy (sts_Annotations desired) [(appliedHashAnnotation, hash)]\<rparr>;
     r \<leftarrow> ask (\<lambda>t. env_sts env t (sts_Name desired));
     case r of
       Inl e \<Rightarrow>
         if e = NotFound then do {
           err \<leftarrow> create_obj env (KStatefulSet desired);
           State_Monad.return (case err of Some e \<Rightarrow> Inl e | None \<Rightarrow> Inr desired) }
         else State_Monad.return (Inl e)
     | Inr _ \<Rightarrow> retry_on_conflict (env_retries env) (reconcileSts env hash desired) }"

section \<open>Generated passwords\<close>

definition url_safe :: "char \<Rightarrow> bool" where
  "url_safe c \<longleftrightarrow> c = CHR ''-'' \<or> c = CHR ''_'' \<or> is_digit c \<or>
     65 \<le> (of_char c :: nat) \<and> (of_char c :: nat) \<le> 90 \<or> 97 \<le> (of_char c :: nat) \<and> (of_char c :: nat) \<le> 122"

lemma url_safe_b64: "url_safe (b64_char n)"
  by (auto simp: b64_char_def url_safe_def is_digit_def)

lemma RawURLEncoding_safe: "c \<in> set (RawURLEncoding b) \<Longrightarrow> url_safe c"
  by (induction b rule: RawURLEncoding.induct) (auto simp: Let_def url_safe_b64)

lemma RawURLEncoding_length: "length b \<le> length (RawURLEncoding b)"
  by (induction b rule: RawURLEncoding.induct) (auto simp: Let_def intro: le_SucI)

lemma quote_url_safe:
  assumes "url_safe c"
  shows "quote_char c = [c]"
proof -
  define n where "n = (of_char c :: nat)"
  have "n = 45 \<or> n = 95 \<or> 48 \<le> n \<and> n \<le> 57 \<or> 65 \<le> n \<and> n \<le> 90 \<or> 97 \<le> n \<and> n \<le> 122"
    using assms by (simp add: url_safe_def is_digit_def char_eq_nat n_def)
  then have "\<not> n < 0x20 \<and> n \<notin> {0x5C, 0x22, 0x07, 0x08, 0x0A, 0x0D, 0x09, 0x7F}" by auto
  then show ?thesis by (simp add: quote_char_def char_eq_nat n_def)
qed

lemma concat_quote_url_safe: "list_all url_safe s \<Longrightarrow> concat (map quote_char s) = s"
  by (induction s) (auto simp: quote_url_safe)

text \<open>
  A generated password has exactly the requested length and only letters, digits, minus and
  underscore, so it stands in \<open>valkey.conf\<close> and in an ACL rule as it is: quoting leaves it unchanged.
\<close>

theorem generatePassword_wellformed:
  assumes "run_state (generatePassword env n) w = (Inr pw, w')"
    and "\<And>b. env_random env (acts w) = Inr b \<Longrightarrow> length b = n"
  shows "length pw = n \<and> list_all url_safe pw \<and> valkeyConfigArg pw = [CHR 0x22] @ pw @ [CHR 0x22]"
proof -
  obtain b where b: "env_random env (acts w) = Inr b" "pw = take n (RawURLEncoding b)"
    using assms(1) by (auto simp: generatePassword_def split: sum.splits)
  have "list_all url_safe pw"
    unfolding b(2) using RawURLEncoding_safe by (auto simp: list_all_iff dest: in_set_takeD)
  moreover have "length pw = n" using b assms(2) RawURLEncoding_length [of b] by simp
  ultimately show ?thesis by (simp add: valkeyConfigArg_def concat_quote_url_safe)
qed

theorem generatePassword_wellformed_witness:
  "length (take 4 (RawURLEncoding ''abcd'')) = 4 \<and> list_all url_safe (take 4 (RawURLEncoding ''abcd''))"
proof -
  have "run_state (generatePassword (silent_env\<lparr>env_random := \<lambda>_. Inr ''abcd''\<rparr>) 4) demo_world =
      (Inr (take 4 (RawURLEncoding ''abcd'')), demo_world)"
    by (simp add: generatePassword_def)
  from generatePassword_wellformed [OF this] show ?thesis by simp
qed

section \<open>Services converge\<close>

lemma same_labels_refl [simp]: "same_labels l l"
  by (simp add: same_labels_def list_all_iff)

lemma labelsContained_refl: "distinct (map fst l) \<Longrightarrow> labelsContained l l"
  by (auto simp: labelsContained_def list_all_iff mget_def dest: map_of_is_SomeI split: option.splits)

lemma distinct_labelsFor [simp]: "distinct (map fst (labelsFor vc))"
  by (simp add: labelsFor_def nameLabel_def instanceLabel_def partOfLabel_def managedByLabel_def componentLabel_def)

text \<open>The service as the API server holds it after a pass over \<open>t\<close>: the last one written, or the old one.\<close>

fun written_service :: "string \<Rightarrow> action list \<Rightarrow> Service option \<Rightarrow> Service option" where
  "written_service name [] old = old"
| "written_service name (ACreate (KService s) None # as) old =
     written_service name as (if svc_Name s = name then Some s else old)"
| "written_service name (AUpdate (KService s) None # as) old =
     written_service name as (if svc_Name s = name then Some s else old)"
| "written_service name (a # as) old = written_service name as old"

lemma run_get_service:
  "run_state (get_service env name) w = (case env_object env (acts w) ''Service'' name of
     Inl e \<Rightarrow> Inl e | Inr (KService s) \<Rightarrow> Inr s | Inr _ \<Rightarrow> Inl wrong_kind, w)"
  by (simp add: get_service_def)

text \<open>
  Bringing a Service to its desired form takes one pass. After a pass that reported no error, a
  second pass over an API server that holds the Service the first one left writes nothing, so an
  unchanged specification causes no writes; in particular a shrunk port list is removed by the
  first pass and does not come back as a difference.
\<close>

theorem applyService_converges:
  assumes "run_state (applyService env desired) w = (None, w')"
    and "env_object env (acts w) ''Service'' (svc_Name desired) \<in> {Inl NotFound, Inr (KService old)}"
    and "svc_Name old = svc_Name desired" and "distinct (map fst (svc_Labels desired))"
    and "written_service (svc_Name desired) (new_acts w w')
      (if env_object env (acts w) ''Service'' (svc_Name desired) = Inl NotFound then None else Some old) = Some live"
    and "env_object env' (acts w') ''Service'' (svc_Name desired) = Inr (KService live)"
  shows "run_state (applyService env' desired) w' = (None, w')"
proof -
  have "svc_Ports live = svc_Ports desired \<and> same_labels (svc_Selector desired) (svc_Selector live) \<and>
      labelsContained (svc_Labels desired) (svc_Labels live)"
    using assms(1-5) labelsContained_refl
    by (auto simp: applyService_def run_get_service create_obj_def update_obj_def new_acts_def split: if_splits)
  then show ?thesis using assms(6) by (simp add: applyService_def run_get_service)
qed

text \<open>Metrics were turned off: the live Service still has the exporter port.\<close>

definition metered_service :: Service where
  "metered_service = (buildClientService demo_vc)\<lparr>svc_Ports := svc_Ports (buildClientService demo_vc) @
     [tcp_port ''metrics'' exporterPort (StrVal ''metrics'')]\<rparr>"

definition service_env :: "Service \<Rightarrow> env" where
  "service_env s = silent_env\<lparr>env_object := (\<lambda>_ k n. if k = ''Service'' \<and> n = svc_Name s then Inr (KService s) else Inl NotFound)\<rparr>"

theorem applyService_converges_witness:
  "run_state (applyService (service_env (buildClientService demo_vc)) (buildClientService demo_vc))
     (snd (run_state (applyService (service_env metered_service) (buildClientService demo_vc)) demo_world)) =
   (None, snd (run_state (applyService (service_env metered_service) (buildClientService demo_vc)) demo_world))"
proof (rule applyService_converges [where env = "service_env metered_service" and w = demo_world
      and live = "buildClientService demo_vc" and old = metered_service])
  let ?run = "run_state (applyService (service_env metered_service) (buildClientService demo_vc)) demo_world"
  show "?run = (None, snd ?run)" by (rule prod_eqI) (code_simp, simp)
  show "written_service (svc_Name (buildClientService demo_vc)) (new_acts demo_world (snd ?run))
      (if env_object (service_env metered_service) (acts demo_world) ''Service'' (svc_Name (buildClientService demo_vc)) = Inl NotFound
       then None else Some metered_service) = Some (buildClientService demo_vc)" by code_simp
qed (simp_all add: service_env_def metered_service_def buildClientService_def)

section \<open>Volume claims only grow\<close>

text \<open>
  C28. A volume claim is only ever enlarged. Every storage request the operator writes is the configured
  data size, goes to a claim of this cluster that was smaller, never to a claim of the Sentinels,
  and none is written when the data lives in memory.
\<close>

theorem ensurePVCSize_grows:
  assumes "run_state (ensurePVCSize env) w = (r, w')" and "issued w w' t a"
  shows "\<exists>pvcs p err. a = APatchStorage (pvc_Name p) (dataSize (cur w)) err \<and>
    env_pvcs env (acts w) [(instanceLabel, vc_Name (cur w))] = Inr pvcs \<and> p \<in> set pvcs \<and>
    pvc_Storage p < dataSize (cur w) \<and> \<not> HasPrefix (pvc_Name p) (''data-'' @ sentinelStatefulSetName (cur w) @ ''-'') \<and>
    \<not> usesMemoryStorage (cur w)"
    (is "?P a")
proof -
  have "wp (\<lambda>_. ?P) (first_state (growClaim env (cur w) (dataSize (cur w))) pvcs) (\<lambda>_ _. True) v"
    if "env_pvcs env (acts w) [(instanceLabel, vc_Name (cur w))] = Inr pvcs" "\<not> usesMemoryStorage (cur w)" for pvcs v
    by (rule wp_first_state [where I = "\<lambda>_. True"])
      (use that in \<open>auto simp: growClaim_def split: option.splits intro!: wp_rules\<close>)
  then have "wp (\<lambda>_. ?P) (ensurePVCSize env) (\<lambda>_ _. True) w"
    unfolding ensurePVCSize_def by (auto intro!: wp_rules)
  then show ?thesis using wp_issued [OF _ assms] by blast
qed

definition claims_env :: env where
  "claims_env = silent_env\<lparr>env_pvcs := (\<lambda>_ _. Inr [\<lparr>pvc_Name = ''data-demo-sentinel-0'', pvc_Storage = 1\<rparr>,
     \<lparr>pvc_Name = ''data-demo-0'', pvc_Storage = 1\<rparr>])\<rparr>"

theorem ensurePVCSize_grows_witness:
  "\<exists>t (p :: PersistentVolumeClaim). issued demo_world (snd (run_state (ensurePVCSize claims_env) demo_world)) t
       (APatchStorage (pvc_Name p) 1073741824 None) \<and> pvc_Storage p < dataSize demo_vc"
proof -
  have "acts demo_world = []" "cur demo_world = demo_vc" by (simp_all add: demo_world_def)
  moreover have "APatchStorage ''data-demo-0'' 1073741824 None \<in> set (acts (snd (run_state (ensurePVCSize claims_env) demo_world)))"
    by code_simp
  ultimately obtain t where t: "issued demo_world (snd (run_state (ensurePVCSize claims_env) demo_world)) t
      (APatchStorage ''data-demo-0'' 1073741824 None)" using issued_member by blast
  obtain p :: PersistentVolumeClaim where "''data-demo-0'' = pvc_Name p" "pvc_Storage p < dataSize demo_vc"
    using ensurePVCSize_grows [OF prod.collapse [symmetric] t] unfolding \<open>cur demo_world = demo_vc\<close> action.inject by blast
  then show ?thesis using t by metis
qed

section \<open>Two things the objects do not do\<close>

definition selects :: "labels \<Rightarrow> labels \<Rightarrow> bool" where
  "selects selector ls = list_all (\<lambda>(k, v). map_of ls k = Some v) selector"

lemma map_of_filter_keys: "map_of (filter (\<lambda>(k, _). P k) xs) k = (if P k then map_of xs k else None)"
  by (induction xs) auto

lemma map_of_maps_Copy: "map_of (maps_Copy dst src) k = (case map_of src k of Some v \<Rightarrow> Some v | None \<Rightarrow> map_of dst k)"
  by (auto simp: maps_Copy_def map_add_def map_of_filter_keys split: option.splits)

lemma map_of_podLabelsFor: "map_of ls k = Some v \<Longrightarrow> map_of (podLabelsFor vc ls) k = Some v"
  by (simp add: podLabelsFor_def map_of_maps_Copy)

text \<open>
  The read endpoint also takes in pods that are no Valkey servers. The pods of the operator's own
  Jobs, such as the backup, carry the labels of the cluster; the labelling pass marks every listed
  pod that is not the primary as a replica, and with that label the pod is selected by the
  replicas Service.
\<close>

theorem labelPod_marks_job_pods:
  assumes "pod_Labels p = podLabelsFor vc (labelsFor vc)" and "pod_Name p \<noteq> primary"
    and "map_of (sp_PodLabels (vc_Spec vc)) roleLabel = None"
  shows "\<exists>ls r. acts (snd (run_state (labelPod env primary p) w)) = acts w @ [APatchPodLabels (pod_Name p) ls r] \<and>
    selects (svc_Selector (buildReplicasService vc)) ls"
proof -
  have "map_of (podLabelsFor vc (labelsFor vc)) roleLabel = None"
    using assms(3) by (auto simp: podLabelsFor_def map_of_maps_Copy labelsFor_def constants)
  then have "mget (map_of (pod_Labels p)) roleLabel \<noteq> roleReplica"
    using assms(1) by (simp add: mget_def roleReplica_def)
  moreover have "selects (svc_Selector (buildReplicasService vc)) (maps_Copy (pod_Labels p) [(roleLabel, roleReplica)])"
  proof -
    have "k \<noteq> roleLabel" if "(k, v) \<in> set (labelsFor vc)" for k v
      using that by (auto simp: labelsFor_def constants)
    moreover have "map_of (podLabelsFor vc (labelsFor vc)) k = Some v" if "(k, v) \<in> set (labelsFor vc)" for k v
      using map_of_podLabelsFor map_of_is_SomeI [OF distinct_labelsFor that] by blast
    ultimately show ?thesis unfolding assms(1)
      by (auto simp: selects_def buildReplicasService_def buildRoleService_def list_all_iff map_of_maps_Copy maps_Copy_def [of "labelsFor vc"])
  qed
  ultimately show ?thesis using assms(2) by (simp add: labelPod_def patch_pod_labels_def)
qed

definition backup_pod :: Pod where
  "backup_pod = \<lparr>pod_Name = ''demo-backup-x7'', pod_Labels = podLabelsFor demo_vc (labelsFor demo_vc),
     pod_Conditions = [], pod_Phase = ''Running'', pod_NodeName = ''n1'', pod_IP = ''10.0.0.9'', pod_DeletionTimestamp = None\<rparr>"

theorem labelPod_marks_job_pods_witness:
  "\<exists>ls r. acts (snd (run_state (labelPod silent_env ''demo-0'' backup_pod) demo_world)) =
       acts demo_world @ [APatchPodLabels (pod_Name backup_pod) ls r] \<and>
     selects (svc_Selector (buildReplicasService demo_vc)) ls"
proof (rule labelPod_marks_job_pods)
  show "pod_Labels backup_pod = podLabelsFor demo_vc (labelsFor demo_vc)" by (simp add: backup_pod_def)
  show "pod_Name backup_pod \<noteq> ''demo-0''" by (simp add: backup_pod_def)
  show "map_of (sp_PodLabels (vc_Spec demo_vc)) roleLabel = None" by code_simp
qed

end
