(* ===== verification/Acl_Semantics.thy ===== *)
theory Acl_Semantics
  imports Trace_Logic
begin

text \<open>
  What the ACL commands that the operator sends do to a Valkey server, as the server documents
  them. The users of a server are a function of the commands it has accepted, so that statements
  about who can log in are statements about the trace. The client of \<open>failover.go\<close>, the password
  rotation and the ACL controller are judged by this reading of their commands.
\<close>

section \<open>Definitions\<close>

text \<open>A user: enabled, accepting any password, the passwords, those given by their hash, and the
  remaining rules in order.\<close>

record aclUser =
  ac_on :: bool
  ac_nopass :: bool
  ac_pws :: "string set"
  ac_hashes :: "string set"
  ac_rules :: "string list"

type_synonym acl_users = "string \<rightharpoonup> aclUser"

definition new_user :: aclUser where
  "new_user = \<lparr>ac_on = False, ac_nopass = False, ac_pws = {}, ac_hashes = {}, ac_rules = []\<rparr>"

text \<open>One token of \<open>ACL SETUSER\<close>.\<close>

definition acl_token :: "string \<Rightarrow> aclUser \<Rightarrow> aclUser" where
  "acl_token tok s =
     (if tok = ''on'' then s\<lparr>ac_on := True\<rparr>
      else if tok = ''off'' then s\<lparr>ac_on := False\<rparr>
      else if tok = ''reset'' then new_user
      else if tok = ''resetpass'' then s\<lparr>ac_nopass := False, ac_pws := {}, ac_hashes := {}\<rparr>
      else if tok = ''nopass'' then s\<lparr>ac_nopass := True, ac_pws := {}, ac_hashes := {}\<rparr>
      else if HasPrefix tok ''>'' then s\<lparr>ac_nopass := False, ac_pws := insert (tl tok) (ac_pws s)\<rparr>
      else if HasPrefix tok ''<'' then s\<lparr>ac_pws := ac_pws s - {tl tok}\<rparr>
      else if HasPrefix tok ''#'' then s\<lparr>ac_nopass := False, ac_hashes := insert (tl tok) (ac_hashes s)\<rparr>
      else if HasPrefix tok ''!'' then s\<lparr>ac_hashes := ac_hashes s - {tl tok}\<rparr>
      else s\<lparr>ac_rules := ac_rules s @ [tok]\<rparr>)"

definition set_user :: "string \<Rightarrow> string list \<Rightarrow> acl_users \<Rightarrow> acl_users" where
  "set_user u toks T = T(u \<mapsto> fold acl_token toks (case T u of Some s \<Rightarrow> s | None \<Rightarrow> new_user))"

text \<open>\<open>CONFIG SET requirepass\<close> sets the one password of the default user.\<close>

definition acl_command :: "string list \<Rightarrow> acl_users \<Rightarrow> acl_users" where
  "acl_command args T =
     (case args of
        a # b # u # toks \<Rightarrow>
          if a = ''ACL'' \<and> b = ''SETUSER'' then set_user u toks T
          else if a = ''ACL'' \<and> b = ''DELUSER'' then (\<lambda>x. if x \<in> set (u # toks) then None else T x)
          else if [a, b, u] = [''CONFIG'', ''SET'', ''requirepass''] \<and> toks \<noteq> []
          then set_user ''default'' [''resetpass'', ''>'' @ hd toks] T
          else T
      | _ \<Rightarrow> T)"

text \<open>A command counts when the server accepted it.\<close>

definition acl_step :: "string \<Rightarrow> action \<Rightarrow> acl_users \<Rightarrow> acl_users" where
  "acl_step h a T = (case a of ACmd h' args ok \<Rightarrow> if h' = h \<and> ok then acl_command args T else T | _ \<Rightarrow> T)"

text \<open>The users of the server \<open>h\<close> after a trace, from those it had at the start.\<close>

definition acl_table :: "(string \<Rightarrow> acl_users) \<Rightarrow> string \<Rightarrow> action list \<Rightarrow> acl_users" where
  "acl_table T0 h t = fold (acl_step h) t (T0 h)"

text \<open>Whether a user is let in with a password that was given as such; a hash is not inverted.\<close>

definition accepts :: "acl_users \<Rightarrow> string \<Rightarrow> string \<Rightarrow> bool" where
  "accepts T u pw = (case T u of None \<Rightarrow> False | Some s \<Rightarrow> ac_on s \<and> (ac_nopass s \<or> pw \<in> ac_pws s))"

definition accepts_only :: "acl_users \<Rightarrow> string \<Rightarrow> string \<Rightarrow> bool" where
  "accepts_only T u pw = (case T u of None \<Rightarrow> False | Some s \<Rightarrow> ac_on s \<and> \<not> ac_nopass s \<and> ac_pws s = {pw} \<and> ac_hashes s = {})"

text \<open>A rule token that says nothing about passwords or about being enabled.\<close>

definition plain_rule :: "string \<Rightarrow> bool" where
  "plain_rule tok \<longleftrightarrow> tok \<notin> {''on'', ''off'', ''reset'', ''resetpass'', ''nopass''} \<and>
     \<not> HasPrefix tok ''>'' \<and> \<not> HasPrefix tok ''<'' \<and> \<not> HasPrefix tok ''#'' \<and> \<not> HasPrefix tok ''!''"

section \<open>Facts\<close>

lemma acl_table_snoc [simp]: "acl_table T0 h (t @ [a]) = acl_step h a (acl_table T0 h t)"
  by (simp add: acl_table_def)

lemma acl_step_simps [simp]:
  "acl_step h (ADial h' p pw ok) T = T"
  "acl_step h (ACmd h' args ok) T = (if h' = h \<and> ok then acl_command args T else T)"
  by (simp_all add: acl_step_def)

lemma acl_token_simps [simp]:
  "acl_token ''on'' s = s\<lparr>ac_on := True\<rparr>" "acl_token ''reset'' s = new_user"
  "acl_token ''resetpass'' s = s\<lparr>ac_nopass := False, ac_pws := {}, ac_hashes := {}\<rparr>"
  "acl_token ''nopass'' s = s\<lparr>ac_nopass := True, ac_pws := {}, ac_hashes := {}\<rparr>"
  "acl_token (CHR ''>'' # p) s = s\<lparr>ac_nopass := False, ac_pws := insert p (ac_pws s)\<rparr>"
  by (simp_all add: acl_token_def HasPrefix_def)

lemma acl_token_plain: "plain_rule tok \<Longrightarrow> acl_token tok s = s\<lparr>ac_rules := ac_rules s @ [tok]\<rparr>"
  by (simp add: acl_token_def plain_rule_def)

lemma fold_plain: "list_all plain_rule toks \<Longrightarrow> fold acl_token toks s = s\<lparr>ac_rules := ac_rules s @ toks\<rparr>"
  by (induction toks arbitrary: s) (simp_all add: acl_token_plain)

lemma acl_command_simps [simp]:
  "acl_command (''ACL'' # ''SETUSER'' # u # toks) T = set_user u toks T"
  "acl_command [''ACL'', ''DELUSER'', u] T = T(u := None)"
  "acl_command [''ACL'', ''SAVE''] T = T"
  "acl_command [''CONFIG'', ''SET'', ''requirepass'', pw] T = set_user ''default'' [''resetpass'', ''>'' @ pw] T"
  "acl_command [''CONFIG'', ''SET'', ''masterauth'', pw] T = T"
  by (auto simp: acl_command_def)

lemma acl_command_not_ACL: "hd args \<notin> {''ACL'', ''CONFIG''} \<Longrightarrow> acl_command args T = T"
  by (auto simp: acl_command_def split: list.splits)

lemma set_user_other [simp]: "v \<noteq> u \<Longrightarrow> set_user u toks T v = T v"
  by (simp add: set_user_def)

lemma accepts_only_accepts: "accepts_only T u pw \<Longrightarrow> accepts T u pw"
  by (auto simp: accepts_only_def accepts_def split: option.splits)

lemma accepts_only_iff: "accepts_only T u pw \<Longrightarrow> accepts T u q \<longleftrightarrow> q = pw"
  by (auto simp: accepts_only_def accepts_def split: option.splits)

end
