(* ===== verification/Acl_Controller.thy ===== *)
theory Acl_Controller
  imports Status Objects Acl_Semantics "HOL-Library.Char_ord" "HOL-Library.List_Lexorder"
begin

text \<open>
  The ACL controller of \<open>src/internal/controller/valkeyacl_controller.go\<close> and the admission check of
  \<open>src/internal/webhook/v1beta1/valkeyacl_webhook.go\<close>. A pass resolves the password Secrets, dials
  every target and makes its users the declared ones. The properties relate the commands of a pass to
  an abstract update of the user tables, and say what the pass leaves alone and what it forgets.
\<close>

section \<open>Definitions\<close>

text \<open>\<open>%q\<close> of a Kubernetes name, which has no character that is escaped.\<close>

definition quoted :: "string \<Rightarrow> string" where
  "quoted s = [CHR 0x22] @ s @ [CHR 0x22]"

definition patch_acl_status :: "env \<Rightarrow> ValkeyACLStatus \<Rightarrow> kerr option op" where
  "patch_acl_status env s = do {
     r \<leftarrow> ask (\<lambda>t. env_write env t (WPatchACLStatus s));
     emit (APatchACLStatus s r);
     State_Monad.return r }"

definition markUnavailable :: "env \<Rightarrow> ValkeyACL \<Rightarrow> string \<Rightarrow> string \<Rightarrow> kerr option op" where
  "markUnavailable env acl reason msg = do {
     now \<leftarrow> ask (env_now env);
     patch_acl_status env ((acl_Status acl)\<lparr>as_ObservedGeneration := acl_Generation acl,
       as_Conditions := setCondition (as_Conditions (acl_Status acl))
         (condition ''Available'' ConditionFalse reason msg (acl_Generation acl) now)\<rparr>) }"

definition lookupClusterPassword :: "env \<Rightarrow> ValkeyCluster \<Rightarrow> (kerr + string) op" where
  "lookupClusterPassword env vc =
     (if \<not> AuthEnabled (vc_Spec vc) then State_Monad.return (Inr [])
      else do {
        s \<leftarrow> ask (\<lambda>t. env_secret env t (if existingAuthSecret vc \<noteq> [] then existingAuthSecret vc else passwordSecretName vc));
        State_Monad.return (map_sum id (\<lambda>sec. mget (map_of (sec_Data sec)) secretKeyPassword) s) })"

text \<open>The rules, then the password or \<open>nopass\<close>, after \<open>reset\<close>.\<close>

definition applyACLUser :: "env \<Rightarrow> replClient \<Rightarrow> ValkeyACLUser \<Rightarrow> string \<Rightarrow> string option op" where
  "applyACLUser env c u password =
     do_err env c ([''ACL'', ''SETUSER'', us_Name u, ''reset'']
       @ (if us_Rules u \<noteq> [] then Fields (us_Rules u) else [])
       @ (if password \<noteq> [] then [''>'' @ password] else [''nopass'']))"

definition aclTargets :: "ValkeyCluster \<Rightarrow> string list" where
  "aclTargets vc =
     (if sp_Topology (vc_Spec vc) = TopologyCluster
      then map (\<lambda>i. fqdn (statefulSetName vc @ ''-'' @ Itoa i) (headlessServiceName vc) (vc_Namespace vc)) (range_int (totalReplicas vc))
      else if st_Primary (vc_Status vc) = [] then []
      else [fqdn (st_Primary (vc_Status vc)) (headlessServiceName vc) (vc_Namespace vc)])"

definition secretKey :: "SecretKeyReference \<Rightarrow> string" where
  "secretKey ref = (if sk_Key ref = [] then secretKeyPassword else sk_Key ref)"

definition resolveUser :: "env \<Rightarrow> ValkeyACLUser \<Rightarrow> (string \<rightharpoonup> string) \<Rightarrow> (string \<rightharpoonup> string) op" where
  "resolveUser env u passwords =
     (case us_PasswordSecret u of
        None \<Rightarrow> State_Monad.return passwords
      | Some ref \<Rightarrow> do {
          s \<leftarrow> ask (\<lambda>t. env_secret env t (sk_Name ref));
          State_Monad.return (case s of
              Inl _ \<Rightarrow> passwords
            | Inr sec \<Rightarrow> passwords(us_Name u \<mapsto> mget (map_of (sec_Data sec)) (secretKey ref))) })"

definition resolveUserPasswords :: "env \<Rightarrow> ValkeyACL \<Rightarrow> (string set \<times> (string \<rightharpoonup> string)) op" where
  "resolveUserPasswords env acl = do {
     passwords \<leftarrow> fold_state (resolveUser env) (acl_Users acl) (\<lambda>_. None);
     State_Monad.return (us_Name ` set (acl_Users acl), passwords) }"

text \<open>What one reached target gets: every declared user, the deletions, and a save.\<close>

definition applyACLTo :: "env \<Rightarrow> ValkeyACL \<Rightarrow> string set \<Rightarrow> (string \<rightharpoonup> string) \<Rightarrow> replClient \<Rightarrow> unit op" where
  "applyACLTo env acl desiredNames userPasswords c = do {
     for_each (acl_Users acl) (\<lambda>u. do { _ \<leftarrow> applyACLUser env c u (mget userPasswords (us_Name u)); State_Monad.return () });
     for_each (as_AppliedUsers (acl_Status acl)) (\<lambda>prev.
       if prev \<in> desiredNames \<or> isReservedACLUser prev then State_Monad.return ()
       else do { _ \<leftarrow> do_err env c [''ACL'', ''DELUSER'', prev]; State_Monad.return () });
     _ \<leftarrow> do_err env c [''ACL'', ''SAVE''];
     State_Monad.return () }"

definition applyACLFanout :: "env \<Rightarrow> ValkeyACL \<Rightarrow> ValkeyCluster \<Rightarrow> string list \<Rightarrow> string \<Rightarrow> string set \<Rightarrow>
    (string \<rightharpoonup> string) \<Rightarrow> int op" where
  "applyACLFanout env acl vc targets clusterPassword desiredNames userPasswords =
     fold_state (\<lambda>host reached. do {
       c \<leftarrow> dialPod env vc host clusterPassword;
       case c of
         None \<Rightarrow> State_Monad.return reached
       | Some c \<Rightarrow> do { applyACLTo env acl desiredNames userPasswords c; State_Monad.return (reached + 1) } }) targets 0"

definition aclNotReady :: "ValkeyCluster \<Rightarrow> bool" where
  "aclNotReady vc \<longleftrightarrow>
     (if sp_Topology (vc_Spec vc) = TopologyCluster
      then \<not> st_ClusterInitialized (vc_Status vc) \<or> st_ReadyReplicas (vc_Status vc) = 0
      else st_Primary (vc_Status vc) = [] \<or> st_ReadyReplicas (vc_Status vc) = 0)"

text \<open>\<open>markUnavailable\<close> followed by a requeue after 15 seconds, unless the write failed.\<close>

definition retryLater :: "env \<Rightarrow> ValkeyACL \<Rightarrow> string \<Rightarrow> string \<Rightarrow> outcome op" where
  "retryLater env acl reason msg = do {
     err \<leftarrow> markUnavailable env acl reason msg;
     State_Monad.return (case err of None \<Rightarrow> Requeue (seconds 15) | Some e \<Rightarrow> Fail e) }"

definition appliedStatus :: "ValkeyACL \<Rightarrow> string set \<Rightarrow> int \<Rightarrow> ValkeyACLStatus" where
  "appliedStatus acl desiredNames now =
     (acl_Status acl)\<lparr>as_AppliedUsers := sorted_list_of_set desiredNames, as_ObservedGeneration := acl_Generation acl,
       as_Conditions := setCondition (as_Conditions (acl_Status acl))
         (condition ''Available'' ConditionTrue ''Applied'' (''applied '' @ Itoa (int (card desiredNames)) @ '' users'')
           (acl_Generation acl) now)\<rparr>"

definition reconcileACLOn :: "env \<Rightarrow> ValkeyACL \<Rightarrow> ValkeyCluster \<Rightarrow> outcome op" where
  "reconcileACLOn env acl vc =
     (if aclNotReady vc
      then retryLater env acl ''ClusterNotReady'' ''target cluster is not ready for ACL writes yet; retrying in 15s''
      else do {
        pw \<leftarrow> lookupClusterPassword env vc;
        case pw of
          Inl e \<Rightarrow> State_Monad.return (Fail e)
        | Inr clusterPassword \<Rightarrow>
            if aclTargets vc = [] then retryLater env acl ''NoTargets'' ''could not determine any ACL target pods''
            else do {
              (desiredNames, userPasswords) \<leftarrow> resolveUserPasswords env acl;
              reached \<leftarrow> applyACLFanout env acl vc (aclTargets vc) clusterPassword desiredNames userPasswords;
              if reached = 0
              then retryLater env acl ''PrimaryUnreachable''
                (''could not reach any of '' @ Itoa (int (length (aclTargets vc))) @ '' target nodes'')
              else do {
                now \<leftarrow> ask (env_now env);
                err \<leftarrow> patch_acl_status env (appliedStatus acl desiredNames now);
                State_Monad.return (returns err) } } })"

text \<open>
  \<open>Reconcile\<close>: the first parameter reads the ACL object of the request. The two counters that the
  deferred calls increment carry the outcome.
\<close>

definition aclOutcome :: "outcome \<Rightarrow> string" where
  "aclOutcome r = (case r of Fail _ \<Rightarrow> ''error'' | _ \<Rightarrow> ''success'')"

definition reconcileACL :: "(action list \<Rightarrow> kerr + ValkeyACL) \<Rightarrow> env \<Rightarrow> outcome op" where
  "reconcileACL getACL env = do {
     a \<leftarrow> ask getACL;
     r \<leftarrow> (case a of
         Inl e \<Rightarrow> State_Monad.return (if e = NotFound then Requeue 0 else Fail e)
       | Inr acl \<Rightarrow> do {
           v \<leftarrow> ask (\<lambda>t. env_cluster env t (acl_ClusterRef acl));
           case v of
             Inl e \<Rightarrow>
               if e = NotFound then do {
                 err \<leftarrow> markUnavailable env acl ''ClusterMissing''
                   (''ValkeyCluster '' @ quoted (acl_ClusterRef acl) @ '' not found in namespace '' @ quoted (acl_Namespace acl));
                 State_Monad.return (returns err) }
               else State_Monad.return (Fail e)
           | Inr vc \<Rightarrow> reconcileACLOn env acl vc });
     emit (AMetric ''aclApplyTotal'' (aclOutcome r));
     emit (AMetric ''reconcileTotal'' (aclOutcome r));
     State_Monad.return r }"

text \<open>
  The validating webhook: the warnings, or the reason for refusing the object with the error it
  wraps.
\<close>

definition checkUserName :: "ValkeyACLUser \<Rightarrow> string set \<Rightarrow> string option" where
  "checkUserName u names =
     (if us_Name u \<in> names then Some (''duplicate user '' @ quoted (us_Name u) @ '' in spec.users'')
      else if us_Name u \<in> {''default'', ''sentinel-user'', ''replicator''}
      then Some (''user '' @ quoted (us_Name u) @ '' is reserved by the operator and cannot be managed via ValkeyACL'')
      else None)"

fun checkUserNames :: "ValkeyACLUser list \<Rightarrow> string set \<Rightarrow> string option" where
  "checkUserNames [] names = None"
| "checkUserNames (u # us) names =
     (case checkUserName u names of Some e \<Rightarrow> Some e | None \<Rightarrow> checkUserNames us (insert (us_Name u) names))"

definition checkUserSecret :: "env \<Rightarrow> ValkeyACL \<Rightarrow> ValkeyACLUser \<Rightarrow> (string \<times> kerr option) option op" where
  "checkUserSecret env acl u =
     (case us_PasswordSecret u of
        None \<Rightarrow> State_Monad.return None
      | Some ref \<Rightarrow> do {
          s \<leftarrow> ask (\<lambda>t. env_secret env t (sk_Name ref));
          State_Monad.return (case s of
              Inr _ \<Rightarrow> None
            | Inl e \<Rightarrow> if e = NotFound then Some (''user '' @ quoted (us_Name u) @ '': Secret '' @ quoted (sk_Name ref) @ '' not found in namespace '' @ quoted (acl_Namespace acl), None)
                else Some (''user '' @ quoted (us_Name u) @ '': cannot read Secret '' @ quoted (sk_Name ref), Some e)) })"

definition validateACL :: "env \<Rightarrow> ValkeyACL \<Rightarrow> (string \<times> kerr option + string list) op" where
  "validateACL env acl = do {
     v \<leftarrow> ask (\<lambda>t. env_cluster env t (acl_ClusterRef acl));
     let missing = (case v of Inl e \<Rightarrow> e = NotFound | Inr _ \<Rightarrow> False);
     case (v, missing) of
       (Inl e, False) \<Rightarrow> State_Monad.return (Inl (''cannot read ValkeyCluster '' @ quoted (acl_ClusterRef acl), Some e))
     | _ \<Rightarrow>
         (case checkUserNames (acl_Users acl) {} of
            Some msg \<Rightarrow> State_Monad.return (Inl (msg, None))
          | None \<Rightarrow> do {
              err \<leftarrow> first_state (checkUserSecret env acl) (acl_Users acl);
              State_Monad.return (case err of
                  Some e \<Rightarrow> Inl e
                | None \<Rightarrow> Inr (if missing
                    then [''ValkeyCluster '' @ quoted (acl_ClusterRef acl) @ '' not found yet in namespace '' @ quoted (acl_Namespace acl)
                          @ '' - reconciler will retry''] else [])) }) }"

section \<open>The declared users\<close>

definition declared_user :: "ValkeyACLUser \<Rightarrow> string \<Rightarrow> aclUser" where
  "declared_user u password =
     fold acl_token (Fields (us_Rules u) @ (if password \<noteq> [] then [''>'' @ password] else [''nopass''])) new_user"

text \<open>The table a pass should leave: declared users as declared, dropped ones gone, the others untouched.\<close>

definition acl_spec :: "ValkeyACL \<Rightarrow> (string \<rightharpoonup> string) \<Rightarrow> acl_users \<Rightarrow> acl_users" where
  "acl_spec acl passwords T n =
     (case find (\<lambda>u. us_Name u = n) (rev (acl_Users acl)) of
        Some u \<Rightarrow> Some (declared_user u (mget passwords n))
      | None \<Rightarrow> if n \<in> set (as_AppliedUsers (acl_Status acl)) \<and> \<not> isReservedACLUser n then None else T n)"

definition accepts_commands :: "env \<Rightarrow> bool" where
  "accepts_commands env \<longleftrightarrow> (\<forall>t h args. \<exists>r. env_cmd env t h args = Inr r)"

text \<open>Loops as folds over an abstraction of the state.\<close>

lemma for_each_abs:
  assumes "\<And>x w. x \<in> set xs \<Longrightarrow> \<alpha> (snd (run_state (f x) w)) = g x (\<alpha> w)"
  shows "\<alpha> (snd (run_state (for_each xs f) w)) = fold g xs (\<alpha> w)"
  using assms
proof (induction xs arbitrary: w)
  case (Cons x xs)
  then show ?case using Cons.IH [of "snd (run_state (f x) w)"] by (simp add: case_prod_beta)
qed simp

lemma fold_state_abs:
  assumes "\<And>x a w. x \<in> set xs \<Longrightarrow> \<alpha> (snd (run_state (f x a) w)) = g x (\<alpha> w)"
  shows "\<alpha> (snd (run_state (fold_state f xs a) w)) = fold g xs (\<alpha> w)"
  using assms
proof (induction xs arbitrary: a w)
  case (Cons x xs)
  then show ?case
    using Cons.IH [of "fst (run_state (f x a) w)" "snd (run_state (f x a) w)"] by (simp add: case_prod_beta)
qed simp

lemma fold_update_find:
  "fold (\<lambda>u T. T(us_Name u \<mapsto> d u)) us T n =
     (case find (\<lambda>u. us_Name u = n) (rev us) of Some u \<Rightarrow> Some (d u) | None \<Rightarrow> T n)"
  by (induction us rule: rev_induct) (auto split: option.splits)

lemma fold_delete:
  "fold (\<lambda>x T. if P x then T else T(x := None)) xs T = (\<lambda>n. if n \<in> set xs \<and> \<not> P n then None else T n)"
  by (induction xs arbitrary: T) (auto simp: fun_eq_iff)

lemma fold_skip [simp]: "fold (\<lambda>x T. T) xs T = T"
  by (induction xs) simp_all

lemma find_name: "find (\<lambda>u. us_Name u = n) us = Some u \<Longrightarrow> us_Name u = n \<and> u \<in> set us"
  by (auto simp: find_Some_iff)

lemma find_name_None: "find (\<lambda>u. us_Name u = n) (rev us) = None \<longleftrightarrow> n \<notin> us_Name ` set us"
  by (auto simp: find_None_iff)

section \<open>A pass on one node\<close>

lemma do_err_table:
  assumes "accepts_commands env"
  shows "acl_table T0 h (acts (snd (run_state (do_err env c args) w))) =
    (if rc_host c = h then acl_command args (acl_table T0 h (acts w)) else acl_table T0 h (acts w))"
proof -
  obtain r where "env_cmd env (acts w) (rc_host c) args = Inr r" using assms unfolding accepts_commands_def by blast
  then show ?thesis by (simp add: run_do_err Let_def reply_err_def)
qed

lemma applyACLTo_table:
  assumes env: "accepts_commands env" and names: "names = us_Name ` set (acl_Users acl)"
  shows "acl_table T0 h (acts (snd (run_state (applyACLTo env acl names passwords c) w))) =
    (if rc_host c = h then acl_spec acl passwords (acl_table T0 h (acts w)) else acl_table T0 h (acts w))"
proof -
  let ?\<alpha> = "\<lambda>w. acl_table T0 h (acts w)"
  let ?set = "\<lambda>u T. if rc_host c = h then T(us_Name u \<mapsto> declared_user u (mget passwords (us_Name u))) else T"
  let ?del = "\<lambda>x T. if rc_host c \<noteq> h \<or> x \<in> names \<or> isReservedACLUser x then T else T(x := None)"
  have "?\<alpha> (snd (run_state (for_each (acl_Users acl) (\<lambda>u. do { _ \<leftarrow> applyACLUser env c u (mget passwords (us_Name u)); State_Monad.return () })) w)) =
      fold ?set (acl_Users acl) (?\<alpha> w)" for w
    by (rule for_each_abs)
      (auto simp: applyACLUser_def case_prod_beta do_err_table [OF env] set_user_def declared_user_def)
  moreover have "?\<alpha> (snd (run_state (for_each (as_AppliedUsers (acl_Status acl)) (\<lambda>prev.
       if prev \<in> names \<or> isReservedACLUser prev then State_Monad.return ()
       else do { _ \<leftarrow> do_err env c [''ACL'', ''DELUSER'', prev]; State_Monad.return () })) w)) =
      fold ?del (as_AppliedUsers (acl_Status acl)) (?\<alpha> w)" for w
    by (rule for_each_abs) (auto simp: case_prod_beta do_err_table [OF env])
  ultimately have "?\<alpha> (snd (run_state (applyACLTo env acl names passwords c) w)) =
      fold ?del (as_AppliedUsers (acl_Status acl)) (fold ?set (acl_Users acl) (?\<alpha> w))"
    by (simp add: applyACLTo_def case_prod_beta do_err_table [OF env])
  also have "\<dots> = (if rc_host c = h then acl_spec acl passwords (?\<alpha> w) else ?\<alpha> w)"
  proof (cases "rc_host c = h")
    case True
    have "fold ?del (as_AppliedUsers (acl_Status acl)) (fold ?set (acl_Users acl) T) n = acl_spec acl passwords T n" for T n
    proof (cases "find (\<lambda>u. us_Name u = n) (rev (acl_Users acl))")
      case None
      then have "n \<notin> names" by (simp add: names find_name_None)
      then show ?thesis using None by (simp add: True fold_delete fold_update_find acl_spec_def)
    next
      case (Some u)
      then have "us_Name u = n" "n \<in> names" using find_name [OF Some] by (auto simp: names)
      then show ?thesis using Some by (simp add: True fold_delete fold_update_find acl_spec_def)
    qed
    then show ?thesis using True by (simp add: fun_eq_iff)
  qed simp
  finally show ?thesis .
qed

lemma acl_spec_idem: "acl_spec acl passwords (acl_spec acl passwords T) = acl_spec acl passwords T"
  by (auto simp: acl_spec_def fun_eq_iff split: option.splits)

lemma fold_apply_once:
  assumes "\<And>T. f (f T) = f T"
  shows "fold (\<lambda>x T. if x = h \<and> b then f T else T) xs T = (if h \<in> set xs \<and> b then f T else T)"
  by (induction xs arbitrary: T) (auto simp: assms)

section \<open>A pass implements the declared users\<close>

lemma applyACLFanout_table:
  assumes "accepts_commands env" and "\<And>t host port pw tls cert. env_dial env t host port pw tls cert \<longleftrightarrow> host \<in> up"
  shows "acl_table T0 h (acts (snd (run_state (applyACLFanout env acl vc targets pw (us_Name ` set (acl_Users acl)) passwords) w))) =
    (if h \<in> set targets \<and> h \<in> up then acl_spec acl passwords (acl_table T0 h (acts w)) else acl_table T0 h (acts w))"
proof -
  let ?\<alpha> = "\<lambda>w. acl_table T0 h (acts w)"
  let ?f = "\<lambda>host reached. do {
       c \<leftarrow> dialPod env vc host pw;
       case c of
         None \<Rightarrow> State_Monad.return reached
       | Some c \<Rightarrow> do { applyACLTo env acl (us_Name ` set (acl_Users acl)) passwords c; State_Monad.return (reached + 1) } }"
  have step: "?\<alpha> (snd (run_state (?f host reached) w)) = (if host = h \<and> h \<in> up then acl_spec acl passwords (?\<alpha> w) else ?\<alpha> w)"
    for host w and reached :: int
  proof -
    obtain cert where "run_state (loadMTLSClientCert env vc) w = (cert, w)"
      using loadMTLSClientCert_state [of env vc w] by (metis prod.collapse)
    then show ?thesis
      by (simp add: dialPod_def run_dialReplClient Let_def assms(2) case_prod_beta applyACLTo_table [OF assms(1) refl])
  qed
  have "?\<alpha> (snd (run_state (fold_state ?f targets (0 :: int)) w)) =
      fold (\<lambda>host T. if host = h \<and> h \<in> up then acl_spec acl passwords T else T) targets (?\<alpha> w)"
    by (rule fold_state_abs) (rule step)
  then show ?thesis
    by (simp add: applyACLFanout_def fold_apply_once [of "acl_spec acl passwords"] acl_spec_idem)
qed

text \<open>
  C32. A pass of the controller implements the declared users. When the servers accept the commands,
  the users of every target that can be reached become exactly what the specification of the object
  asks for: each declared user has its declared rules and password whatever it had before, each
  user that an earlier pass applied and that is no longer declared is gone, and all other users are
  untouched. A server that is not a target or cannot be reached keeps its users.
\<close>

theorem applyACLFanout_refines:
  assumes "accepts_commands env" and "\<And>t host port pw tls cert. env_dial env t host port pw tls cert \<longleftrightarrow> host \<in> up"
  shows "acl_table T0 h (acts (snd (run_state (applyACLFanout env acl vc targets pw (us_Name ` set (acl_Users acl)) passwords) w))) =
    (if h \<in> set targets \<and> h \<in> up then acl_spec acl passwords (acl_table T0 h (acts w)) else acl_table T0 h (acts w))"
  by (rule applyACLFanout_table) (use assms in auto)

definition team_acl :: ValkeyACL where
  "team_acl = \<lparr>acl_Name = ''team'', acl_Namespace = ''prod'', acl_Generation = 2, acl_ClusterRef = ''demo'',
     acl_Users = [\<lparr>us_Name = ''app'', us_PasswordSecret = None, us_Rules = ''on ~*''\<rparr>],
     acl_Status = \<lparr>as_AppliedUsers = [''app'', ''former''], as_ObservedGeneration = 1, as_Conditions = []\<rparr>\<rparr>"

definition former_users :: "string \<Rightarrow> acl_users" where
  "former_users h = [''former'' \<mapsto> \<lparr>ac_on = True, ac_nopass = False, ac_pws = {''secret''}, ac_hashes = {}, ac_rules = [''~*'', ''+@all'']\<rparr>]"

theorem applyACLFanout_refines_witness:
  "acl_table former_users (demo_host 0) (acts (snd (run_state (applyACLFanout answering_env team_acl demo_vc [demo_host 0] ''pw''
       (us_Name ` set (acl_Users team_acl)) [''app'' \<mapsto> ''s3'']) demo_world))) ''former'' = None"
proof -
  have "accepts_commands answering_env" "\<And>t host port pw tls cert. env_dial answering_env t host port pw tls cert \<longleftrightarrow> host \<in> UNIV"
    by (simp_all add: accepts_commands_def answering_env_def)
  then show ?thesis
    by (subst applyACLFanout_refines) (auto simp: acl_spec_def team_acl_def isReservedACLUser_def constants)
qed

section \<open>What a pass leaves alone\<close>

text \<open>An action that does not touch the user \<open>u\<close> of any server.\<close>

definition spares :: "string \<Rightarrow> action \<Rightarrow> bool" where
  "spares u a \<longleftrightarrow> (\<forall>h T. acl_step h a T u = T u)"

lemma spares_simps [simp]:
  "spares u (ADial h p pw ok)" "spares u (AMetric m l)" "spares u (APatchACLStatus st r)"
  "spares u (ACmd h [''ACL'', ''SAVE''] ok)"
  by (auto simp: spares_def acl_step_def)

lemma spares_other:
  "n \<noteq> u \<Longrightarrow> spares u (ACmd h (''ACL'' # ''SETUSER'' # n # toks) ok)"
  "n \<noteq> u \<Longrightarrow> spares u (ACmd h [''ACL'', ''DELUSER'', n] ok)"
  by (auto simp: spares_def acl_step_def)

lemma spares_fold: "\<forall>a\<in>set xs. spares u a \<Longrightarrow> fold (acl_step h) xs T u = T u"
  by (induction xs arbitrary: T) (auto simp: spares_def)

lemma emits_spares:
  assumes "emits (spares u) m"
  shows "acl_table T0 h (acts (snd (run_state m w))) u = acl_table T0 h (acts w) u"
proof -
  obtain xs where "acts (snd (run_state m w)) = acts w @ xs" "\<forall>a\<in>set xs. spares u a"
    using assms unfolding emits_def by blast
  then show ?thesis by (simp add: acl_table_def spares_fold)
qed

lemma emits_markUnavailable [emits_rules]:
  "(\<And>s r. A (APatchACLStatus s r)) \<Longrightarrow> emits A (markUnavailable env acl reason msg)"
  unfolding markUnavailable_def patch_acl_status_def by (auto intro!: emits_rules)

lemma emits_patch_acl_status [emits_rules]: "(\<And>r. A (APatchACLStatus s r)) \<Longrightarrow> emits A (patch_acl_status env s)"
  unfolding patch_acl_status_def by (auto intro!: emits_rules)

lemma emits_resolve [emits_rules]: "emits A (resolveUserPasswords env acl)" "emits A (lookupClusterPassword env vc)"
  unfolding resolveUserPasswords_def resolveUser_def lookupClusterPassword_def by (auto intro!: emits_rules)

lemma emits_reconcileACL:
  assumes "u \<notin> us_Name ` set (acl_Users acl)" and "u \<in> set (as_AppliedUsers (acl_Status acl)) \<Longrightarrow> isReservedACLUser u"
  shows "emits (spares u) (reconcileACL (\<lambda>_. Inr acl) env)"
proof -
  have "emits (spares u) (applyACLTo env acl names passwords c)" for names passwords c
    unfolding applyACLTo_def applyACLUser_def using assms by (auto intro!: emits_rules spares_other)
  then have "emits (spares u) (reconcileACLOn env acl vc)" for vc
    unfolding reconcileACLOn_def retryLater_def applyACLFanout_def by (auto intro!: emits_rules)
  then show ?thesis unfolding reconcileACL_def by (auto intro!: emits_rules simp: set_state_iff)
qed

lemma checkUserNames_None:
  "checkUserNames us names = None \<Longrightarrow> u \<in> set us \<Longrightarrow> us_Name u \<notin> names \<and> \<not> isReservedACLUser (us_Name u)"
  by (induction us names rule: checkUserNames.induct)
    (auto simp: checkUserName_def isReservedACLUser_def constants split: option.splits if_splits)

lemma validateACL_users:
  "fst (run_state (validateACL env acl) w) = Inr ws \<Longrightarrow> checkUserNames (acl_Users acl) {} = None"
  by (auto simp: validateACL_def case_prod_beta Let_def split: sum.splits option.splits if_splits bool.splits)

text \<open>
  C33. The operator's own users are out of reach of the ACL objects. When the admission check let an
  object through, no pass over it changes the default user, the replication user or the Sentinel
  user on any server, whatever fails on the way and whatever an earlier status lists as applied.
\<close>

theorem reconcileACL_reserved:
  assumes "fst (run_state (validateACL env0 acl) v) = Inr warnings" and "isReservedACLUser u"
  shows "acl_table T0 h (acts (snd (run_state (reconcileACL (\<lambda>_. Inr acl) env) w))) u = acl_table T0 h (acts w) u"
proof (rule emits_spares [OF emits_reconcileACL])
  show "u \<notin> us_Name ` set (acl_Users acl)"
    using checkUserNames_None [OF validateACL_users [OF assms(1)]] assms(2) by auto
qed (simp add: assms(2))

theorem reconcileACL_reserved_witness:
  "acl_table former_users (demo_host 0) (acts (snd (run_state (reconcileACL (\<lambda>_. Inr team_acl) answering_env) demo_world))) ''default'' =
   acl_table former_users (demo_host 0) (acts demo_world) ''default''"
proof (rule reconcileACL_reserved)
  show "fst (run_state (validateACL answering_env team_acl) demo_world) =
      Inr [''ValkeyCluster '' @ quoted ''demo'' @ '' not found yet in namespace '' @ quoted ''prod'' @ '' - reconciler will retry'']"
    by code_simp
qed (simp add: isReservedACLUser_def)

section \<open>A user that is dropped while a node is down\<close>

text \<open>The second result of a pass: the status it wrote when it reached at least one target.\<close>

lemma wp_markUnavailable:
  assumes "\<And>s r. G (acts w) (APatchACLStatus s r)" and "\<And>s r. Q r (appended w (APatchACLStatus s r))"
  shows "wp G (markUnavailable env acl reason msg) Q w"
  unfolding markUnavailable_def patch_acl_status_def using assms by (auto intro!: wp_rules)

definition away :: "string \<Rightarrow> action list \<Rightarrow> action \<Rightarrow> bool" where
  "away h t a \<longleftrightarrow> (\<forall>args ok. a \<noteq> ACmd h args ok)"

lemma away_table: "away h t a \<Longrightarrow> acl_step h a T = T"
  by (auto simp: away_def acl_step_def split: action.splits)

lemma wp_applyACLFanout_away:
  assumes "\<And>t p pw tls cert. \<not> env_dial env t h p pw tls cert" and "\<And>n v. grows w v \<Longrightarrow> Q n v"
  shows "wp (away h) (applyACLFanout env acl vc targets pw names passwords) Q w"
proof -
  have to: "wp (away h) (applyACLTo env acl names passwords c) Q' v" if "rc_host c \<noteq> h" "\<And>v'. grows v v' \<Longrightarrow> Q' () v'" for c v Q'
    by (rule wp_emits [where A = "\<lambda>a. \<exists>args ok. a = ACmd (rc_host c) args ok"])
      (use that in \<open>auto simp: applyACLTo_def applyACLUser_def away_def intro!: emits_rules hoare_rules\<close>)
  show ?thesis
    unfolding applyACLFanout_def
  proof (rule wp_fold_state [where I = "\<lambda>_. grows w"])
    fix host :: string and reached :: int and v assume v: "grows w v"
    show "wp (away h) (do {
         c \<leftarrow> dialPod env vc host pw;
         case c of
           None \<Rightarrow> State_Monad.return reached
         | Some c \<Rightarrow> do { applyACLTo env acl names passwords c; State_Monad.return (reached + 1) } }) (\<lambda>_. grows w) v"
      unfolding dialPod_def
      by (cases "host = h")
        (use v assms(1) in \<open>auto intro!: wp_rules to simp: away_def intro: grows_trans [OF grows_appended]\<close>)
  qed (use assms(2) in auto)
qed

lemma wp_resolveUserPasswords:
  assumes "\<And>passwords. Q (us_Name ` set (acl_Users acl), passwords) w"
  shows "wp G (resolveUserPasswords env acl) Q w"
proof -
  have "wp G (fold_state (resolveUser env) (acl_Users acl) (\<lambda>_. None)) (\<lambda>_ v. v = w) w"
    by (rule wp_fold_state [where I = "\<lambda>_ v. v = w"]) (auto simp: resolveUser_def intro!: wp_rules)
  then show ?thesis unfolding resolveUserPasswords_def
    by (auto intro!: wp_bind wp_return elim!: wp_conseq simp: assms)
qed

lemma wp_reconcileACLOn_away:
  assumes "\<And>t p pw tls cert. \<not> env_dial env t h p pw tls cert"
    and "\<And>r v. (r = Requeue 0 \<Longrightarrow>
      \<exists>now. APatchACLStatus (appliedStatus acl (us_Name ` set (acl_Users acl)) now) None \<in> set (acts v)) \<Longrightarrow> Q r v"
  shows "wp (away h) (reconcileACLOn env acl vc) Q w"
  unfolding reconcileACLOn_def retryLater_def lookupClusterPassword_def patch_acl_status_def
  by (auto intro!: wp_rules wp_markUnavailable wp_resolveUserPasswords wp_applyACLFanout_away assms
      simp: away_def seconds_def returns_def split: option.splits)

text \<open>
  C34. A dropped user can survive for good, although the errors of a pass are described as retried by
  the next one. When a user is no longer declared and a target is down during the pass that should
  delete it, the pass still succeeds through another target and writes a status that no longer lists
  the user. From then on no pass deletes it: on the target that was down the user keeps its
  rules and passwords, whatever the later passes can reach.
\<close>

theorem reconcileACL_forgets:
  assumes run: "run_state (reconcileACL (\<lambda>_. Inr acl) env) w = (Requeue 0, v)"
    and found: "env_cluster env (acts w) (acl_ClusterRef acl) = Inr vc"
    and dropped: "u \<notin> us_Name ` set (acl_Users acl)"
    and down: "\<And>t p pw tls cert. \<not> env_dial env t h p pw tls cert"
  shows "\<exists>st. APatchACLStatus st None \<in> set (acts v) \<and> (\<forall>env'.
    acl_table T0 h (acts (snd (run_state (reconcileACL (\<lambda>_. Inr (acl\<lparr>acl_Status := st\<rparr>)) env') v))) u = acl_table T0 h (acts w) u)"
proof -
  have "wp (away h) (reconcileACL (\<lambda>_. Inr acl) env)
      (\<lambda>r v. r = Requeue 0 \<longrightarrow> (\<exists>now. APatchACLStatus (appliedStatus acl (us_Name ` set (acl_Users acl)) now) None \<in> set (acts v))) w"
    unfolding reconcileACL_def
    by (auto intro!: wp_bind wp_ask wp_emit wp_return wp_reconcileACLOn_away [OF down] simp: found away_def) blast
  then have wp: "wp (away h) (reconcileACL (\<lambda>_. Inr acl) env)
      (\<lambda>r v. (r = Requeue 0 \<longrightarrow> (\<exists>now. APatchACLStatus (appliedStatus acl (us_Name ` set (acl_Users acl)) now) None \<in> set (acts v))) \<and>
        acl_table T0 h (acts v) = acl_table T0 h (acts w)) w"
    by (rule wp_stable) (simp_all add: away_table)
  obtain now where st: "APatchACLStatus (appliedStatus acl (us_Name ` set (acl_Users acl)) now) None \<in> set (acts v)"
    and same: "acl_table T0 h (acts v) = acl_table T0 h (acts w)"
    using wp_result [OF wp run] by auto
  let ?acl = "acl\<lparr>acl_Status := appliedStatus acl (us_Name ` set (acl_Users acl)) now\<rparr>"
  have "acl_table T0 h (acts (snd (run_state (reconcileACL (\<lambda>_. Inr ?acl) env') v))) u = acl_table T0 h (acts v) u" for env'
    by (rule emits_spares [OF emits_reconcileACL]) (use dropped in \<open>auto simp: appliedStatus_def\<close>)
  then show ?thesis using st same by metis
qed

text \<open>Pod 0 is down and pod 1 answers.\<close>

definition half_up :: env where
  "half_up = answering_env\<lparr>env_dial := (\<lambda>_ host _ _ _ _. host \<noteq> demo_host 0),
     env_cluster := (\<lambda>_ _. Inr (demo_vc\<lparr>vc_Status := (vc_Status demo_vc)\<lparr>st_Primary := ''demo-1'', st_ReadyReplicas := 1\<rparr>\<rparr>))\<rparr>"

theorem reconcileACL_forgets_witness:
  "\<exists>v st. APatchACLStatus st None \<in> set (acts v) \<and>
    acl_table former_users (demo_host 0) (acts (snd (run_state (reconcileACL (\<lambda>_. Inr (team_acl\<lparr>acl_Status := st\<rparr>)) answering_env) v))) ''former'' =
    former_users (demo_host 0) ''former''"
proof -
  let ?run = "run_state (reconcileACL (\<lambda>_. Inr team_acl) half_up) demo_world"
  have "fst ?run = Requeue 0" by code_simp
  then have run: "?run = (Requeue 0, snd ?run)" by (simp add: prod_eq_iff)
  have "env_cluster half_up (acts demo_world) (acl_ClusterRef team_acl) =
      Inr (demo_vc\<lparr>vc_Status := (vc_Status demo_vc)\<lparr>st_Primary := ''demo-1'', st_ReadyReplicas := 1\<rparr>\<rparr>)"
    by (simp add: half_up_def)
  moreover have "''former'' \<notin> us_Name ` set (acl_Users team_acl)" by (simp add: team_acl_def)
  moreover have "\<not> env_dial half_up t (demo_host 0) p pw tls cert" for t p pw tls cert by (simp add: half_up_def)
  moreover have "acl_table former_users (demo_host 0) (acts demo_world) ''former'' = former_users (demo_host 0) ''former''"
    by (simp add: acl_table_def demo_world_def)
  ultimately show ?thesis using reconcileACL_forgets [OF run] by metis
qed

section \<open>A user whose Secret is gone\<close>

lemma resolve_missing:
  assumes "\<And>x. x \<in> set us \<Longrightarrow> us_Name x = n \<Longrightarrow> (\<exists>ref. us_PasswordSecret x = Some ref \<and> (\<forall>t. \<exists>e. env_secret env t (sk_Name ref) = Inl e))"
    and "passwords n = None"
  shows "fst (run_state (fold_state (resolveUser env) us passwords) w) n = None"
  using assms
proof (induction us arbitrary: passwords w)
  case (Cons x us)
  have "fst (run_state (resolveUser env x passwords) w) n = None"
  proof (cases "us_Name x = n")
    case True
    then obtain ref e where "us_PasswordSecret x = Some ref" "env_secret env (acts w) (sk_Name ref) = Inl e"
      using Cons.prems(1) by (metis list.set_intros(1))
    then show ?thesis using Cons.prems(2) by (simp add: resolveUser_def)
  next
    case False
    then show ?thesis using Cons.prems(2) by (auto simp: resolveUser_def split: option.splits sum.splits)
  qed
  then show ?case using Cons by (simp add: case_prod_beta)
qed simp

lemma resolve_state: "snd (run_state (resolveUserPasswords env acl) w) = w"
  and resolve_names: "fst (fst (run_state (resolveUserPasswords env acl) w)) = us_Name ` set (acl_Users acl)"
proof -
  have "wp (\<lambda>_ _. True) (resolveUserPasswords env acl) (\<lambda>r v. v = w \<and> fst r = us_Name ` set (acl_Users acl)) w"
    by (rule wp_resolveUserPasswords) simp
  from wp_result [OF this prod.collapse [symmetric]]
  show "snd (run_state (resolveUserPasswords env acl) w) = w"
    "fst (fst (run_state (resolveUserPasswords env acl) w)) = us_Name ` set (acl_Users acl)" by simp_all
qed

lemma lookup_state: "snd (run_state (lookupClusterPassword env vc) w) = w"
  by (simp add: lookupClusterPassword_def)

lemma patch_acl_status_table:
  "acl_table T0 h (acts (snd (run_state (patch_acl_status env s) w))) = acl_table T0 h (acts w)"
  "acl_table T0 h (acts (snd (run_state (retryLater env acl reason msg) w))) = acl_table T0 h (acts w)"
  by (simp_all add: patch_acl_status_def retryLater_def markUnavailable_def acl_step_def)

text \<open>What a pass over a ready cluster does to the users is what its fanout does.\<close>

lemma reconcileACLOn_table:
  assumes "\<not> aclNotReady vc" and "aclTargets vc \<noteq> []" and "fst (run_state (lookupClusterPassword env vc) w) = Inr pw"
    and "fst (run_state (resolveUserPasswords env acl) w) = (names, passwords)"
  shows "acl_table T0 h (acts (snd (run_state (reconcileACLOn env acl vc) w))) =
    acl_table T0 h (acts (snd (run_state (applyACLFanout env acl vc (aclTargets vc) pw names passwords) w)))"
proof -
  have "run_state (lookupClusterPassword env vc) w = (Inr pw, w)" "run_state (resolveUserPasswords env acl) w = ((names, passwords), w)"
    using assms(3,4) lookup_state resolve_state by (metis prod.collapse)+
  then show ?thesis using assms(1,2)
    by (simp add: reconcileACLOn_def case_prod_beta patch_acl_status_table)
qed

text \<open>
  C35. A user whose password Secret cannot be read is not left without a password, as the code says, but
  open to everyone: the pass declares it with \<open>nopass\<close>, so that on every reached target any password
  logs it in, with all the rules it was declared with.
\<close>

theorem reconcileACL_opens_user:
  assumes env: "accepts_commands env" "\<And>t host port pw tls cert. env_dial env t host port pw tls cert"
    and ready: "\<not> aclNotReady vc" "h \<in> set (aclTargets vc)" "fst (run_state (lookupClusterPassword env vc) w) = Inr pw"
    and user: "u \<in> set (acl_Users acl)" "distinct (map us_Name (acl_Users acl))"
    and secret: "us_PasswordSecret u = Some ref" "\<And>t. env_secret env t (sk_Name ref) = Inl NotFound"
    and enabled: "ac_on (declared_user u [])"
  shows "accepts (acl_table T0 h (acts (snd (run_state (reconcileACLOn env acl vc) w)))) (us_Name u) anything"
proof -
  define passwords where "passwords = snd (fst (run_state (resolveUserPasswords env acl) w))"
  have names: "fst (run_state (resolveUserPasswords env acl) w) = (us_Name ` set (acl_Users acl), passwords)"
    by (simp add: passwords_def prod_eq_iff resolve_names)
  have unique: "x = u" if "x \<in> set (acl_Users acl)" "us_Name x = us_Name u" for x
    using user that by (auto simp: distinct_map dest: inj_onD)
  have "passwords (us_Name u) = None"
    unfolding passwords_def resolveUserPasswords_def
    using resolve_missing [of "acl_Users acl" "us_Name u" env "\<lambda>_. None" w] unique secret by (auto simp: case_prod_beta)
  moreover have "find (\<lambda>x. us_Name x = us_Name u) (rev (acl_Users acl)) = Some u"
  proof (cases "find (\<lambda>x. us_Name x = us_Name u) (rev (acl_Users acl))")
    case None
    then show ?thesis using user(1) unfolding find_name_None by blast
  next
    case (Some x)
    then show ?thesis using unique find_name [OF Some] by simp
  qed
  ultimately have "acl_spec acl passwords T (us_Name u) = Some (declared_user u [])" for T
    by (simp add: acl_spec_def mget_def)
  moreover have "acl_table T0 h (acts (snd (run_state (reconcileACLOn env acl vc) w))) = acl_spec acl passwords (acl_table T0 h (acts w))"
  proof -
    have "aclTargets vc \<noteq> []" using ready(2) by auto
    from reconcileACLOn_table [OF ready(1) this ready(3) names] show ?thesis
      using ready(2) env(2) by (simp add: applyACLFanout_table [OF env(1), of UNIV])
  qed
  moreover have "ac_nopass (declared_user u [])" by (simp add: declared_user_def)
  ultimately show ?thesis using enabled by (simp add: accepts_def)
qed

definition secretless_acl :: ValkeyACL where
  "secretless_acl = team_acl\<lparr>acl_Users := [\<lparr>us_Name = ''app'', us_PasswordSecret = Some \<lparr>sk_Name = ''app-pw'', sk_Key = []\<rparr>, us_Rules = ''on ~*''\<rparr>]\<rparr>"

theorem reconcileACL_opens_user_witness:
  "accepts (acl_table (\<lambda>_. Map.empty) (demo_host 0) (acts (snd (run_state (reconcileACLOn answering_env secretless_acl
     (demo_vc\<lparr>vc_Status := (vc_Status demo_vc)\<lparr>st_ReadyReplicas := 3\<rparr>\<rparr>)) demo_world)))) ''app'' ''guess''"
proof -
  let ?u = "\<lparr>us_Name = ''app'', us_PasswordSecret = Some \<lparr>sk_Name = ''app-pw'', sk_Key = []\<rparr>, us_Rules = ''on ~*''\<rparr>"
  let ?vc = "demo_vc\<lparr>vc_Status := (vc_Status demo_vc)\<lparr>st_ReadyReplicas := 3\<rparr>\<rparr>"
  have "accepts_commands answering_env" "\<And>t host port pw tls cert. env_dial answering_env t host port pw tls cert"
    "\<And>t. env_secret answering_env t (sk_Name \<lparr>sk_Name = ''app-pw'', sk_Key = []\<rparr>) = Inl NotFound"
    by (simp_all add: accepts_commands_def answering_env_def silent_env_def)
  moreover have "\<not> aclNotReady ?vc" "demo_host 0 \<in> set (aclTargets ?vc)" "fst (run_state (lookupClusterPassword answering_env ?vc) demo_world) = Inr []"
    "ac_on (declared_user ?u [])" by code_simp+
  moreover have "?u \<in> set (acl_Users secretless_acl)" "distinct (map us_Name (acl_Users secretless_acl))"
    by (simp_all add: secretless_acl_def)
  ultimately show ?thesis using reconcileACL_opens_user [of answering_env ?vc "demo_host 0" demo_world "[]" ?u secretless_acl] by simp
qed

end
