(* ===== verification/Cluster_Recovery.thy ===== *)
theory Cluster_Recovery
  imports Status Trace_Logic
begin

text \<open>
  Quorum recovery and the proactive rollout of the Cluster topology:
  \<open>src/internal/controller/cluster_recovery.go\<close> and \<open>driveClusterRollout\<close> of \<open>rollout.go\<close>.
  The lemmas bound when a pod may be deleted or a replica promoted by force: below quorum,
  after the debounce window, for a primary that is fenced and not serving, with the deletion
  before the takeover.
\<close>

section \<open>Quorum recovery\<close>

definition quorumRecoveryDownAfter :: int where
  "quorumRecoveryDownAfter = seconds 45"

record quorumTakeoverTarget =
  qt_primaryPod :: string
  qt_primaryID :: string
  qt_replicaPod :: string

definition quorumRecoveryEnabled :: "ValkeyCluster \<Rightarrow> bool" where
  "quorumRecoveryEnabled vc \<longleftrightarrow>
     (case ParseBool (mget (vc_Annotations vc) quorumTakeoverAnnotation) of
        Some v \<Rightarrow> v
      | None \<Rightarrow> sp_Profile (vc_Spec vc) \<noteq> ProfileDurable)"

definition setQuorumDown :: "env \<Rightarrow> int option \<Rightarrow> unit op" where
  "setQuorumDown env t = do {
     modify_status (\<lambda>s. s\<lparr>st_QuorumDownSince := t\<rparr>);
     err \<leftarrow> patch_status env;
     case err of
       None \<Rightarrow> modify_status (\<lambda>s. s\<lparr>st_QuorumDownSince := map_option whole_seconds t\<rparr>)
     | Some _ \<Rightarrow> State_Monad.return () }"

definition clearQuorumDown :: "env \<Rightarrow> unit op" where
  "clearQuorumDown env = do {
     vc \<leftarrow> get_vc;
     if st_QuorumDownSince (vc_Status vc) \<noteq> None then setQuorumDown env None
     else State_Monad.return () }"

definition quorumDownLongEnough :: "env \<Rightarrow> bool op" where
  "quorumDownLongEnough env = do {
     vc \<leftarrow> get_vc;
     now \<leftarrow> ask (env_now env);
     case st_QuorumDownSince (vc_Status vc) of
       None \<Rightarrow> do { setQuorumDown env (Some now); State_Monad.return False }
     | Some since \<Rightarrow> State_Monad.return (downElapsed since now quorumRecoveryDownAfter) }"

definition dialAnyClusterPod :: "env \<Rightarrow> string \<Rightarrow> replClient option op" where
  "dialAnyClusterPod env password = do {
     vc \<leftarrow> get_vc;
     first_state (\<lambda>p. dialPod env vc (pr_host p) password) (clusterDataPods vc) }"

definition nodeReady :: "env \<Rightarrow> string \<Rightarrow> (kerr + bool) op" where
  "nodeReady env name = do {
     r \<leftarrow> ask (\<lambda>t. env_node env t name);
     State_Monad.return (case r of
         Inl e \<Rightarrow> if e = NotFound then Inr False else Inl e
       | Inr n \<Rightarrow> Inr (case find (\<lambda>(t, _). t = ''Ready'') (node_Conditions n) of
                        Some (_, st) \<Rightarrow> st = ConditionTrue
                      | None \<Rightarrow> False)) }"

definition primaryFencedByK8s :: "env \<Rightarrow> string \<Rightarrow> (kerr + bool) op" where
  "primaryFencedByK8s env name = do {
     r \<leftarrow> ask (\<lambda>t. env_pod env t name);
     case r of
       Inl e \<Rightarrow> State_Monad.return (if e = NotFound then Inr True else Inl e)
     | Inr pod \<Rightarrow>
         if pod_Phase pod \<noteq> ''Running'' \<or> \<not> podIsReady pod then State_Monad.return (Inr True)
         else if pod_NodeName pod = [] then State_Monad.return (Inr False)
         else do {
           ready \<leftarrow> nodeReady env (pod_NodeName pod);
           State_Monad.return (case ready of Inl e \<Rightarrow> Inl e | Inr b \<Rightarrow> Inr (\<not> b)) } }"

definition primaryStillServing :: "env \<Rightarrow> string \<Rightarrow> string \<Rightarrow> bool op" where
  "primaryStillServing env password name = do {
     vc \<leftarrow> get_vc;
     c \<leftarrow> dialPod env vc (podFQDN vc name) password;
     case c of
       None \<Rightarrow> State_Monad.return False
     | Some c \<Rightarrow> do {
         im \<leftarrow> clusterInfoMap env c;
         State_Monad.return (case im of None \<Rightarrow> False | Some m \<Rightarrow> mget m ''cluster_state'' = ''ok'') } }"

definition considerReplica ::
  "env \<Rightarrow> string \<Rightarrow> clusterNode \<Rightarrow> string \<times> int \<Rightarrow> (string \<times> int) op" where
  "considerReplica env password rep acc =
     (if cn_podName rep = [] then State_Monad.return acc
      else do {
        vc \<leftarrow> get_vc;
        c \<leftarrow> dialPod env vc (podFQDN vc (cn_podName rep)) password;
        case c of
          None \<Rightarrow> State_Monad.return acc
        | Some c \<Rightarrow> do {
            im \<leftarrow> info env c;
            State_Monad.return (case im of
                None \<Rightarrow> acc
              | Some m \<Rightarrow>
                  (let off = offsetField m ''slave_repl_offset'' 0
                   in if off > snd acc then (cn_podName rep, off) else acc)) } })"

definition pickTakeoverReplica :: "env \<Rightarrow> string \<Rightarrow> clusterNode list \<Rightarrow> string op" where
  "pickTakeoverReplica env password replicas = do {
     (best, _) \<leftarrow> fold_state (considerReplica env password) replicas ([], -1);
     State_Monad.return best }"

definition countMasters :: "clusterNode list \<Rightarrow> nat \<times> nat" where
  "countMasters nodes =
     (length (filter (\<lambda>n. isMaster n \<and> isHealthy n) nodes), length (filter isMaster nodes))"

definition knownDataPods :: "ValkeyCluster \<Rightarrow> string list" where
  "knownDataPods vc = map (\<lambda>p. podNameFromFQDN (pr_host p)) (clusterDataPods vc)"

text \<open>\<open>replicasByMaster[id]\<close>.\<close>

definition knownReplicas :: "ValkeyCluster \<Rightarrow> clusterNode list \<Rightarrow> string \<Rightarrow> clusterNode list" where
  "knownReplicas vc nodes mid = filter (\<lambda>n. \<not> isMaster n \<and> cn_masterID n \<noteq> [] \<and>
     cn_podName n \<in> set (knownDataPods vc) \<and> cn_masterID n = mid) nodes"

definition recoverableShard ::
  "env \<Rightarrow> string \<Rightarrow> clusterNode list \<Rightarrow> clusterNode \<Rightarrow> quorumTakeoverTarget option op" where
  "recoverableShard env password nodes n = do {
     vc \<leftarrow> get_vc;
     if \<not> isMaster n \<or> isHealthy n then State_Monad.return None
     else if cn_podName n = [] \<or> cn_podName n \<notin> set (knownDataPods vc) then State_Monad.return None
     else do {
       fenced \<leftarrow> primaryFencedByK8s env (cn_podName n);
       if fenced \<noteq> Inr True then State_Monad.return None
       else do {
         serving \<leftarrow> primaryStillServing env password (cn_podName n);
         if serving then State_Monad.return None
         else do {
           replica \<leftarrow> pickTakeoverReplica env password (knownReplicas vc nodes (cn_id n));
           State_Monad.return (if replica = [] then None
             else Some \<lparr>qt_primaryPod = cn_podName n, qt_primaryID = cn_id n, qt_replicaPod = replica\<rparr>) } } } }"

definition recoverableShards ::
  "env \<Rightarrow> string \<Rightarrow> clusterNode list \<Rightarrow> quorumTakeoverTarget list op" where
  "recoverableShards env password nodes = do {
     rs \<leftarrow> map_state (recoverableShard env password nodes) nodes;
     State_Monad.return (List.map_filter (\<lambda>r. r) rs) }"

definition recoverShard :: "env \<Rightarrow> string \<Rightarrow> int \<Rightarrow> quorumTakeoverTarget \<Rightarrow> unit op" where
  "recoverShard env password port t = do {
     vc \<leftarrow> get_vc;
     fenced \<leftarrow> primaryFencedByK8s env (qt_primaryPod t);
     if fenced \<noteq> Inr True then State_Monad.return ()
     else do {
       serving \<leftarrow> primaryStillServing env password (qt_primaryPod t);
       if serving then State_Monad.return ()
       else do {
         err \<leftarrow> deletePodByName env (qt_primaryPod t);
         if err \<noteq> None then State_Monad.return ()
         else do {
           cert \<leftarrow> loadMTLSClientCert env vc;
           rc \<leftarrow> dialReplClient env (podFQDN vc (qt_replicaPod t)) port password (tlsEnabled vc) cert;
           case rc of
             None \<Rightarrow> State_Monad.return ()
           | Some rc \<Rightarrow> do {
               err \<leftarrow> clusterFailoverTakeover env rc;
               if err \<noteq> None then State_Monad.return ()
               else emit (AMetric ''failover_total'' ''cluster-takeover'') } } } } }"

text \<open>The requeue delay and \<open>handled\<close>; the error result of the Go function is always \<open>nil\<close>.\<close>

definition recoverBelowQuorum ::
  "env \<Rightarrow> string \<Rightarrow> int \<Rightarrow> clusterNode list \<Rightarrow> (int \<times> bool) op" where
  "recoverBelowQuorum env password port nodes = do {
     targets \<leftarrow> recoverableShards env password nodes;
     if targets = [] then State_Monad.return (0, False)
     else do {
       down \<leftarrow> quorumDownLongEnough env;
       if \<not> down then State_Monad.return (seconds 10, True)
       else do {
         for_each targets (recoverShard env password port);
         State_Monad.return (seconds 5, True) } } }"

definition maybeRecoverClusterQuorum :: "env \<Rightarrow> string \<Rightarrow> (int \<times> bool) op" where
  "maybeRecoverClusterQuorum env password = do {
     vc \<leftarrow> get_vc;
     if \<not> st_ClusterInitialized (vc_Status vc) then State_Monad.return (0, False)
     else if \<not> quorumRecoveryEnabled vc then do { clearQuorumDown env; State_Monad.return (0, False) }
     else do {
       c \<leftarrow> dialAnyClusterPod env password;
       case c of
         None \<Rightarrow> State_Monad.return (0, False)
       | Some c \<Rightarrow> do {
           im \<leftarrow> clusterInfoMap env c;
           case im of
             None \<Rightarrow> State_Monad.return (0, False)
           | Some m \<Rightarrow>
               if mget m ''cluster_state'' = ''ok''
               then do { clearQuorumDown env; State_Monad.return (0, False) }
               else do {
                 raw \<leftarrow> clusterNodes env c;
                 case raw of
                   None \<Rightarrow> State_Monad.return (0, False)
                 | Some raw \<Rightarrow>
                     (let nodes = parseClusterNodes raw; (healthy, total) = countMasters nodes
                      in if total = 0 \<or> healthy * 2 > total then State_Monad.return (0, False)
                         else recoverBelowQuorum env password (rc_port c) nodes) } } } }"

section \<open>The proactive rollout\<close>

definition clusterFailoverOnPod :: "env \<Rightarrow> string \<Rightarrow> string \<Rightarrow> string option op" where
  "clusterFailoverOnPod env password pod = do {
     vc \<leftarrow> get_vc;
     c \<leftarrow> dialPod env vc (podFQDN vc pod) password;
     case c of
       None \<Rightarrow> State_Monad.return (Some (''dial '' @ pod @ '' for CLUSTER FAILOVER failed''))
     | Some c \<Rightarrow> clusterFailover env c }"

definition performClusterRollout ::
  "env \<Rightarrow> string \<Rightarrow> rolloutPod list \<Rightarrow> string \<Rightarrow> (bool \<times> kerr option) op" where
  "performClusterRollout env password pods desiredRevision = do {
     shardStatuses \<leftarrow> surveyCluster env password;
     if shardStatuses = [] then State_Monad.return (True, None)
     else (case nextClusterRolloutStep pods
                  (map (\<lambda>s. \<lparr>cs_primary = sh_Primary s, cs_replicas = sh_Replicas s\<rparr>) shardStatuses) desiredRevision of
             clusterRolloutNone \<Rightarrow> State_Monad.return (False, None)
           | clusterRolloutWait \<Rightarrow> State_Monad.return (True, None)
           | clusterRolloutRollReplica pod \<Rightarrow> do {
               err \<leftarrow> deletePodByName env pod;
               State_Monad.return (True, err) }
           | clusterRolloutRollMaster pod \<Rightarrow> do {
               err \<leftarrow> deletePodByName env pod;
               State_Monad.return (True, err) }
           | clusterRolloutFailover pod \<Rightarrow> do {
               _ \<leftarrow> clusterFailoverOnPod env password pod;
               State_Monad.return (True, None) }) }"

definition driveClusterRollout :: "env \<Rightarrow> string \<Rightarrow> (bool \<times> kerr option) op" where
  "driveClusterRollout env password = do {
     vc \<leftarrow> get_vc;
     s \<leftarrow> ask (\<lambda>t. env_sts env t (statefulSetName vc));
     case s of
       Inl e \<Rightarrow> State_Monad.return (False, Some e)
     | Inr sts \<Rightarrow>
       if sts_UpdateRevision sts = [] then State_Monad.return (False, None)
       else do {
         ps \<leftarrow> listRolloutPods env;
         case ps of
           Inl e \<Rightarrow> State_Monad.return (False, Some e)
         | Inr pods \<Rightarrow>
           if int32 (int (length pods)) < totalReplicas vc then State_Monad.return (True, None)
           else if \<not> list_ex (\<lambda>p. rp_revision p \<noteq> sts_UpdateRevision sts) pods then State_Monad.return (False, None)
           else performClusterRollout env password pods (sts_UpdateRevision sts) } }"

section \<open>Observations and guarantees\<close>

text \<open>What the API server says of a pod when the trace is \<open>t\<close>.\<close>

definition fenced_at :: "env \<Rightarrow> action list \<Rightarrow> string \<Rightarrow> bool" where
  "fenced_at env t name =
     (case env_pod env t name of
        Inl e \<Rightarrow> e = NotFound
      | Inr pod \<Rightarrow> pod_Phase pod \<noteq> ''Running'' \<or> \<not> podIsReady pod \<or>
          pod_NodeName pod \<noteq> [] \<and>
          (case env_node env t (pod_NodeName pod) of
             Inl e \<Rightarrow> e = NotFound
           | Inr n \<Rightarrow> find (\<lambda>(t, _). t = ''Ready'') (node_Conditions n) \<noteq> Some (''Ready'', ConditionTrue)))"

text \<open>A trace in which the last contact with a host found it unreachable or not in state ok.\<close>

definition answers_ok :: "env \<Rightarrow> action list \<Rightarrow> string \<Rightarrow> bool" where
  "answers_ok env t host =
     (case reply_text (env_cmd env t host [''CLUSTER'', ''INFO'']) of
        None \<Rightarrow> False
      | Some txt \<Rightarrow> mget (parse_kv False txt) ''cluster_state'' = ''ok'')"

definition not_serving :: "env \<Rightarrow> action list \<Rightarrow> string \<Rightarrow> bool" where
  "not_serving env t host \<longleftrightarrow>
     (\<exists>u p pw. t = u @ [ADial host p pw False]) \<or>
     (\<exists>u ok. t = u @ [ACmd host [''CLUSTER'', ''INFO''] ok] \<and> \<not> answers_ok env u host)"

text \<open>The node table read from one host at some point of the trace.\<close>

definition observed_nodes :: "env \<Rightarrow> action list \<Rightarrow> clusterNode list \<Rightarrow> bool" where
  "observed_nodes env t nodes \<longleftrightarrow> (\<exists>u v host raw. t = u @ v \<and>
     reply_text (env_cmd env u host [''CLUSTER'', ''NODES'']) = Some raw \<and> nodes = parseClusterNodes raw)"

definition below_quorum :: "clusterNode list \<Rightarrow> bool" where
  "below_quorum nodes \<longleftrightarrow> 2 * length (filter (\<lambda>n. isMaster n \<and> isHealthy n) nodes) \<le> length (filter isMaster nodes)"

definition takeover :: "string list" where
  "takeover = [''CLUSTER'', ''FAILOVER'', ''TAKEOVER'']"

text \<open>A dead primary of this cluster, and a replica of it in this cluster.\<close>

definition dead_primary :: "ValkeyCluster \<Rightarrow> clusterNode list \<Rightarrow> string \<Rightarrow> string \<Rightarrow> bool" where
  "dead_primary vc nodes pod replica \<longleftrightarrow>
     (\<exists>m\<in>set nodes. isMaster m \<and> \<not> isHealthy m \<and> cn_podName m = pod \<and> pod \<in> set (knownDataPods vc) \<and>
        replica \<in> cn_podName ` set (knownReplicas vc nodes (cn_id m)))"

definition may_delete :: "env \<Rightarrow> ValkeyCluster \<Rightarrow> action list \<Rightarrow> string \<Rightarrow> bool" where
  "may_delete env vc t pod \<longleftrightarrow> not_serving env t (podFQDN vc pod) \<and>
     (\<exists>u v. t = u @ v \<and> length v \<le> 2 \<and> fenced_at env u pod)"

text \<open>The guarantee of a recovery: what each deletion and each takeover rests on when it is issued.\<close>

definition recovery_guard :: "env \<Rightarrow> ValkeyCluster \<Rightarrow> clusterNode list \<Rightarrow> action list \<Rightarrow> action \<Rightarrow> bool" where
  "recovery_guard env vc nodes t a =
     (case a of
        ADelete kind pod _ \<Rightarrow> kind = ''Pod'' \<and> (\<exists>replica. dead_primary vc nodes pod replica) \<and> may_delete env vc t pod
      | ACmd host args _ \<Rightarrow> args \<in> {[''CLUSTER'', ''INFO''], [''INFO'', ''replication'']} \<or>
          args = takeover \<and> (\<exists>pod replica u e p pw. dead_primary vc nodes pod replica \<and> host = podFQDN vc replica \<and>
            t = u @ [ADelete ''Pod'' pod e, ADial host p pw True] \<and> (e = None \<or> e = Some NotFound))
      | APatchStatus _ _ \<Rightarrow> True
      | _ \<Rightarrow> is_read a)"

text \<open>The whole guarantee, with the observation and the debounce window it rests on.\<close>

definition disruptive :: "action \<Rightarrow> bool" where
  "disruptive a = (case a of ADelete _ _ _ \<Rightarrow> True | ACmd _ args _ \<Rightarrow> args = takeover | _ \<Rightarrow> False)"

definition quorum_guard :: "env \<Rightarrow> world \<Rightarrow> action list \<Rightarrow> action \<Rightarrow> bool" where
  "quorum_guard env w t a \<longleftrightarrow> (disruptive a \<longrightarrow>
     (\<exists>nodes since u v. observed_nodes env t nodes \<and> below_quorum nodes \<and> recovery_guard env (cur w) nodes t a \<and>
        st_QuorumDownSince (vc_Status (cur w)) = Some since \<and> t = u @ v \<and>
        time_Sub (env_now env u) since \<ge> quorumRecoveryDownAfter))"

text \<open>
  The guarantee of the proactive rollout, at the point where the StatefulSet and the pods were
  read: a deleted pod is stale while all pods are ready, and CLUSTER FAILOVER goes to a ready pod
  of the new revision.
\<close>

definition rollout_view :: "env \<Rightarrow> ValkeyCluster \<Rightarrow> action list \<Rightarrow> StatefulSet \<Rightarrow> rolloutPod list \<Rightarrow> bool" where
  "rollout_view env vc t sts pods \<longleftrightarrow> env_sts env t (statefulSetName vc) = Inr sts \<and>
     (\<exists>items. env_pods env t [(instanceLabel, vc_Name vc)] = Inr items \<and>
        pods = List.map_filter (rolloutPodOf vc) items) \<and>
     totalReplicas vc \<le> int32 (int (length pods))"

definition cluster_rollout_guard :: "env \<Rightarrow> world \<Rightarrow> action list \<Rightarrow> action \<Rightarrow> bool" where
  "cluster_rollout_guard env w t a =
     (case a of
        ADelete kind pod _ \<Rightarrow> kind = ''Pod'' \<and> (\<exists>sts pods. rollout_view env (cur w) (acts w) sts pods \<and>
          list_all rp_ready pods \<and> revOf pods pod \<noteq> sts_UpdateRevision sts)
      | ACmd host args _ \<Rightarrow> args \<in> {[''CLUSTER'', ''NODES''], [''INFO'', ''replication'']} \<or>
          args = [''CLUSTER'', ''FAILOVER''] \<and> (\<exists>sts pods pod. rollout_view env (cur w) (acts w) sts pods \<and>
            list_all rp_ready pods \<and> host = podFQDN (cur w) pod \<and>
            revOf pods pod = sts_UpdateRevision sts \<and> readyOf pods pod)
      | _ \<Rightarrow> is_read a)"

text \<open>Concrete input: the only primary of the table is gone, its replica answers.\<close>

definition lost_table :: string where
  "lost_table = Join [
     ''a0 10.0.0.1:6379@16379,demo-0.demo-headless.prod.svc.cluster.local master,fail - 0 0 1 disconnected 0-5460'',
     ''b0 10.0.0.4:6379@16379,demo-3.demo-headless.prod.svc.cluster.local slave a0 0 0 1 connected''] [CHR 0x0A]"

definition lost_env :: env where
  "lost_env = answering_env\<lparr>env_dial := (\<lambda>_ h _ _ _ _. h \<noteq> demo_host 0),
     env_cmd := (\<lambda>_ h args. if args = [''CLUSTER'', ''INFO''] then Inr (RText ''cluster_state:fail'')
        else if args = [''CLUSTER'', ''NODES''] then Inr (RText lost_table)
        else if args = [''INFO'', ''replication''] then Inr (RText ''slave_repl_offset:7'')
        else Inr (RText ''OK''))\<rparr>"

definition lost_world :: world where
  "lost_world = \<lparr>cur = demo_cluster\<lparr>vc_Status := (vc_Status demo_cluster)\<lparr>st_QuorumDownSince := Some 0\<rparr>\<rparr>, acts = []\<rparr>"

text \<open>A one-shard cluster in which both pods have the old revision.\<close>

definition pair_world :: world where
  "pair_world = \<lparr>cur = demo_cluster\<lparr>vc_Spec := (vc_Spec demo_cluster)\<lparr>sp_Shards := Some 1\<rparr>\<rparr>, acts = []\<rparr>"

definition pair_env :: env where
  "pair_env = answering_env\<lparr>env_sts := (\<lambda>_ _. Inr demo_sts),
     env_pods := (\<lambda>_ _. Inr [demo_pod ''demo-0'' ''r1'', demo_pod ''demo-1'' ''r1'']),
     env_cmd := (\<lambda>_ h args. if args = [''CLUSTER'', ''NODES'']
        then Inr (RText (Join (map nodeLine demo_nodes) [CHR 0x0A])) else Inr (RText ''OK''))\<rparr>"

text \<open>
  A table after two earlier failovers: three primaries that own the slots and two old primaries
  that are gone and own none.
\<close>

definition table_node :: "string \<Rightarrow> string \<Rightarrow> string list \<Rightarrow> bool \<Rightarrow> clusterNode" where
  "table_node nid pod slots up = \<lparr>cn_id = nid, cn_podName = pod, cn_flags = (if up then [''master''] else [''master'', ''fail'']),
     cn_masterID = [], cn_slots = slots, cn_linkState = (if up then ''connected'' else ''disconnected'')\<rparr>"

definition stale_nodes :: "clusterNode list" where
  "stale_nodes = [table_node ''a0'' ''demo-0'' [] False, table_node ''a1'' ''demo-1'' [] False,
     table_node ''a2'' ''demo-2'' [''0-5460''] False, table_node ''b0'' ''demo-3'' [''5461-10922''] True,
     table_node ''b1'' ''demo-4'' [''10923-16383''] True]"

section \<open>Safety of a recovery\<close>

lemma wp_primaryFencedByK8s:
  assumes "\<And>r. r = Inr True \<longleftrightarrow> fenced_at env (acts w) name \<Longrightarrow> Q r w"
  shows "wp G (primaryFencedByK8s env name) Q w"
proof -
  have "find (\<lambda>(t, _). t = ''Ready'') cs = Some (a, b) \<Longrightarrow> a = ''Ready''" for cs :: "(string \<times> ConditionStatus) list" and a b
    by (auto simp: find_Some_iff)
  then show ?thesis unfolding primaryFencedByK8s_def nodeReady_def
    by (auto intro!: wp_rules assms simp: fenced_at_def split: option.splits sum.splits if_splits)
qed

lemma wp_primaryStillServing:
  assumes reads: "\<And>t a. is_read a \<Longrightarrow> G t a" and infos: "\<And>t h ok. G t (ACmd h [''CLUSTER'', ''INFO''] ok)"
    and post: "\<And>r v xs. cur v = cur w \<Longrightarrow> acts v = acts w @ xs \<Longrightarrow> length xs \<le> 2 \<Longrightarrow>
      (\<not> r \<Longrightarrow> not_serving env (acts v) (podFQDN (cur w) name)) \<Longrightarrow> Q r v"
  shows "wp G (primaryStillServing env pw name) Q w"
  unfolding primaryStillServing_def clusterInfoMap_def
  by (auto intro!: wp_rules reads infos post simp: not_serving_def answers_ok_def split: option.splits)

lemma wp_pickTakeoverReplica:
  assumes reads: "\<And>t a. is_read a \<Longrightarrow> G t a" and infos: "\<And>t h ok. G t (ACmd h [''INFO'', ''replication''] ok)"
    and post: "\<And>r v. grows w v \<Longrightarrow> r = [] \<or> r \<in> cn_podName ` set replicas \<Longrightarrow> Q r v"
  shows "wp G (pickTakeoverReplica env pw replicas) Q w"
  unfolding pickTakeoverReplica_def
proof (rule wp_bind, rule wp_fold_state [where I = "\<lambda>acc v. grows w v \<and> (fst acc = [] \<or> fst acc \<in> cn_podName ` set replicas)"])
  fix rep v and acc :: "string \<times> int"
  assume "rep \<in> set replicas" "grows w v \<and> (fst acc = [] \<or> fst acc \<in> cn_podName ` set replicas)"
  then show "wp G (considerReplica env pw rep acc)
      (\<lambda>acc v. grows w v \<and> (fst acc = [] \<or> fst acc \<in> cn_podName ` set replicas)) v"
    unfolding considerReplica_def info_def infoSection_def
    by (auto intro!: wp_rules reads infos simp: Let_def split: option.splits)
qed (auto intro!: wp_rules post)

lemma wp_recoverableShard:
  assumes reads: "\<And>t a. is_read a \<Longrightarrow> G t a" and infos: "\<And>t h ok. G t (ACmd h [''INFO'', ''replication''] ok)"
    "\<And>t h ok. G t (ACmd h [''CLUSTER'', ''INFO''] ok)" and n: "n \<in> set nodes"
    and post: "\<And>r v. grows w v \<Longrightarrow>
      (\<And>t. r = Some t \<Longrightarrow> dead_primary (cur w) nodes (qt_primaryPod t) (qt_replicaPod t)) \<Longrightarrow> Q r v"
  shows "wp G (recoverableShard env pw nodes n) Q w"
proof -
  have dead: "dead_primary (cur w) nodes (cn_podName n) replica"
    if "isMaster n" "\<not> isHealthy n" "cn_podName n \<in> set (knownDataPods (cur w))"
      "replica \<in> cn_podName ` set (knownReplicas (cur w) nodes (cn_id n))" for replica
    using that n by (auto simp: dead_primary_def)
  show ?thesis unfolding recoverableShard_def
    by (auto intro!: wp_rules wp_primaryFencedByK8s wp_primaryStillServing wp_pickTakeoverReplica reads infos post dead
        simp: grows_def split: if_splits)
qed

lemma recovery_guard_reads [simp]:
  "is_read a \<Longrightarrow> recovery_guard env vc nodes t a"
  "recovery_guard env vc nodes t (ACmd h [''CLUSTER'', ''INFO''] ok)"
  "recovery_guard env vc nodes t (ACmd h [''INFO'', ''replication''] ok)"
  "recovery_guard env vc nodes t (APatchStatus s r)"
  by (auto simp: recovery_guard_def is_read_def split: action.splits)

lemma wp_recoverShard:
  assumes dead: "dead_primary vc nodes (qt_primaryPod t) (qt_replicaPod t)" and vc: "cur w = vc"
  shows "wp (recovery_guard env vc nodes) (recoverShard env pw port t) (\<lambda>_ v. cur v = vc) w"
proof -
  have del: "recovery_guard env vc nodes (acts w @ xs) (ADelete ''Pod'' (qt_primaryPod t) e)"
    if "fenced_at env (acts w) (qt_primaryPod t)" "length xs \<le> 2"
      "not_serving env (acts w @ xs) (podFQDN vc (qt_primaryPod t))" for xs e
    using that dead by (auto simp: recovery_guard_def may_delete_def)
  have take: "recovery_guard env vc nodes
      (u @ v @ [ADelete ''Pod'' (qt_primaryPod t) e, ADial (podFQDN vc (qt_replicaPod t)) p pw True])
      (ACmd (podFQDN vc (qt_replicaPod t)) [''CLUSTER'', ''FAILOVER'', ''TAKEOVER''] ok)"
    if "e = None \<or> e = Some NotFound" for u v e p pw ok
    using that dead unfolding append_assoc [symmetric] by (auto simp: recovery_guard_def takeover_def)
  show ?thesis unfolding recoverShard_def deletePodByName_def clusterFailoverTakeover_def
    using vc del take
    by (auto intro!: wp_rules wp_primaryFencedByK8s wp_primaryStillServing split: if_splits)
qed

lemma observed_nodes_mono: "observed_nodes env t nodes \<Longrightarrow> observed_nodes env (t @ u) nodes"
  unfolding observed_nodes_def by (metis append_assoc)

lemma not_disruptive [simp]:
  "is_read a \<Longrightarrow> \<not> disruptive a" "\<not> disruptive (APatchStatus s r)" "\<not> disruptive (ACmd h [''CLUSTER'', x] ok)"
  "\<not> disruptive (ACmd h [''INFO'', x] ok)"
  by (auto simp: disruptive_def is_read_def takeover_def split: action.splits)

lemma quorum_guard_harmless [simp]: "\<not> disruptive a \<Longrightarrow> quorum_guard env w t a"
  by (simp add: quorum_guard_def)

lemma wp_recoverableShards:
  assumes reads: "\<And>t a. is_read a \<Longrightarrow> G t a" and infos: "\<And>t h ok. G t (ACmd h [''INFO'', ''replication''] ok)"
    "\<And>t h ok. G t (ACmd h [''CLUSTER'', ''INFO''] ok)"
    and post: "\<And>ts v. grows w v \<Longrightarrow>
      (\<And>t. t \<in> set ts \<Longrightarrow> dead_primary (cur w) nodes (qt_primaryPod t) (qt_replicaPod t)) \<Longrightarrow> Q ts v"
  shows "wp G (recoverableShards env pw nodes) Q w"
  unfolding recoverableShards_def
proof (rule wp_bind, rule wp_map_state [where I = "grows w" and
      P = "\<lambda>_ r. \<forall>t. r = Some t \<longrightarrow> dead_primary (cur w) nodes (qt_primaryPod t) (qt_replicaPod t)"])
  fix n v assume n: "n \<in> set nodes" and v: "grows w v"
  show "wp G (recoverableShard env pw nodes n) (\<lambda>r v'. grows w v' \<and>
      (\<forall>t. r = Some t \<longrightarrow> dead_primary (cur w) nodes (qt_primaryPod t) (qt_replicaPod t))) v"
    using n v by (intro wp_recoverableShard reads infos) (auto simp: grows_cur intro: grows_trans)
next
  fix rs :: "quorumTakeoverTarget option list" and v assume v: "grows w v" and rs: "list_all2 (\<lambda>_ r. \<forall>t. r = Some t \<longrightarrow>
      dead_primary (cur w) nodes (qt_primaryPod t) (qt_replicaPod t)) nodes rs"
  have "dead_primary (cur w) nodes (qt_primaryPod t) (qt_replicaPod t)" if "Some t \<in> set rs" for t
    using rs that by (auto simp: list_all2_conv_all_nth in_set_conv_nth)
  then show "wp G (State_Monad.return (List.map_filter (\<lambda>r. r) rs)) Q v"
    by (intro wp_rules post v) (auto simp: List.map_filter_def)
qed simp

interpretation quorum_marker: debounce st_QuorumDownSince quorumDownLongEnough clearQuorumDown quorumRecoveryDownAfter
proof unfold_locales
  fix env :: env and w :: world and since :: int
  show "st_QuorumDownSince (vc_Status (cur (snd (run_state (clearQuorumDown env) w)))) = None"
    by (auto simp: clearQuorumDown_def setQuorumDown_def patch_status_def split: option.splits)
  show "fst (run_state (quorumDownLongEnough env) w) = False \<and>
      (\<exists>since. st_QuorumDownSince (vc_Status (cur (snd (run_state (quorumDownLongEnough env) w)))) = Some since \<and>
        env_now env (acts w) - seconds 1 < since \<and> since \<le> env_now env (acts w))"
    if "st_QuorumDownSince (vc_Status (cur w)) = None"
    using that whole_seconds_bounds [of "env_now env (acts w)"]
    by (auto simp: quorumDownLongEnough_def setQuorumDown_def patch_status_def seconds_def split: option.splits)
  show "run_state (quorumDownLongEnough env) w = (time_Sub (env_now env (acts w)) since \<ge> quorumRecoveryDownAfter, w)"
    if "st_QuorumDownSince (vc_Status (cur w)) = Some since"
    using that by (simp add: quorumDownLongEnough_def downElapsed_def)
qed

lemma wp_quorumDownLongEnough:
  assumes "\<And>s r. G (acts w) (APatchStatus s r)"
    and "\<And>v. Q False v"
    and "\<And>since. st_QuorumDownSince (vc_Status (cur w)) = Some since \<Longrightarrow>
      time_Sub (env_now env (acts w)) since \<ge> quorumRecoveryDownAfter \<Longrightarrow> Q True w"
  shows "wp G (quorumDownLongEnough env) Q w"
proof -
  have "wp G (quorumDownLongEnough env) (\<lambda>_ _. True) w"
    unfolding quorumDownLongEnough_def setQuorumDown_def using assms(1) by (auto intro!: wp_rules)
  moreover have "Q (fst (run_state (quorumDownLongEnough env) w)) (snd (run_state (quorumDownLongEnough env) w))"
  proof (cases "fst (run_state (quorumDownLongEnough env) w)")
    case True
    then obtain since where "st_QuorumDownSince (vc_Status (cur w)) = Some since"
      "time_Sub (env_now env (acts w)) since \<ge> quorumRecoveryDownAfter"
      "run_state (quorumDownLongEnough env) w = (True, w)" by (rule quorum_marker.gate_open)
    then show ?thesis using assms(3) by simp
  qed (simp add: assms(2))
  ultimately show ?thesis by (auto simp: wp_def)
qed

lemma wp_recoverBelowQuorum:
  assumes w0: "grows w0 w" and quorum: "below_quorum nodes" and obs: "observed_nodes env (acts w) nodes"
  shows "wp (quorum_guard env w0) (recoverBelowQuorum env pw port nodes) (\<lambda>_ _. True) w"
proof -
  have loop: "wp (quorum_guard env w0) (for_each ts (recoverShard env pw port)) Q v"
    if Q: "\<And>v. Q () v" and v: "grows w v" and ts: "\<And>t. t \<in> set ts \<Longrightarrow> dead_primary (cur w0) nodes (qt_primaryPod t) (qt_replicaPod t)"
      and marker: "st_QuorumDownSince (vc_Status (cur w0)) = Some since"
        "time_Sub (env_now env (acts v)) since \<ge> quorumRecoveryDownAfter" for ts v since Q
  proof (rule wp_guarantee)
    have "cur v = cur w0" using v w0 by (simp add: grows_cur)
    then show "wp (recovery_guard env (cur w0) nodes) (for_each ts (recoverShard env pw port)) Q v"
      using ts Q by (intro wp_for_each [where I = "\<lambda>v. cur v = cur w0"] wp_recoverShard) auto
  next
    fix us a assume "recovery_guard env (cur w0) nodes (acts v @ us) a"
    moreover have "observed_nodes env (acts v @ us) nodes"
      using v obs observed_nodes_mono by (auto simp: grows_def)
    ultimately show "quorum_guard env w0 (acts v @ us) a"
      using quorum marker by (auto simp: quorum_guard_def)
  qed
  show ?thesis unfolding recoverBelowQuorum_def
    using w0 by (auto intro!: wp_rules wp_recoverableShards wp_quorumDownLongEnough loop simp: grows_cur)
qed

lemma wp_dialAnyClusterPod:
  assumes reads: "\<And>t a. is_read a \<Longrightarrow> G t a" and post: "\<And>c v. grows w v \<Longrightarrow> Q c v"
  shows "wp G (dialAnyClusterPod env pw) Q w"
  unfolding dialAnyClusterPod_def
  by (intro wp_rules wp_first_state [where I = "grows w"]) (auto intro!: wp_rules reads post simp: grows_cur)

lemma wp_maybeRecoverClusterQuorum:
  "wp (quorum_guard env w) (maybeRecoverClusterQuorum env pw) (\<lambda>_ _. True) w"
proof -
  have read: "observed_nodes env (acts v @ [a, b]) (parseClusterNodes raw)"
    if "reply_text (env_cmd env (acts v @ [a]) h [''CLUSTER'', ''NODES'']) = Some raw" for v a b h raw
    using that unfolding observed_nodes_def
    by (intro exI [of _ "acts v @ [a]"] exI [of _ "[b]"] exI [of _ h] exI [of _ raw]) simp
  show ?thesis
    unfolding maybeRecoverClusterQuorum_def clearQuorumDown_def setQuorumDown_def clusterInfoMap_def clusterNodes_def
    by (auto intro!: wp_rules wp_dialAnyClusterPod wp_recoverBelowQuorum read
        simp: countMasters_def below_quorum_def)
qed

text \<open>
  C10. A recovery is forced only when nothing else can help and nobody is overruled. Whenever a pass
  deletes a pod or sends CLUSTER FAILOVER TAKEOVER, in every environment: the cluster is
  bootstrapped and recovery is enabled; the node table read in this pass has at most half of its
  primaries healthy; the marker is at least 45 seconds old; the deleted pod is that of an
  unhealthy primary of this cluster, fenced according to the API server and, at the last contact
  before the deletion, unreachable or not in state ok; and a takeover goes to a known replica of
  such a primary, right after the primary's pod was deleted.
\<close>

theorem maybeRecoverClusterQuorum_safe:
  assumes "run_state (maybeRecoverClusterQuorum env pw) w = (r, w')"
    and "issued w w' t a" and "disruptive a"
  shows "st_ClusterInitialized (vc_Status (cur w)) \<and> quorumRecoveryEnabled (cur w) \<and>
    (\<exists>nodes since u v. observed_nodes env t nodes \<and> below_quorum nodes \<and> recovery_guard env (cur w) nodes t a \<and>
       st_QuorumDownSince (vc_Status (cur w)) = Some since \<and> t = u @ v \<and>
       time_Sub (env_now env u) since \<ge> seconds 45)"
proof -
  have "wp (\<lambda>t a. \<not> disruptive a) (maybeRecoverClusterQuorum env pw) (\<lambda>_ _. True) w"
    if "\<not> (st_ClusterInitialized (vc_Status (cur w)) \<and> quorumRecoveryEnabled (cur w))"
    using that unfolding maybeRecoverClusterQuorum_def clearQuorumDown_def setQuorumDown_def
    by (auto intro!: wp_rules)
  then have "st_ClusterInitialized (vc_Status (cur w)) \<and> quorumRecoveryEnabled (cur w)"
    using wp_issued [OF _ assms(1,2)] assms(3) by blast
  moreover have "quorum_guard env w t a"
    by (rule wp_issued [OF wp_maybeRecoverClusterQuorum assms(1,2)])
  ultimately show ?thesis using assms(3) by (auto simp: quorum_guard_def quorumRecoveryDownAfter_def)
qed

theorem maybeRecoverClusterQuorum_safe_witness:
  "\<exists>t. issued lost_world (snd (run_state (maybeRecoverClusterQuorum lost_env []) lost_world)) t
         (ACmd (demo_host 3) takeover True) \<and>
     (\<exists>nodes. observed_nodes lost_env t nodes \<and> below_quorum nodes)"
proof -
  have "acts lost_world = []" by code_simp
  moreover have "ACmd (demo_host 3) takeover True \<in>
      set (acts (snd (run_state (maybeRecoverClusterQuorum lost_env []) lost_world)))" by code_simp
  ultimately obtain t where t: "issued lost_world (snd (run_state (maybeRecoverClusterQuorum lost_env []) lost_world)) t
      (ACmd (demo_host 3) takeover True)" using issued_member by blast
  have "disruptive (ACmd (demo_host 3) takeover True)" by code_simp
  then show ?thesis using t maybeRecoverClusterQuorum_safe [OF prod.collapse [symmetric] t] by blast
qed

text \<open>
  The majority gate counts every node flagged as a primary, also one that owns no slots and
  casts no vote. Two old primaries left behind by earlier failovers open the gate although two of
  the three primaries that own slots are healthy, a quorum that can still promote on its own.
\<close>

theorem countMasters_counts_slotless:
  "(case countMasters stale_nodes of (healthy, n) \<Rightarrow> healthy * 2 \<le> n) \<and>
   (case countMasters (filter (\<lambda>n. cn_slots n \<noteq> []) stale_nodes) of (healthy, n) \<Rightarrow> healthy * 2 > n)"
  by code_simp

section \<open>Safety of the proactive rollout\<close>

definition is_survey :: "action \<Rightarrow> bool" where
  "is_survey a = (case a of
      ACmd _ args _ \<Rightarrow> args \<in> {[''CLUSTER'', ''NODES''], [''INFO'', ''replication'']}
    | _ \<Rightarrow> is_read a)"

lemma is_survey_simps [simp]:
  "is_survey (ADial h p pw ok)" "is_survey (ACmd h [''CLUSTER'', ''NODES''] ok)"
  "is_survey (ACmd h [''INFO'', ''replication''] ok)"
  by (simp_all add: is_survey_def)

lemma emits_surveyCluster: "emits is_survey (surveyCluster env pw)"
  unfolding surveyCluster_def fillReplicaLag_def shardLag_def replicaLag_def dialShardPod_def
  by (auto intro!: emits_rules)

lemma keeps_cur_surveyCluster: "keeps_cur (surveyCluster env pw)"
  unfolding surveyCluster_def fillReplicaLag_def shardLag_def replicaLag_def dialShardPod_def
  by (auto intro!: hoare_rules)

lemma wp_performClusterRollout:
  assumes view: "rollout_view env (cur w0) (acts w0) sts pods" and w: "cur w = cur w0"
  shows "wp (cluster_rollout_guard env w0) (performClusterRollout env pw pods (sts_UpdateRevision sts)) (\<lambda>_ _. True) w"
proof -
  have survey: "cluster_rollout_guard env w0 t a" if "is_survey a" for t a
    using that by (auto simp: cluster_rollout_guard_def is_survey_def split: action.splits)
  have dial: "cluster_rollout_guard env w0 t (ADial h p pw ok)" for t h p pw ok
    by (simp add: cluster_rollout_guard_def)
  have del: "cluster_rollout_guard env w0 t (ADelete ''Pod'' pod r)"
    if "list_all rp_ready pods" "revOf pods pod \<noteq> sts_UpdateRevision sts" for t pod r
    using that view by (auto simp: cluster_rollout_guard_def)
  have fail: "cluster_rollout_guard env w0 t (ACmd (podFQDN (cur w0) pod) [''CLUSTER'', ''FAILOVER''] r)"
    if "list_all rp_ready pods" "revOf pods pod = sts_UpdateRevision sts" "readyOf pods pod" for t pod r
    using that view by (auto simp: cluster_rollout_guard_def)
  show ?thesis unfolding performClusterRollout_def
  proof (rule wp_bind, rule wp_emits [OF emits_surveyCluster keeps_cur_surveyCluster survey])
    fix ss v assume v: "grows w v"
    let ?sh = "map (\<lambda>s. \<lparr>cs_primary = sh_Primary s, cs_replicas = sh_Replicas s\<rparr>) ss"
    show "wp (cluster_rollout_guard env w0) (if ss = [] then State_Monad.return (True, None)
       else (case nextClusterRolloutStep pods ?sh (sts_UpdateRevision sts) of
             clusterRolloutNone \<Rightarrow> State_Monad.return (False, None)
           | clusterRolloutWait \<Rightarrow> State_Monad.return (True, None)
           | clusterRolloutRollReplica pod \<Rightarrow> do {
               err \<leftarrow> deletePodByName env pod; State_Monad.return (True, err) }
           | clusterRolloutRollMaster pod \<Rightarrow> do {
               err \<leftarrow> deletePodByName env pod; State_Monad.return (True, err) }
           | clusterRolloutFailover pod \<Rightarrow> do {
               _ \<leftarrow> clusterFailoverOnPod env pw pod; State_Monad.return (True, None) })) (\<lambda>_ _. True) v"
      using nextClusterRolloutStep_decision [where pods = pods and shards = ?sh and d = "sts_UpdateRevision sts"] v w
      unfolding deletePodByName_def clusterFailoverOnPod_def clusterFailover_def
      by (auto intro!: wp_rules del fail dial simp: grows_cur split: clusterRolloutAction.splits)
  qed
qed

text \<open>
  C11. The proactive rollout of a Cluster never restarts a pod beside an unready one and never hands a
  shard to an old pod. Whenever it deletes a pod, all pods of the cluster were present and ready
  and that pod was stale; whenever it sends CLUSTER FAILOVER, the target was a ready pod of the
  new revision.
\<close>

theorem driveClusterRollout_safe:
  assumes "run_state (driveClusterRollout env pw) w = (r, w')" and "issued w w' t a"
  shows "cluster_rollout_guard env w t a"
proof (rule wp_issued [OF _ assms])
  show "wp (cluster_rollout_guard env w) (driveClusterRollout env pw) (\<lambda>_ _. True) w"
    unfolding driveClusterRollout_def listRolloutPods_def
    by (auto intro!: wp_rules wp_performClusterRollout simp: rollout_view_def split: sum.splits)
qed

theorem driveClusterRollout_safe_witness:
  "\<exists>t. issued pair_world (snd (run_state (driveClusterRollout pair_env []) pair_world)) t (ADelete ''Pod'' ''demo-1'' None) \<and>
     cluster_rollout_guard pair_env pair_world t (ADelete ''Pod'' ''demo-1'' None)"
proof -
  have "acts pair_world = []" by code_simp
  moreover have "ADelete ''Pod'' ''demo-1'' None \<in>
      set (acts (snd (run_state (driveClusterRollout pair_env []) pair_world)))" by code_simp
  ultimately obtain t where t: "issued pair_world (snd (run_state (driveClusterRollout pair_env []) pair_world)) t
      (ADelete ''Pod'' ''demo-1'' None)" using issued_member by blast
  then show ?thesis using driveClusterRollout_safe [OF prod.collapse [symmetric] t] by blast
qed

end
