(* ===== verification/Cluster_Jobs.thy ===== *)
theory Cluster_Jobs
  imports Objects Cluster_Recovery
begin

text \<open>
  The one-shot Jobs of the Cluster topology (\<open>src/internal/controller/cluster.go\<close>,
  \<open>cluster_pershard.go\<close> and \<open>restore_assembly.go\<close>): the scripts that form, grow, shrink, rebalance
  and restore a cluster, byte for byte as the operator renders them, the Jobs that carry them, and
  the handlers that create a Job, wait for it and record its success in the status. The lemmas say
  when the operator shrinks a cluster: which StatefulSets it deletes and when it lowers
  \<open>status.lastAppliedReplicas\<close>, which holds the size of the single StatefulSet.
  What a script does when it runs is not modelled; the Job's status is an answer of the API server.
\<close>

section \<open>Strings and arguments\<close>

text \<open>Lines of text, each ended by a newline.\<close>

definition unlines :: "string list \<Rightarrow> string" where
  "unlines ls = concat (map (\<lambda>l. l @ [CHR 0x0A]) ls)"

text \<open>\<open>strings.Replace(s, old, new, 1)\<close> for a text to replace that is not empty.\<close>

fun ReplaceOne :: "string \<Rightarrow> string \<Rightarrow> string \<Rightarrow> string" where
  "ReplaceOne [] old new = []"
| "ReplaceOne (c # cs) old new =
     (if HasPrefix (c # cs) old then new @ drop (length old) (c # cs) else c # ReplaceOne cs old new)"

definition noAuthWarningArgs :: string where
  "noAuthWarningArgs = '' -a \"$VALKEY_PASSWORD\" --no-auth-warning''"
definition s3EndpointURLFlag :: string where
  "s3EndpointURLFlag = '' --endpoint-url \"$ENDPOINT_URL\"''"
definition defaultAWSCLIImage :: string where
  "defaultAWSCLIImage = ''amazon/aws-cli:2.15.0''"

text \<open>The blocks that compute \<open>tlsArgs\<close> and \<open>pwArg\<close>, which every builder repeats.\<close>

definition jobTLSArgs :: "ValkeyCluster \<Rightarrow> string" where
  "jobTLSArgs vc = (if tlsEnabled vc
     then '' --tls --cert '' @ tlsMountPath @ ''/tls.crt --key '' @ tlsMountPath @ ''/tls.key --cacert ''
          @ tlsMountPath @ ''/ca.crt --insecure''
     else [])"

definition jobPwArg :: "string \<Rightarrow> string" where
  "jobPwArg password = (if password \<noteq> [] then noAuthWarningArgs else [])"

text \<open>\<open>for i := a; i < b; i++\<close>.\<close>

definition from_to :: "int \<Rightarrow> int \<Rightarrow> int list" where
  "from_to a b = map (\<lambda>k. a + int k) [0..<nat (b - a)]"

text \<open>The pods a scale operation addresses: by ordinal in the single layout, by shard otherwise.\<close>

definition ordinalHost :: "ValkeyCluster \<Rightarrow> int \<Rightarrow> string" where
  "ordinalHost vc i = fqdn (statefulSetName vc @ ''-'' @ Itoa i) (headlessServiceName vc) (vc_Namespace vc)"

definition joiningOrdinals :: "ValkeyCluster \<Rightarrow> int list" where
  "joiningOrdinals vc = from_to (st_LastAppliedReplicas (vc_Status vc)) (totalReplicas vc)"

definition leavingOrdinals :: "ValkeyCluster \<Rightarrow> int list" where
  "leavingOrdinals vc = from_to (totalReplicas vc) (st_LastAppliedReplicas (vc_Status vc))"

definition joiningShards :: "ValkeyCluster \<Rightarrow> int list" where
  "joiningShards vc = from_to (oldShardsOf vc) (shardCountOf vc)"

definition leavingShards :: "ValkeyCluster \<Rightarrow> int list" where
  "leavingShards vc = from_to (shardCountOf vc) (oldShardsOf vc)"

definition joiningHosts :: "ValkeyCluster \<Rightarrow> string list" where
  "joiningHosts vc = concat (map (shardPodHosts vc) (joiningShards vc))"

section \<open>The scripts\<close>

definition asmDetectSnippet :: "string \<Rightarrow> string \<Rightarrow> string \<Rightarrow> int \<Rightarrow> string" where
  "asmDetectSnippet pwArg tlsArgs host port =
     unlines [
     ''ASM_FLAG=\"\"'',
     ''__ver=$(valkey-cli'' @ pwArg @ tlsArgs @ '' -h '' @ host @ '' -p '' @ Itoa port @ '' INFO server 2>/dev/null | sed -n 's/^valkey_version:'' @ [CHR 0x5C] @ ''([0-9]*'' @ [CHR 0x5C] @ ''.[0-9]*'' @ [CHR 0x5C] @ '').*/'' @ [CHR 0x5C] @ ''1/p' | tr -d '' @ [CHR 0x27] @ [CHR 0x5C] @ ''r')'',
     ''__maj=${__ver%%.*}; __min=${__ver#*.}'',
     ''if [ \"${__maj:-0}\" -gt 9 ] 2>/dev/null || { [ \"${__maj:-0}\" -eq 9 ] && [ \"${__min:-0}\" -ge 1 ]; } 2>/dev/null; then'',
     ''  ASM_FLAG=\" --cluster-use-atomic-slot-migration\"'',
     ''  echo \"valkey ${__ver} >= 9.1: resharding via atomic slot migration (ASM)\"'',
     ''fi'']"

text \<open>The pre-flight loop of the bootstrap script.\<close>

definition waitForPods :: "podRef list \<Rightarrow> string \<Rightarrow> string \<Rightarrow> int \<Rightarrow> string" where
  "waitForPods pods pwArg tlsArgs port =
     unlines [
     ''for n in'' @ concat (map (\<lambda>p. '' '' @ pr_host p) pods) @ ''; do'',
     ''  until valkey-cli'' @ pwArg @ tlsArgs @ '' -h $n -p '' @ Itoa port @ '' ping >/dev/null 2>&1; do'',
     ''    echo waiting for $n; sleep 2;'',
     ''  done'',
     ''done'']"

definition joinNode :: "string \<Rightarrow> int \<Rightarrow> string" where
  "joinNode host port =
     host @ '':'' @ Itoa port"

text \<open>\<open>masters[s]\<close> and \<open>replicas[s]\<close> of the two maps that group the pods by shard.\<close>

definition masterOf :: "podRef list \<Rightarrow> int \<Rightarrow> string" where
  "masterOf pods s =
     (case find (\<lambda>p. pr_ord p = 0 \<and> pr_shard p = s) (rev pods) of Some p \<Rightarrow> pr_host p | None \<Rightarrow> [])"

definition replicasOf :: "podRef list \<Rightarrow> int \<Rightarrow> string list" where
  "replicasOf pods s =
     map pr_host (filter (\<lambda>p. pr_ord p \<noteq> 0 \<and> pr_shard p = s) pods)"

definition attachReplicaCmds :: "string \<Rightarrow> string \<Rightarrow> int \<Rightarrow> string \<Rightarrow> string \<Rightarrow> string" where
  "attachReplicaCmds pwArg tlsArgs port master rep =
     unlines [
     ''MID=$(valkey-cli'' @ pwArg @ tlsArgs @ '' -h '' @ master @ '' -p '' @ Itoa port @ '' cluster myid)'',
     ''valkey-cli'' @ pwArg @ tlsArgs @ '' --cluster add-node '' @ joinNode rep port @ '' '' @ joinNode master port @ '' --cluster-slave --cluster-master-id \"$MID\"'']"

definition buildShardCreateCmds :: "ValkeyCluster \<Rightarrow> podRef list \<Rightarrow> int \<Rightarrow> string \<Rightarrow> string \<Rightarrow> string" where
  "buildShardCreateCmds vc pods port tlsArgs pwArg =
     unlines [
     ''valkey-cli'' @ pwArg @ tlsArgs @ '' --cluster create '' @ Join (map (\<lambda>s. joinNode (masterOf pods s) port) (range_int (shardCountOf vc))) '' '' @ '' --cluster-replicas 0 --cluster-yes'']
     @ concat (map (\<lambda>s. concat (map (attachReplicaCmds pwArg tlsArgs port (masterOf pods s)) (replicasOf pods s))) (range_int (shardCountOf vc)))"

definition bootstrapScript :: "ValkeyCluster \<Rightarrow> string \<Rightarrow> string" where
  "bootstrapScript vc password =
     (let pods = clusterDataPods vc; port = dataPort vc; tlsArgs = jobTLSArgs vc; pwArg = jobPwArg password
      in unlines [''#!/bin/sh'', ''set -eu''] @ waitForPods pods pwArg tlsArgs port
         @ (if perShardEnabled vc then buildShardCreateCmds vc pods port tlsArgs pwArg
            else unlines [
              ''valkey-cli'' @ pwArg @ tlsArgs @ '' --cluster create '' @ Join (map (\<lambda>p. joinNode (pr_host p) port) pods) '' '' @ '' --cluster-replicas '' @ Itoa (replicasPerShardOf vc) @ '' --cluster-yes'']))"

definition addNodeCmd :: "ValkeyCluster \<Rightarrow> string \<Rightarrow> string \<Rightarrow> int \<Rightarrow> string \<Rightarrow> int \<Rightarrow> string" where
  "addNodeCmd vc pwArg tlsArgs port existing i =
     (let newNode = joinNode (ordinalHost vc i) port
      in unlines [
         ''echo 'adding '' @ newNode @ [CHR 0x27] @ ''; valkey-cli'' @ pwArg @ tlsArgs @ '' --cluster add-node '' @ newNode @ '' '' @ existing])"

text \<open>The rebalance loop of the scale-up script: until every wanted master owns slots, twelve times at most.\<close>

definition rebalanceLoop :: "string \<Rightarrow> string \<Rightarrow> string \<Rightarrow> string \<Rightarrow> int \<Rightarrow> int \<Rightarrow> string" where
  "rebalanceLoop pwArg tlsArgs existing existingHost port wantMasters =
     unlines [
     ''want_masters='' @ Itoa wantMasters,
     ''for attempt in $(seq 1 12); do'',
     ''  echo \"rebalance attempt $attempt\"'',
     ''  valkey-cli'' @ pwArg @ tlsArgs @ '' --cluster rebalance '' @ existing @ '' --cluster-use-empty-masters$ASM_FLAG --cluster-yes || true'',
     ''  size=$(valkey-cli'' @ pwArg @ tlsArgs @ '' -h '' @ existingHost @ '' -p '' @ Itoa port @ '' cluster info | tr -d '' @ [CHR 0x27] @ [CHR 0x5C] @ ''r' | awk -F: '/^cluster_size:/{print $2}')'',
     ''  size=${size:-0}'',
     ''  echo \"cluster_size=$size want=$want_masters\"'',
     ''  [ \"$size\" -ge \"$want_masters\" ] && { echo 'rebalance complete'; break; }'',
     ''  sleep 5'',
     ''done'']"

text \<open>The script of the single layout; \<open>*vc.Spec.Shards\<close> is set, which the caller of the Job has checked.\<close>

definition scaleUpScript :: "ValkeyCluster \<Rightarrow> string \<Rightarrow> string" where
  "scaleUpScript vc password =
     (let port = dataPort vc; tlsArgs = jobTLSArgs vc; pwArg = jobPwArg password;
          existingHost = ordinalHost vc 0; existing = joinNode existingHost port
      in unlines [''#!/bin/sh'', ''set -eu'']
         @ concat (map (addNodeCmd vc pwArg tlsArgs port existing) (joiningOrdinals vc))
         @ (if AutoReshardEnabled (vc_Spec vc)
            then asmDetectSnippet pwArg tlsArgs existingHost port @ rebalanceLoop pwArg tlsArgs existing existingHost port (shardCountOf vc)
            else []))"

definition waitHostCmd :: "string \<Rightarrow> string \<Rightarrow> int \<Rightarrow> string \<Rightarrow> string" where
  "waitHostCmd pwArg tlsArgs port h =
     unlines [
     ''until valkey-cli'' @ pwArg @ tlsArgs @ '' -h '' @ h @ '' -p '' @ Itoa port @ '' ping >/dev/null 2>&1; do echo waiting '' @ h @ ''; sleep 2; done'']"

definition addReplicaCmds :: "string \<Rightarrow> string \<Rightarrow> int \<Rightarrow> string \<Rightarrow> string \<Rightarrow> string" where
  "addReplicaCmds pwArg tlsArgs port masterHost rep =
     unlines [
     ''MID=$(valkey-cli'' @ pwArg @ tlsArgs @ '' -h '' @ masterHost @ '' -p '' @ Itoa port @ '' cluster myid | tr -d '' @ [CHR 0x27] @ [CHR 0x5C] @ ''r')'',
     ''in_cluster '' @ rep @ '' || valkey-cli'' @ pwArg @ tlsArgs @ '' --cluster add-node '' @ joinNode rep port @ '' '' @ joinNode masterHost port @ '' --cluster-slave --cluster-master-id \"$MID\"'']"

definition addShardCmds :: "string \<Rightarrow> string \<Rightarrow> int \<Rightarrow> string \<Rightarrow> string list \<Rightarrow> string" where
  "addShardCmds pwArg tlsArgs port existing hosts =
     unlines [
     ''in_cluster '' @ hd hosts @ '' || valkey-cli'' @ pwArg @ tlsArgs @ '' --cluster add-node '' @ joinNode (hd hosts) port @ '' '' @ existing]
     @ concat (map (addReplicaCmds pwArg tlsArgs port (hd hosts)) (tl hosts))"

definition shardRebalanceLoop :: "string \<Rightarrow> string \<Rightarrow> string \<Rightarrow> string \<Rightarrow> int \<Rightarrow> int \<Rightarrow> string" where
  "shardRebalanceLoop pwArg tlsArgs existing existingHost port wantMasters =
     unlines [
     ''want_masters='' @ Itoa wantMasters,
     ''for attempt in $(seq 1 12); do'',
     ''  valkey-cli'' @ pwArg @ tlsArgs @ '' --cluster rebalance '' @ existing @ '' --cluster-use-empty-masters$ASM_FLAG --cluster-yes || true'',
     ''  size=$(valkey-cli'' @ pwArg @ tlsArgs @ '' -h '' @ existingHost @ '' -p '' @ Itoa port @ '' cluster info | tr -d '' @ [CHR 0x27] @ [CHR 0x5C] @ ''r' | awk -F: '/^cluster_size:/{print $2}')'',
     ''  [ \"${size:-0}\" -ge \"$want_masters\" ] && break'',
     ''  sleep 5'',
     ''done'']"

definition buildShardScaleUpScript :: "ValkeyCluster \<Rightarrow> int \<Rightarrow> string \<Rightarrow> string \<Rightarrow> string" where
  "buildShardScaleUpScript vc port tlsArgs pwArg =
     (let existingHost = hd (shardPodHosts vc 0); existing = joinNode existingHost port
      in unlines [
         ''#!/bin/sh'',
         ''set -eu'',
         ''in_cluster() { valkey-cli'' @ pwArg @ tlsArgs @ '' -h '' @ existingHost @ '' -p '' @ Itoa port @ '' cluster nodes | grep -q \"$1\"; }'']
         @ concat (map (waitHostCmd pwArg tlsArgs port) (joiningHosts vc))
         @ concat (map (\<lambda>s. addShardCmds pwArg tlsArgs port existing (shardPodHosts vc s)) (joiningShards vc))
         @ (if AutoReshardEnabled (vc_Spec vc)
            then asmDetectSnippet pwArg tlsArgs existingHost port @ shardRebalanceLoop pwArg tlsArgs existing existingHost port (shardCountOf vc)
            else []))"

text \<open>The loop of the scale-down script: drain a leaving node, refuse to go on while it owns slots, remove it.\<close>

definition drainLoop :: "string \<Rightarrow> string \<Rightarrow> int \<Rightarrow> string \<Rightarrow> string list \<Rightarrow> string" where
  "drainLoop pwArg tlsArgs port existing leaving =
     unlines [
     ''for L in'' @ concat (map (\<lambda>h. '' '' @ h) leaving) @ ''; do'',
     ''  echo \"--- leaving $L ---\"'',
     ''  L_ID=$(valkey-cli'' @ pwArg @ tlsArgs @ '' -h $HOST -p '' @ Itoa port @ '' cluster nodes | awk -v p=\"$L\" '$2 ~ p {print $1; exit}')'',
     ''  if [ -z \"$L_ID\" ]; then'',
     ''    echo \"node $L not in cluster, skipping\"; continue'',
     ''  fi'',
     ''  # Reshard everything it owns away (best-effort: a no-op on an already-empty'',
     ''  # master can exit non-zero, which is fine '' @ [CHR 0xE2, CHR 0x80, CHR 0x94] @ '' the ownership gate below is the'',
     ''  # authoritative safety check).'',
     ''  valkey-cli'' @ pwArg @ tlsArgs @ '' --cluster reshard '' @ existing @ '' '' @ [CHR 0x5C],
     ''    --cluster-from \"$L_ID\" --cluster-to \"$REMAINING_MASTER_ID\" '' @ [CHR 0x5C],
     ''    --cluster-slots 16384$ASM_FLAG --cluster-yes || true'',
     ''  # SAFETY GATE: refuse to remove a master that still owns slots. Deleting it'',
     ''  # (and, once this Job succeeds, the StatefulSet pod behind it) would orphan'',
     ''  # those slots and lose their data. Fail the Job loudly so the operator leaves'',
     ''  # LastAppliedReplicas '' @ [CHR 0xE2, CHR 0x80, CHR 0x94] @ '' and therefore the StatefulSet size '' @ [CHR 0xE2, CHR 0x80, CHR 0x94] @ '' untouched.'',
     ''  OWNED=$(valkey-cli'' @ pwArg @ tlsArgs @ '' -h $HOST -p '' @ Itoa port @ '' cluster nodes | awk -v id=\"$L_ID\" '$1==id' | sed -e 's/.* connected//' -e 's/['' @ ''[:space:]]//g')'',
     ''  if [ -n \"$OWNED\" ]; then'',
     ''    echo \"FATAL: $L ($L_ID) still owns slots [$OWNED] after reshard; refusing del-node to avoid data loss\"'',
     ''    exit 1'',
     ''  fi'',
     ''  valkey-cli'' @ pwArg @ tlsArgs @ '' --cluster del-node '' @ existing @ '' \"$L_ID\"'',
     ''done'']"

definition scaleDownScript :: "ValkeyCluster \<Rightarrow> string \<Rightarrow> string" where
  "scaleDownScript vc password =
     (let port = dataPort vc; tlsArgs = jobTLSArgs vc; pwArg = jobPwArg password;
          hostBase = ordinalHost vc 0; existing = joinNode hostBase port
      in unlines [
         ''#!/bin/sh'',
         ''set -eu'',
         ''HOST='' @ hostBase]
         @ asmDetectSnippet pwArg tlsArgs ''$HOST'' port
         @ unlines [
         ''REMAINING_MASTER_ID=$(valkey-cli'' @ pwArg @ tlsArgs @ '' -h $HOST -p '' @ Itoa port @ '' cluster nodes | awk '/myself/ {print $1; exit}')'',
         ''if [ -z \"$REMAINING_MASTER_ID\" ]; then'',
         ''  echo \"no surviving master found\"; exit 1'',
         ''fi'',
         ''echo \"remaining master (pod-0): $REMAINING_MASTER_ID\"'']
         @ drainLoop pwArg tlsArgs port existing (map (ordinalHost vc) (leavingOrdinals vc))
         @ (if AutoReshardEnabled (vc_Spec vc)
            then unlines [
              ''echo 'rebalancing surviving masters'' @ [CHR 0x27],
              ''valkey-cli'' @ pwArg @ tlsArgs @ '' --cluster rebalance '' @ existing @ ''$ASM_FLAG --cluster-yes'']
            else []))"

definition removeReplicaCmd :: "string \<Rightarrow> string \<Rightarrow> int \<Rightarrow> string \<Rightarrow> string \<Rightarrow> string" where
  "removeReplicaCmd pwArg tlsArgs port hostBase rep =
     unlines [
     ''RID=$(valkey-cli'' @ pwArg @ tlsArgs @ '' -h '' @ rep @ '' -p '' @ Itoa port @ '' cluster myid | tr -d '' @ [CHR 0x27] @ [CHR 0x5C] @ ''r'); valkey-cli'' @ pwArg @ tlsArgs @ '' --cluster del-node '' @ joinNode hostBase port @ '' \"$RID\" || true'']"

definition drainShardCmds :: "ValkeyCluster \<Rightarrow> string \<Rightarrow> string \<Rightarrow> int \<Rightarrow> string \<Rightarrow> int \<Rightarrow> string" where
  "drainShardCmds vc pwArg tlsArgs port hostBase s =
     (let hosts = shardPodHosts vc s
      in unlines [
         ''echo '--- leaving shard '' @ Itoa s @ '' ---'' @ [CHR 0x27],
         ''L_ID=$(valkey-cli'' @ pwArg @ tlsArgs @ '' -h '' @ hd hosts @ '' -p '' @ Itoa port @ '' cluster myid | tr -d '' @ [CHR 0x27] @ [CHR 0x5C] @ ''r')'',
         ''for try in 1 2 3 4 5 6; do'',
         ''  valkey-cli'' @ pwArg @ tlsArgs @ '' --cluster reshard '' @ joinNode hostBase port @ '' --cluster-from \"$L_ID\" --cluster-to \"$KEEP_ID\" --cluster-slots 16384$ASM_FLAG --cluster-yes || true'',
         ''  OWNED=$(valkey-cli'' @ pwArg @ tlsArgs @ '' -h '' @ hostBase @ '' -p '' @ Itoa port @ '' cluster nodes | awk -v id=\"$L_ID\" '$1==id' | sed -e 's/.* connected//' -e 's/['' @ ''[:space:]]//g')'',
         ''  [ -z \"$OWNED\" ] && break'',
         ''  echo \"reshard incomplete (owns [$OWNED]); fixing open slots and retrying\"'',
         ''  valkey-cli'' @ pwArg @ tlsArgs @ '' --cluster fix '' @ joinNode hostBase port @ '' --cluster-yes || true'',
         ''  sleep 3'',
         ''done'',
         ''if [ -n \"$OWNED\" ]; then echo \"FATAL: shard '' @ Itoa s @ '' master still owns slots [$OWNED]; refusing del-node\"; exit 1; fi'']
         @ concat (map (removeReplicaCmd pwArg tlsArgs port hostBase) (tl hosts))
         @ unlines [
           ''valkey-cli'' @ pwArg @ tlsArgs @ '' --cluster del-node '' @ joinNode hostBase port @ '' \"$L_ID\"''])"

definition buildShardScaleDownScript :: "ValkeyCluster \<Rightarrow> int \<Rightarrow> string \<Rightarrow> string \<Rightarrow> string" where
  "buildShardScaleDownScript vc port tlsArgs pwArg =
     (let hostBase = hd (shardPodHosts vc 0)
      in unlines [
         ''#!/bin/sh'',
         ''set -eu'',
         ''KEEP_ID=$(valkey-cli'' @ pwArg @ tlsArgs @ '' -h '' @ hostBase @ '' -p '' @ Itoa port @ '' cluster myid | tr -d '' @ [CHR 0x27] @ [CHR 0x5C] @ ''r')'']
         @ asmDetectSnippet pwArg tlsArgs hostBase port
         @ unlines [
           ''valkey-cli'' @ pwArg @ tlsArgs @ '' --cluster fix '' @ joinNode hostBase port @ '' --cluster-yes || true'']
         @ concat (map (drainShardCmds vc pwArg tlsArgs port hostBase) (leavingShards vc)))"

definition reshardScript :: "ValkeyCluster \<Rightarrow> string \<Rightarrow> string" where
  "reshardScript vc password =
     (let port = dataPort vc; tlsArgs = jobTLSArgs vc; pwArg = jobPwArg password; existingHost = ordinalHost vc 0
      in unlines [''#!/bin/sh'', ''set -eu''] @ asmDetectSnippet pwArg tlsArgs existingHost port
         @ unlines [
           ''echo 'rebalancing'' @ [CHR 0x27],
           ''valkey-cli'' @ pwArg @ tlsArgs @ '' --cluster rebalance '' @ joinNode existingHost port @ '' --cluster-use-empty-masters$ASM_FLAG --cluster-yes''])"

text \<open>The part of the assembly script without parameters.\<close>

definition assemblyBody :: "string" where
  "assemblyBody =
     unlines [
     [],
     ''# 1) wait until every node answers PING (the restore pods may still be settling)'',
     ''i=0'',
     ''while [ \"$i\" -lt \"$TOTAL\" ]; do'',
     ''  until VC -h \"$(node \"$i\")\" -p \"$PORT\" ping >/dev/null 2>&1; do echo \"waiting $(node \"$i\")\"; sleep 2; done'',
     ''  i=$((i + 1))'',
     ''done'',
     ''# 2) per master (from manifest): give it the slots it must own that the restored'',
     ''#    RDB didn't already claim. A cluster-master RDB carries slot ownership ONLY'',
     ''#    for data-bearing slots (Valkey AUX slot-info), so on load the node owns a'',
     ''#    SPARSE subset of its range '' @ [CHR 0xE2, CHR 0x80, CHR 0x94] @ '' ADDSLOTSRANGE over the whole range would fail'',
     ''#    (\"Slot N is already busy\"). We compute the gap (manifest slots MINUS the'',
     ''#    already-owned ones) and add only those, as collapsed contiguous ranges. The'',
     ''#    config epoch is left as-is: it's carried distinct per shard from the source'',
     ''#    RDBs, and SET-CONFIG-EPOCH rejects an already-non-zero epoch (collisions, if'',
     ''#    any, are auto-resolved by gossip after MEET).'',
     ''expand() { tr ',' '' @ [CHR 0x27] @ [CHR 0x5C] @ ''n' | awk -F- 'NF==2{for(k=$1;k<=$2;k++)print k; next}{print $1}'; }'',
     ''while read -r LINE; do'',
     ''  case \"$LINE\" in '' @ [CHR 0x5C] @ ''#*|\"\") continue ;; esac'',
     ''  IDX=$(printf '%s'' @ [CHR 0x5C] @ ''n' \"$LINE\" | awk '{print $1}' | sed 's/^shard-//')'',
     ''  SLOTS=$(printf '%s'' @ [CHR 0x5C] @ ''n' \"$LINE\" | awk '{print $3}')'',
     ''  [ -n \"$SLOTS\" ] || { echo \"FATAL: shard $IDX has no slots in manifest\"; exit 1; }'',
     ''  MH=\"$(node \"$IDX\")\"'',
     ''  printf '%s' \"$SLOTS\" | expand | sort -n > /tmp/want.$IDX'',
     ''  VC -h \"$MH\" -p \"$PORT\" cluster nodes | tr -d '' @ [CHR 0x27] @ [CHR 0x5C] @ ''r' '' @ [CHR 0x5C],
     ''    | awk '/myself/{for(j=9;j<=NF;j++){if($j ~ /^[0-9]+-[0-9]+$/){split($j,r,\"-\");for(k=r[1];k<=r[2];k++)print k}else if($j ~ /^[0-9]+$/)print $j}}' '' @ [CHR 0x5C],
     ''    | sort -n > /tmp/have.$IDX'',
     ''  awk 'NR==FNR{h[$1]=1;next} !($1 in h){print $1}' /tmp/have.$IDX /tmp/want.$IDX '' @ [CHR 0x5C],
     ''    | awk 'NR==1{lo=$1;p=$1;next} $1==p+1{p=$1;next} {print lo,p;lo=$1;p=$1} END{if(NR>0)print lo,p}' '' @ [CHR 0x5C],
     ''    | while read -r a b; do echo \"  shard $IDX: addslotsrange $a $b\"; VC -h \"$MH\" -p \"$PORT\" cluster addslotsrange \"$a\" \"$b\"; done'',
     ''done < /work/manifest.txt'',
     ''# 3) MEET mesh from pod-0. The node's gossip address has no IP (announce-ip is'',
     ''#    unset '' @ [CHR 0xE2, CHR 0x86, CHR 0x92] @ '' \":port@cport,hostname\"), and CLUSTER MEET needs an IP, so resolve'',
     ''#    each pod's FQDN with getent (present in the valkey image) and meet by IP.'',
     ''M0=\"$(node 0)\"'',
     ''i=1'',
     ''while [ \"$i\" -lt \"$TOTAL\" ]; do'',
     ''  FQ=\"$(node \"$i\")\"'',
     ''  IP=$(getent hosts \"$FQ\" | awk '{print $1; exit}')'',
     ''  [ -n \"$IP\" ] || { echo \"FATAL: cannot resolve $FQ\"; exit 1; }'',
     ''  VC -h \"$M0\" -p \"$PORT\" cluster meet \"$IP\" \"$PORT\"'',
     ''  i=$((i + 1))'',
     ''done'',
     ''# 4) wait for gossip to converge (pod-0 knows every node)'',
     ''ok=0; n=0'',
     ''while [ \"$n\" -lt 150 ]; do'',
     ''  KN=$(VC -h \"$M0\" -p \"$PORT\" cluster info | tr -d '' @ [CHR 0x27] @ [CHR 0x5C] @ ''r' | awk -F: '/cluster_known_nodes:/{print $2+0}')'',
     ''  [ \"$KN\" = \"$TOTAL\" ] && { ok=1; break; }'',
     ''  sleep 2; n=$((n + 1))'',
     ''done'',
     ''[ \"$ok\" = 1 ] || { echo \"FATAL: gossip did not converge (${KN:-0}/$TOTAL known)\"; exit 1; }'',
     ''# 5) REPLICATE: replica ordinals (>= SHARDS) attach round-robin to masters.'',
     ''o=\"$SHARDS\"'',
     ''while [ \"$o\" -lt \"$TOTAL\" ]; do'',
     ''  SIDX=$(( (o - SHARDS) % SHARDS ))'',
     ''  MID=$(VC -h \"$(node \"$SIDX\")\" -p \"$PORT\" cluster myid | tr -d '' @ [CHR 0x27] @ [CHR 0x5C] @ ''r')'',
     ''  [ -n \"$MID\" ] || { echo \"FATAL: empty master id for shard $SIDX\"; exit 1; }'',
     ''  echo \"replica $(node \"$o\") -> master shard $SIDX ($MID)\"'',
     ''  # A replica can only replicate a master it has already learned about via gossip.'',
     ''  # NB: valkey-cli exits 0 even on an \"ERR Unknown node ...\" reply, so we must'',
     ''  # check the reply text (== OK) '' @ [CHR 0xE2, CHR 0x80, CHR 0x94] @ '' not the exit code '' @ [CHR 0xE2, CHR 0x80, CHR 0x94] @ '' and retry (bounded) until'',
     ''  # gossip converges and the command actually takes.'',
     ''  rn=0'',
     ''  until [ \"$(VC -h \"$(node \"$o\")\" -p \"$PORT\" cluster replicate \"$MID\" 2>&1 | tr -d '' @ [CHR 0x27] @ [CHR 0x5C] @ ''r')\" = \"OK\" ]; do'',
     ''    rn=$((rn + 1)); [ \"$rn\" -ge 90 ] && { echo \"FATAL: replica $(node \"$o\") could not replicate $MID\"; exit 1; }'',
     ''    echo \"retry replicate $(node \"$o\")\"; sleep 2'',
     ''  done'',
     ''  o=$((o + 1))'',
     ''done'',
     ''# 6) wait for cluster_state:ok with all slots assigned'',
     ''n=0'',
     ''while [ \"$n\" -lt 150 ]; do'',
     ''  INFO=$(VC -h \"$M0\" -p \"$PORT\" cluster info | tr -d '' @ [CHR 0x27] @ [CHR 0x5C] @ ''r')'',
     ''  ST=$(printf '%s'' @ [CHR 0x5C] @ ''n' \"$INFO\" | awk -F: '/cluster_state:/{print $2}')'',
     ''  SA=$(printf '%s'' @ [CHR 0x5C] @ ''n' \"$INFO\" | awk -F: '/cluster_slots_assigned:/{print $2+0}')'',
     ''  if [ \"$ST\" = ok ] && [ \"$SA\" = 16384 ]; then echo \"cluster assembled: state ok, 16384 slots\"; exit 0; fi'',
     ''  sleep 2; n=$((n + 1))'',
     ''done'',
     ''echo \"FATAL: cluster did not reach state ok with all slots\"'',
     ''VC -h \"$M0\" -p \"$PORT\" cluster info || true'',
     ''exit 1'']"

definition assemblyScript :: "ValkeyCluster \<Rightarrow> string \<Rightarrow> string" where
  "assemblyScript vc password =
     unlines [
     ''#!/bin/sh'',
     ''set -eu'',
     ''PORT='' @ Itoa (dataPort vc),
     ''SHARDS='' @ Itoa (shardCountOf vc),
     ''TOTAL='' @ Itoa (totalReplicas vc),
     ''node() { echo \"'' @ statefulSetName vc @ ''-$1.'' @ headlessServiceName vc @ ''.'' @ vc_Namespace vc @ ''.svc.cluster.local\"; }'',
     ''VC() { valkey-cli'' @ jobPwArg password @ jobTLSArgs vc @ '' \"$@\"; }''] @ assemblyBody"

definition fetchScript :: "S3Spec \<Rightarrow> string \<Rightarrow> string" where
  "fetchScript s3 manifestKey =
     unlines [
     ''set -eu'',
     ''echo \"fetching restore manifest s3://'' @ s3_Bucket s3 @ ''/'' @ manifestKey @ ''\"'',
     ''aws s3 cp \"s3://'' @ s3_Bucket s3 @ ''/'' @ manifestKey @ ''\" /work/manifest.txt'' @ (if s3_Endpoint s3 \<noteq> [] then s3EndpointURLFlag else []),
     ''echo \"manifest:\"; cat /work/manifest.txt'']"

section \<open>The Jobs\<close>

text \<open>
  \<open>buildClusterOpJob\<close>; the other builders repeat its text with their own script and container
  name. A Job is built without an init container unless one is given.
\<close>

definition buildClusterOpJob :: "ValkeyCluster \<Rightarrow> string \<Rightarrow> string \<Rightarrow> string \<Rightarrow> string \<Rightarrow> Job" where
  "buildClusterOpJob vc name containerName password script =
     \<lparr>job_Name = name, job_Labels = labelsFor vc, job_PodLabels = podLabelsFor vc (labelsFor vc),
      job_Container = containerName, job_Image = sp_Image (vc_Spec vc), job_Script = script,
      job_PasswordSecret = (if password \<noteq> [] then Some (passwordSecretName vc) else None),
      job_TLSSecret = (if tlsEnabled vc then Some (tlsSecretName vc) else None), job_Init = None,
      job_BackoffLimit = 3, job_TTL = 600, job_Succeeded = 0, job_Failed = 0\<rparr>"

definition buildBootstrapJob :: "ValkeyCluster \<Rightarrow> string \<Rightarrow> string \<Rightarrow> Job" where
  "buildBootstrapJob vc password name =
     buildClusterOpJob vc name ''bootstrap'' password (bootstrapScript vc password)"

definition buildScaleUpJob :: "ValkeyCluster \<Rightarrow> string \<Rightarrow> string \<Rightarrow> Job" where
  "buildScaleUpJob vc password name = buildClusterOpJob vc name ''scaleup'' password
     (if perShardEnabled vc then buildShardScaleUpScript vc (dataPort vc) (jobTLSArgs vc) (jobPwArg password)
      else scaleUpScript vc password)"

definition buildScaleDownJob :: "ValkeyCluster \<Rightarrow> string \<Rightarrow> string \<Rightarrow> Job" where
  "buildScaleDownJob vc password name = buildClusterOpJob vc name ''scaledown'' password
     (if perShardEnabled vc then buildShardScaleDownScript vc (dataPort vc) (jobTLSArgs vc) (jobPwArg password)
      else scaleDownScript vc password)"

definition buildReshardJob :: "ValkeyCluster \<Rightarrow> string \<Rightarrow> string \<Rightarrow> Job" where
  "buildReshardJob vc password name =
     buildClusterOpJob vc name ''reshard'' password (reshardScript vc password)"

definition secretRef :: "string \<Rightarrow> string \<Rightarrow> EnvSource" where
  "secretRef secretName key = EnvSecret secretName key"

definition fetchEnv :: "S3Spec \<Rightarrow> (string \<times> EnvSource) list" where
  "fetchEnv s3 =
     [(''AWS_ACCESS_KEY_ID'', secretRef (s3_CredentialsSecret s3) ''AWS_ACCESS_KEY_ID''),
      (''AWS_SECRET_ACCESS_KEY'', secretRef (s3_CredentialsSecret s3) ''AWS_SECRET_ACCESS_KEY''),
      (''AWS_DEFAULT_REGION'', EnvValue (s3_Region s3)), (''HOME'', EnvValue ''/tmp'')]
     @ (if s3_Endpoint s3 \<noteq> [] then [(''ENDPOINT_URL'', EnvValue (s3_Endpoint s3))] else [])"

definition clusterRestoreManifestKey :: "string \<Rightarrow> string" where
  "clusterRestoreManifestKey sourceKey =
     (if Contains sourceKey ''shard-{shard}.rdb'' then ReplaceOne sourceKey ''shard-{shard}.rdb'' ''manifest.txt''
      else ReplaceOne sourceKey ''{shard}.rdb'' ''manifest.txt'')"

text \<open>\<^const>\<open>None\<close> where the code dereferences a nil \<open>restoreFrom\<close> or a nil \<open>s3\<close>.\<close>

definition buildRestoreAssemblyJob :: "ValkeyCluster \<Rightarrow> string \<Rightarrow> string \<Rightarrow> Job option" where
  "buildRestoreAssemblyJob vc password name =
     (case sp_RestoreFrom (vc_Spec vc) of
        None \<Rightarrow> None
      | Some rs \<Rightarrow> (case rs_S3 rs of
          None \<Rightarrow> None
        | Some s3 \<Rightarrow> Some ((buildClusterOpJob vc name ''assemble'' password (assemblyScript vc password))
            \<lparr>job_Init := Some \<lparr>ic_Name = ''fetch-manifest'',
               ic_Image = (if rs_AWSCLIImage rs = [] then defaultAWSCLIImage else rs_AWSCLIImage rs),
               ic_Script = fetchScript s3 (clusterRestoreManifestKey (rs_SourceKey rs)), ic_Env = fetchEnv s3\<rparr>\<rparr>)))"

section \<open>Forming the cluster\<close>

text \<open>The condition that records the formation, and the status that goes with it.\<close>

definition markInitialized :: "env \<Rightarrow> string \<Rightarrow> string \<Rightarrow> unit op" where
  "markInitialized env reason msg = do {
     vc \<leftarrow> get_vc;
     now \<leftarrow> ask (env_now env);
     modify_status (\<lambda>s. s\<lparr>st_ClusterInitialized := True, st_LastAppliedReplicas := totalReplicas vc,
       st_Conditions := setCondition (st_Conditions s)
         (condition ''ClusterInitialized'' ConditionTrue reason msg (vc_Generation vc) now)\<rparr>) }"

definition adoptFormedCluster :: "env \<Rightarrow> string \<Rightarrow> string \<Rightarrow> outcome op" where
  "adoptFormedCluster env reason msg = do {
     markInitialized env reason msg;
     err \<leftarrow> patch_status env;
     State_Monad.return (returns err) }"

definition clusterFormed :: "env \<Rightarrow> string \<Rightarrow> bool op" where
  "clusterFormed env password = do {
     vc \<leftarrow> get_vc;
     cert \<leftarrow> loadMTLSClientCert env vc;
     c \<leftarrow> dialReplClient env (clusterAnyPodHost vc) (dataPort vc) password (tlsEnabled vc) cert;
     case c of
       None \<Rightarrow> State_Monad.return False
     | Some c \<Rightarrow> do {
         r \<leftarrow> rdb_Do env c [''CLUSTER'', ''INFO''];
         State_Monad.return (case r of
             Inr (RText out) \<Rightarrow> Contains out ''cluster_state:ok'' \<and> Contains out ''cluster_slots_assigned:16384''
           | _ \<Rightarrow> False) } }"

definition jobFailedMsg :: "string \<Rightarrow> string" where
  "jobFailedMsg name = ''Job '' @ name @ '' failed; inspect kubectl logs job/'' @ name"

definition runClusterBootstrap :: "env \<Rightarrow> string \<Rightarrow> outcome op" where
  "runClusterBootstrap env password = do {
     vc \<leftarrow> get_vc;
     formed \<leftarrow> clusterFormed env password;
     if formed then adoptFormedCluster env ''AdoptedExisting''
       ''cluster already formed on the data plane; adopted without re-bootstrap''
     else do {
       let name = vc_Name vc @ ''-bootstrap'';
       j \<leftarrow> ask (\<lambda>t. env_job env t name);
       case j of
         Inl e \<Rightarrow>
           if e = NotFound then do {
             err \<leftarrow> create_obj env (KJob (buildBootstrapJob vc password name));
             State_Monad.return (returns err) }
           else State_Monad.return (Fail e)
       | Inr existing \<Rightarrow>
           if job_Succeeded existing > 0 then do {
             emit (AMetric ''bootstrapTotal'' ''success'');
             markInitialized env ''BootstrapSucceeded'' (''Job '' @ name @ '' completed'');
             err \<leftarrow> patch_status env;
             State_Monad.return (returns err) }
           else if job_Failed existing > job_BackoffLimit existing then do {
             emit (AMetric ''bootstrapTotal'' ''failure'');
             setPhase env ''BootstrapFailed'' (jobFailedMsg name) }
           else State_Monad.return (Requeue 0) } }"

definition runClusterRestoreAssembly :: "env \<Rightarrow> string \<Rightarrow> outcome op" where
  "runClusterRestoreAssembly env password = do {
     vc \<leftarrow> get_vc;
     formed \<leftarrow> clusterFormed env password;
     if formed then adoptFormedCluster env ''RestoreAssembled'' ''cluster assembled from restoreFrom adopted''
     else do {
       let name = vc_Name vc @ ''-restore-assembly'';
       j \<leftarrow> ask (\<lambda>t. env_job env t name);
       case j of
         Inl e \<Rightarrow>
           if e = NotFound then
             (case buildRestoreAssemblyJob vc password name of
                None \<Rightarrow> State_Monad.return Panic
              | Some job \<Rightarrow> do {
                  err \<leftarrow> create_obj env (KJob job);
                  State_Monad.return (case err of None \<Rightarrow> Requeue (seconds 10) | Some e \<Rightarrow> Fail e) })
           else State_Monad.return (Fail e)
       | Inr existing \<Rightarrow>
           if job_Succeeded existing > 0 then do {
             markInitialized env ''RestoreAssembled'' (''Job '' @ name @ '' assembled the restored cluster'');
             err \<leftarrow> patch_status env;
             State_Monad.return (returns err) }
           else if job_Failed existing > job_BackoffLimit existing then State_Monad.return (Requeue (seconds 15))
           else State_Monad.return (Requeue (seconds 10)) } }"

definition bootstrapOrRestore :: "env \<Rightarrow> string \<Rightarrow> outcome op" where
  "bootstrapOrRestore env password = do {
     vc \<leftarrow> get_vc;
     if sp_RestoreFrom (vc_Spec vc) \<noteq> None then runClusterRestoreAssembly env password
     else runClusterBootstrap env password }"

section \<open>Changing the membership\<close>

definition applyTotal :: "env \<Rightarrow> kerr option op" where
  "applyTotal env = do {
     vc \<leftarrow> get_vc;
     modify_status (\<lambda>s. s\<lparr>st_LastAppliedReplicas := totalReplicas vc\<rparr>);
     patch_status env }"

definition runClusterScaleUp :: "env \<Rightarrow> string \<Rightarrow> outcome op" where
  "runClusterScaleUp env password = do {
     vc \<leftarrow> get_vc;
     let name = vc_Name vc @ ''-scaleup'';
     j \<leftarrow> ask (\<lambda>t. env_job env t name);
     case j of
       Inl e \<Rightarrow>
         if e = NotFound then do {
           err \<leftarrow> create_obj env (KJob (buildScaleUpJob vc password name));
           State_Monad.return (returns err) }
         else State_Monad.return (Fail e)
     | Inr existing \<Rightarrow>
         if job_Succeeded existing > 0 then do {
           emit (AMetric ''scaleEventsTotal'' ''up/success'');
           err \<leftarrow> applyTotal env;
           case err of
             Some e \<Rightarrow> State_Monad.return (Fail e)
           | None \<Rightarrow> do {
               err \<leftarrow> delete_obj env ''Job'' (job_Name existing);
               State_Monad.return (returns err) } }
         else if job_Failed existing > job_BackoffLimit existing then do {
           emit (AMetric ''scaleEventsTotal'' ''up/failure'');
           setPhase env ''ScaleUpFailed'' (jobFailedMsg name) }
         else State_Monad.return (Requeue 0) }"

text \<open>One iteration of \<open>deleteLeavingShards\<close>; an object that is gone already is no error.\<close>

definition ignoreNotFound :: "kerr option \<Rightarrow> kerr option" where
  "ignoreNotFound err = (if err = Some NotFound then None else err)"

definition deleteShard :: "env \<Rightarrow> ValkeyCluster \<Rightarrow> int \<Rightarrow> kerr option op" where
  "deleteShard env vc s = do {
     err \<leftarrow> delete_obj env ''StatefulSet'' (shardStsName vc s);
     case ignoreNotFound err of
       Some e \<Rightarrow> State_Monad.return (Some e)
     | None \<Rightarrow> do {
         err \<leftarrow> delete_obj env ''Service'' (shardHeadlessName vc s);
         State_Monad.return (ignoreNotFound err) } }"

definition deleteLeavingShards :: "env \<Rightarrow> kerr option op" where
  "deleteLeavingShards env = do {
     vc \<leftarrow> get_vc;
     first_state (deleteShard env vc) (leavingShards vc) }"

definition runClusterScaleDown :: "env \<Rightarrow> string \<Rightarrow> outcome op" where
  "runClusterScaleDown env password = do {
     vc \<leftarrow> get_vc;
     let name = vc_Name vc @ ''-scaledown'';
     j \<leftarrow> ask (\<lambda>t. env_job env t name);
     case j of
       Inl e \<Rightarrow>
         if e = NotFound then do {
           err \<leftarrow> create_obj env (KJob (buildScaleDownJob vc password name));
           State_Monad.return (returns err) }
         else State_Monad.return (Fail e)
     | Inr existing \<Rightarrow>
         if job_Succeeded existing > 0 then do {
           emit (AMetric ''scaleEventsTotal'' ''down/success'');
           err \<leftarrow> (if perShardEnabled vc then deleteLeavingShards env else State_Monad.return None);
           case err of
             Some e \<Rightarrow> State_Monad.return (Fail e)
           | None \<Rightarrow> do {
               err \<leftarrow> applyTotal env;
               case err of
                 Some e \<Rightarrow> State_Monad.return (Fail e)
               | None \<Rightarrow> do {
                   err \<leftarrow> delete_obj env ''Job'' (job_Name existing);
                   State_Monad.return (returns err) } } }
         else if job_Failed existing > job_BackoffLimit existing then do {
           emit (AMetric ''scaleEventsTotal'' ''down/failure'');
           setPhase env ''ScaleDownFailed'' (jobFailedMsg name) }
         else State_Monad.return (Requeue 0) }"

definition runClusterReshard :: "env \<Rightarrow> string \<Rightarrow> string \<Rightarrow> outcome op" where
  "runClusterReshard env password tok = do {
     vc \<leftarrow> get_vc;
     let name = vc_Name vc @ ''-reshard'';
     j \<leftarrow> ask (\<lambda>t. env_job env t name);
     case j of
       Inl e \<Rightarrow>
         if e = NotFound then do {
           err \<leftarrow> create_obj env (KJob (buildReshardJob vc password name));
           State_Monad.return (case err of None \<Rightarrow> Requeue (seconds 5) | Some e \<Rightarrow> Fail e) }
         else State_Monad.return (Fail e)
     | Inr existing \<Rightarrow>
         if job_Succeeded existing > 0 then do {
           emit (AMetric ''scaleEventsTotal'' ''reshard/success'');
           modify_status (\<lambda>s. s\<lparr>st_LastReshardToken := tok\<rparr>);
           err \<leftarrow> patch_status env;
           case err of
             Some e \<Rightarrow> State_Monad.return (Fail e)
           | None \<Rightarrow> do {
               err \<leftarrow> delete_obj env ''Job'' (job_Name existing);
               State_Monad.return (returns err) } }
         else if job_Failed existing > job_BackoffLimit existing then do {
           emit (AMetric ''scaleEventsTotal'' ''reshard/failure'');
           setPhase env ''ReshardFailed'' (jobFailedMsg name) }
         else State_Monad.return (Requeue (seconds 5)) }"

text \<open>
  \<open>err != nil || !result.IsZero()\<close> and the two results of the dispatchers: an outcome, and whether
  the caller returns it. Each stage reads the status as the stage before it left it.
\<close>

definition inFlight :: "outcome \<Rightarrow> bool" where
  "inFlight r \<longleftrightarrow> r \<noteq> Requeue 0"

definition reshardRequested :: "ValkeyCluster \<Rightarrow> bool" where
  "reshardRequested vc \<longleftrightarrow> mget (vc_Annotations vc) reshardAnnotation \<noteq> []
     \<and> mget (vc_Annotations vc) reshardAnnotation \<noteq> st_LastReshardToken (vc_Status vc)"

definition scaleUpStage :: "env \<Rightarrow> string \<Rightarrow> int \<Rightarrow> bool \<Rightarrow> outcome op" where
  "scaleUpStage env password want allReady = do {
     vc \<leftarrow> get_vc;
     if allReady \<and> st_LastAppliedReplicas (vc_Status vc) < want then runClusterScaleUp env password
     else State_Monad.return (Requeue 0) }"

definition scaleDownStage :: "env \<Rightarrow> string \<Rightarrow> int \<Rightarrow> outcome op" where
  "scaleDownStage env password want = do {
     vc \<leftarrow> get_vc;
     if st_LastAppliedReplicas (vc_Status vc) > want then runClusterScaleDown env password
     else State_Monad.return (Requeue 0) }"

definition reshardStage :: "env \<Rightarrow> string \<Rightarrow> bool \<Rightarrow> outcome op" where
  "reshardStage env password allReady = do {
     vc \<leftarrow> get_vc;
     if allReady \<and> reshardRequested vc
     then runClusterReshard env password (mget (vc_Annotations vc) reshardAnnotation)
     else State_Monad.return (Requeue 0) }"

definition maybeReconcileClusterScaling :: "env \<Rightarrow> string \<Rightarrow> int \<Rightarrow> bool \<Rightarrow> (outcome \<times> bool) op" where
  "maybeReconcileClusterScaling env password want allReady = do {
     vc \<leftarrow> get_vc;
     if \<not> st_ClusterInitialized (vc_Status vc) then State_Monad.return (Requeue 0, False)
     else do {
       r \<leftarrow> scaleUpStage env password want allReady;
       if inFlight r then State_Monad.return (r, True)
       else do {
         r \<leftarrow> scaleDownStage env password want;
         if inFlight r then State_Monad.return (r, True)
         else do {
           r \<leftarrow> reshardStage env password allReady;
           State_Monad.return (r, inFlight r) } } } }"

definition maybeDriveClusterRollout :: "env \<Rightarrow> string \<Rightarrow> int \<Rightarrow> (outcome \<times> bool) op" where
  "maybeDriveClusterRollout env password want = do {
     vc \<leftarrow> get_vc;
     if \<not> proactiveRolloutEnabled vc \<or> \<not> st_ClusterInitialized (vc_Status vc)
        \<or> st_LastAppliedReplicas (vc_Status vc) \<noteq> want
     then State_Monad.return (Requeue 0, False)
     else do {
       (rolling, err) \<leftarrow> driveClusterRollout env password;
       State_Monad.return (case err of
           Some e \<Rightarrow> (Fail e, True)
         | None \<Rightarrow> if rolling then (Requeue (seconds 5), True) else (Requeue 0, False)) } }"

section \<open>When a cluster shrinks\<close>

text \<open>
  During a run from \<open>w\<close>, the API server reported success of the scale-down Job; a shard's
  StatefulSet was deleted.
\<close>

definition job_succeeded :: "env \<Rightarrow> action list \<Rightarrow> string \<Rightarrow> bool" where
  "job_succeeded env t name \<longleftrightarrow> (case env_job env t name of Inr j \<Rightarrow> job_Succeeded j > 0 | Inl _ \<Rightarrow> False)"

definition drained :: "env \<Rightarrow> world \<Rightarrow> action list \<Rightarrow> bool" where
  "drained env w t \<longleftrightarrow> (\<exists>k. length (acts w) \<le> k \<and> k \<le> length t
     \<and> job_succeeded env (take k t) (vc_Name (cur w) @ ''-scaledown''))"

definition shard_deleted :: "ValkeyCluster \<Rightarrow> int \<Rightarrow> action list \<Rightarrow> bool" where
  "shard_deleted vc s t \<longleftrightarrow> ADelete ''StatefulSet'' (shardStsName vc s) None \<in> set t
     \<or> ADelete ''StatefulSet'' (shardStsName vc s) (Some NotFound) \<in> set t"

definition lastApplied :: "ValkeyCluster \<Rightarrow> int" where
  "lastApplied vc = st_LastAppliedReplicas (vc_Status vc)"

text \<open>The name belongs to a shard that the spec no longer wants.\<close>

definition leaving_name :: "ValkeyCluster \<Rightarrow> string \<Rightarrow> bool" where
  "leaving_name vc n \<longleftrightarrow> perShardEnabled vc \<and> n \<in> shardStsName vc ` set (leavingShards vc)"

text \<open>What has happened before the applied size is lowered.\<close>

definition may_shrink :: "env \<Rightarrow> world \<Rightarrow> action list \<Rightarrow> bool" where
  "may_shrink env w t \<longleftrightarrow> drained env w t \<and>
     (perShardEnabled (cur w) \<longrightarrow> (\<forall>s \<in> set (leavingShards (cur w)). shard_deleted (cur w) s t))"

definition shrink_guard :: "env \<Rightarrow> world \<Rightarrow> action list \<Rightarrow> action \<Rightarrow> bool" where
  "shrink_guard env w t a = (case a of
       ADelete kind n r \<Rightarrow> kind = ''Job'' \<or> leaving_name (cur w) n \<and> drained env w t
     | APatchStatus st r \<Rightarrow> st_LastAppliedReplicas st < lastApplied (cur w) \<longrightarrow>
         st_LastAppliedReplicas st = totalReplicas (cur w) \<and> may_shrink env w t
     | _ \<Rightarrow> True)"

text \<open>
  The object in the middle of a run: only the status may have changed, and the applied size is the
  one at the start, raised to the wanted one, or lowered to it.
\<close>

definition scaling_state :: "env \<Rightarrow> world \<Rightarrow> world \<Rightarrow> bool" where
  "scaling_state env w v \<longleftrightarrow> (\<exists>st. cur v = (cur w)\<lparr>vc_Status := st\<rparr>) \<and> (\<exists>xs. acts v = acts w @ xs) \<and>
     (lastApplied (cur v) = lastApplied (cur w) \<or> lastApplied (cur v) = totalReplicas (cur w) \<and>
      (lastApplied (cur w) \<le> totalReplicas (cur w) \<or> may_shrink env w (acts v)))"

lemma set_from_to [simp]: "set (from_to a b) = {a..<b}"
proof -
  have "x \<in> (\<lambda>k. a + int k) ` {0..<nat (b - a)}" if "a \<le> x" "x < b" for x
    using that by (intro image_eqI [of _ _ "nat (x - a)"]) auto
  then show ?thesis by (auto simp: from_to_def)
qed

lemma status_only [simp]:
  "totalReplicas (vc\<lparr>vc_Status := st\<rparr>) = totalReplicas vc"
  "perShardEnabled (vc\<lparr>vc_Status := st\<rparr>) = perShardEnabled vc"
  "shardStsName (vc\<lparr>vc_Status := st\<rparr>) = shardStsName vc"
  "shardHeadlessName (vc\<lparr>vc_Status := st\<rparr>) = shardHeadlessName vc"
  by (simp_all add: totalReplicas_def perShardEnabled_def shardStsName_def shardHeadlessName_def fun_eq_iff)

lemma drained_mono [simp]:
  assumes "drained env w t"
  shows "drained env w (t @ u)"
proof -
  obtain k where "length (acts w) \<le> k" "k \<le> length t" "job_succeeded env (take k t) (vc_Name (cur w) @ ''-scaledown'')"
    using assms by (auto simp: drained_def)
  then show ?thesis unfolding drained_def by (intro exI [of _ k]) simp
qed

lemma drained_now: "job_succeeded env (acts w @ xs) (vc_Name (cur w) @ ''-scaledown'') \<Longrightarrow> drained env w (acts w @ xs)"
  unfolding drained_def by (intro exI [of _ "length (acts w @ xs)"]) simp

lemma shard_deleted_mono [simp]: "shard_deleted vc s t \<Longrightarrow> shard_deleted vc s (t @ u)"
  by (auto simp: shard_deleted_def)

lemma may_shrink_mono [simp]: "may_shrink env w t \<Longrightarrow> may_shrink env w (t @ u)"
  by (simp add: may_shrink_def)

lemma may_shrink_later [simp]: "may_shrink env w (t @ u) \<Longrightarrow> may_shrink env w (t @ u @ v)"
  by (metis append_assoc may_shrink_mono)

lemma shrink_guard_simps [simp]:
  "shrink_guard env w t (ADelete kind n r) \<longleftrightarrow> kind = ''Job'' \<or> leaving_name (cur w) n \<and> drained env w t"
  "shrink_guard env w t (AMetric m l)" "shrink_guard env w t (ACreate ob r)"
  by (simp_all add: shrink_guard_def)

lemma scaling_state_appended [simp]: "scaling_state env w v \<Longrightarrow> scaling_state env w (appended v a)"
  by (auto simp: scaling_state_def)

lemma scaling_state_total: "scaling_state env w v \<Longrightarrow> totalReplicas (cur v) = totalReplicas (cur w)"
  by (auto simp: scaling_state_def)

lemma scaling_state_status [simp]:
  "scaling_state env w v \<Longrightarrow> vc = cur v \<Longrightarrow> st_LastAppliedReplicas st = lastApplied vc \<Longrightarrow>
   scaling_state env w (v\<lparr>cur := vc\<lparr>vc_Status := st\<rparr>\<rparr>)"
  by (auto simp: scaling_state_def lastApplied_def)

lemma scaling_state_patch:
  "scaling_state env w v \<Longrightarrow> st_LastAppliedReplicas st = lastApplied (cur v) \<Longrightarrow>
   shrink_guard env w (acts v) (APatchStatus st r)"
  by (auto simp: scaling_state_def shrink_guard_def)

lemma wp_patch_shrink:
  assumes "scaling_state env w v" and "\<And>r v'. scaling_state env w v' \<Longrightarrow> Q r v'"
  shows "wp (shrink_guard env w) (patch_status env) Q v"
  using assms by (auto intro!: wp_rules scaling_state_patch simp: lastApplied_def)

lemma wp_setPhase_shrink:
  assumes "scaling_state env w v" and "\<And>r v'. scaling_state env w v' \<Longrightarrow> Q r v'"
  shows "wp (shrink_guard env w) (setPhase env reason msg) Q v"
  using assms unfolding setPhase_def
  by (auto intro!: wp_bind wp_get_vc wp_ask wp_modify_status wp_return wp_patch_shrink
      simp: lastApplied_def setAvailable_def setReadyCondition_def)

text \<open>Recording the wanted size, when it is not below the applied one or the shards are gone.\<close>

lemma wp_applyTotal:
  assumes "scaling_state env w v" and "lastApplied (cur w) \<le> totalReplicas (cur w) \<or> may_shrink env w (acts v)"
    and "\<And>r v'. scaling_state env w v' \<Longrightarrow> Q r v'"
  shows "wp (shrink_guard env w) (applyTotal env) Q v"
proof -
  have "scaling_state env w (v\<lparr>cur := (cur v)\<lparr>vc_Status := (vc_Status (cur v))\<lparr>st_LastAppliedReplicas := totalReplicas (cur v)\<rparr>\<rparr>\<rparr>)"
    using assms(1,2) by (auto simp: scaling_state_def lastApplied_def)
  then show ?thesis unfolding applyTotal_def using assms(3)
    by (auto intro!: wp_bind wp_get_vc wp_modify_status wp_patch_shrink)
qed

lemma wp_runClusterScaleUp:
  assumes "scaling_state env w v" and "lastApplied (cur v) < totalReplicas (cur w)"
    and "\<And>r v'. scaling_state env w v' \<Longrightarrow> Q r v'"
  shows "wp (shrink_guard env w) (runClusterScaleUp env password) Q v"
proof -
  have "lastApplied (cur w) \<le> totalReplicas (cur w)" using assms(1,2) by (auto simp: scaling_state_def)
  then show ?thesis unfolding runClusterScaleUp_def using assms
    by (auto intro!: wp_rules wp_applyTotal wp_setPhase_shrink)
qed

lemma wp_deleteShard:
  assumes "leaving_name (cur w) (shardStsName vc s)" and "drained env w (acts v)" and "scaling_state env w v"
    and "\<And>r v'. scaling_state env w v' \<Longrightarrow> drained env w (acts v') \<Longrightarrow> (r = None \<longrightarrow> shard_deleted vc s (acts v')) \<Longrightarrow> Q r v'"
  shows "wp (shrink_guard env w) (deleteShard env vc s) Q v"
  unfolding deleteShard_def using assms
  by (auto intro!: wp_rules assms(4) simp: shardHeadlessName_def ignoreNotFound_def shard_deleted_def split: if_splits)

text \<open>The leaving shards of the object in memory are those at the start, as the applied size is.\<close>

lemma leaving_same:
  assumes "cur v = (cur w)\<lparr>vc_Status := st\<rparr>" and "lastApplied (cur v) = lastApplied (cur w)"
  shows "leavingShards (cur v) = leavingShards (cur w)"
  using assms by (simp add: leavingShards_def shardCountOf_def oldShardsOf_def perSts_def
      replicasPerShardOf_def lastApplied_def)

lemma wp_deleteLeavingShards:
  assumes "scaling_state env w v" and "lastApplied (cur v) = lastApplied (cur w)"
    and "drained env w (acts v)" and "perShardEnabled (cur w)"
    and "\<And>r v'. scaling_state env w v' \<Longrightarrow> (r = None \<longrightarrow> may_shrink env w (acts v')) \<Longrightarrow> Q r v'"
  shows "wp (shrink_guard env w) (deleteLeavingShards env) Q v"
proof -
  obtain st where st: "cur v = (cur w)\<lparr>vc_Status := st\<rparr>" using assms(1) by (auto simp: scaling_state_def)
  note same = leaving_same [OF st assms(2)]
  have del: "shard_deleted (cur v) = shard_deleted (cur w)" by (simp add: st shard_deleted_def fun_eq_iff)
  have "wp (shrink_guard env w) (first_state (deleteShard env (cur v)) (leavingShards (cur v))) Q v"
  proof (rule wp_first_state_each [where I = "\<lambda>u. scaling_state env w u \<and> drained env w (acts u)"
        and P = "shard_deleted (cur v)"])
    fix s u assume s: "s \<in> set (leavingShards (cur v))" and u: "scaling_state env w u \<and> drained env w (acts u)"
    have "leaving_name (cur w) (shardStsName (cur v) s)" using s assms(4) same by (simp add: leaving_name_def st)
    then show "wp (shrink_guard env w) (deleteShard env (cur v) s) (\<lambda>r v'. case r of
        None \<Rightarrow> (scaling_state env w v' \<and> drained env w (acts v')) \<and> shard_deleted (cur v) s (acts v')
      | Some y \<Rightarrow> Q (Some y) v') u"
      using u assms(5) by (auto intro!: wp_deleteShard split: option.splits)
  next
    fix u assume "scaling_state env w u \<and> drained env w (acts u)"
      and "\<And>s. s \<in> set (leavingShards (cur v)) \<Longrightarrow> shard_deleted (cur v) s (acts u)"
    then show "Q None u" using assms(5) same del by (auto simp: may_shrink_def)
  qed (use assms in simp_all)
  then show ?thesis unfolding deleteLeavingShards_def by (auto intro!: wp_bind wp_get_vc)
qed

lemma wp_runClusterScaleDown:
  assumes "scaling_state env w v" and "lastApplied (cur v) > totalReplicas (cur w)"
    and "\<And>r v'. scaling_state env w v' \<Longrightarrow> Q r v'"
  shows "wp (shrink_guard env w) (runClusterScaleDown env password) Q v"
proof -
  have same: "lastApplied (cur v) = lastApplied (cur w)" "perShardEnabled (cur v) = perShardEnabled (cur w)"
    "vc_Name (cur v) = vc_Name (cur w)"
    using assms(1,2) by (auto simp: scaling_state_def)
  have now: "drained env w (acts v)"
    if "env_job env (acts v) (vc_Name (cur w) @ ''-scaledown'') = Inr j" "job_Succeeded j > 0" for j
  proof -
    obtain xs where "acts v = acts w @ xs" using assms(1) by (auto simp: scaling_state_def)
    then show ?thesis using that drained_now [of env w xs] by (simp add: job_succeeded_def)
  qed
  show ?thesis unfolding runClusterScaleDown_def using assms same now
    by (auto intro!: wp_rules wp_applyTotal wp_setPhase_shrink wp_deleteLeavingShards simp: may_shrink_def)
qed

lemma wp_runClusterReshard:
  assumes "scaling_state env w v" and "\<And>r v'. scaling_state env w v' \<Longrightarrow> Q r v'"
  shows "wp (shrink_guard env w) (runClusterReshard env password tok) Q v"
  unfolding runClusterReshard_def using assms
  by (auto intro!: wp_bind wp_get_vc wp_Let wp_ask wp_sum wp_if wp_option wp_return wp_emit wp_create_obj
      wp_delete_obj wp_modify_status wp_patch_shrink wp_setPhase_shrink simp: lastApplied_def)

lemma wp_maybeReconcileClusterScaling:
  "wp (shrink_guard env w) (maybeReconcileClusterScaling env password (totalReplicas (cur w)) allReady)
     (\<lambda>r v. scaling_state env w v) w"
proof -
  have start: "scaling_state env w w" by (auto simp: scaling_state_def intro: exI [of _ "vc_Status (cur w)"])
  show ?thesis
    unfolding maybeReconcileClusterScaling_def scaleUpStage_def scaleDownStage_def reshardStage_def
    using start by (auto intro!: wp_bind wp_get_vc wp_if wp_return wp_runClusterScaleUp
        wp_runClusterScaleDown wp_runClusterReshard simp: lastApplied_def)
qed

text \<open>The size that the operator asks of the single StatefulSet follows the applied size.\<close>

lemma statefulSetReplicas_applied:
  "sp_Topology (vc_Spec vc) = TopologyCluster \<Longrightarrow> statefulSetReplicas vc = max (totalReplicas vc) (lastApplied vc)"
  by (auto simp: statefulSetReplicas_def Let_def lastApplied_def)

text \<open>
  C36. One pass of the membership operations shrinks nothing before its slots are gone. A
  StatefulSet or Service is deleted only when it belongs to a shard beyond those the spec wants,
  in the per-shard layout, and only after the API server has reported, in this very pass, that the
  scale-down Job succeeded. \<open>status.lastAppliedReplicas\<close> is written lower than it was only after
  that report, to the size the spec wants, and after the StatefulSet of every leaving shard is
  deleted or known to be gone. The size the operator asks of the single StatefulSet is therefore
  the same or larger after the pass, unless the Job succeeded.
\<close>

theorem maybeReconcileClusterScaling_shrinks:
  assumes "run_state (maybeReconcileClusterScaling env password (totalReplicas (cur w)) allReady) w = (r, w')"
    and "sp_Topology (vc_Spec (cur w)) = TopologyCluster"
  shows "(\<forall>t a. issued w w' t a \<longrightarrow> shrink_guard env w t a) \<and>
    (statefulSetReplicas (cur w') < statefulSetReplicas (cur w) \<longrightarrow> may_shrink env w (acts w'))"
proof -
  note wp = wp_maybeReconcileClusterScaling [of env w password allReady]
  have "scaling_state env w w'" using wp_result [OF wp assms(1)] .
  then have "sp_Topology (vc_Spec (cur w')) = TopologyCluster" "totalReplicas (cur w') = totalReplicas (cur w)"
    and "lastApplied (cur w') < lastApplied (cur w) \<longrightarrow> totalReplicas (cur w) < lastApplied (cur w) \<longrightarrow> may_shrink env w (acts w')"
    using assms(2) by (auto simp: scaling_state_def)
  then show ?thesis using wp_issued [OF wp assms(1)] assms(2)
    by (auto simp: statefulSetReplicas_applied max_def split: if_splits)
qed

text \<open>
  A per-shard cluster of three wanted shards that still has four, or five, and an API server that
  reports the given scale-down Job as succeeded.
\<close>

definition sharded_world :: "int \<Rightarrow> int \<Rightarrow> world" where
  "sharded_world applied wanted = \<lparr>cur = demo_cluster
     \<lparr>vc_Spec := (vc_Spec demo_cluster)\<lparr>sp_PerShardWorkload := Some True, sp_Shards := Some wanted\<rparr>,
      vc_Status := (vc_Status demo_cluster)\<lparr>st_LastAppliedReplicas := 2 * applied\<rparr>\<rparr>, acts = []\<rparr>"

definition job_env :: "Job \<Rightarrow> env" where
  "job_env j = answering_env\<lparr>env_job := (\<lambda>_ n. if n = job_Name j then Inr j else Inl NotFound)\<rparr>"

definition drain_job :: "int \<Rightarrow> int \<Rightarrow> Job" where
  "drain_job applied wanted =
     (buildScaleDownJob (cur (sharded_world applied wanted)) [] ''demo-scaledown'')\<lparr>job_Succeeded := 1\<rparr>"

lemmas sharded_defs = sharded_world_def demo_cluster_def demo_vc_def

lemma sharded_world_simps [simp]:
  "sp_Topology (vc_Spec (cur (sharded_world a n))) = TopologyCluster"
  "acts (sharded_world a n) = []"
  by (simp_all add: sharded_defs)

theorem maybeReconcileClusterScaling_shrinks_witness:
  "let w = sharded_world 4 3; env = job_env (drain_job 4 3);
       w' = snd (run_state (maybeReconcileClusterScaling env [] (totalReplicas (cur w)) True) w)
   in statefulSetReplicas (cur w') = 6 \<and> statefulSetReplicas (cur w) = 8 \<and> may_shrink env w (acts w')"
proof -
  let ?w = "sharded_world 4 3" and ?env = "job_env (drain_job 4 3)"
  let ?run = "run_state (maybeReconcileClusterScaling ?env [] (totalReplicas (cur ?w)) True) ?w"
  have "statefulSetReplicas (cur (snd ?run)) = 6" "statefulSetReplicas (cur ?w) = 8"
    by (code_simp, code_simp)
  then show ?thesis
    using maybeReconcileClusterScaling_shrinks [where env = ?env and password = "[]" and w = ?w and allReady = True,
        OF prod.collapse [symmetric]]
    by (simp add: Let_def)
qed

section \<open>A Job of an earlier spec\<close>

lemma run_deleteShards:
  assumes "\<And>t q. env_write env t q = None"
  shows "run_state (first_state (deleteShard env vc) ss) v = (None, v\<lparr>acts := acts v @
    concat (map (\<lambda>s. [ADelete ''StatefulSet'' (shardStsName vc s) None, ADelete ''Service'' (shardHeadlessName vc s) None]) ss)\<rparr>)"
  by (induction ss arbitrary: v) (simp_all add: deleteShard_def delete_obj_def assms ignoreNotFound_def)

text \<open>
  C37. The handler of a finished scale-down does not look at which shards the Job has drained. When
  the Job it finds is one that was built for an earlier spec, \<open>old\<close>, and succeeded, and every
  write succeeds, the handler deletes the StatefulSet of every shard that leaves by the spec of
  today, those that the script of the Job never touched included, and records the new size. So a
  second reduction of \<open>shards\<close>, made while the Job of the first one runs, deletes a shard that still
  owns its slots.
\<close>

theorem runClusterScaleDown_stale_job:
  assumes "perShardEnabled (cur w)"
    and "env_job env (acts w) (vc_Name (cur w) @ ''-scaledown'') = Inr job"
    and "job = (buildScaleDownJob old password (vc_Name (cur w) @ ''-scaledown''))\<lparr>job_Succeeded := 1\<rparr>"
    and "\<And>t q. env_write env t q = None"
    and "s \<in> set (leavingShards (cur w)) - set (leavingShards old)"
  shows "case run_state (runClusterScaleDown env password) w of (r, w') \<Rightarrow>
    r = Requeue 0 \<and> ADelete ''StatefulSet'' (shardStsName (cur w) s) None \<in> set (acts w') \<and>
    lastApplied (cur w') = totalReplicas (cur w)"
proof -
  have "job_Name job = vc_Name (cur w) @ ''-scaledown''"
    by (simp add: assms(3) buildScaleDownJob_def buildClusterOpJob_def)
  then show ?thesis using assms
    by (auto simp: runClusterScaleDown_def deleteLeavingShards_def run_deleteShards applyTotal_def
        patch_status_def delete_obj_def returns_def lastApplied_def Let_def)
qed

theorem runClusterScaleDown_stale_job_witness:
  "let w = sharded_world 5 3; env = job_env (drain_job 5 4)
   in case run_state (runClusterScaleDown env []) w of (r, w') \<Rightarrow>
        ADelete ''StatefulSet'' ''demo-sh3'' None \<in> set (acts w') \<and> lastApplied (cur w') = 6"
proof -
  let ?w = "sharded_world 5 3" and ?env = "job_env (drain_job 5 4)"
  have job: "env_job ?env (acts ?w) (vc_Name (cur ?w) @ ''-scaledown'') = Inr (drain_job 5 4)"
    "drain_job 5 4 = (buildScaleDownJob (cur (sharded_world 5 4)) [] (vc_Name (cur ?w) @ ''-scaledown''))\<lparr>job_Succeeded := 1\<rparr>"
    by (simp_all add: job_env_def drain_job_def sharded_defs buildScaleDownJob_def buildClusterOpJob_def)
  have "perShardEnabled (cur ?w)" "3 \<in> set (leavingShards (cur ?w)) - set (leavingShards (cur (sharded_world 5 4)))"
    "shardStsName (cur ?w) 3 = ''demo-sh3''" "totalReplicas (cur ?w) = 6"
    by (code_simp, code_simp, code_simp, code_simp)
  moreover have "env_write ?env t q = None" for t q
    by (simp add: job_env_def answering_env_def silent_env_def)
  ultimately show ?thesis
    using runClusterScaleDown_stale_job [OF _ job, of 3] by (auto simp: Let_def case_prod_beta)
qed

end
