(* ===== verification/Workloads.thy ===== *)
theory Workloads
  imports Cluster_Jobs
begin

text \<open>
  The StatefulSets: the builders of \<open>src/internal/controller/resources.go\<close>, \<open>sentinel.go\<close> and
  \<open>cluster_pershard.go\<close> with the scripts of their containers, byte for byte, and the handlers that
  apply them. The lemmas are about the templates: every mount has a volume, the selector of a
  StatefulSet selects its own pods, and the number of Sentinels does not reach the template of the
  data pods.
\<close>

section \<open>Constants\<close>

definition configVolumeName :: string where "configVolumeName = ''config''"
definition dataVolumeName :: string where "dataVolumeName = ''data''"
definition tlsVolumeName :: string where "tlsVolumeName = ''tls''"
definition sourceCAVolumeName :: string where "sourceCAVolumeName = ''source-ca''"
definition sourceCAMountPath :: string where "sourceCAMountPath = ''/etc/valkey/source-ca''"
definition configHashAnnotation :: string where "configHashAnnotation = ''valkey.wellcake.io/config-hash''"
definition restartAnnotation :: string where "restartAnnotation = ''valkey.wellcake.io/restart''"
definition restartedAtPodAnnotation :: string where "restartedAtPodAnnotation = ''valkey.wellcake.io/restarted-at''"
definition shellCmd :: string where "shellCmd = ''/bin/sh''"
definition metricsPortName :: string where "metricsPortName = ''metrics''"
definition envValkeyPassword :: string where "envValkeyPassword = ''VALKEY_PASSWORD''"
definition valkeyConfFile :: string where "valkeyConfFile = ''valkey.conf''"
definition topologyKeyHostname :: string where "topologyKeyHostname = ''kubernetes.io/hostname''"
definition sentinelConfigName :: string where "sentinelConfigName = ''sentinel.conf''"
definition sentinelExporterPortName :: string where "sentinelExporterPortName = ''exporter''"
definition sentinelMetricsPortName :: string where "sentinelMetricsPortName = ''sentinel-metrics''"
definition valkeyRunAsID :: int where "valkeyRunAsID = 1000"
definition clusterShutdownGraceSeconds :: int where "clusterShutdownGraceSeconds = 30"
definition sentinelPrimaryWaitSeconds :: int where "sentinelPrimaryWaitSeconds = 90"

section \<open>The scripts\<close>

text \<open>
  The lines that seed the users of the operator into \<open>users.acl\<close> (the empty suffix) and, when the
  password has changed, into its replacement (the suffix \<open>.new\<close>).
\<close>

definition managedSeed :: "ValkeyCluster \<Rightarrow> string \<Rightarrow> string" where
  "managedSeed vc suffix =
     (if sp_Topology (vc_Spec vc) = TopologySentinel
      then ''    echo \"user '' @ sentinelACLUser @ '' on #$PW_HASH &* '' @ sentinelACLCommands @ ''\" >> ''
           @ dataMountPath @ ''/users.acl'' @ suffix @ newline else [])
     @ (if topologyReplicates vc
      then ''    echo \"user '' @ replicationACLUser @ '' on #$PW_HASH '' @ replicationACLCommands @ ''\" >> ''
           @ dataMountPath @ ''/users.acl'' @ suffix @ newline else [])"

definition managedUsersRe :: string where
  "managedUsersRe = sentinelACLUser @ ''|'' @ replicationACLUser"

definition authArgs :: "ValkeyCluster \<Rightarrow> string" where
  "authArgs vc = (if AuthEnabled (vc_Spec vc) then noAuthWarningArgs else [])"

definition sentinelTLSArgs :: "ValkeyCluster \<Rightarrow> string" where
  "sentinelTLSArgs vc = (if tlsEnabled vc
     then '' --tls --cacert '' @ tlsMountPath @ ''/ca.crt --cert '' @ tlsMountPath @ ''/tls.crt --key '' @ tlsMountPath @ ''/tls.key''
     else [])"

text \<open>The part of the script that every topology shares; its last line is a tab.\<close>

definition initCommon :: "ValkeyCluster \<Rightarrow> string" where
  "initCommon vc =
     unlines [
     ''set -eu'',
     ''cp '' @ configMountPath @ ''/valkey.conf '' @ dataMountPath @ ''/runtime.conf'',
     ''if [ -n \"${VALKEY_PASSWORD:-}\" ]; then'',
     ''  PW_HASH=$(printf '%s' \"$VALKEY_PASSWORD\" | sha256sum | awk '{print $1}')'',
     ''  if [ ! -s '' @ dataMountPath @ ''/users.acl ]; then'',
     ''    echo \"user default on #$PW_HASH ~* &* +@all\" > '' @ dataMountPath @ ''/users.acl'',
     managedSeed vc [] @ ''  elif ! grep -q \"^user default on #$PW_HASH \" '' @ dataMountPath @ ''/users.acl; then'',
     ''    grep -vE \"^user (default|'' @ managedUsersRe @ '') \" '' @ dataMountPath @ ''/users.acl > '' @ dataMountPath @ ''/users.acl.new || true'',
     ''    echo \"user default on #$PW_HASH ~* &* +@all\" >> '' @ dataMountPath @ ''/users.acl.new'',
     managedSeed vc ''.new'' @ ''    mv '' @ dataMountPath @ ''/users.acl.new '' @ dataMountPath @ ''/users.acl'',
     ''  fi'',
     ''elif [ ! -s '' @ dataMountPath @ ''/users.acl ]; then'',
     ''  : > '' @ dataMountPath @ ''/users.acl'',
     ''elif grep -qE \"^user (default|'' @ managedUsersRe @ '') \" '' @ dataMountPath @ ''/users.acl; then'',
     ''  grep -vE \"^user (default|'' @ managedUsersRe @ '') \" '' @ dataMountPath @ ''/users.acl > '' @ dataMountPath @ ''/users.acl.new || true'',
     ''  mv '' @ dataMountPath @ ''/users.acl.new '' @ dataMountPath @ ''/users.acl'',
     ''fi'',
     ''# Unlike valkeyConfigArg, this only escapes for double-quoted config values.'',
     ''valkey_config_arg() {'',
     ''  awk '' @ [CHR 0x27],
     ''    BEGIN { printf \"'' @ [CHR 0x5C] @ ''\"\" }'',
     ''    {'',
     ''      if (NR > 1) printf \"'' @ [CHR 0x5C, CHR 0x5C] @ ''n\"'',
     ''      gsub(/'' @ [CHR 0x5C, CHR 0x5C] @ ''/, \"'' @ [CHR 0x5C, CHR 0x5C, CHR 0x5C, CHR 0x5C] @ ''\")'',
     ''      gsub(/\"/, \"'' @ [CHR 0x5C, CHR 0x5C, CHR 0x5C] @ ''\"\")'',
     ''      printf \"%s\", $0'',
     ''    }'',
     ''    END { printf \"'' @ [CHR 0x5C] @ ''\"'' @ [CHR 0x5C] @ ''n\" }'',
     ''  '' @ [CHR 0x27],
     ''}'']
     @ [CHR 0x09]"

text \<open>Every pod follows an external primary.\<close>

definition externalSource :: "ReplicateFromSpec \<Rightarrow> string \<Rightarrow> string \<Rightarrow> string" where
  "externalSource r tlsLine caMergeLine =
     unlines [
     ''echo \"replicaof '' @ rf_Host r @ '' '' @ Itoa (if rf_Port r = 0 then 6379 else rf_Port r) @ ''\" >> '' @ dataMountPath @ ''/runtime.conf'',
     ''if [ -n \"${SOURCE_PASSWORD:-}\" ]; then'',
     ''  SOURCE_PASSWORD_ARG=$(printf '%s' \"$SOURCE_PASSWORD\" | valkey_config_arg)'',
     ''  echo \"masterauth ${SOURCE_PASSWORD_ARG}\" >> '' @ dataMountPath @ ''/runtime.conf'',
     ''fi'']
     @ tlsLine @ caMergeLine"

definition announceScript :: "string \<Rightarrow> int \<Rightarrow> string" where
  "announceScript svcPart port =
     unlines [
     ''ANNOUNCE_HOST=\"${HOSTNAME}.'' @ svcPart @ ''.${POD_NAMESPACE}.svc.cluster.local\"'',
     ''{'',
     ''  echo \"cluster-announce-hostname ${ANNOUNCE_HOST}\"'',
     ''  echo \"cluster-preferred-endpoint-type hostname\"'',
     ''  echo \"cluster-announce-port '' @ Itoa port @ ''\"'',
     ''  echo \"cluster-announce-bus-port '' @ Itoa clusterBusPort @ ''\"'',
     ''} >> '' @ dataMountPath @ ''/runtime.conf'']"

definition followPod0Script :: "string \<Rightarrow> string \<Rightarrow> int \<Rightarrow> string" where
  "followPod0Script stsName headless port =
     unlines [
     ''ORDINAL=\"${HOSTNAME##*-}\"'',
     ''if [ \"$ORDINAL\" != \"0\" ]; then'',
     ''  echo \"replicaof '' @ stsName @ ''-0.'' @ headless @ ''.${POD_NAMESPACE}.svc.cluster.local '' @ Itoa port @ ''\" >> '' @ dataMountPath @ ''/runtime.conf'',
     ''fi'']"

definition sentinelDiscoveryFuncs :: "ValkeyCluster \<Rightarrow> string" where
  "sentinelDiscoveryFuncs vc =
     (let tlsArgs = sentinelTLSArgs vc; auth = authArgs vc in
     unlines [
     ''SELF=\"${HOSTNAME}.'' @ headlessServiceName vc @ ''.${POD_NAMESPACE}.svc.cluster.local\"'',
     ''SEN='' @ sentinelStatefulSetName vc,
     ''query_sentinels() {'',
     ''  BEST_EPOCH=-1'',
     ''  BEST_HOST=\"\"'',
     ''  BEST_PORT=\"\"'',
     ''  # Sentinels that answered but rejected the password (NOAUTH/WRONGPASS). Such'',
     ''  # a reply is not \"no Sentinel\": the cluster exists and holds a primary, the'',
     ''  # password just does not match yet (rotation or auth change in progress).'',
     ''  AUTH_REJECTED=0'',
     ''  # Sentinels that answered, and whether any of them knows a replica'',
     ''  # (num-slaves, -1 when missing from the reply, counted as known).'',
     ''  ANSWERED=0'',
     ''  REPLICA_KNOWN=0'',
     ''  # The Sentinel count is not rendered here: it would put spec.sentinel.replicas'',
     ''  # in the pod template and roll the data pods on every Sentinel scale. Start'',
     ''  # at the CRD minimum and raise the bound to what the Sentinels report.'',
     ''  i=0'',
     ''  n=3'',
     ''  while [ \"$i\" -lt \"$n\" ]; do'',
     ''    OUT=$(timeout 3 valkey-cli -h \"$SEN-$i.$SEN\" -p '' @ Itoa (sentinelListenPort vc) @ tlsArgs @ auth @ '' SENTINEL MASTER '' @ sentinelMasterName @ '' 2>/dev/null || true)'',
     ''    case \"$OUT\" in'',
     ''      *NOAUTH*|*WRONGPASS*) AUTH_REJECTED=$((AUTH_REJECTED + 1)) ;;'',
     ''    esac'',
     ''    set -- $(printf '%s'' @ [CHR 0x5C] @ ''n' \"$OUT\" | awk 'NR % 2 == 1 { k = $0 } NR % 2 == 0 { v[k] = $0 } END { if (v[\"ip\"] != \"\" && v[\"config-epoch\"] ~ /^[0-9]+$/ && v[\"num-other-sentinels\"] ~ /^[0-9]+$/) print v[\"ip\"], v[\"port\"], v[\"config-epoch\"], v[\"num-other-sentinels\"], (v[\"num-slaves\"] ~ /^[0-9]+$/ ? v[\"num-slaves\"] : -1) }')'',
     ''    if [ \"$#\" -eq 5 ]; then'',
     ''      ANSWERED=$((ANSWERED + 1))'',
     ''      if [ \"$5\" -ne 0 ]; then'',
     ''        REPLICA_KNOWN=1'',
     ''      fi'',
     ''      if [ \"$(($4 + 1))\" -gt \"$n\" ]; then'',
     ''        n=$(($4 + 1))'',
     ''      fi'',
     ''      if [ \"$3\" -gt \"$BEST_EPOCH\" ]; then'',
     ''        BEST_HOST=$1'',
     ''        BEST_PORT=$2'',
     ''        BEST_EPOCH=$3'',
     ''      fi'',
     ''    fi'',
     ''    i=$((i + 1))'',
     ''  done'',
     ''}'',
     ''# Exit (the pod restarts and retries) when no Sentinel gave an answer but some'',
     ''# rejected the password: starting as a first-bootstrap primary then would run'',
     ''# a second primary next to the real one, with whatever is on disk.'',
     ''refuse_on_auth_rejection() {'',
     ''  if [ -z \"$BEST_HOST\" ] && [ \"$AUTH_REJECTED\" -gt 0 ]; then'',
     ''    echo \"$AUTH_REJECTED Sentinel(s) rejected the password and none reported a primary: not starting as a first-bootstrap primary, retrying\" >&2'',
     ''    exit 1'',
     ''  fi'',
     ''}'',
     ''is_self() {'',
     ''  [ \"$1\" = \"$SELF\" ] || hostname -i 2>/dev/null | tr ' ' '' @ [CHR 0x27] @ [CHR 0x5C] @ ''n' | grep -qxF \"$1\"'',
     ''}'',
     ''is_primary() {'',
     ''  [ \"$(timeout 3 valkey-cli -h \"$1\" -p \"$2\"'' @ tlsArgs @ auth @ '' ROLE 2>/dev/null | head -n 1)\" = master ]'',
     ''}'',
     ''# The Sentinels report a primary by IP until a failover promotes a pod that'',
     ''# announces its name. Follow the pod's name instead, so the link survives that'',
     ''# pod getting a new IP. The primary tells its own name (replica-announce-ip);'',
     ''# it is kept only when it is one of our pods and resolves to that IP.'',
     ''name_of_best() {'',
     ''  NAME=$(timeout 3 valkey-cli -h \"$BEST_HOST\" -p \"$BEST_PORT\"'' @ tlsArgs @ auth @ '' CONFIG GET replica-announce-ip 2>/dev/null | sed -n 2p)'',
     ''  case \"$NAME\" in'',
     ''    '' @ statefulSetName vc @ ''-*.'' @ headlessServiceName vc @ ''.${POD_NAMESPACE}.svc.cluster.local) ;;'',
     ''    *) return ;;'',
     ''  esac'',
     ''  if getent hosts \"$NAME\" 2>/dev/null | awk '{ print $1 }' | grep -qxF \"$BEST_HOST\"; then'',
     ''    BEST_HOST=$NAME'',
     ''  fi'',
     ''}''])"

definition renderSentinelDataRole :: "ValkeyCluster \<Rightarrow> string" where
  "renderSentinelDataRole vc =
     sentinelDiscoveryFuncs vc @ unlines [
     ''ORDINAL=\"${HOSTNAME##*-}\"'',
     ''echo \"replica-announce-ip ${SELF}\" >> '' @ dataMountPath @ ''/runtime.conf'',
     ''# A primary that restarts is still reported under its old address until the'',
     ''# Sentinels fail over, so only trust an answer that is this pod or a reachable'',
     ''# primary, and give the Sentinels time to fail over otherwise.'',
     ''DEADLINE=$(($(date +%s) + '' @ Itoa sentinelPrimaryWaitSeconds @ ''))'',
     ''while :; do'',
     ''  query_sentinels'',
     ''  if [ -z \"$BEST_HOST\" ] || is_self \"$BEST_HOST\" || is_primary \"$BEST_HOST\" \"$BEST_PORT\"; then'',
     ''    break'',
     ''  fi'',
     ''  if [ \"$(date +%s)\" -ge \"$DEADLINE\" ]; then'',
     ''    echo \"the Sentinels still report $BEST_HOST:$BEST_PORT, which is not a reachable primary; falling back to pod-0\"'',
     ''    BEST_HOST=\"\"'',
     ''    break'',
     ''  fi'',
     ''  echo \"waiting for the Sentinels to report a reachable primary (now $BEST_HOST:$BEST_PORT)\"'',
     ''  sleep 3'',
     ''done'',
     ''refuse_on_auth_rejection'',
     ''PRIMARY=\"\"'',
     ''if [ -n \"$BEST_HOST\" ]; then'',
     ''  if is_self \"$BEST_HOST\"; then'',
     ''    echo \"starting as the primary, as reported by the Sentinels (config-epoch $BEST_EPOCH)\"'',
     ''  else'',
     ''    name_of_best'',
     ''    PRIMARY=\"$BEST_HOST $BEST_PORT\"'',
     ''    echo \"replicating from $PRIMARY, as reported by the Sentinels (config-epoch $BEST_EPOCH)\"'',
     ''  fi'',
     ''elif [ \"$ORDINAL\" != \"0\" ]; then'',
     ''  PRIMARY=\"'' @ statefulSetName vc @ ''-0.'' @ headlessServiceName vc @ ''.${POD_NAMESPACE}.svc.cluster.local '' @ Itoa (dataPort vc) @ ''\"'',
     ''fi'',
     ''if [ -n \"$PRIMARY\" ]; then'',
     ''  echo \"replicaof $PRIMARY\" >> '' @ dataMountPath @ ''/runtime.conf'',
     (if persistenceMode vc = storageModeNone then ''  rm -f '' @ dataMountPath @ ''/dump.rdb'' @ newline else []) @ ''fi'']"

definition renderSentinelPrimaryGuard :: "ValkeyCluster \<Rightarrow> string" where
  "renderSentinelPrimaryGuard vc =
     ''set -eu'' @ newline @ sentinelDiscoveryFuncs vc @ unlines [
     ''CONF='' @ dataMountPath @ ''/runtime.conf'',
     ''if grep -q '^replicaof ' \"$CONF\"; then'',
     ''  rm -f '' @ dataMountPath @ ''/dump.rdb'',
     ''else'',
     ''  query_sentinels'',
     ''  refuse_on_auth_rejection'',
     ''  if [ -n \"$BEST_HOST\" ] && is_self \"$BEST_HOST\"; then'',
     ''    DEADLINE=$(($(date +%s) + '' @ Itoa sentinelPrimaryWaitSeconds @ ''))'',
     ''    WAITING=\"\"'',
     ''    while :; do'',
     ''      if [ \"$ANSWERED\" -ge \"$n\" ] && [ \"$REPLICA_KNOWN\" -eq 0 ] && [ -n \"$BEST_HOST\" ] && is_self \"$BEST_HOST\"; then'',
     ''        echo \"all $n Sentinels answered and none knows a replica to promote: starting as the primary with the data on disk\"'',
     ''        break'',
     ''      fi'',
     ''      if [ -z \"$WAITING\" ]; then'',
     ''        echo \"persistence is off and the Sentinels report this pod as the primary: waiting for them to fail over to a replica that holds the data\"'',
     ''        WAITING=1'',
     ''      fi'',
     ''      sleep 3'',
     ''      query_sentinels'',
     ''      if [ -n \"$BEST_HOST\" ] && ! is_self \"$BEST_HOST\" && is_primary \"$BEST_HOST\" \"$BEST_PORT\"; then'',
     ''        name_of_best'',
     ''        echo \"replicating from $BEST_HOST $BEST_PORT, promoted by the Sentinels (config-epoch $BEST_EPOCH)\"'',
     ''        echo \"replicaof $BEST_HOST $BEST_PORT\" >> \"$CONF\"'',
     ''        rm -f '' @ dataMountPath @ ''/dump.rdb'',
     ''        break'',
     ''      fi'',
     ''      if [ \"$(date +%s)\" -ge \"$DEADLINE\" ]; then'',
     ''        echo \"no failover within '' @ Itoa sentinelPrimaryWaitSeconds @ '' s: starting as the primary with the data on disk\"'',
     ''        break'',
     ''      fi'',
     ''    done'',
     ''  fi'',
     ''fi'',
     ''exec valkey-server \"$CONF\"'']"

definition restoreShardScript :: "RestoreSpec \<Rightarrow> S3Spec \<Rightarrow> string \<Rightarrow> int \<Rightarrow> string" where
  "restoreShardScript r s3 endpointFlag shards =
     unlines [
     ''set -eu'',
     ''if [ -f '' @ dataMountPath @ ''/dump.rdb ]; then'',
     ''  echo \"dump.rdb already present; skipping restore\"'',
     ''  exit 0'',
     ''fi'',
     ''ORD=\"${HOSTNAME##*-}\"'',
     ''if [ \"$ORD\" -ge '' @ Itoa shards @ '' ]; then'',
     ''  echo \"ordinal $ORD is a replica (>= '' @ Itoa shards @ '' shards); skipping restore, will resync from master\"'',
     ''  exit 0'',
     ''fi'',
     ''KEY=$(echo \"'' @ rs_SourceKey r @ ''\" | sed \"s/{shard}/$ORD/g\")'',
     ''echo \"restoring shard $ORD from s3://'' @ s3_Bucket s3 @ ''/$KEY\"'',
     ''aws s3 cp \"s3://'' @ s3_Bucket s3 @ ''/$KEY\" '' @ dataMountPath @ ''/dump.rdb'' @ endpointFlag,
     ''echo \"restore done: $(stat -c %s '' @ dataMountPath @ ''/dump.rdb 2>/dev/null || wc -c <'' @ dataMountPath @ ''/dump.rdb) bytes\"'']"

definition restoreScript :: "RestoreSpec \<Rightarrow> S3Spec \<Rightarrow> string \<Rightarrow> string" where
  "restoreScript r s3 endpointFlag =
     unlines [
     ''set -eu'',
     ''if [ -f '' @ dataMountPath @ ''/dump.rdb ]; then'',
     ''  echo \"dump.rdb already present; skipping restore\"'',
     ''  exit 0'',
     ''fi'',
     ''echo \"restoring from s3://'' @ s3_Bucket s3 @ ''/'' @ rs_SourceKey r @ ''\"'',
     ''aws s3 cp s3://'' @ s3_Bucket s3 @ ''/'' @ rs_SourceKey r @ '' '' @ dataMountPath @ ''/dump.rdb'' @ endpointFlag,
     ''echo \"restore done: $(stat -c %s '' @ dataMountPath @ ''/dump.rdb 2>/dev/null || wc -c <'' @ dataMountPath @ ''/dump.rdb) bytes\"'']"

definition renderSentinelInitScript :: "ValkeyCluster \<Rightarrow> string" where
  "renderSentinelInitScript vc =
     (let tlsArgs = sentinelTLSArgs vc; auth = authArgs vc in
     unlines [
     ''set -eu'',
     ''RT='' @ dataMountPath @ ''/runtime-sentinel.conf'',
     ''NEW=\"$RT.new\"'',
     ''cp /etc/sentinel/'' @ sentinelConfigName @ '' \"$NEW\"'',
     ''if [ -f \"$RT\" ]; then'',
     ''  awk '$1 == \"sentinel\" && ($2 == \"myid\" || $2 == \"current-epoch\")' \"$RT\" >> \"$NEW\"'',
     ''fi'',
     ''STS='' @ sentinelStatefulSetName vc,
     ''ME=\"${HOSTNAME##*-}\"'',
     ''BEST_EPOCH=-1'',
     ''BEST_HOST=\"\"'',
     ''BEST_PORT=\"\"'',
     ''# The Sentinel count is not rendered here, so a Sentinel scale does not roll the'',
     ''# Sentinels: start at the CRD minimum and raise it to what the others report.'',
     ''i=0'',
     ''n=3'',
     ''while [ \"$i\" -lt \"$n\" ]; do'',
     ''  if [ \"$i\" != \"$ME\" ]; then'',
     ''    OUT=$(timeout 3 valkey-cli -h \"$STS-$i.$STS\" -p '' @ Itoa (sentinelListenPort vc) @ tlsArgs @ auth @ '' SENTINEL MASTER '' @ sentinelMasterName @ '' 2>/dev/null || true)'',
     ''    set -- $(printf '%s'',
     [CHR 0x27] @ '' \"$OUT\" | awk 'NR % 2 == 1 { k = $0 } NR % 2 == 0 { v[k] = $0 } END { if (v[\"ip\"] != \"\" && v[\"config-epoch\"] ~ /^[0-9]+$/ && v[\"num-other-sentinels\"] ~ /^[0-9]+$/) print v[\"ip\"], v[\"port\"], v[\"config-epoch\"], v[\"num-other-sentinels\"] }')'',
     ''    if [ \"$#\" -eq 4 ]; then'',
     ''      if [ \"$(($4 + 1))\" -gt \"$n\" ]; then'',
     ''        n=$(($4 + 1))'',
     ''      fi'',
     ''      if [ \"$3\" -gt \"$BEST_EPOCH\" ]; then'',
     ''        BEST_HOST=$1'',
     ''        BEST_PORT=$2'',
     ''        BEST_EPOCH=$3'',
     ''      fi'',
     ''    fi'',
     ''  fi'',
     ''  i=$((i + 1))'',
     ''done'',
     ''if [ -n \"$BEST_HOST\" ]; then'',
     ''  echo \"monitoring $BEST_HOST:$BEST_PORT (config-epoch $BEST_EPOCH) as reported by the other Sentinels\"'',
     ''  awk -v h=\"$BEST_HOST\" -v p=\"$BEST_PORT\" '$1 == \"sentinel\" && $2 == \"monitor\" && $3 == \"'' @ sentinelMasterName @ ''\" { $4 = h; $5 = p } { print }' \"$NEW\" > \"$NEW.m\"'',
     ''  mv \"$NEW.m\" \"$NEW\"'',
     ''  echo \"sentinel config-epoch '' @ sentinelMasterName @ '' $BEST_EPOCH\" >> \"$NEW\"'',
     ''fi'',
     ''mv \"$NEW\" \"$RT\"''])"

text \<open>The tail of the script depends on where the pod gets its data from.\<close>

definition caMergeLine :: "ValkeyCluster \<Rightarrow> string" where
  "caMergeLine vc = (if sourceCAMergeEnabled vc
     then ''cat '' @ tlsMountPath @ ''/ca.crt '' @ sourceCAMountPath @ ''/ca.crt > '' @ caCertPath vc @ newline else [])"

definition renderInitScript :: "ValkeyCluster \<Rightarrow> string" where
  "renderInitScript vc = initCommon vc @
     (case sp_ReplicateFrom (vc_Spec vc) of
        Some r \<Rightarrow> externalSource r
          (if rf_TLS r then ''echo \"tls-replication yes\" >> '' @ dataMountPath @ ''/runtime.conf'' @ newline else [])
          (caMergeLine vc)
      | None \<Rightarrow>
          if sp_Topology (vc_Spec vc) = TopologyCluster
          then announceScript (if perShardEnabled vc then ''${HOSTNAME%-*}'' else headlessServiceName vc) (dataPort vc)
          else if sp_Topology (vc_Spec vc) = TopologySentinel \<and> sp_Sentinel (vc_Spec vc) \<noteq> None
          then renderSentinelDataRole vc
          else followPod0Script (statefulSetName vc) (headlessServiceName vc) (dataPort vc))"

definition sentinelPrimaryGuardActive :: "ValkeyCluster \<Rightarrow> bool" where
  "sentinelPrimaryGuardActive vc \<longleftrightarrow> sp_Topology (vc_Spec vc) = TopologySentinel \<and> sp_Sentinel (vc_Spec vc) \<noteq> None \<and>
     sp_ReplicateFrom (vc_Spec vc) = None \<and> persistenceMode vc = storageModeNone"

section \<open>Containers\<close>

definition zero_container :: Container where
  "zero_container = \<lparr>ct_Name = [], ct_Image = [], ct_ImagePullPolicy = [], ct_Command = [], ct_Args = [], ct_Env = [],
     ct_Ports = [], ct_Resources = (None, []), ct_VolumeMounts = [], ct_ReadinessProbe = None, ct_LivenessProbe = None,
     ct_SecurityContext = None\<rparr>"

definition mount :: "string \<Rightarrow> string \<Rightarrow> VolumeMount" where
  "mount name path = \<lparr>vm_Name = name, vm_MountPath = path, vm_ReadOnly = False\<rparr>"

definition mountRO :: "string \<Rightarrow> string \<Rightarrow> VolumeMount" where
  "mountRO name path = \<lparr>vm_Name = name, vm_MountPath = path, vm_ReadOnly = True\<rparr>"

definition tcpPort :: "string \<Rightarrow> int \<Rightarrow> ContainerPort" where
  "tcpPort name p = \<lparr>cp_Name = name, cp_ContainerPort = p, cp_Protocol = ''TCP''\<rparr>"

definition updateStrategyFor :: "bool \<Rightarrow> bool" where
  "updateStrategyFor proactive = (if proactive then True else False)"

definition clusterShutdownGracePeriod :: "ValkeyCluster \<Rightarrow> int option" where
  "clusterShutdownGracePeriod vc =
     (if sp_Topology (vc_Spec vc) = TopologyCluster \<and> valkeyImageAtLeast (sp_Image (vc_Spec vc)) 9 0
      then Some clusterShutdownGraceSeconds else None)"

definition podSecurityContext :: "ValkeyCluster \<Rightarrow> PodSecurityContext" where
  "podSecurityContext vc = (case sp_PodSecurityContext (vc_Spec vc) of
       Some c \<Rightarrow> c
     | None \<Rightarrow> \<lparr>psc_FSGroup = Some valkeyRunAsID, psc_RunAsUser = Some valkeyRunAsID, psc_RunAsNonRoot = Some True,
         psc_SeccompProfile = ''RuntimeDefault'', psc_Rest = []\<rparr>)"

definition containerSecurityContext :: "ValkeyCluster \<Rightarrow> SecurityContext" where
  "containerSecurityContext vc = (case sp_ContainerSecurityContext (vc_Spec vc) of
       Some c \<Rightarrow> c
     | None \<Rightarrow> \<lparr>sc_AllowPrivilegeEscalation = Some False, sc_RunAsNonRoot = Some True, sc_CapabilitiesDrop = [''ALL''],
         sc_SeccompProfile = ''RuntimeDefault'', sc_Rest = []\<rparr>)"

definition applyContainerSecurityContext :: "SecurityContext \<Rightarrow> Container list \<Rightarrow> Container list" where
  "applyContainerSecurityContext sc = map (\<lambda>c. c\<lparr>ct_SecurityContext := Some sc\<rparr>)"

definition dataReadinessProbe :: "ValkeyCluster \<Rightarrow> int \<Rightarrow> Probe" where
  "dataReadinessProbe vc port =
     (let cli = ''valkey-cli -p '' @ Itoa port
            @ (if tlsEnabled vc then '' --tls --insecure --cert '' @ tlsMountPath @ ''/tls.crt --key '' @ tlsMountPath @ ''/tls.key'' else [])
            @ authArgs vc;
          print = ''printf '%s'' @ [CHR 0x5C] @ ''n' \"$out\" | '';
          script = ''out=$('' @ cli @ '' INFO persistence replication) || exit 1'' @ newline
            @ ''out=$('' @ print @ ''tr -d '' @ [CHR 0x27, CHR 0x5C] @ ''r')'' @ newline
            @ print @ ''grep -qE '^(loading|master_sync_in_progress):1$' && exit 1'' @ newline
            @ print @ ''grep -q '^master_link_status:down$' && '' @ print
            @ ''grep -q '^master_link_down_since_seconds:-1$' && exit 1'' @ newline @ ''exit 0''
      in \<lparr>pb_Handler = ExecProbe [shellCmd, ''-c'', script], pb_InitialDelaySeconds = 5, pb_PeriodSeconds = 5,
          pb_TimeoutSeconds = 3, pb_FailureThreshold = 5\<rparr>)"

definition valkeyProbe :: "ValkeyCluster \<Rightarrow> int \<Rightarrow> int \<Rightarrow> int \<Rightarrow> Probe" where
  "valkeyProbe vc port initial period =
     \<lparr>pb_Handler = (if tlsEnabled vc
        then ExecProbe [''valkey-cli'', ''-p'', Itoa port, ''--tls'', ''--insecure'', ''--cert'', tlsMountPath @ ''/tls.crt'',
          ''--key'', tlsMountPath @ ''/tls.key'', ''PING'']
        else TCPProbe port),
      pb_InitialDelaySeconds = initial, pb_PeriodSeconds = period, pb_TimeoutSeconds = 3, pb_FailureThreshold = 5\<rparr>"

text \<open>The exporter sidecar. Its callers have checked that \<open>spec.metrics\<close> is set.\<close>

definition zero_metrics :: MetricsSpec where
  "zero_metrics = \<lparr>me_Enabled = False, me_Image = [], me_ImagePullPolicy = [], me_Resources = (None, []),
     me_ServiceMonitor = False, me_Sentinel = False\<rparr>"

definition exporterContainer :: "ValkeyCluster \<Rightarrow> int \<Rightarrow> string \<Rightarrow> Container" where
  "exporterContainer vc port portName =
     (let m = Deref (sp_Metrics (vc_Spec vc)) zero_metrics;
          scheme = (if tlsEnabled vc then ''rediss'' else ''redis'');
          secretName = (if existingAuthSecret vc \<noteq> [] then existingAuthSecret vc else passwordSecretName vc)
      in zero_container\<lparr>ct_Name := metricsPortName,
           ct_Image := (if me_Image m = [] then ''oliver006/redis_exporter:v1.62.0'' else me_Image m),
           ct_ImagePullPolicy := me_ImagePullPolicy m,
           ct_Env := [(''REDIS_ADDR'', EnvValue (scheme @ ''://localhost:'' @ Itoa port))]
             @ (if tlsEnabled vc then [(''REDIS_EXPORTER_SKIP_TLS_VERIFICATION'', EnvValue valueTrue)] else [])
             @ (if AuthEnabled (vc_Spec vc) then [(''REDIS_PASSWORD'', EnvSecret secretName secretKeyPassword)] else []),
           ct_Ports := [\<lparr>cp_Name = portName, cp_ContainerPort = exporterPort, cp_Protocol = []\<rparr>],
           ct_Resources := me_Resources m\<rparr>)"

definition buildExporter :: "ValkeyCluster \<Rightarrow> Container" where
  "buildExporter vc = exporterContainer vc (dataPort vc) metricsPortName"

definition buildSentinelExporter :: "ValkeyCluster \<Rightarrow> Container" where
  "buildSentinelExporter vc = (exporterContainer vc (sentinelListenPort vc) sentinelExporterPortName)
     \<lparr>ct_SecurityContext := Some (containerSecurityContext vc)\<rparr>"

text \<open>The download of a snapshot. Its caller has checked that the S3 location is set.\<close>

definition restoreEnv :: "S3Spec \<Rightarrow> (string \<times> EnvSource) list" where
  "restoreEnv s3 =
     [(''AWS_ACCESS_KEY_ID'', EnvSecret (s3_CredentialsSecret s3) ''AWS_ACCESS_KEY_ID''),
      (''AWS_SECRET_ACCESS_KEY'', EnvSecret (s3_CredentialsSecret s3) ''AWS_SECRET_ACCESS_KEY''),
      (''AWS_DEFAULT_REGION'', EnvValue (s3_Region s3))]
     @ (if s3_Endpoint s3 \<noteq> [] then [(''ENDPOINT_URL'', EnvValue (s3_Endpoint s3))] else [])"

definition buildRestoreInitContainer :: "ValkeyCluster \<Rightarrow> RestoreSpec \<Rightarrow> S3Spec \<Rightarrow> Container" where
  "buildRestoreInitContainer vc r s3 =
     (let endpointFlag = (if s3_Endpoint s3 \<noteq> [] then s3EndpointURLFlag else []);
          script = (if sp_Topology (vc_Spec vc) = TopologyCluster
            then restoreShardScript r s3 endpointFlag (shardCountOf vc) else restoreScript r s3 endpointFlag)
      in zero_container\<lparr>ct_Name := ''restore'',
           ct_Image := (if rs_AWSCLIImage r = [] then defaultAWSCLIImage else rs_AWSCLIImage r),
           ct_Command := [shellCmd, ''-c'', script], ct_Env := restoreEnv s3,
           ct_VolumeMounts := [mount dataVolumeName dataMountPath]\<rparr>)"

section \<open>Placement and volumes\<close>

definition defaultTopologySpread :: "ValkeyCluster \<Rightarrow> TopologySpreadConstraint list" where
  "defaultTopologySpread vc = [\<lparr>tsc_MaxSkew = 1, tsc_TopologyKey = ''topology.kubernetes.io/zone'',
     tsc_WhenUnsatisfiable = ''ScheduleAnyway'', tsc_MatchLabels = [(instanceLabel, vc_Name vc)], tsc_Rest = []\<rparr>]"

definition defaultAntiAffinity :: "ValkeyCluster \<Rightarrow> Affinity" where
  "defaultAntiAffinity vc = \<lparr>af_NodeAffinity = None, af_PodAffinity = None,
     af_PodAntiAffinity = Some (Preferred 100 topologyKeyHostname [(instanceLabel, vc_Name vc)])\<rparr>"

definition sentinelAffinity :: "ValkeyCluster \<Rightarrow> Affinity" where
  "sentinelAffinity vc = (case sp_Affinity (vc_Spec vc) of
       None \<Rightarrow> defaultAntiAffinity vc
     | Some a \<Rightarrow> (defaultAntiAffinity vc)\<lparr>af_NodeAffinity := af_NodeAffinity a\<rparr>)"

definition shardAntiAffinity :: "ValkeyCluster \<Rightarrow> int \<Rightarrow> Affinity" where
  "shardAntiAffinity vc shard = \<lparr>af_NodeAffinity = None, af_PodAffinity = None,
     af_PodAntiAffinity = Some (Required topologyKeyHostname [(instanceLabel, vc_Name vc), (shardLabel, Itoa shard)])\<rparr>"

definition memoryDataSizeLimit :: "ValkeyCluster \<Rightarrow> int" where
  "memoryDataSizeLimit vc = (case sp_Storage (vc_Spec vc) of
       Some s \<Rightarrow> if sto_Size s \<noteq> 0 then sto_Size s else 1024 * 1024 * 1024
     | None \<Rightarrow> 1024 * 1024 * 1024)"

definition storageClassName :: "ValkeyCluster \<Rightarrow> string option" where
  "storageClassName vc = (case sp_Storage (vc_Spec vc) of Some s \<Rightarrow> sto_StorageClassName s | None \<Rightarrow> None)"

definition buildDataPVC :: "ValkeyCluster \<Rightarrow> ClaimTemplate" where
  "buildDataPVC vc = \<lparr>cl_Name = dataVolumeName, cl_Labels = labelsFor vc, cl_AccessModes = [''ReadWriteOnce''],
     cl_StorageClassName = storageClassName vc, cl_Storage = dataSize vc\<rparr>"

section \<open>The StatefulSet of the data pods\<close>

definition podAnnotations :: "ValkeyCluster \<Rightarrow> string \<Rightarrow> labels" where
  "podAnnotations vc configHash =
     (if configHash \<noteq> [] then [(configHashAnnotation, configHash)] else [])
     @ (if mget (vc_Annotations vc) restartAnnotation \<noteq> []
        then [(restartedAtPodAnnotation, mget (vc_Annotations vc) restartAnnotation)] else [])"

definition dataEnv :: "ValkeyCluster \<Rightarrow> (string \<times> EnvSource) list" where
  "dataEnv vc = [(''POD_NAMESPACE'', EnvField ''metadata.namespace'')]
     @ (case sp_ReplicateFrom (vc_Spec vc) of
          Some r \<Rightarrow> (case rf_PasswordSecret r of
              Some s \<Rightarrow> [(''SOURCE_PASSWORD'', EnvSecret (sk_Name s) (if sk_Key s = [] then secretKeyPassword else sk_Key s))]
            | None \<Rightarrow> [])
        | None \<Rightarrow> [])"

definition passwordEnv :: "ValkeyCluster \<Rightarrow> (string \<times> EnvSource) list" where
  "passwordEnv vc = (if AuthEnabled (vc_Spec vc)
     then [(envValkeyPassword, secretRef (authSecretName vc) secretKeyPassword)] else [])"

definition configInitMounts :: "ValkeyCluster \<Rightarrow> VolumeMount list" where
  "configInitMounts vc = [mountRO configVolumeName configMountPath, mount dataVolumeName dataMountPath]
     @ (if sourceCAMergeEnabled vc
        then [mountRO tlsVolumeName tlsMountPath, mountRO sourceCAVolumeName sourceCAMountPath] else [])
     @ (if sp_Topology (vc_Spec vc) = TopologySentinel \<and> tlsEnabled vc \<and> \<not> sourceCAMergeEnabled vc
        then [mountRO tlsVolumeName tlsMountPath] else [])"

definition configInit :: "ValkeyCluster \<Rightarrow> Container" where
  "configInit vc = zero_container\<lparr>ct_Name := ''config-init'', ct_Image := sp_Image (vc_Spec vc),
     ct_ImagePullPolicy := sp_ImagePullPolicy (vc_Spec vc), ct_Command := [shellCmd, ''-c'', renderInitScript vc],
     ct_Env := dataEnv vc @ passwordEnv vc, ct_VolumeMounts := configInitMounts vc\<rparr>"

definition dataInitContainers :: "ValkeyCluster \<Rightarrow> Container list" where
  "dataInitContainers vc =
     (case sp_RestoreFrom (vc_Spec vc) of
        Some r \<Rightarrow> (case rs_S3 r of Some s3 \<Rightarrow> [buildRestoreInitContainer vc r s3] | None \<Rightarrow> [])
      | None \<Rightarrow> [])
     @ [configInit vc]"

definition valkeyContainer :: "ValkeyCluster \<Rightarrow> Container" where
  "valkeyContainer vc = zero_container\<lparr>ct_Name := ''valkey'', ct_Image := sp_Image (vc_Spec vc),
     ct_ImagePullPolicy := sp_ImagePullPolicy (vc_Spec vc),
     ct_Command := (if sentinelPrimaryGuardActive vc then [shellCmd, ''-c'', renderSentinelPrimaryGuard vc] else [''valkey-server'']),
     ct_Args := (if sentinelPrimaryGuardActive vc then [] else [dataMountPath @ ''/runtime.conf'']),
     ct_Env := dataEnv vc @ passwordEnv vc,
     ct_Ports := [tcpPort ''valkey'' (dataPort vc)]
       @ (if sp_Topology (vc_Spec vc) = TopologyCluster then [tcpPort ''gossip'' clusterBusPort] else []),
     ct_Resources := (sp_MemoryLimit (vc_Spec vc), sp_Resources (vc_Spec vc)),
     ct_VolumeMounts := [mountRO configVolumeName configMountPath, mount dataVolumeName dataMountPath]
       @ (if tlsEnabled vc then [mountRO tlsVolumeName tlsMountPath] else []),
     ct_ReadinessProbe := Some (dataReadinessProbe vc (dataPort vc)),
     ct_LivenessProbe := Some (valkeyProbe vc (dataPort vc) 15 20)\<rparr>"

definition sourceCAVolume :: "ValkeyCluster \<Rightarrow> string \<times> VolumeSource" where
  "sourceCAVolume vc = (sourceCAVolumeName,
     case sp_ReplicateFrom (vc_Spec vc) of
       Some r \<Rightarrow> (case rf_CASecret r of
           Some s \<Rightarrow> VSecret (sk_Name s) [(if sk_Key s = [] then ''ca.crt'' else sk_Key s, ''ca.crt'')]
         | None \<Rightarrow> VSecret [] [])
     | None \<Rightarrow> VSecret [] [])"

definition dataVolumes :: "ValkeyCluster \<Rightarrow> (string \<times> VolumeSource) list" where
  "dataVolumes vc = [(configVolumeName, VConfigMap (configMapName vc) [(valkeyConfFile, valkeyConfFile)])]
     @ (if tlsEnabled vc then [(tlsVolumeName, VSecret (tlsSecretName vc) [])] else [])
     @ (if sourceCAMergeEnabled vc then [sourceCAVolume vc] else [])
     @ (if usesMemoryStorage vc then [(dataVolumeName, VMemory (memoryDataSizeLimit vc))] else [])"

definition buildStatefulSet :: "ValkeyCluster \<Rightarrow> string \<Rightarrow> bool \<Rightarrow> StatefulSet" where
  "buildStatefulSet vc configHash proactive =
     \<lparr>sts_Name = statefulSetName vc, sts_Replicas = Some (statefulSetReplicas vc), sts_Labels = labelsFor vc,
      sts_ServiceName = headlessServiceName vc, sts_OnDelete = updateStrategyFor proactive, sts_Annotations = [],
      sts_Template = \<lparr>pt_Labels = podLabelsFor vc (labelsFor vc), pt_Annotations = podAnnotations vc configHash,
        pt_Spec = \<lparr>po_RestartPolicy = [],
          po_InitContainers = applyContainerSecurityContext (containerSecurityContext vc) (dataInitContainers vc),
          po_Containers = applyContainerSecurityContext (containerSecurityContext vc)
            (valkeyContainer vc # (if metricsEnabled vc then [buildExporter vc] else [])),
          po_Volumes = dataVolumes vc, po_NodeSelector = sp_NodeSelector (vc_Spec vc),
          po_Tolerations = sp_Tolerations (vc_Spec vc),
          po_Affinity = Some (Deref (sp_Affinity (vc_Spec vc)) (defaultAntiAffinity vc)),
          po_TopologySpreadConstraints = (if sp_TopologySpreadConstraints (vc_Spec vc) = [] then defaultTopologySpread vc
            else sp_TopologySpreadConstraints (vc_Spec vc)),
          po_ImagePullSecrets = sp_ImagePullSecrets (vc_Spec vc), po_SecurityContext = Some (podSecurityContext vc),
          po_TerminationGracePeriodSeconds = clusterShutdownGracePeriod vc\<rparr>\<rparr>,
      sts_Selector = labelsFor vc, sts_PodManagementPolicy = ''Parallel'',
      sts_VolumeClaimTemplates = (if usesMemoryStorage vc then [] else [buildDataPVC vc]),
      sts_Generation = 0, sts_ObservedGeneration = 0, sts_ReadyReplicas = 0, sts_UpdatedReplicas = 0,
      sts_StatusReplicas = 0, sts_CurrentRevision = [], sts_UpdateRevision = []\<rparr>"

text \<open>One shard of the per-shard layout: the same template with the labels and the placement of the shard.\<close>

definition buildShardStatefulSet :: "ValkeyCluster \<Rightarrow> int \<Rightarrow> string \<Rightarrow> bool \<Rightarrow> StatefulSet" where
  "buildShardStatefulSet vc shard configHash proactive =
     (let sts = buildStatefulSet vc configHash proactive; sl = shardLabelsFor vc shard;
          tmpl = (sts_Template sts)\<lparr>pt_Labels := podLabelsFor vc sl\<rparr>;
          tmpl = (if sp_Affinity (vc_Spec vc) = None
            then tmpl\<lparr>pt_Spec := (pt_Spec tmpl)\<lparr>po_Affinity := Some (shardAntiAffinity vc shard)\<rparr>\<rparr> else tmpl)
      in sts\<lparr>sts_Name := shardStsName vc shard, sts_Labels := sl, sts_ServiceName := shardHeadlessName vc shard,
           sts_Replicas := Some (int32 (1 + replicasPerShardOf vc)), sts_Selector := sl, sts_Template := tmpl\<rparr>)"

definition ensureStatefulSet :: "env \<Rightarrow> (StatefulSet \<Rightarrow> string) \<Rightarrow> string \<Rightarrow> (kerr + StatefulSet) op" where
  "ensureStatefulSet env specHash configHash = do {
     vc \<leftarrow> get_vc;
     let proactive = (proactiveRolloutEnabled vc \<and>
       sp_Topology (vc_Spec vc) \<in> {TopologyReplication, TopologyCluster, TopologySentinel});
     r \<leftarrow> applyStatefulSet env specHash (buildStatefulSet vc configHash proactive);
     case r of
       Inl e \<Rightarrow> State_Monad.return (Inl e)
     | Inr sts \<Rightarrow> do {
         err \<leftarrow> ensurePVCSize env;
         State_Monad.return (case err of Some e \<Rightarrow> Inl e | None \<Rightarrow> Inr sts) } }"

fun ensureShards :: "env \<Rightarrow> (StatefulSet \<Rightarrow> string) \<Rightarrow> string \<Rightarrow> int \<Rightarrow> int list \<Rightarrow> (kerr + int) op" where
  "ensureShards env specHash configHash ready [] = State_Monad.return (Inr ready)"
| "ensureShards env specHash configHash ready (s # ss) = do {
     vc \<leftarrow> get_vc;
     err \<leftarrow> ensureShardHeadlessService env s;
     case err of
       Some e \<Rightarrow> State_Monad.return (Inl e)
     | None \<Rightarrow> do {
         r \<leftarrow> applyStatefulSet env specHash (buildShardStatefulSet vc s configHash (proactiveRolloutEnabled vc));
         case r of
           Inl e \<Rightarrow> State_Monad.return (Inl e)
         | Inr sts \<Rightarrow> ensureShards env specHash configHash (int32 (ready + sts_ReadyReplicas sts)) ss } }"

definition ensureShardWorkload :: "env \<Rightarrow> (StatefulSet \<Rightarrow> string) \<Rightarrow> string \<Rightarrow> (kerr + int) op" where
  "ensureShardWorkload env specHash configHash = do {
     vc \<leftarrow> get_vc;
     r \<leftarrow> ensureShards env specHash configHash 0 (range_int (shardCountOf vc));
     case r of
       Inl e \<Rightarrow> State_Monad.return (Inl e)
     | Inr ready \<Rightarrow> do {
         err \<leftarrow> ensurePVCSize env;
         State_Monad.return (case err of Some e \<Rightarrow> Inl e | None \<Rightarrow> Inr ready) } }"

section \<open>The StatefulSet of the Sentinels\<close>

definition sentinelInitEnv :: "ValkeyCluster \<Rightarrow> (string \<times> EnvSource) list" where
  "sentinelInitEnv vc = (if \<not> AuthEnabled (vc_Spec vc) then []
     else [(envValkeyPassword, secretRef (authSecretName vc) secretKeyPassword)])"

definition sentinelMounts :: "ValkeyCluster \<Rightarrow> VolumeMount list" where
  "sentinelMounts vc = [mountRO configVolumeName ''/etc/sentinel'', mount dataVolumeName dataMountPath]
     @ (if tlsEnabled vc then [mountRO tlsVolumeName tlsMountPath] else [])"

definition sentinelImage :: "ValkeyCluster \<Rightarrow> string" where
  "sentinelImage vc = (if se_Image (sentinel_spec vc) = [] then sp_Image (vc_Spec vc) else se_Image (sentinel_spec vc))"

definition sentinelInit :: "ValkeyCluster \<Rightarrow> Container" where
  "sentinelInit vc = zero_container\<lparr>ct_Name := ''sentinel-init'', ct_Image := sentinelImage vc,
     ct_ImagePullPolicy := sp_ImagePullPolicy (vc_Spec vc), ct_Command := [shellCmd, ''-c'', renderSentinelInitScript vc],
     ct_Env := sentinelInitEnv vc, ct_VolumeMounts := sentinelMounts vc,
     ct_SecurityContext := Some (containerSecurityContext vc)\<rparr>"

definition sentinelContainer :: "ValkeyCluster \<Rightarrow> Container" where
  "sentinelContainer vc = zero_container\<lparr>ct_Name := ''sentinel'', ct_Image := sentinelImage vc,
     ct_ImagePullPolicy := sp_ImagePullPolicy (vc_Spec vc), ct_Command := [''valkey-server''],
     ct_Args := [dataMountPath @ ''/runtime-sentinel.conf'', ''--sentinel''],
     ct_Ports := [tcpPort ''sentinel'' (sentinelListenPort vc)], ct_Resources := se_Resources (sentinel_spec vc),
     ct_VolumeMounts := sentinelMounts vc, ct_ReadinessProbe := Some (valkeyProbe vc (sentinelListenPort vc) 5 5),
     ct_LivenessProbe := Some (valkeyProbe vc (sentinelListenPort vc) 15 20),
     ct_SecurityContext := Some (containerSecurityContext vc)\<rparr>"

definition buildSentinelStatefulSet :: "ValkeyCluster \<Rightarrow> bool \<Rightarrow> StatefulSet" where
  "buildSentinelStatefulSet vc proactive =
     \<lparr>sts_Name = sentinelStatefulSetName vc, sts_Replicas = Some (se_Replicas (sentinel_spec vc)),
      sts_Labels = sentinelLabels vc, sts_ServiceName = sentinelStatefulSetName vc,
      sts_OnDelete = updateStrategyFor proactive, sts_Annotations = [],
      sts_Template = \<lparr>pt_Labels = podLabelsFor vc (sentinelPodLabels vc), pt_Annotations = [],
        pt_Spec = \<lparr>po_RestartPolicy = [], po_InitContainers = [sentinelInit vc],
          po_Containers = sentinelContainer vc # (if sentinelMetricsEnabled vc then [buildSentinelExporter vc] else []),
          po_Volumes = [(configVolumeName, VConfigMap (vc_Name vc @ ''-sentinel-config'') [])]
            @ (if tlsEnabled vc then [(tlsVolumeName, VSecret (tlsSecretName vc) [])] else []),
          po_NodeSelector = sp_NodeSelector (vc_Spec vc), po_Tolerations = sp_Tolerations (vc_Spec vc),
          po_Affinity = Some (sentinelAffinity vc), po_TopologySpreadConstraints = defaultTopologySpread vc,
          po_ImagePullSecrets = sp_ImagePullSecrets (vc_Spec vc), po_SecurityContext = Some (podSecurityContext vc),
          po_TerminationGracePeriodSeconds = None\<rparr>\<rparr>,
      sts_Selector = sentinelLabels vc, sts_PodManagementPolicy = [],
      sts_VolumeClaimTemplates = [\<lparr>cl_Name = dataVolumeName, cl_Labels = sentinelLabels vc,
        cl_AccessModes = [''ReadWriteOnce''], cl_StorageClassName = storageClassName vc, cl_Storage = 1024 * 1024 * 1024\<rparr>],
      sts_Generation = 0, sts_ObservedGeneration = 0, sts_ReadyReplicas = 0, sts_UpdatedReplicas = 0,
      sts_StatusReplicas = 0, sts_CurrentRevision = [], sts_UpdateRevision = []\<rparr>"

definition ensureSentinelStatefulSet :: "env \<Rightarrow> string \<Rightarrow> bool \<Rightarrow> (kerr + StatefulSet) op" where
  "ensureSentinelStatefulSet env configHash holdTemplate = do {
     vc \<leftarrow> get_vc;
     let sts = buildSentinelStatefulSet vc (proactiveRolloutEnabled vc);
     let sts = (if configHash \<noteq> []
       then sts\<lparr>sts_Template := (sts_Template sts)\<lparr>pt_Annotations := [(configHashAnnotation, configHash)]\<rparr>\<rparr> else sts);
     r \<leftarrow> ask (\<lambda>t. env_sts env t (sts_Name sts));
     case r of
       Inl e \<Rightarrow>
         if e = NotFound then do {
           err \<leftarrow> create_obj env (KStatefulSet sts);
           State_Monad.return (case err of Some e \<Rightarrow> Inl e | None \<Rightarrow> Inr sts) }
         else State_Monad.return (Inl e)
     | Inr existing \<Rightarrow> do {
         let new = existing\<lparr>sts_Replicas := sts_Replicas sts,
           sts_Template := (if holdTemplate then sts_Template existing else sts_Template sts),
           sts_OnDelete := sts_OnDelete sts, sts_Labels := sts_Labels sts\<rparr>;
         err \<leftarrow> update_obj env (KStatefulSet new);
         State_Monad.return (case err of Some e \<Rightarrow> Inl e | None \<Rightarrow> Inr new) } }"

section \<open>Well-formed templates\<close>

definition volume_names :: "StatefulSet \<Rightarrow> string list" where
  "volume_names sts = map fst (po_Volumes (pt_Spec (sts_Template sts))) @ map cl_Name (sts_VolumeClaimTemplates sts)"

definition pod_containers :: "StatefulSet \<Rightarrow> Container list" where
  "pod_containers sts = po_InitContainers (pt_Spec (sts_Template sts)) @ po_Containers (pt_Spec (sts_Template sts))"

text \<open>
  What the API server and the kubelet ask of a StatefulSet: the names of volumes and containers are
  unique, every mount names a volume or a claim, and the selector selects the pods of the template.
\<close>

definition wf_sts :: "StatefulSet \<Rightarrow> bool" where
  "wf_sts sts \<longleftrightarrow> distinct (volume_names sts) \<and> distinct (map ct_Name (pod_containers sts)) \<and>
     list_all (\<lambda>c. set (map vm_Name (ct_VolumeMounts c)) \<subseteq> set (volume_names sts) \<and> ct_SecurityContext c \<noteq> None) (pod_containers sts) \<and>
     selects (sts_Selector sts) (pt_Labels (sts_Template sts))"

definition governed :: "StatefulSet \<Rightarrow> Service \<Rightarrow> bool" where
  "governed sts svc \<longleftrightarrow> sts_ServiceName sts = svc_Name svc \<and> svc_Headless svc \<and> selects (svc_Selector svc) (pt_Labels (sts_Template sts))"

lemma selects_podLabelsFor: "selects l ls \<Longrightarrow> selects l (podLabelsFor vc ls)"
  using map_of_podLabelsFor by (fastforce simp: selects_def list_all_iff)

lemma selects_self: "distinct (map fst ls) \<Longrightarrow> selects ls ls"
  by (auto simp: selects_def list_all_iff)

lemma label_keys:
  "distinct (map fst (labelsFor vc))" "distinct (map fst (shardLabelsFor vc s))"
  "distinct (map fst (sentinelLabels vc))" "distinct (map fst (sentinelPodLabels vc))"
  by (simp_all add: labelsFor_def shardLabelsFor_def sentinelLabels_def sentinelPodLabels_def maps_Copy_def constants)

lemma selects_sentinelPods: "selects (sentinelLabels vc) (sentinelPodLabels vc)"
  by (simp add: selects_def sentinelPodLabels_def sentinelLabels_def labelsFor_def maps_Copy_def constants)

lemmas volume_constants = configVolumeName_def dataVolumeName_def tlsVolumeName_def sourceCAVolumeName_def

lemma mounts_simps [simp]: "vm_Name (mount n p) = n" "vm_Name (mountRO n p) = n"
  by (simp_all add: mount_def mountRO_def)

lemma sourceCA_tls: "sourceCAMergeEnabled vc \<Longrightarrow> tlsEnabled vc"
  by (auto simp: sourceCAMergeEnabled_def split: option.splits)

lemma volume_names_data: "volume_names (buildStatefulSet vc h p) =
    [configVolumeName] @ (if tlsEnabled vc then [tlsVolumeName] else []) @ (if sourceCAMergeEnabled vc then [sourceCAVolumeName] else [])
    @ [dataVolumeName]"
  by (simp add: volume_names_def buildStatefulSet_def dataVolumes_def sourceCAVolume_def buildDataPVC_def)

lemma containers_data:
  "pod_containers (buildStatefulSet vc h p) = applyContainerSecurityContext (containerSecurityContext vc)
     (dataInitContainers vc @ valkeyContainer vc # (if metricsEnabled vc then [buildExporter vc] else []))"
  by (simp add: pod_containers_def buildStatefulSet_def applyContainerSecurityContext_def)

lemma container_names:
  "ct_Name (configInit vc) = ''config-init''" "ct_Name (valkeyContainer vc) = ''valkey''"
  "ct_Name (buildRestoreInitContainer vc r s3) = ''restore''" "ct_Name (exporterContainer vc port n) = ''metrics''"
  by (simp_all add: configInit_def valkeyContainer_def buildRestoreInitContainer_def exporterContainer_def metricsPortName_def Let_def)

lemma container_mounts:
  "map vm_Name (ct_VolumeMounts (configInit vc)) = map vm_Name (configInitMounts vc)"
  "map vm_Name (ct_VolumeMounts (valkeyContainer vc)) = [configVolumeName, dataVolumeName] @ (if tlsEnabled vc then [tlsVolumeName] else [])"
  "map vm_Name (ct_VolumeMounts (buildRestoreInitContainer vc r s3)) = [dataVolumeName]"
  "map vm_Name (ct_VolumeMounts (exporterContainer vc port n)) = []"
  by (simp_all add: configInit_def valkeyContainer_def buildRestoreInitContainer_def exporterContainer_def zero_container_def Let_def)

lemma dataInit_cases:
  assumes "c \<in> set (dataInitContainers vc)"
  obtains "c = configInit vc" | r s3 where "c = buildRestoreInitContainer vc r s3"
  using assms by (auto simp: dataInitContainers_def split: option.splits)

lemma distinct_containers: "distinct (map ct_Name (pod_containers (buildStatefulSet vc h p)))"
proof -
  have "map ct_Name (dataInitContainers vc) \<in> {[''config-init''], [''restore'', ''config-init'']}"
    by (auto simp: dataInitContainers_def container_names split: option.splits)
  then show ?thesis
    by (auto simp: containers_data applyContainerSecurityContext_def comp_def container_names buildExporter_def)
qed

lemma mounts_data:
  assumes "c \<in> set (dataInitContainers vc @ valkeyContainer vc # (if metricsEnabled vc then [buildExporter vc] else []))"
  shows "set (map vm_Name (ct_VolumeMounts c)) \<subseteq> set (volume_names (buildStatefulSet vc h p))"
proof -
  consider "c = configInit vc" | r s3 where "c = buildRestoreInitContainer vc r s3" | "c = valkeyContainer vc"
    | "c = exporterContainer vc (dataPort vc) metricsPortName"
    using assms by (auto simp: buildExporter_def elim: dataInit_cases split: if_splits)
  then show ?thesis
  proof cases
    case 1
    then show ?thesis unfolding 1 container_mounts volume_names_data
      by (auto simp: configInitMounts_def dest: sourceCA_tls)
  qed (simp_all only: container_mounts volume_names_data, auto)
qed

lemma wf_data: "wf_sts (buildStatefulSet vc h p)"
proof -
  have "distinct (volume_names (buildStatefulSet vc h p))"
    unfolding volume_names_data by (simp add: volume_constants)
  moreover have "list_all (\<lambda>c. set (map vm_Name (ct_VolumeMounts c)) \<subseteq> set (volume_names (buildStatefulSet vc h p)) \<and>
      ct_SecurityContext c \<noteq> None) (pod_containers (buildStatefulSet vc h p))"
    unfolding containers_data applyContainerSecurityContext_def list_all_iff set_map
  proof (intro ballI, elim imageE)
    fix c d assume "c = d\<lparr>ct_SecurityContext := Some (containerSecurityContext vc)\<rparr>"
      and "d \<in> set (dataInitContainers vc @ valkeyContainer vc # (if metricsEnabled vc then [buildExporter vc] else []))"
    then show "vm_Name ` set (ct_VolumeMounts c) \<subseteq> set (volume_names (buildStatefulSet vc h p)) \<and> ct_SecurityContext c \<noteq> None"
      using mounts_data [of d vc h p] by simp
  qed
  moreover have "selects (sts_Selector (buildStatefulSet vc h p)) (pt_Labels (sts_Template (buildStatefulSet vc h p)))"
    by (simp add: buildStatefulSet_def selects_podLabelsFor selects_self label_keys)
  ultimately show ?thesis by (simp add: wf_sts_def distinct_containers)
qed

lemma shard_simps:
  "volume_names (buildShardStatefulSet vc s h p) = volume_names (buildStatefulSet vc h p)"
  "pod_containers (buildShardStatefulSet vc s h p) = pod_containers (buildStatefulSet vc h p)"
  "sts_Selector (buildShardStatefulSet vc s h p) = shardLabelsFor vc s"
  "pt_Labels (sts_Template (buildShardStatefulSet vc s h p)) = podLabelsFor vc (shardLabelsFor vc s)"
  by (simp_all add: buildShardStatefulSet_def Let_def volume_names_def pod_containers_def)

lemma wf_sentinels: "wf_sts (buildSentinelStatefulSet vc p)"
proof -
  have "selects (sts_Selector (buildSentinelStatefulSet vc p)) (pt_Labels (sts_Template (buildSentinelStatefulSet vc p)))"
    by (simp add: buildSentinelStatefulSet_def selects_podLabelsFor selects_sentinelPods)
  then show ?thesis
    by (auto simp: wf_sts_def volume_names_def pod_containers_def buildSentinelStatefulSet_def sentinelInit_def sentinelContainer_def
        sentinelMounts_def buildSentinelExporter_def exporterContainer_def zero_container_def metricsPortName_def volume_constants Let_def)
qed

text \<open>
  C15. Every StatefulSet that the operator builds is well formed, whatever the spec says: the names of its
  volumes and containers are unique, every container mounts only volumes that the template or a claim
  provides, every container has a security context, and the selector selects the pods of the template,
  also when the user adds labels of their own. The data pods, those of a shard and the Sentinels are
  selected by the headless Service that their StatefulSet names, so that their DNS names exist; the
  Sentinels are with both selectors that this Service may have.
\<close>

theorem statefulSets_wf:
  "wf_sts (buildStatefulSet vc h p) \<and> governed (buildStatefulSet vc h p) (buildHeadlessService vc) \<and>
   wf_sts (buildShardStatefulSet vc s h p) \<and> governed (buildShardStatefulSet vc s h p) (buildShardHeadlessService vc s) \<and>
   wf_sts (buildSentinelStatefulSet vc p) \<and> governed (buildSentinelStatefulSet vc p) (sentinelService vc labeled)"
proof (intro conjI)
  show "governed (buildSentinelStatefulSet vc p) (sentinelService vc labeled)"
    by (simp add: governed_def sentinelService_def buildSentinelStatefulSet_def selects_podLabelsFor selects_sentinelPods selects_self
        label_keys)
  show "governed (buildStatefulSet vc h p) (buildHeadlessService vc)"
    by (simp add: governed_def buildHeadlessService_def buildStatefulSet_def selects_podLabelsFor selects_self label_keys)
  show "wf_sts (buildShardStatefulSet vc s h p)"
    using wf_data [of vc h p] by (simp add: wf_sts_def shard_simps selects_podLabelsFor selects_self label_keys)
  show "governed (buildShardStatefulSet vc s h p) (buildShardHeadlessService vc s)"
    by (simp add: governed_def buildShardHeadlessService_def buildHeadlessService_def shard_simps selects_podLabelsFor selects_self label_keys)
      (simp add: buildShardStatefulSet_def Let_def)
qed (rule wf_data wf_sentinels)+

section \<open>What does not restart the data pods\<close>

definition with_sentinel :: "ValkeyCluster \<Rightarrow> SentinelSpec \<Rightarrow> ValkeyCluster" where
  "with_sentinel vc se = vc\<lparr>vc_Spec := (vc_Spec vc)\<lparr>sp_Sentinel := Some se\<rparr>\<rparr>"

lemma with_sentinel_fields [simp]:
  "vc_Name (with_sentinel vc se) = vc_Name vc" "vc_Namespace (with_sentinel vc se) = vc_Namespace vc"
  "vc_Annotations (with_sentinel vc se) = vc_Annotations vc" "vc_Status (with_sentinel vc se) = vc_Status vc"
  "vc_Spec (with_sentinel vc se) = (vc_Spec vc)\<lparr>sp_Sentinel := Some se\<rparr>"
  by (simp_all add: with_sentinel_def)

lemma with_sentinel_names [simp]:
  "tlsEnabled (with_sentinel vc se) = tlsEnabled vc" "dataPort (with_sentinel vc se) = dataPort vc"
  "metricsEnabled (with_sentinel vc se) = metricsEnabled vc" "topologyReplicates (with_sentinel vc se) = topologyReplicates vc"
  "usesMemoryStorage (with_sentinel vc se) = usesMemoryStorage vc" "labelsFor (with_sentinel vc se) = labelsFor vc"
  "podLabelsFor (with_sentinel vc se) ls = podLabelsFor vc ls" "headlessServiceName (with_sentinel vc se) = headlessServiceName vc"
  "statefulSetName (with_sentinel vc se) = statefulSetName vc" "sentinelStatefulSetName (with_sentinel vc se) = sentinelStatefulSetName vc"
  "configMapName (with_sentinel vc se) = configMapName vc" "passwordSecretName (with_sentinel vc se) = passwordSecretName vc"
  "authSecretName (with_sentinel vc se) = authSecretName vc" "tlsSecretName (with_sentinel vc se) = tlsSecretName vc"
  "statefulSetReplicas (with_sentinel vc se) = statefulSetReplicas vc" "perShardEnabled (with_sentinel vc se) = perShardEnabled vc"
  "shardCountOf (with_sentinel vc se) = shardCountOf vc" "existingAuthSecret (with_sentinel vc se) = existingAuthSecret vc"
  "AuthEnabled ((vc_Spec vc)\<lparr>sp_Sentinel := Some se\<rparr>) = AuthEnabled (vc_Spec vc)" "dataSize (with_sentinel vc se) = dataSize vc"
  by (simp_all add: tlsEnabled_def dataPort_def metricsEnabled_def topologyReplicates_def usesMemoryStorage_def labelsFor_def
      podLabelsFor_def headlessServiceName_def statefulSetName_def sentinelStatefulSetName_def configMapName_def passwordSecretName_def
      authSecretName_def tlsSecretName_def statefulSetReplicas_def totalReplicas_def perShardEnabled_def shardCountOf_def
      existingAuthSecret_def AuthEnabled_def dataSize_def Let_def cong: option.case_cong if_cong)

lemma with_sentinel_config [simp]:
  "sourceCAMergeEnabled (with_sentinel vc se) = sourceCAMergeEnabled vc" "caCertPath (with_sentinel vc se) = caCertPath vc"
  "persistenceMode (with_sentinel vc se) = persistenceMode vc" "sentinelListenPort (with_sentinel vc se) = sentinelListenPort vc"
  "authArgs (with_sentinel vc se) = authArgs vc" "sentinelTLSArgs (with_sentinel vc se) = sentinelTLSArgs vc"
  "managedSeed (with_sentinel vc se) x = managedSeed vc x" "caMergeLine (with_sentinel vc se) = caMergeLine vc"
  "dataEnv (with_sentinel vc se) = dataEnv vc" "passwordEnv (with_sentinel vc se) = passwordEnv vc"
  "podAnnotations (with_sentinel vc se) h = podAnnotations vc h"
  "clusterShutdownGracePeriod (with_sentinel vc se) = clusterShutdownGracePeriod vc"
  "podSecurityContext (with_sentinel vc se) = podSecurityContext vc" "containerSecurityContext (with_sentinel vc se) = containerSecurityContext vc"
  "defaultTopologySpread (with_sentinel vc se) = defaultTopologySpread vc" "defaultAntiAffinity (with_sentinel vc se) = defaultAntiAffinity vc"
  "memoryDataSizeLimit (with_sentinel vc se) = memoryDataSizeLimit vc" "storageClassName (with_sentinel vc se) = storageClassName vc"
  by (simp_all add: sourceCAMergeEnabled_def caCertPath_def persistenceMode_def sentinelListenPort_def authArgs_def sentinelTLSArgs_def
      managedSeed_def caMergeLine_def dataEnv_def passwordEnv_def podAnnotations_def clusterShutdownGracePeriod_def podSecurityContext_def
      containerSecurityContext_def defaultTopologySpread_def defaultAntiAffinity_def memoryDataSizeLimit_def storageClassName_def cong: option.case_cong if_cong)

lemma with_sentinel_scripts [simp]:
  "sentinelDiscoveryFuncs (with_sentinel vc se) = sentinelDiscoveryFuncs vc" "initCommon (with_sentinel vc se) = initCommon vc"
  "dataReadinessProbe (with_sentinel vc se) p = dataReadinessProbe vc p" "valkeyProbe (with_sentinel vc se) p i j = valkeyProbe vc p i j"
  "configInitMounts (with_sentinel vc se) = configInitMounts vc" "dataVolumes (with_sentinel vc se) = dataVolumes vc"
  "buildDataPVC (with_sentinel vc se) = buildDataPVC vc" "exporterContainer (with_sentinel vc se) p n = exporterContainer vc p n"
  "buildRestoreInitContainer (with_sentinel vc se) r s3 = buildRestoreInitContainer vc r s3"
  by (simp_all add: sentinelDiscoveryFuncs_def initCommon_def dataReadinessProbe_def valkeyProbe_def configInitMounts_def dataVolumes_def
      sourceCAVolume_def buildDataPVC_def exporterContainer_def buildRestoreInitContainer_def Let_def cong: option.case_cong if_cong)

lemma with_sentinel_data:
  assumes "sp_Sentinel (vc_Spec vc) = Some se0"
  shows "configInit (with_sentinel vc se) = configInit vc" "valkeyContainer (with_sentinel vc se) = valkeyContainer vc"
  using assms
  by (simp_all add: configInit_def valkeyContainer_def renderInitScript_def renderSentinelDataRole_def renderSentinelPrimaryGuard_def
      sentinelPrimaryGuardActive_def cong: option.case_cong if_cong)

text \<open>
  C16. Changing the Sentinels never touches the data pods. Whatever is written into \<open>spec.sentinel\<close>, the
  StatefulSet of the data pods is built the same, scripts included, so no data pod is restarted; and a
  change of the number of Sentinels alone leaves the template of the Sentinel pods as it is, so that
  scaling them restarts none of them either.
\<close>

theorem buildStatefulSet_sentinel_scale:
  assumes "sp_Sentinel (vc_Spec vc) = Some se0"
  shows "buildStatefulSet (with_sentinel vc se) h p = buildStatefulSet vc h p \<and>
    sts_Template (buildSentinelStatefulSet (with_sentinel vc (se0\<lparr>se_Replicas := n\<rparr>)) p) = sts_Template (buildSentinelStatefulSet vc p)"
proof
  show "buildStatefulSet (with_sentinel vc se) h p = buildStatefulSet vc h p"
    by (simp add: buildStatefulSet_def dataInitContainers_def buildExporter_def with_sentinel_data [OF assms] cong: option.case_cong if_cong)
  have spec: "sentinel_spec (with_sentinel vc (se0\<lparr>se_Replicas := n\<rparr>)) = (sentinel_spec vc)\<lparr>se_Replicas := n\<rparr>"
    using assms by (simp add: sentinel_spec_def Deref_def)
  then have init: "sentinelInit (with_sentinel vc (se0\<lparr>se_Replicas := n\<rparr>)) = sentinelInit vc"
    "sentinelContainer (with_sentinel vc (se0\<lparr>se_Replicas := n\<rparr>)) = sentinelContainer vc"
    by (simp_all add: sentinelInit_def sentinelContainer_def renderSentinelInitScript_def sentinelMounts_def sentinelImage_def sentinelInitEnv_def Let_def cong: if_cong)
  show "sts_Template (buildSentinelStatefulSet (with_sentinel vc (se0\<lparr>se_Replicas := n\<rparr>)) p) = sts_Template (buildSentinelStatefulSet vc p)"
    by (simp add: buildSentinelStatefulSet_def init sentinelPodLabels_def sentinelLabels_def buildSentinelExporter_def
        sentinelMetricsEnabled_def sentinelAffinity_def cong: option.case_cong if_cong)
qed

theorem buildStatefulSet_sentinel_scale_witness:
  "sts_Template (buildStatefulSet (with_sentinel (cur trio_world) \<lparr>se_Replicas = 5, se_Quorum = 3, se_Image = ''valkey:9'',
       se_DownAfterMilliseconds = 100, se_FailoverTimeout = 0, se_Resources = (None, [])\<rparr>) ''h'' True) =
     sts_Template (buildStatefulSet (cur trio_world) ''h'' True)"
  using buildStatefulSet_sentinel_scale [of "cur trio_world"] by (simp add: trio_world_def)

end
