(* ===== verification/Webhook.thy ===== *)
theory Webhook
  imports Cluster_Jobs
begin

text \<open>
  The admission webhook of a ValkeyCluster
  (\<open>src/internal/webhook/v1beta1/valkeycluster_webhook.go\<close>): the Secrets that a spec refers to, the
  checks that refuse an object and the warnings. The lemmas say exactly which objects are admitted,
  whatever the order in which Go iterates over its map, and what a restored Cluster that was
  admitted downloads.
\<close>

section \<open>Definitions\<close>

definition acceptReplicationDurabilityRiskAnnotation :: string where
  "acceptReplicationDurabilityRiskAnnotation = ''valkey.wellcake.io/accept-replication-durability-risk''"

text \<open>\<open>checks[name] = where\<close>: a later entry replaces an earlier one of the same name.\<close>

definition put :: "string \<Rightarrow> string \<Rightarrow> labels \<Rightarrow> labels" where
  "put name path checks = (name, path) # filter (\<lambda>(n, _). n \<noteq> name) checks"

definition s3Secret :: "S3Spec option \<Rightarrow> string" where
  "s3Secret s = (case s of Some s3 \<Rightarrow> s3_CredentialsSecret s3 | None \<Rightarrow> [])"

definition putUnlessEmpty :: "string \<Rightarrow> string \<Rightarrow> labels \<Rightarrow> labels" where
  "putUnlessEmpty name path checks = (if name \<noteq> [] then put name path checks else checks)"

definition referencedSecrets :: "ValkeyCluster \<Rightarrow> labels" where
  "referencedSecrets vc =
     (let sp = vc_Spec vc;
          checks = (if AuthEnabled sp then putUnlessEmpty (au_ExistingSecret (the (sp_Auth sp))) ''spec.auth.existingSecret'' [] else []);
          checks = (case sp_TLS sp of
              Some t \<Rightarrow> if tls_Enabled t then putUnlessEmpty (tls_ExistingSecret t) ''spec.tls.existingSecret'' checks else checks
            | None \<Rightarrow> checks);
          checks = (case sp_Backup sp of
              Some b \<Rightarrow> if bk_Enabled b then putUnlessEmpty (s3Secret (bk_S3 b)) ''spec.backup.s3.credentialsSecret'' checks else checks
            | None \<Rightarrow> checks);
          checks = (case sp_RestoreFrom sp of
              Some r \<Rightarrow> putUnlessEmpty (s3Secret (rs_S3 r)) ''spec.restoreFrom.s3.credentialsSecret'' checks
            | None \<Rightarrow> checks);
          checks = (case Option.bind (sp_ReplicateFrom sp) rf_PasswordSecret of
              Some k \<Rightarrow> put (sk_Name k) ''spec.replicateFrom.passwordSecret.name'' checks
            | None \<Rightarrow> checks)
      in case Option.bind (sp_ReplicateFrom sp) rf_CASecret of
           Some k \<Rightarrow> put (sk_Name k) ''spec.replicateFrom.caSecret.name'' checks
         | None \<Rightarrow> checks)"

text \<open>A refusal is a message with the error it wraps, if any.\<close>

type_synonym refusal = "string \<times> kerr option"

definition checkSecret :: "env \<Rightarrow> ValkeyCluster \<Rightarrow> string \<times> string \<Rightarrow> refusal option op" where
  "checkSecret env vc ref = do {
     s \<leftarrow> ask (\<lambda>t. env_secret env t (fst ref));
     State_Monad.return (case s of
         Inr _ \<Rightarrow> None
       | Inl e \<Rightarrow>
           if e = NotFound
           then Some (snd ref @ '': Secret \"'' @ fst ref @ ''\" not found in namespace \"'' @ vc_Namespace vc @ ''\"'', None)
           else Some (snd ref @ '': unable to read Secret \"'' @ fst ref @ ''\"'', Some e)) }"

definition checkTopology :: "ValkeyCluster \<Rightarrow> string option" where
  "checkTopology vc = (case sp_Topology (vc_Spec vc) of
       TopologyCluster \<Rightarrow> if sp_Shards (vc_Spec vc) = None then Some ''topology=Cluster requires spec.shards'' else None
     | TopologySentinel \<Rightarrow> if sp_Sentinel (vc_Spec vc) = None then Some ''topology=Sentinel requires spec.sentinel'' else None
     | _ \<Rightarrow> None)"

definition restoreWarning :: string where
  "restoreWarning = ''topology=Cluster restore is a guided manual procedure: per-shard RDBs are ''
     @ ''pre-loaded, but cluster assembly (CLUSTER ADDSLOTSRANGE/MEET/REPLICATE) is ''
     @ ''manual '' @ [CHR 0xE2, CHR 0x80, CHR 0x94] @ '' see docs/runbook.md#cluster-restore. The cluster must have the same ''
     @ ''shard count as the snapshot.''"

definition checkRestore :: "ValkeyCluster \<Rightarrow> string + string list" where
  "checkRestore vc = (case (sp_Topology (vc_Spec vc), sp_RestoreFrom (vc_Spec vc)) of
       (TopologyCluster, Some r) \<Rightarrow>
         if \<not> Contains (rs_SourceKey r) ''{shard}''
         then Inl (''topology=Cluster with restoreFrom requires a {shard} ''
                @ ''placeholder in spec.restoreFrom.sourceKey (per-shard restore)'')
         else Inr [restoreWarning]
     | _ \<Rightarrow> Inr [])"

definition durabilityRisk :: string where
  "durabilityRisk = ''profile=Durable with topology=Replication uses operator-arbitrated ''
     @ ''failover (bounded by the reconcile interval and the operator's own liveness, with ''
     @ ''a split-brain window on network partition); for durable data prefer topology=Sentinel ''
     @ ''or Cluster, which arbitrate failover in the data plane''"

definition durableOnReplication :: "ValkeyCluster \<Rightarrow> bool" where
  "durableOnReplication vc \<longleftrightarrow> sp_Profile (vc_Spec vc) = ProfileDurable \<and>
     (sp_Topology (vc_Spec vc) = TopologyUnset \<or> sp_Topology (vc_Spec vc) = TopologyReplication)"

definition acknowledged :: "ValkeyCluster \<Rightarrow> bool" where
  "acknowledged vc \<longleftrightarrow> mget (vc_Annotations vc) acceptReplicationDurabilityRiskAnnotation = ''true''"

text \<open>
  \<open>order\<close> is the order in which Go iterates over the map of referenced Secrets, which the language
  leaves open.
\<close>

definition validate :: "(labels \<Rightarrow> labels) \<Rightarrow> env \<Rightarrow> ValkeyCluster \<Rightarrow> bool \<Rightarrow> (refusal + string list) op" where
  "validate order env vc isCreate = do {
     missing \<leftarrow> first_state (checkSecret env vc) (order (referencedSecrets vc));
     State_Monad.return (case missing of
         Some r \<Rightarrow> Inl r
       | None \<Rightarrow> (case checkTopology vc of
           Some msg \<Rightarrow> Inl (msg, None)
         | None \<Rightarrow> (case checkRestore vc of
             Inl msg \<Rightarrow> Inl (msg, None)
           | Inr warnings \<Rightarrow>
               if durableOnReplication vc
               then if isCreate \<and> \<not> acknowledged vc
                 then Inl (durabilityRisk @ ''. To create it anyway, acknowledge the risk by setting ''
                   @ ''the annotation '' @ acceptReplicationDurabilityRiskAnnotation @ ''=\"true\"'', None)
                 else Inr (warnings @ [durabilityRisk @ ''.''])
               else Inr warnings))) }"

definition ValidateCreate :: "(labels \<Rightarrow> labels) \<Rightarrow> env \<Rightarrow> ValkeyCluster \<Rightarrow> (refusal + string list) op" where
  "ValidateCreate order env obj = validate order env obj True"

definition ValidateUpdate :: "(labels \<Rightarrow> labels) \<Rightarrow> env \<Rightarrow> ValkeyCluster \<Rightarrow> ValkeyCluster \<Rightarrow> (refusal + string list) op" where
  "ValidateUpdate order env old newObj = validate order env newObj False"

section \<open>Which objects are admitted\<close>

text \<open>The names of the Secrets a spec refers to, field by field.\<close>

definition nonempty :: "string \<Rightarrow> string set" where
  "nonempty n = (if n = [] then {} else {n})"

definition secret_names :: "ValkeyCluster \<Rightarrow> string set" where
  "secret_names vc = (let sp = vc_Spec vc in
     (if AuthEnabled sp then nonempty (au_ExistingSecret (the (sp_Auth sp))) else {})
     \<union> (case sp_TLS sp of Some t \<Rightarrow> if tls_Enabled t then nonempty (tls_ExistingSecret t) else {} | None \<Rightarrow> {})
     \<union> (case sp_Backup sp of Some b \<Rightarrow> if bk_Enabled b then nonempty (s3Secret (bk_S3 b)) else {} | None \<Rightarrow> {})
     \<union> (case sp_RestoreFrom sp of Some r \<Rightarrow> nonempty (s3Secret (rs_S3 r)) | None \<Rightarrow> {})
     \<union> sk_Name ` set_option (Option.bind (sp_ReplicateFrom sp) rf_PasswordSecret)
     \<union> sk_Name ` set_option (Option.bind (sp_ReplicateFrom sp) rf_CASecret))"

definition admissible :: "env \<Rightarrow> world \<Rightarrow> ValkeyCluster \<Rightarrow> bool \<Rightarrow> bool" where
  "admissible env w vc isCreate \<longleftrightarrow> (let sp = vc_Spec vc in
     (\<forall>n \<in> secret_names vc. \<exists>sec. env_secret env (acts w) n = Inr sec) \<and>
     (sp_Topology sp = TopologyCluster \<longrightarrow> sp_Shards sp \<noteq> None) \<and>
     (sp_Topology sp = TopologySentinel \<longrightarrow> sp_Sentinel sp \<noteq> None) \<and>
     (\<forall>r. sp_Topology sp = TopologyCluster \<and> sp_RestoreFrom sp = Some r \<longrightarrow> Contains (rs_SourceKey r) ''{shard}'') \<and>
     (isCreate \<and> durableOnReplication vc \<longrightarrow> acknowledged vc))"

lemma names_put [simp]: "fst ` set (put n p xs) = insert n (fst ` set xs)"
  by (auto simp: put_def image_iff)

lemma names_putUnlessEmpty [simp]: "fst ` set (putUnlessEmpty n p xs) = nonempty n \<union> fst ` set xs"
  by (simp add: putUnlessEmpty_def nonempty_def)

lemma names_stage [simp]:
  "fst ` set (if b then putUnlessEmpty n p xs else xs) = (if b then nonempty n else {}) \<union> fst ` set xs"
  "fst ` set (case x of Some y \<Rightarrow> put (f y) p xs | None \<Rightarrow> xs) = f ` set_option x \<union> fst ` set xs"
  "(\<And>y. fst ` set (g y) = A y \<union> fst ` set xs) \<Longrightarrow>
   fst ` set (case x of Some y \<Rightarrow> g y | None \<Rightarrow> xs) = (case x of Some y \<Rightarrow> A y | None \<Rightarrow> {}) \<union> fst ` set xs"
  by (simp_all split: option.split)

lemma names_referencedSecrets: "fst ` set (referencedSecrets vc) = secret_names vc"
  by (simp add: referencedSecrets_def secret_names_def Let_def Un_ac)

lemma run_checkSecrets:
  "run_state (first_state (checkSecret env vc) refs) w = (r, w') \<Longrightarrow>
   w' = w \<and> (r = None \<longleftrightarrow> (\<forall>n \<in> fst ` set refs. \<exists>sec. env_secret env (acts w) n = Inr sec))"
proof (induction refs)
  case (Cons ref refs)
  then show ?case
    by (cases "env_secret env (acts w) (fst ref)") (auto simp: checkSecret_def split: if_splits)
qed simp

text \<open>
  C40. The webhook admits an object exactly when every Secret its spec refers to can be read, a
  Cluster has its shard count and a Sentinel topology its Sentinels, the key of a Cluster restore
  has the shard placeholder, and, on creation only, the durable profile on the Replication topology
  is acknowledged. The answer does not depend on the order in which the map of Secrets is iterated,
  and the check writes nothing.
\<close>

theorem validate_admits:
  assumes "\<And>xs. set (order xs) = set xs"
  shows "case run_state (validate order env vc isCreate) w of (r, w') \<Rightarrow>
    w' = w \<and> ((\<exists>warnings. r = Inr warnings) \<longleftrightarrow> admissible env w vc isCreate)"
proof -
  obtain r w' where run: "run_state (first_state (checkSecret env vc) (order (referencedSecrets vc))) w = (r, w')"
    by (cases "run_state (first_state (checkSecret env vc) (order (referencedSecrets vc))) w")
  have secrets: "w' = w" "r = None \<longleftrightarrow> (\<forall>n \<in> secret_names vc. \<exists>sec. env_secret env (acts w) n = Inr sec)"
    using run_checkSecrets [OF run] names_referencedSecrets [of vc] by (simp_all add: assms)
  have topo: "checkTopology vc = None \<longleftrightarrow> (sp_Topology (vc_Spec vc) = TopologyCluster \<longrightarrow> sp_Shards (vc_Spec vc) \<noteq> None) \<and>
      (sp_Topology (vc_Spec vc) = TopologySentinel \<longrightarrow> sp_Sentinel (vc_Spec vc) \<noteq> None)"
    by (simp add: checkTopology_def split: Topology.splits)
  have restore: "(\<exists>ws. checkRestore vc = Inr ws) \<longleftrightarrow> (\<forall>r. sp_Topology (vc_Spec vc) = TopologyCluster \<and>
      sp_RestoreFrom (vc_Spec vc) = Some r \<longrightarrow> Contains (rs_SourceKey r) ''{shard}'')"
    by (auto simp: checkRestore_def split: Topology.splits option.splits)
  have "admissible env w vc isCreate \<longleftrightarrow> r = None \<and> checkTopology vc = None \<and> (\<exists>ws. checkRestore vc = Inr ws) \<and>
      (isCreate \<and> durableOnReplication vc \<longrightarrow> acknowledged vc)"
    unfolding admissible_def Let_def secrets(2) topo restore by blast
  then show ?thesis unfolding validate_def using run secrets(1)
    by (cases r; cases "checkTopology vc"; cases "checkRestore vc") simp_all
qed

text \<open>A new durable cluster of the Replication topology is refused unless the risk is acknowledged.\<close>

definition durable_vc :: "bool \<Rightarrow> ValkeyCluster" where
  "durable_vc ack = demo_vc\<lparr>vc_Spec := (vc_Spec demo_vc)\<lparr>sp_Profile := ProfileDurable\<rparr>,
     vc_Annotations := (if ack then [acceptReplicationDurabilityRiskAnnotation \<mapsto> ''true''] else (\<lambda>_. None))\<rparr>"

lemma durable_admissible:
  "admissible silent_env demo_world (durable_vc True) True" "\<not> admissible silent_env demo_world (durable_vc False) True"
  by (simp_all add: admissible_def secret_names_def durable_vc_def demo_vc_def zero_spec_def AuthEnabled_def
      acknowledged_def mget_def durableOnReplication_def)

theorem validate_admits_witness:
  "(\<exists>warnings. fst (run_state (validate rev silent_env (durable_vc True) True) demo_world) = Inr warnings) \<and>
   \<not> (\<exists>warnings. fst (run_state (validate rev silent_env (durable_vc False) True) demo_world) = Inr warnings)"
  using validate_admits [of rev, where env = silent_env and vc = "durable_vc True" and isCreate = True and w = demo_world]
    validate_admits [of rev, where env = silent_env and vc = "durable_vc False" and isCreate = True and w = demo_world] durable_admissible
  by (simp add: case_prod_beta)

section \<open>The manifest of a Cluster restore\<close>

lemma ReplaceOne_absent: "\<not> Contains s old \<Longrightarrow> ReplaceOne s old new = s"
  by (induction s) auto

lemma Contains_iff: "Contains s p \<longleftrightarrow> (\<exists>a b. s = a @ p @ b)"
proof (induction s)
  case (Cons c cs)
  have "(\<exists>a b. c # cs = a @ p @ b) \<longleftrightarrow> HasPrefix (c # cs) p \<or> (\<exists>a b. cs = a @ p @ b)"
  proof
    assume "\<exists>a b. c # cs = a @ p @ b"
    then obtain a b where ab: "c # cs = a @ p @ b" by blast
    then show "HasPrefix (c # cs) p \<or> (\<exists>a b. cs = a @ p @ b)"
      by (cases a) (auto simp: HasPrefix_iff)
  next
    assume "HasPrefix (c # cs) p \<or> (\<exists>a b. cs = a @ p @ b)"
    then show "\<exists>a b. c # cs = a @ p @ b"
      by (auto simp: HasPrefix_iff) (metis append_Nil, metis append_Cons)
  qed
  then show ?case using Cons.IH by simp
qed simp

lemma Contains_append_right: "Contains s (p @ q) \<Longrightarrow> Contains s q"
  unfolding Contains_iff by (metis append_assoc)

text \<open>
  The first occurrence of a pattern at the end of a text is the one that is replaced, when there is
  none before it.
\<close>

lemma ReplaceOne_first:
  assumes "\<And>k. k < length base \<Longrightarrow> \<not> HasPrefix (drop k (base @ old)) old" and "old \<noteq> []"
  shows "ReplaceOne (base @ old) old new = base @ new"
  using assms(1)
proof (induction base)
  case Nil
  then show ?case using assms(2) by (cases old) (simp_all add: HasPrefix_iff)
next
  case (Cons c cs)
  have "\<not> HasPrefix (c # cs @ old) old" using Cons.prems [of 0] by simp
  moreover have "ReplaceOne (cs @ old) old new = cs @ new"
    by (rule Cons.IH) (use Cons.prems [of "Suc _"] in simp)
  ultimately show ?case by simp
qed

text \<open>
  The webhook asks for the placeholder only. A key that has it, but not followed by \<open>.rdb\<close>, is
  admitted, and the assembly Job then downloads the key with its placeholder, verbatim, as the
  manifest.
\<close>

lemma restore_without_manifest:
  assumes "sp_RestoreFrom (vc_Spec vc) = Some r" and "rs_S3 r = Some s3"
    and "\<not> Contains (rs_SourceKey r) ''{shard}.rdb''"
  shows "\<exists>job init. buildRestoreAssemblyJob vc password name = Some job \<and> job_Init job = Some init \<and>
    ic_Script init = fetchScript s3 (rs_SourceKey r)"
proof -
  have "\<not> Contains (rs_SourceKey r) ''shard-{shard}.rdb''"
  proof
    assume "Contains (rs_SourceKey r) ''shard-{shard}.rdb''"
    then have "Contains (rs_SourceKey r) ''{shard}.rdb''"
      using Contains_append_right [of "rs_SourceKey r" "''shard-''" "''{shard}.rdb''"] by simp
    then show False using assms(3) by simp
  qed
  then show ?thesis using assms
    by (simp add: buildRestoreAssemblyJob_def clusterRestoreManifestKey_def ReplaceOne_absent)
qed

end
