(* ===== verification/Backup.thy ===== *)
theory Backup
  imports Workloads Webhook
begin

text \<open>
  The scheduled backup (\<open>src/internal/controller/backup.go\<close>): the scripts that dump and upload a
  snapshot, the CronJob that runs them, and the handler that applies or removes it. What the scripts
  store and fetch is the subject of \<open>Shell\<close>.
\<close>

section \<open>The scripts\<close>

definition backupVolumeName :: string where "backupVolumeName = ''backup''"

text \<open>\<open>strconv.Quote\<close> (the verb \<open>%q\<close>); bytes from 128 on are parts of printable runes.\<close>

definition quote_rune :: "char \<Rightarrow> string" where
  "quote_rune c = (let n = (of_char c :: nat) in
     if n = 0x22 \<or> n = 0x5C then [CHR 0x5C, c]
     else if n = 7 then [CHR 0x5C, CHR ''a''] else if n = 8 then [CHR 0x5C, CHR ''b'']
     else if n = 12 then [CHR 0x5C, CHR ''f''] else if n = 10 then [CHR 0x5C, CHR ''n'']
     else if n = 13 then [CHR 0x5C, CHR ''r''] else if n = 9 then [CHR 0x5C, CHR ''t'']
     else if n = 11 then [CHR 0x5C, CHR ''v'']
     else if n < 32 \<or> n = 127 then [CHR 0x5C, CHR ''x'', hex_digit (n div 16), hex_digit (n mod 16)]
     else [c])"

definition Quote :: "string \<Rightarrow> string" where
  "Quote s = [CHR 0x22] @ concat (map quote_rune s) @ [CHR 0x22]"

text \<open>The dump of every shard with the manifest of its slots. The hosts are joined by blanks.\<close>

definition dumpClusterScript :: "ValkeyCluster \<Rightarrow> string" where
  "dumpClusterScript vc =
     (let pwArg = authArgs vc; tlsArgs = jobTLSArgs vc in
     unlines [
     ''set -eu'',
     ''PORT='' @ Itoa (dataPort vc),
     ''HOSTS=\"'' @ Join (map pr_host (clusterDataPods vc)) '' '' @ ''\"'',
     ''VC() { valkey-cli'' @ pwArg @ tlsArgs @ '' \"$@\"; }'']
     @ unlines [
     ''MANIFEST=/backup/manifest.txt'',
     ''{ echo \"# valkey-operator cluster restore manifest v1\"; echo \"# shard-index node-fqdn slot-ranges(csv)\"; } > \"$MANIFEST\"'',
     ''i=0'',
     ''for FQDN in $HOSTS; do'',
     ''  NODES=\"\"; n=0'',
     ''  until NODES=$(VC -t 20 -h \"$FQDN\" -p \"$PORT\" cluster nodes 2>/dev/null | tr -d '' @ [CHR 0x27] @ [CHR 0x5C] @ ''r') && [ -n \"$NODES\" ]; do'',
     ''    n=$((n + 1)); [ \"$n\" -ge 8 ] && { echo \"FATAL: cannot reach $FQDN\"; exit 1; }'',
     ''    echo \"  waiting for $FQDN\"; sleep 3'',
     ''  done'',
     ''  SELF=$(printf '%s'' @ [CHR 0x5C] @ ''n' \"$NODES\" | awk '/myself/{print; exit}')'',
     ''  FLAGS=$(printf '%s'' @ [CHR 0x5C] @ ''n' \"$SELF\" | awk '{print $3}')'',
     ''  case \"$FLAGS\" in'',
     ''    *master*)'',
     ''      echo \"  dumping shard $i (master $FQDN)\"'',
     ''      m=0'',
     ''      until VC -t 20 -h \"$FQDN\" -p \"$PORT\" --rdb /backup/shard-${i}.rdb; do'',
     ''        m=$((m + 1)); [ \"$m\" -ge 5 ] && { echo \"FATAL: shard $i dump failed after $m attempts\"; exit 1; }'',
     ''        echo \"  shard $i dump attempt $m failed, retrying\"; sleep 3'',
     ''      done'',
     ''      echo \"  verifying shard $i\"'',
     ''      valkey-check-rdb /backup/shard-${i}.rdb'',
     ''      SLOTS=$(printf '%s'' @ [CHR 0x5C] @ ''n' \"$SELF\" | awk '{s=\"\";for(j=9;j<=NF;j++) if($j ~ /^[0-9]/) s=s (s==\"\"?\"\":\",\") $j; print s}')'',
     ''      echo \"shard-${i} ${FQDN} ${SLOTS}\" >> \"$MANIFEST\"'',
     ''      i=$((i + 1))'',
     ''      ;;'',
     ''  esac'',
     ''done'',
     ''echo \"total shards dumped: $i\"'',
     ''echo \"manifest:\"; cat \"$MANIFEST\"''])"

definition dumpScript :: "ValkeyCluster \<Rightarrow> string" where
  "dumpScript vc =
     (let host = clientServiceName vc @ ''.'' @ vc_Namespace vc @ ''.svc.cluster.local''; port = dataPort vc; pwArg = authArgs vc; tlsArgs = jobTLSArgs vc in
     unlines [
     ''set -eu'',
     ''echo \"dumping RDB from '' @ host @ '':'' @ Itoa port @ ''\"'',
     ''valkey-cli'' @ pwArg @ tlsArgs @ '' -h '' @ host @ '' -p '' @ Itoa port @ '' --rdb /backup/dump.rdb'',
     ''echo \"dump size: $(stat -c %s /backup/dump.rdb 2>/dev/null || wc -c </backup/dump.rdb) bytes\"'',
     ''echo \"verifying dump.rdb\"'',
     ''valkey-check-rdb /backup/dump.rdb''])"

definition retentionScript :: "int \<Rightarrow> string \<Rightarrow> string \<Rightarrow> string \<Rightarrow> string \<Rightarrow> string" where
  "retentionScript retainFiles bucket prefix name endpointFlag =
     unlines [
     ''echo \"retention: keeping '' @ Itoa retainFiles @ '' newest files\"'',
     ''aws s3api list-objects-v2 --bucket \"'' @ bucket @ ''\" --prefix \"'' @ prefix @ name @ ''-\"'' @ endpointFlag @ '' '' @ [CHR 0x5C],
     ''  --query 'Contents[].Key' --output text 2>/dev/null '' @ [CHR 0x5C],
     ''  | tr '' @ [CHR 0x27] @ [CHR 0x5C] @ ''t' '' @ [CHR 0x27] @ [CHR 0x5C] @ ''n' | sort | head -n -'' @ Itoa retainFiles @ '' '' @ [CHR 0x5C],
     ''  | while read -r KEY; do'',
     ''      [ -z \"$KEY\" ] && continue'',
     ''      echo \"  deleting $KEY\"'',
     ''      aws s3 rm \"s3://'' @ bucket @ ''/$KEY\"'' @ endpointFlag,
     ''    done'']"

definition uploadClusterScript :: "string \<Rightarrow> string \<Rightarrow> string \<Rightarrow> string \<Rightarrow> string \<Rightarrow> string \<Rightarrow> string" where
  "uploadClusterScript prefix name bucket endpointFlag retentionBlock sseFlag =
     unlines [
     ''set -eu'',
     ''STAMP=$(date -u +%Y%m%d-%H%M%S)'',
     ''for f in /backup/shard-*.rdb; do'',
     ''  IDX=$(basename \"$f\" .rdb)'',
     ''  KEY='' @ prefix @ name @ ''-${STAMP}-${IDX}.rdb'',
     ''  echo \"uploading to s3://'' @ bucket @ ''/${KEY}\"'',
     ''  aws s3 cp \"$f\" s3://'' @ bucket @ ''/${KEY}'' @ endpointFlag @ sseFlag,
     ''done'',
     ''MKEY='' @ prefix @ name @ ''-${STAMP}-manifest.txt'',
     ''echo \"uploading manifest to s3://'' @ bucket @ ''/${MKEY}\"'',
     ''aws s3 cp /backup/manifest.txt s3://'' @ bucket @ ''/${MKEY}'' @ endpointFlag @ sseFlag,
     ''echo \"ok\"'']
     @ retentionBlock"

definition uploadScript :: "string \<Rightarrow> string \<Rightarrow> string \<Rightarrow> string \<Rightarrow> string \<Rightarrow> string \<Rightarrow> string" where
  "uploadScript prefix name bucket endpointFlag retentionBlock sseFlag =
     unlines [
     ''set -eu'',
     ''STAMP=$(date -u +%Y%m%d-%H%M%S)'',
     ''KEY='' @ prefix @ name @ ''-${STAMP}.rdb'',
     ''echo \"uploading to s3://'' @ bucket @ ''/${KEY}\"'',
     ''aws s3 cp /backup/dump.rdb s3://'' @ bucket @ ''/${KEY}'' @ endpointFlag @ sseFlag,
     ''echo \"ok\"'']
     @ retentionBlock"

text \<open>The blocks that compute the arguments of the upload script.\<close>

definition backupPrefix :: "S3Spec \<Rightarrow> string" where
  "backupPrefix s3 = s3_Prefix s3 @ (if s3_Prefix s3 \<noteq> [] \<and> last (s3_Prefix s3) \<noteq> CHR ''/'' then ''/'' else [])"

definition sseFlagOf :: "S3Spec \<Rightarrow> string" where
  "sseFlagOf s3 = (if s3_Encryption s3 = ''AES256'' then '' --sse AES256''
     else if s3_Encryption s3 = ''KMS''
     then '' --sse aws:kms'' @ (if s3_KMSKeyID s3 \<noteq> [] then '' --sse-kms-key-id '' @ Quote (s3_KMSKeyID s3) else [])
     else [])"

definition retainFilesOf :: "ValkeyCluster \<Rightarrow> BackupSpec \<Rightarrow> int" where
  "retainFilesOf vc b = (case sp_Shards (vc_Spec vc) of
       Some n \<Rightarrow> if RetentionCount b > 0 \<and> sp_Topology (vc_Spec vc) = TopologyCluster
         then int32 (RetentionCount b * int32 (n + 1)) else RetentionCount b
     | None \<Rightarrow> RetentionCount b)"

definition retentionBlockOf :: "ValkeyCluster \<Rightarrow> BackupSpec \<Rightarrow> S3Spec \<Rightarrow> string \<Rightarrow> string" where
  "retentionBlockOf vc b s3 endpointFlag =
     (if retainFilesOf vc b > 0
      then retentionScript (retainFilesOf vc b) (s3_Bucket s3) (backupPrefix s3) (vc_Name vc) endpointFlag else [])"

definition backupEnv :: "S3Spec \<Rightarrow> (string \<times> EnvSource) list" where
  "backupEnv s3 =
     [(''AWS_ACCESS_KEY_ID'', EnvSecret (s3_CredentialsSecret s3) ''AWS_ACCESS_KEY_ID''),
      (''AWS_SECRET_ACCESS_KEY'', EnvSecret (s3_CredentialsSecret s3) ''AWS_SECRET_ACCESS_KEY''),
      (''AWS_DEFAULT_REGION'', EnvValue (s3_Region s3)), (''HOME'', EnvValue ''/tmp'')]
     @ (if s3_Endpoint s3 \<noteq> [] then [(''ENDPOINT_URL'', EnvValue (s3_Endpoint s3))] else [])"

definition dumpContainer :: "ValkeyCluster \<Rightarrow> BackupSpec \<Rightarrow> Container" where
  "dumpContainer vc b = zero_container\<lparr>ct_Name := ''dump'',
     ct_Image := (if bk_Image b = [] then sp_Image (vc_Spec vc) else bk_Image b),
     ct_Command := [shellCmd, ''-c'', if sp_Topology (vc_Spec vc) = TopologyCluster then dumpClusterScript vc else dumpScript vc],
     ct_Env := (if AuthEnabled (vc_Spec vc)
       then [(envValkeyPassword, EnvSecret (if existingAuthSecret vc \<noteq> [] then existingAuthSecret vc else passwordSecretName vc)
               secretKeyPassword)] else []),
     ct_VolumeMounts := mount backupVolumeName ''/backup'' # (if tlsEnabled vc then [mountRO tlsVolumeName tlsMountPath] else []),
     ct_SecurityContext := Some (containerSecurityContext vc)\<rparr>"

definition uploadContainer :: "ValkeyCluster \<Rightarrow> BackupSpec \<Rightarrow> S3Spec \<Rightarrow> Container" where
  "uploadContainer vc b s3 =
     (let endpointFlag = (if s3_Endpoint s3 \<noteq> [] then s3EndpointURLFlag else []);
          script = (if sp_Topology (vc_Spec vc) = TopologyCluster then uploadClusterScript else uploadScript)
            (backupPrefix s3) (vc_Name vc) (s3_Bucket s3) endpointFlag (retentionBlockOf vc b s3 endpointFlag) (sseFlagOf s3)
      in zero_container\<lparr>ct_Name := ''upload'',
           ct_Image := (if bk_AWSCLIImage b = [] then defaultAWSCLIImage else bk_AWSCLIImage b),
           ct_Command := [shellCmd, ''-c'', script], ct_Env := backupEnv s3,
           ct_VolumeMounts := [mount backupVolumeName ''/backup''],
           ct_SecurityContext := Some (containerSecurityContext vc)\<rparr>)"

definition buildBackupCronJob :: "ValkeyCluster \<Rightarrow> BackupSpec \<Rightarrow> S3Spec \<Rightarrow> string \<Rightarrow> CronJob" where
  "buildBackupCronJob vc b s3 name =
     \<lparr>cj_Name = name, cj_Labels = labelsFor vc, cj_Annotations = [],
      cj_Spec = \<lparr>cjs_Schedule = bk_Schedule b, cjs_ConcurrencyPolicy = ''Forbid'', cjs_JobLabels = labelsFor vc,
        cjs_Template = \<lparr>pt_Labels = podLabelsFor vc (labelsFor vc), pt_Annotations = [],
          pt_Spec = \<lparr>po_RestartPolicy = ''OnFailure'', po_InitContainers = [dumpContainer vc b],
            po_Containers = [uploadContainer vc b s3],
            po_Volumes = (backupVolumeName, VEmptyDir) # (if tlsEnabled vc then [(tlsVolumeName, VSecret (tlsSecretName vc) [])] else []),
            po_NodeSelector = [], po_Tolerations = [], po_Affinity = None, po_TopologySpreadConstraints = [],
            po_ImagePullSecrets = sp_ImagePullSecrets (vc_Spec vc), po_SecurityContext = Some (podSecurityContext vc),
            po_TerminationGracePeriodSeconds = None\<rparr>\<rparr>\<rparr>\<rparr>"

section \<open>The handler\<close>

definition get_cronjob :: "env \<Rightarrow> string \<Rightarrow> (kerr + CronJob) op" where
  "get_cronjob env name = do {
     r \<leftarrow> ask (\<lambda>t. env_object env t ''CronJob'' name);
     State_Monad.return (case r of Inl e \<Rightarrow> Inl e | Inr (KCronJob j) \<Rightarrow> Inr j | Inr _ \<Rightarrow> Inl wrong_kind) }"

text \<open>Create or update. The parameter is \<open>appliedSpecHash\<close>, a SHA-256 of the JSON of the CronJob.\<close>

definition applyCronJob :: "env \<Rightarrow> (CronJob \<Rightarrow> string) \<Rightarrow> CronJob \<Rightarrow> kerr option op" where
  "applyCronJob env cronHash desired = do {
     let hash = cronHash desired;
     let desired = desired\<lparr>cj_Annotations := maps_Copy (cj_Annotations desired) [(appliedHashAnnotation, hash)]\<rparr>;
     r \<leftarrow> get_cronjob env (cj_Name desired);
     case r of
       Inl e \<Rightarrow> if e = NotFound then create_obj env (KCronJob desired) else State_Monad.return (Some e)
     | Inr existing \<Rightarrow>
         if mget (map_of (cj_Annotations existing)) appliedHashAnnotation = hash then State_Monad.return None
         else update_obj env (KCronJob (existing\<lparr>cj_Spec := cj_Spec desired, cj_Labels := cj_Labels desired,
           cj_Annotations := maps_Copy (cj_Annotations existing) [(appliedHashAnnotation, hash)]\<rparr>)) }"

definition removeCronJob :: "env \<Rightarrow> string \<Rightarrow> kerr option op" where
  "removeCronJob env name = do {
     r \<leftarrow> get_cronjob env name;
     case r of Inl _ \<Rightarrow> State_Monad.return None | Inr existing \<Rightarrow> delete_obj env ''CronJob'' (cj_Name existing) }"

definition ensureBackupCronJob :: "env \<Rightarrow> (CronJob \<Rightarrow> string) \<Rightarrow> kerr option op" where
  "ensureBackupCronJob env cronHash = do {
     vc \<leftarrow> get_vc;
     let name = vc_Name vc @ ''-backup'';
     case sp_Backup (vc_Spec vc) of
       None \<Rightarrow> removeCronJob env name
     | Some b \<Rightarrow>
         if \<not> bk_Enabled b then removeCronJob env name
         else (case bk_S3 b of
             None \<Rightarrow> State_Monad.return (Some (OtherError ''backup.s3 is required when backup.enabled=true''))
           | Some s3 \<Rightarrow> applyCronJob env cronHash (buildBackupCronJob vc b s3 name)) }"

end
