(* ===== verification/Password_Rotation.thy ===== *)
theory Password_Rotation
  imports Objects Acl_Semantics
begin

text \<open>
  The in-place password rotation of \<open>src/internal/controller/password_rotation.go\<close>: the trigger by
  annotation, the two passes over the data pods with the Sentinels in between, the rewrite of the
  Secret and the recording of the token. The properties read the commands with the semantics of
  \<open>Acl_Semantics\<close>: no pod is ever left without a known password, the old password is dropped only
  when the new one works everywhere, and what happens when a run is cut short.
\<close>

section \<open>Definitions\<close>

text \<open>The body of \<open>onEachPod\<close>: the old password, then the new one, then the commands of the pass.\<close>

definition rotatePod :: "env \<Rightarrow> ValkeyCluster \<Rightarrow> string option \<Rightarrow> string \<Rightarrow> string \<Rightarrow> string \<Rightarrow>
    (replClient \<Rightarrow> string option op) \<Rightarrow> podRef \<Rightarrow> string option op" where
  "rotatePod env vc cert oldPw newPw pass f p = do {
     c \<leftarrow> dialReplClient env (pr_host p) (dataPort vc) oldPw (tlsEnabled vc) cert;
     c \<leftarrow> (if c = None then dialReplClient env (pr_host p) (dataPort vc) newPw (tlsEnabled vc) cert
          else State_Monad.return c);
     case c of
       None \<Rightarrow> State_Monad.return (Some (''rotate '' @ pr_host p @ '': unreachable with current or new password''))
     | Some c \<Rightarrow> do {
         err \<leftarrow> f c;
         State_Monad.return (map_option (\<lambda>e. ''rotate '' @ pr_host p @ '' ('' @ pass @ ''): '' @ e) err) } }"

definition onEachPod :: "env \<Rightarrow> ValkeyCluster \<Rightarrow> string option \<Rightarrow> string \<Rightarrow> string \<Rightarrow> string \<Rightarrow>
    (replClient \<Rightarrow> string option op) \<Rightarrow> string option op" where
  "onEachPod env vc cert oldPw newPw pass f = first_state (rotatePod env vc cert oldPw newPw pass f) (clusterDataPods vc)"

definition rekeyManaged :: "env \<Rightarrow> ValkeyCluster \<Rightarrow> string \<Rightarrow> bool \<Rightarrow> replClient \<Rightarrow> string option op" where
  "rekeyManaged env vc newPw additive c =
     first_state (\<lambda>(name, rules). aclSetManagedUser env c name rules newPw additive) (managedNonDefaultUsers vc)"

definition addNewPass :: "env \<Rightarrow> ValkeyCluster \<Rightarrow> string \<Rightarrow> replClient \<Rightarrow> string option op" where
  "addNewPass env vc newPw c = do {
     err \<leftarrow> aclAddDefaultPassword env c newPw;
     if err \<noteq> None then State_Monad.return err
     else do {
       err \<leftarrow> rekeyManaged env vc newPw True c;
       if err \<noteq> None then State_Monad.return err
       else configSet env c ''masterauth'' newPw } }"

definition cutoverPass :: "env \<Rightarrow> ValkeyCluster \<Rightarrow> string \<Rightarrow> replClient \<Rightarrow> string option op" where
  "cutoverPass env vc newPw c = do {
     err \<leftarrow> aclSetDefaultPassword env c newPw;
     if err \<noteq> None then State_Monad.return err
     else do {
       err \<leftarrow> rekeyManaged env vc newPw False c;
       if err \<noteq> None then State_Monad.return err
       else do {
         err \<leftarrow> configSet env c ''requirepass'' newPw;
         if err \<noteq> None then State_Monad.return err
         else aclSave env c } } }"

definition applyPasswordToPods :: "env \<Rightarrow> string \<Rightarrow> string \<Rightarrow> string option op" where
  "applyPasswordToPods env oldPw newPw = do {
     vc \<leftarrow> get_vc;
     cert \<leftarrow> loadMTLSClientCert env vc;
     err \<leftarrow> onEachPod env vc cert oldPw newPw ''add-new'' (addNewPass env vc newPw);
     if err \<noteq> None then State_Monad.return err
     else do {
       err \<leftarrow> first_state (rotateSentinelPassword env oldPw newPw) [rotateAdd, rotateSwitch];
       if err \<noteq> None then State_Monad.return err
       else do {
         err \<leftarrow> onEachPod env vc cert oldPw newPw ''cutover'' (cutoverPass env vc newPw);
         if err \<noteq> None then State_Monad.return err
         else rotateSentinelPassword env oldPw newPw rotateCutover } } }"

definition updatePasswordSecret :: "env \<Rightarrow> string \<Rightarrow> kerr option op" where
  "updatePasswordSecret env newPw = do {
     vc \<leftarrow> get_vc;
     s \<leftarrow> ask (\<lambda>t. env_secret env t (passwordSecretName vc));
     case s of
       Inl e \<Rightarrow> State_Monad.return (Some e)
     | Inr sec \<Rightarrow> update_obj env (KSecret (sec\<lparr>sec_Data := maps_Copy (sec_Data sec) [(secretKeyPassword, newPw)]\<rparr>)) }"

text \<open>The counter is an \<open>int32\<close>; a list of pods is shorter than its bound.\<close>

definition dataPodReady :: "ValkeyCluster \<Rightarrow> Pod \<Rightarrow> bool" where
  "dataPodReady vc p \<longleftrightarrow> \<not> (HasPrefix (pod_Name p) (sentinelStatefulSetName vc @ ''-'') \<or> pod_DeletionTimestamp p \<noteq> None) \<and>
     podIsReady p"

definition allDataPodsReady :: "env \<Rightarrow> (kerr + bool) op" where
  "allDataPodsReady env = do {
     vc \<leftarrow> get_vc;
     r \<leftarrow> ask (\<lambda>t. env_pods env t [(instanceLabel, vc_Name vc)]);
     State_Monad.return (case r of
         Inl e \<Rightarrow> Inl e
       | Inr pods \<Rightarrow> Inr (int (length (filter (dataPodReady vc) pods)) \<ge> totalReplicas vc)) }"

text \<open>One attempt to record the token on the latest object.\<close>

definition recordToken :: "env \<Rightarrow> string \<Rightarrow> (kerr + unit) op" where
  "recordToken env token = do {
     vc \<leftarrow> get_vc;
     r \<leftarrow> ask (\<lambda>t. env_cluster env t (vc_Name vc));
     case r of
       Inl e \<Rightarrow> State_Monad.return (Inl e)
     | Inr latest \<Rightarrow> do {
         err \<leftarrow> update_status env ((vc_Status latest)\<lparr>st_LastPasswordRotationToken := token\<rparr>);
         State_Monad.return (as_result err) } }"

text \<open>The part below the guards: new password, pods, Secret, token.\<close>

definition rotateNow :: "env \<Rightarrow> string \<Rightarrow> string \<Rightarrow> (bool \<times> kerr option) op" where
  "rotateNow env token oldPw = do {
     p \<leftarrow> generatePassword env 32;
     case p of
       Inl e \<Rightarrow> State_Monad.return (False, Some e)
     | Inr newPw \<Rightarrow> do {
         err \<leftarrow> applyPasswordToPods env oldPw newPw;
         case err of
           Some e \<Rightarrow> State_Monad.return (False, Some (OtherError e))
         | None \<Rightarrow> do {
             err \<leftarrow> updatePasswordSecret env newPw;
             if err \<noteq> None then State_Monad.return (False, err)
             else do {
               res \<leftarrow> retry_on_conflict (env_retries env) (recordToken env token);
               State_Monad.return (case res of Inl e \<Rightarrow> (False, Some e) | Inr _ \<Rightarrow> (True, None)) } } } }"

text \<open>
  The first parameter is the uncached reader \<open>r.APIReader\<close>, which may be absent. The second result
  is the error.
\<close>

definition reconcilePasswordRotation ::
  "(action list \<Rightarrow> string \<Rightarrow> kerr + ValkeyCluster) option \<Rightarrow> env \<Rightarrow> (bool \<times> kerr option) op" where
  "reconcilePasswordRotation apiReader env = do {
     vc \<leftarrow> get_vc;
     let token = mget (vc_Annotations vc) rotatePasswordAnnotation;
     if \<not> AuthEnabled (vc_Spec vc) \<or> existingAuthSecret vc \<noteq> [] \<or>
        token = [] \<or> token = st_LastPasswordRotationToken (vc_Status vc)
     then State_Monad.return (False, None)
     else do {
       fresh \<leftarrow> (case apiReader of
           None \<Rightarrow> State_Monad.return (Inr False)
         | Some rd \<Rightarrow> do {
             r \<leftarrow> ask (\<lambda>t. rd t (vc_Name vc));
             State_Monad.return (map_sum id (\<lambda>v. token = st_LastPasswordRotationToken (vc_Status v)) r) });
       case fresh of
         Inl e \<Rightarrow> State_Monad.return (False, Some e)
       | Inr recorded \<Rightarrow>
           if recorded then State_Monad.return (False, None)
           else do {
             ready \<leftarrow> allDataPodsReady env;
             case ready of
               Inl e \<Rightarrow> State_Monad.return (False, Some e)
             | Inr ok \<Rightarrow>
                 if \<not> ok then State_Monad.return (False, None)
                 else do {
                   pw \<leftarrow> ensurePasswordSecret env;
                   case pw of
                     Inl e \<Rightarrow> State_Monad.return (False, Some e)
                   | Inr oldPw \<Rightarrow>
                       if oldPw = [] then State_Monad.return (False, None)
                       else rotateNow env token oldPw } } } }"

section \<open>What the rotation promises\<close>

definition data_hosts :: "ValkeyCluster \<Rightarrow> string set" where
  "data_hosts vc = pr_host ` set (clusterDataPods vc)"

definition shared_users :: "ValkeyCluster \<Rightarrow> string set" where
  "shared_users vc = insert ''default'' (fst ` set (managedNonDefaultUsers vc))"

text \<open>The password a server presents to its master: the last one it was configured with.\<close>

definition masterauth_step :: "string \<Rightarrow> action \<Rightarrow> string option \<Rightarrow> string option" where
  "masterauth_step h a m = (case a of
     ACmd h' args ok \<Rightarrow> if h' = h \<and> ok \<and> take 3 args = [''CONFIG'', ''SET'', ''masterauth''] \<and> length args = 4 then Some (args ! 3) else m
   | _ \<Rightarrow> m)"

definition masterauth :: "string \<Rightarrow> action list \<Rightarrow> string option" where
  "masterauth h t = fold (masterauth_step h) t None"

definition drops_passwords :: "action \<Rightarrow> bool" where
  "drops_passwords a \<longleftrightarrow> (\<exists>h u toks ok. a = ACmd h (''ACL'' # ''SETUSER'' # u # toks) ok \<and> ''resetpass'' \<in> set toks)"

text \<open>A data pod is prepared: every shared user logs in with the new password, and it presents it to its master.\<close>

definition prepared :: "(string \<Rightarrow> acl_users) \<Rightarrow> ValkeyCluster \<Rightarrow> string \<Rightarrow> string \<Rightarrow> action list \<Rightarrow> bool" where
  "prepared T0 vc new h t \<longleftrightarrow>
     (\<forall>u\<in>shared_users vc. accepts (acl_table T0 h t) u new) \<and> masterauth h t = Some new"

definition sentinel_switched :: "ValkeyCluster \<Rightarrow> string \<Rightarrow> int \<Rightarrow> action list \<Rightarrow> bool" where
  "sentinel_switched vc new i t \<longleftrightarrow>
     ACmd (sentinelPodFQDN vc i) [''SENTINEL'', ''SET'', sentinelMasterName, ''auth-pass'', new] True \<in> set t"

definition switched :: "ValkeyCluster \<Rightarrow> string \<Rightarrow> action list \<Rightarrow> bool" where
  "switched vc new t \<longleftrightarrow> (sp_Topology (vc_Spec vc) = TopologySentinel \<and> sp_Sentinel (vc_Spec vc) \<noteq> None \<longrightarrow>
     (\<forall>i\<in>set (range_int (se_Replicas (sentinel_spec vc))). sentinel_switched vc new i t))"

definition reachable_pods :: "(string \<Rightarrow> acl_users) \<Rightarrow> ValkeyCluster \<Rightarrow> string \<Rightarrow> string \<Rightarrow> action list \<Rightarrow> bool" where
  "reachable_pods T0 vc old new t \<longleftrightarrow> (\<forall>h\<in>data_hosts vc.
     accepts (acl_table T0 h t) ''default'' old \<or> accepts (acl_table T0 h t) ''default'' new)"

text \<open>A command under which the new password stays valid where it is, and alone where it is alone.\<close>

definition rekeys :: "string \<Rightarrow> string \<Rightarrow> string list \<Rightarrow> bool" where
  "rekeys old new args \<longleftrightarrow>
     (\<forall>T u. (accepts T u new \<longrightarrow> accepts (acl_command args T) u new) \<and>
        (accepts T u old \<longrightarrow> accepts (acl_command args T) u old \<or> accepts (acl_command args T) u new) \<and>
        (accepts_only T u new \<longrightarrow> accepts_only (acl_command args T) u new)) \<and>
     (take 3 args = [''CONFIG'', ''SET'', ''masterauth''] \<and> length args = 4 \<longrightarrow> args ! 3 = new)"

definition rotation_guard :: "(string \<Rightarrow> acl_users) \<Rightarrow> ValkeyCluster \<Rightarrow> string \<Rightarrow> string \<Rightarrow> action list \<Rightarrow> action \<Rightarrow> bool" where
  "rotation_guard T0 vc old new t a = (case a of
     ADial _ _ _ _ \<Rightarrow> True
   | ACmd _ args _ \<Rightarrow> rekeys old new args \<and>
       (drops_passwords a \<longrightarrow> (\<forall>h\<in>data_hosts vc. prepared T0 vc new h t) \<and> switched vc new t)
   | _ \<Rightarrow> False)"

section \<open>The commands of the rotation\<close>

lemma managed_plain:
  "(name, rules) \<in> set (managedNonDefaultUsers vc) \<Longrightarrow> list_all plain_rule (Fields rules)"
proof -
  have "list_all plain_rule (Fields replicationACLCommands)" "list_all plain_rule (Fields (''&* '' @ sentinelACLCommands))"
    by code_simp+
  then show "(name, rules) \<in> set (managedNonDefaultUsers vc) \<Longrightarrow> ?thesis"
    by (auto simp: managedNonDefaultUsers_def split: if_splits)
qed

lemma fold_rekey:
  assumes "list_all plain_rule rules" and "pre \<in> {[], [''on''], [''resetpass''], [''on'', ''resetpass'']}"
  shows "fold acl_token (pre @ [''>'' @ new] @ rules) s =
    s\<lparr>ac_on := ac_on s \<or> ''on'' \<in> set pre, ac_nopass := False,
      ac_pws := insert new (if ''resetpass'' \<in> set pre then {} else ac_pws s),
      ac_hashes := (if ''resetpass'' \<in> set pre then {} else ac_hashes s), ac_rules := ac_rules s @ rules\<rparr>"
  using assms(2) by (elim insertE emptyE) (simp_all add: fold_plain [OF assms(1)])

lemma rekeys_set_user:
  assumes "list_all plain_rule rules" and "pre \<in> {[], [''on''], [''resetpass''], [''on'', ''resetpass'']}"
  shows "rekeys old new (''ACL'' # ''SETUSER'' # u # pre @ [''>'' @ new] @ rules)"
proof -
  let ?T = "\<lambda>T. set_user u (pre @ [''>'' @ new] @ rules) T"
  have eq: "?T T = T(u \<mapsto> s\<lparr>ac_on := ac_on s \<or> ''on'' \<in> set pre, ac_nopass := False,
      ac_pws := insert new (if ''resetpass'' \<in> set pre then {} else ac_pws s),
      ac_hashes := (if ''resetpass'' \<in> set pre then {} else ac_hashes s), ac_rules := ac_rules s @ rules\<rparr>)"
    if "s = (case T u of Some s \<Rightarrow> s | None \<Rightarrow> new_user)" for T s
    unfolding set_user_def fold_rekey [OF assms] that by (rule refl)
  have "(accepts T v new \<longrightarrow> accepts (?T T) v new) \<and> (accepts T v old \<longrightarrow> accepts (?T T) v old \<or> accepts (?T T) v new) \<and>
      (accepts_only T v new \<longrightarrow> accepts_only (?T T) v new)" for T v
    unfolding eq [OF refl] by (cases "v = u"; cases "T u") (auto simp: accepts_def accepts_only_def)
  then show ?thesis by (simp add: rekeys_def)
qed

lemma rekeys_other: "hd args \<notin> {''ACL'', ''CONFIG''} \<Longrightarrow> rekeys old new args"
  by (cases args) (auto simp: rekeys_def acl_command_not_ACL)

lemma rekeys_simps [simp]:
  "rekeys old new [''ACL'', ''SETUSER'', u, CHR ''>'' # new]"
  "rekeys old new [''ACL'', ''SETUSER'', u, ''resetpass'', CHR ''>'' # new]"
  "rekeys old new [''ACL'', ''SAVE'']"
  "rekeys old new [''CONFIG'', ''SET'', ''masterauth'', new]"
  "rekeys old new [''CONFIG'', ''SET'', ''requirepass'', new]"
  using rekeys_set_user [of "[]" "[]" old new u] rekeys_set_user [of "[]" "[''resetpass'']" old new u]
    rekeys_set_user [of "[]" "[''resetpass'']" old new "''default''"]
  by (auto simp: rekeys_def)

lemma rekeys_managed:
  assumes "(name, rules) \<in> set (managedNonDefaultUsers vc)"
  shows "rekeys old new ([''ACL'', ''SETUSER'', name, ''on''] @ (if additive then [] else [''resetpass'']) @ [''>'' @ new] @ Fields rules)"
  using rekeys_set_user [OF managed_plain [OF assms], of "''on'' # (if additive then [] else [''resetpass''])"] by auto

lemma managed_user_accepts:
  assumes "(name, rules) \<in> set (managedNonDefaultUsers vc)"
  shows "accepts (set_user name (''on'' # (CHR ''>'' # new) # Fields rules) T) name new"
    and "accepts_only (set_user name (''on'' # ''resetpass'' # (CHR ''>'' # new) # Fields rules) T) name new"
  using fold_plain [OF managed_plain [OF assms]] by (simp_all add: set_user_def accepts_def accepts_only_def)

lemma default_user_accepts:
  assumes "accepts T u old \<or> accepts T u new"
  shows "accepts (set_user u [CHR ''>'' # new] T) u new" "accepts_only (set_user u [''resetpass'', CHR ''>'' # new] T) u new"
  using assms by (auto simp: accepts_def accepts_only_def set_user_def split: option.splits)

text \<open>What every action of the rotation keeps.\<close>

lemma guard_accepts:
  assumes "rotation_guard T0 vc old new t a"
  shows "accepts (acl_table T0 h t) u new \<Longrightarrow> accepts (acl_step h a (acl_table T0 h t)) u new"
    and "accepts (acl_table T0 h t) u old \<Longrightarrow>
      accepts (acl_step h a (acl_table T0 h t)) u old \<or> accepts (acl_step h a (acl_table T0 h t)) u new"
    and "accepts_only (acl_table T0 h t) u new \<Longrightarrow> accepts_only (acl_step h a (acl_table T0 h t)) u new"
    and "masterauth h t = Some new \<Longrightarrow> masterauth h (t @ [a]) = Some new"
  using assms by (auto simp: rotation_guard_def rekeys_def masterauth_def masterauth_step_def split: action.splits)

lemma reachable_pods_stable:
  "reachable_pods T0 vc old new t \<Longrightarrow> rotation_guard T0 vc old new t a \<Longrightarrow> reachable_pods T0 vc old new (t @ [a])"
  by (auto simp: reachable_pods_def dest: guard_accepts(1,2))

lemma prepared_stable:
  "prepared T0 vc new h t \<Longrightarrow> rotation_guard T0 vc old new t a \<Longrightarrow> prepared T0 vc new h (t @ [a])"
  by (auto simp: prepared_def dest: guard_accepts)

definition cut_over :: "(string \<Rightarrow> acl_users) \<Rightarrow> ValkeyCluster \<Rightarrow> string \<Rightarrow> string \<Rightarrow> action list \<Rightarrow> bool" where
  "cut_over T0 vc new h t \<longleftrightarrow> (\<forall>u\<in>shared_users vc. accepts_only (acl_table T0 h t) u new)"

lemma cut_over_stable:
  "cut_over T0 vc new h t \<Longrightarrow> rotation_guard T0 vc old new t a \<Longrightarrow> cut_over T0 vc new h (t @ [a])"
  by (auto simp: cut_over_def dest: guard_accepts(3))

lemma switched_stable: "switched vc new t \<Longrightarrow> switched vc new (t @ [a])"
  by (auto simp: switched_def sentinel_switched_def)

section \<open>The passes\<close>

text \<open>The part of the state that both passes rely on, and what the second needs in addition.\<close>

definition pass_state :: "bool \<Rightarrow> (string \<Rightarrow> acl_users) \<Rightarrow> ValkeyCluster \<Rightarrow> string \<Rightarrow> string \<Rightarrow> world \<Rightarrow> bool" where
  "pass_state cutover T0 vc old new w \<longleftrightarrow> cur w = vc \<and> reachable_pods T0 vc old new (acts w) \<and>
     (cutover \<longrightarrow> (\<forall>h\<in>data_hosts vc. prepared T0 vc new h (acts w)) \<and> switched vc new (acts w))"

lemma pass_state_stable:
  "pass_state b T0 vc old new w \<Longrightarrow> rotation_guard T0 vc old new (acts w) a \<Longrightarrow> pass_state b T0 vc old new (appended w a)"
  by (auto simp: pass_state_def intro: reachable_pods_stable prepared_stable switched_stable)

lemma guard_drops:
  "rotation_guard T0 vc old new t a \<Longrightarrow> drops_passwords a \<Longrightarrow>
   (\<forall>h\<in>data_hosts vc. prepared T0 vc new h t) \<and> switched vc new t"
  by (auto simp: rotation_guard_def drops_passwords_def)

lemma guard_dial [simp]: "rotation_guard T0 vc old new t (ADial h p pw ok)"
  by (simp add: rotation_guard_def)

lemma guard_cmd:
  assumes "pass_state b T0 vc old new w" and "rekeys old new args" and "b \<or> \<not> drops_passwords (ACmd h args ok)"
  shows "rotation_guard T0 vc old new (acts w) (ACmd h args ok)"
  using assms by (auto simp: rotation_guard_def pass_state_def)

lemma drops_passwords_simps [simp]:
  "drops_passwords (ACmd h (''ACL'' # ''SETUSER'' # u # toks) ok) \<longleftrightarrow> ''resetpass'' \<in> set toks"
  "\<not> drops_passwords (ACmd h (''CONFIG'' # args) ok)" "\<not> drops_passwords (ACmd h (''SENTINEL'' # args) ok)"
  "\<not> drops_passwords (ACmd h [''ACL'', ''SAVE''] ok)"
  by (auto simp: drops_passwords_def)

lemma guard_managed:
  assumes "pass_state b T0 vc old new w" and "b \<or> additive" and "(name, rules) \<in> set (managedNonDefaultUsers vc)"
  shows "rotation_guard T0 vc old new (acts w)
    (ACmd h ([''ACL'', ''SETUSER'', name, ''on''] @ (if additive then [] else [''resetpass'']) @ [''>'' @ new] @ Fields rules) ok)"
proof (rule guard_cmd [OF assms(1) rekeys_managed [OF assms(3)]])
  have "''resetpass'' \<notin> set (Fields rules)"
    using managed_plain [OF assms(3)] by (auto simp: list_all_iff plain_rule_def)
  then show "b \<or> \<not> drops_passwords (ACmd h ([''ACL'', ''SETUSER'', name, ''on''] @
      (if additive then [] else [''resetpass'']) @ [''>'' @ new] @ Fields rules) ok)"
    using assms(2) by auto
qed

definition user_ready :: "bool \<Rightarrow> acl_users \<Rightarrow> string \<Rightarrow> string \<Rightarrow> bool" where
  "user_ready additive T u new = (if additive then accepts T u new else accepts_only T u new)"

lemma user_ready_stable:
  "user_ready additive (acl_table T0 h t) u new \<Longrightarrow> rotation_guard T0 vc old new t a \<Longrightarrow>
   user_ready additive (acl_step h a (acl_table T0 h t)) u new"
  by (auto simp: user_ready_def dest: guard_accepts)

lemma wp_rekeyManaged:
  assumes "pass_state b T0 vc old new w" and "b \<or> additive"
    and "\<And>r v. pass_state b T0 vc old new v \<Longrightarrow>
      (r = None \<Longrightarrow> \<forall>u\<in>fst ` set (managedNonDefaultUsers vc). user_ready additive (acl_table T0 (rc_host c) (acts v)) u new) \<Longrightarrow> Q r v"
  shows "wp (rotation_guard T0 vc old new) (rekeyManaged env vc new additive c) Q w"
  unfolding rekeyManaged_def
proof (rule wp_first_state_each [where I = "pass_state b T0 vc old new" and P = "\<lambda>x t. user_ready additive (acl_table T0 (rc_host c) t) (fst x) new"])
  show "wp (rotation_guard T0 vc old new) (case x of (name, rules) \<Rightarrow> aclSetManagedUser env c name rules new additive)
      (\<lambda>r v'. case r of None \<Rightarrow> pass_state b T0 vc old new v' \<and> user_ready additive (acl_table T0 (rc_host c) (acts v')) (fst x) new
        | Some y \<Rightarrow> Q (Some y) v') v"
    if "x \<in> set (managedNonDefaultUsers vc)" and v: "pass_state b T0 vc old new v" for x v
  proof -
    obtain name rules where x: "x = (name, rules)" by (cases x)
    note g = guard_managed [OF v assms(2) that(1) [unfolded x]]
    show ?thesis unfolding x aclSetManagedUser_def
      using g [of "rc_host c"] pass_state_stable [OF v g] managed_user_accepts [OF that(1) [unfolded x], of new]
      by (auto intro!: wp_rules assms(3) simp: user_ready_def split: option.splits)
  qed
qed (use assms user_ready_stable in auto)

lemma wp_rotatePod:
  assumes "pass_state b T0 vc old new w"
    and "\<And>c v. rc_host c = pr_host p \<Longrightarrow> pass_state b T0 vc old new v \<Longrightarrow>
      wp (rotation_guard T0 vc old new) (f c) (\<lambda>r v'. pass_state b T0 vc old new v' \<and> (r = None \<longrightarrow> P (acts v'))) v"
  shows "wp (rotation_guard T0 vc old new) (rotatePod env vc cert old new pass f p)
    (\<lambda>r v'. pass_state b T0 vc old new v' \<and> (r = None \<longrightarrow> P (acts v'))) w"
proof -
  have d: "pass_state b T0 vc old new (appended v (ADial h q pw ok))" if "pass_state b T0 vc old new v" for v h q pw ok
    using that by (rule pass_state_stable) simp
  show ?thesis
    unfolding rotatePod_def
    by (auto intro!: wp_rules d assms(1) wp_conseq [OF assms(2)])
qed

lemma wp_rekeyShared:
  assumes "pass_state b T0 vc old new w" and "b \<or> additive"
    and "user_ready additive (acl_table T0 (rc_host c) (acts w)) ''default'' new"
    and "\<And>r v. pass_state b T0 vc old new v \<Longrightarrow>
      (r = None \<Longrightarrow> \<forall>u\<in>shared_users vc. user_ready additive (acl_table T0 (rc_host c) (acts v)) u new) \<Longrightarrow> Q r v"
  shows "wp (rotation_guard T0 vc old new) (rekeyManaged env vc new additive c) Q w"
proof -
  let ?ready = "\<lambda>t u. user_ready additive (acl_table T0 (rc_host c) t) u new"
  have "wp (rotation_guard T0 vc old new) (rekeyManaged env vc new additive c)
      (\<lambda>r v. (pass_state b T0 vc old new v \<and> (r = None \<longrightarrow> (\<forall>u\<in>fst ` set (managedNonDefaultUsers vc). ?ready (acts v) u))) \<and>
        ?ready (acts v) ''default'') w"
    by (rule wp_stable [where S = "\<lambda>t. ?ready t ''default''"])
      (auto intro!: wp_rekeyManaged [OF assms(1,2)] simp: assms(3) user_ready_stable)
  then show ?thesis by (rule wp_conseq) (auto intro!: assms(4) simp: shared_users_def)
qed

lemma pass_state_default:
  assumes "pass_state b T0 vc old new w" and "h \<in> data_hosts vc"
  shows "accepts (acl_table T0 h (acts w)) ''default'' old \<or> accepts (acl_table T0 h (acts w)) ''default'' new"
  using assms by (auto simp: pass_state_def reachable_pods_def)

lemma masterauth_snoc [simp]:
  "masterauth h (t @ [ACmd h [''CONFIG'', ''SET'', ''masterauth'', pw] ok]) = (if ok then Some pw else masterauth h t)"
  by (simp add: masterauth_def masterauth_step_def numeral_eq_Suc)

lemma wp_addNewPass:
  assumes w: "pass_state False T0 vc old new w" and h: "rc_host c \<in> data_hosts vc"
  shows "wp (rotation_guard T0 vc old new) (addNewPass env vc new c)
    (\<lambda>r v. pass_state False T0 vc old new v \<and> (r = None \<longrightarrow> prepared T0 vc new (rc_host c) (acts v))) w"
proof -
  have g: "rotation_guard T0 vc old new (acts v) (ACmd (rc_host c) [''ACL'', ''SETUSER'', ''default'', CHR ''>'' # new] ok)"
    "rotation_guard T0 vc old new (acts v) (ACmd (rc_host c) [''CONFIG'', ''SET'', ''masterauth'', new] ok)"
    if "pass_state False T0 vc old new v" for v ok
    by (rule guard_cmd [OF that]; simp)+
  note stable = pass_state_stable [OF _ g(1)] pass_state_stable [OF _ g(2)]
  show ?thesis
    unfolding addNewPass_def aclAddDefaultPassword_def configSet_def
    by (auto intro!: wp_rules wp_rekeyShared [where b = False] stable g w
        simp: user_ready_def default_user_accepts [OF pass_state_default [OF w h]] prepared_def)
qed

lemma wp_cutoverPass:
  assumes w: "pass_state True T0 vc old new w" and h: "rc_host c \<in> data_hosts vc"
  shows "wp (rotation_guard T0 vc old new) (cutoverPass env vc new c)
    (\<lambda>r v. pass_state True T0 vc old new v \<and> (r = None \<longrightarrow> cut_over T0 vc new (rc_host c) (acts v))) w"
proof -
  have g: "rotation_guard T0 vc old new (acts v) (ACmd (rc_host c) [''ACL'', ''SETUSER'', ''default'', ''resetpass'', CHR ''>'' # new] ok)"
    "rotation_guard T0 vc old new (acts v) (ACmd (rc_host c) [''CONFIG'', ''SET'', ''requirepass'', new] ok)"
    "rotation_guard T0 vc old new (acts v) (ACmd (rc_host c) [''ACL'', ''SAVE''] ok)"
    if "pass_state True T0 vc old new v" for v ok
    by (rule guard_cmd [OF that]; simp)+
  note stable = pass_state_stable [OF _ g(1)] pass_state_stable [OF _ g(2)] pass_state_stable [OF _ g(3)]
  have cut: "cut_over T0 vc new (rc_host c) (acts v @ [ACmd (rc_host c) [''CONFIG'', ''SET'', ''requirepass'', new] ok,
      ACmd (rc_host c) [''ACL'', ''SAVE''] ok'])"
    if v: "pass_state True T0 vc old new v" "\<forall>u\<in>shared_users vc. accepts_only (acl_table T0 (rc_host c) (acts v)) u new" for v ok ok'
  proof -
    have "cut_over T0 vc new (rc_host c) (acts v)" using v(2) by (simp add: cut_over_def)
    from cut_over_stable [OF cut_over_stable [OF this g(2) [OF v(1), of ok]]] g(3) [OF stable(2) [OF v(1) v(1)], of ok ok']
    show ?thesis by simp
  qed
  show ?thesis
    unfolding cutoverPass_def aclSetDefaultPassword_def configSet_def aclSave_def
    by (auto intro!: wp_rules wp_rekeyShared [where b = True] stable g w cut
        simp: user_ready_def default_user_accepts [OF pass_state_default [OF w h]])
qed

text \<open>A pass over all data pods, and the steps on the Sentinels.\<close>

lemma wp_onEachPod:
  assumes "pass_state b T0 vc old new w"
    and "\<And>c v. rc_host c \<in> data_hosts vc \<Longrightarrow> pass_state b T0 vc old new v \<Longrightarrow>
      wp (rotation_guard T0 vc old new) (f c) (\<lambda>r v'. pass_state b T0 vc old new v' \<and> (r = None \<longrightarrow> P (rc_host c) (acts v'))) v"
    and "\<And>h t a. P h t \<Longrightarrow> rotation_guard T0 vc old new t a \<Longrightarrow> P h (t @ [a])"
    and "\<And>r v. pass_state b T0 vc old new v \<Longrightarrow> (r = None \<Longrightarrow> \<forall>h\<in>data_hosts vc. P h (acts v)) \<Longrightarrow> Q r v"
  shows "wp (rotation_guard T0 vc old new) (onEachPod env vc cert old new pass f) Q w"
  unfolding onEachPod_def
proof (rule wp_first_state_each [where I = "pass_state b T0 vc old new" and P = "\<lambda>p. P (pr_host p)"])
  fix p v assume p: "p \<in> set (clusterDataPods vc)" and v: "pass_state b T0 vc old new v"
  have "wp (rotation_guard T0 vc old new) (rotatePod env vc cert old new pass f p)
      (\<lambda>r v'. pass_state b T0 vc old new v' \<and> (r = None \<longrightarrow> P (pr_host p) (acts v'))) v"
  proof (rule wp_rotatePod [OF v])
    fix c :: replClient and u assume c: "rc_host c = pr_host p" and u: "pass_state b T0 vc old new u"
    have "rc_host c \<in> data_hosts vc" using c p by (simp add: data_hosts_def)
    from assms(2) [OF this u] show "wp (rotation_guard T0 vc old new) (f c)
        (\<lambda>r v'. pass_state b T0 vc old new v' \<and> (r = None \<longrightarrow> P (pr_host p) (acts v'))) u"
      unfolding c .
  qed
  then show "wp (rotation_guard T0 vc old new) (rotatePod env vc cert old new pass f p)
      (\<lambda>r v'. case r of None \<Rightarrow> pass_state b T0 vc old new v' \<and> P (pr_host p) (acts v') | Some y \<Rightarrow> Q (Some y) v') v"
    by (rule wp_conseq) (auto intro: assms(4) split: option.splits)
qed (use assms in \<open>auto simp: data_hosts_def\<close>)

lemma rekeys_sentinel [simp]: "rekeys old new (''SENTINEL'' # args)"
  by (simp add: rekeys_other)

lemma wp_rotateSentinelStep:
  assumes w: "pass_state b T0 vc old new w" and "step = rotateCutover \<Longrightarrow> b" and "rc_host c = sentinelPodFQDN vc i"
  shows "wp (rotation_guard T0 vc old new) (rotateSentinelStep env c new step)
    (\<lambda>r v. pass_state b T0 vc old new v \<and> (r = None \<longrightarrow> step = rotateSwitch \<longrightarrow> sentinel_switched vc new i (acts v))) w"
proof -
  have g: "rotation_guard T0 vc old new (acts v) (ACmd h [''ACL'', ''SETUSER'', ''default'', CHR ''>'' # new] ok)"
    "rotation_guard T0 vc old new (acts v) (ACmd h (''SENTINEL'' # args) ok)"
    "step = rotateCutover \<Longrightarrow> rotation_guard T0 vc old new (acts v) (ACmd h [''ACL'', ''SETUSER'', ''default'', ''resetpass'', CHR ''>'' # new] ok)"
    if "pass_state b T0 vc old new v" for v ok h args
    using assms(2) by - (rule guard_cmd [OF that]; simp)+
  note stable = pass_state_stable [OF _ g(1)] pass_state_stable [OF _ g(2)] pass_state_stable [OF _ g(3)]
  have g2: "rotation_guard T0 vc old new (acts v @ [ACmd h (''SENTINEL'' # args) ok]) (ACmd h' (''SENTINEL'' # args') ok')"
    if "pass_state b T0 vc old new v" for v h args ok h' args' ok'
    using g(2) [OF stable(2) [OF that that], of h args ok] by simp
  show ?thesis
    unfolding rotateSentinelStep_def
    by (cases step) (auto intro!: wp_rules g g2 stable w simp: sentinel_switched_def assms(3))
qed

lemma wp_rotateSentinel:
  assumes w: "pass_state b T0 vc old new w" and "step = rotateCutover \<Longrightarrow> b"
  shows "wp (rotation_guard T0 vc old new) (rotateSentinel env vc cert old new step i)
    (\<lambda>r v. pass_state b T0 vc old new v \<and> (r = None \<longrightarrow> step = rotateSwitch \<longrightarrow> sentinel_switched vc new i (acts v))) w"
proof -
  have d: "pass_state b T0 vc old new (appended v (ADial h q pw ok))" if "pass_state b T0 vc old new v" for v h q pw ok
    using that by (rule pass_state_stable) simp
  show ?thesis
    unfolding rotateSentinel_def
    by (auto intro!: wp_rules d w wp_rotateSentinelStep [OF _ assms(2)])
qed

lemma wp_rotateSentinelPassword:
  assumes "pass_state b T0 vc old new w" and "step = rotateCutover \<Longrightarrow> b"
    and "\<And>r v. pass_state b T0 vc old new v \<Longrightarrow> (r = None \<Longrightarrow> step = rotateSwitch \<Longrightarrow> switched vc new (acts v)) \<Longrightarrow> Q r v"
  shows "wp (rotation_guard T0 vc old new) (rotateSentinelPassword env old new step) Q w"
proof -
  have cur: "cur w = vc" using assms(1) by (simp add: pass_state_def)
  have "wp (rotation_guard T0 vc old new) (first_state (rotateSentinel env vc cert old new step) (range_int (se_Replicas (sentinel_spec vc)))) Q w" for cert
  proof (rule wp_first_state_each [where I = "pass_state b T0 vc old new" and P = "\<lambda>i t. step = rotateSwitch \<longrightarrow> sentinel_switched vc new i t"])
    show "wp (rotation_guard T0 vc old new) (rotateSentinel env vc cert old new step i)
        (\<lambda>r v'. case r of None \<Rightarrow> pass_state b T0 vc old new v' \<and> (step = rotateSwitch \<longrightarrow> sentinel_switched vc new i (acts v'))
          | Some y \<Rightarrow> Q (Some y) v') v" if "pass_state b T0 vc old new v" for i v
      by (rule wp_conseq [OF wp_rotateSentinel [OF that assms(2)]]) (auto intro: assms(3) split: option.splits)
  qed (use assms in \<open>auto simp: switched_def sentinel_switched_def\<close>)
  then show ?thesis
    unfolding rotateSentinelPassword_def using cur assms(1)
    by (auto intro!: wp_rules assms(3) simp: switched_def)
qed

lemma pass_state_cutover:
  "pass_state False T0 vc old new w \<Longrightarrow> (\<forall>h\<in>data_hosts vc. prepared T0 vc new h (acts w)) \<Longrightarrow> switched vc new (acts w) \<Longrightarrow>
   pass_state True T0 vc old new w"
  by (simp add: pass_state_def)

definition preparing :: "(string \<Rightarrow> acl_users) \<Rightarrow> ValkeyCluster \<Rightarrow> string \<Rightarrow> action list \<Rightarrow> bool" where
  "preparing T0 vc new t \<longleftrightarrow> (\<forall>h\<in>data_hosts vc. prepared T0 vc new h t)"

lemma wp_switchSentinels:
  assumes w: "pass_state False T0 vc old new w" and p: "preparing T0 vc new (acts w)"
    and post: "\<And>r v. pass_state False T0 vc old new v \<Longrightarrow> (r = None \<Longrightarrow> pass_state True T0 vc old new v) \<Longrightarrow> Q r v"
  shows "wp (rotation_guard T0 vc old new) (first_state (rotateSentinelPassword env old new) [rotateAdd, rotateSwitch]) Q w"
proof -
  have "wp (rotation_guard T0 vc old new) (first_state (rotateSentinelPassword env old new) [rotateAdd, rotateSwitch])
      (\<lambda>r v. (pass_state False T0 vc old new v \<and> (r = None \<longrightarrow> switched vc new (acts v))) \<and> preparing T0 vc new (acts v)) w"
  proof (rule wp_stable)
    show "wp (rotation_guard T0 vc old new) (first_state (rotateSentinelPassword env old new) [rotateAdd, rotateSwitch])
        (\<lambda>r v. pass_state False T0 vc old new v \<and> (r = None \<longrightarrow> switched vc new (acts v))) w"
      by (auto intro!: wp_rules wp_rotateSentinelPassword [where b = False] w)
  qed (use p prepared_stable in \<open>auto simp: preparing_def\<close>)
  then show ?thesis by (rule wp_conseq) (auto intro!: post pass_state_cutover simp: preparing_def)
qed

lemma wp_cutoverSentinels:
  assumes w: "pass_state True T0 vc old new w" and cut: "\<forall>h\<in>data_hosts vc. cut_over T0 vc new h (acts w)"
    and post: "\<And>r v. pass_state True T0 vc old new v \<Longrightarrow> \<forall>h\<in>data_hosts vc. cut_over T0 vc new h (acts v) \<Longrightarrow> Q r v"
  shows "wp (rotation_guard T0 vc old new) (rotateSentinelPassword env old new rotateCutover) Q w"
proof -
  have "wp (rotation_guard T0 vc old new) (rotateSentinelPassword env old new rotateCutover)
      (\<lambda>r v. pass_state True T0 vc old new v \<and> (\<forall>h\<in>data_hosts vc. cut_over T0 vc new h (acts v))) w"
    by (rule wp_stable [where S = "\<lambda>t. \<forall>h\<in>data_hosts vc. cut_over T0 vc new h t"])
      (use cut cut_over_stable in \<open>auto intro!: wp_rotateSentinelPassword [where b = True] w\<close>)
  then show ?thesis by (rule wp_conseq) (auto intro: post)
qed

lemma wp_applyPasswordToPods:
  assumes w: "pass_state False T0 vc old new w"
    and post: "\<And>r v. cur v = vc \<Longrightarrow> (r = None \<Longrightarrow> \<forall>h\<in>data_hosts vc. cut_over T0 vc new h (acts v)) \<Longrightarrow> Q r v"
  shows "wp (rotation_guard T0 vc old new) (applyPasswordToPods env old new) Q w"
proof -
  have cur: "cur v = vc" if "pass_state b T0 vc old new v" for b v using that by (simp add: pass_state_def)
  show ?thesis
    unfolding applyPasswordToPods_def
    by (rule wp_bind, rule wp_get_vc)
      (auto simp: cur [OF w] preparing_def dest: cur intro!: post wp_bind wp_loadMTLSClientCert wp_if wp_return w
        wp_onEachPod [where b = False and P = "prepared T0 vc new" and f = "addNewPass env vc new"] wp_addNewPass prepared_stable wp_switchSentinels
        wp_onEachPod [where b = True and P = "cut_over T0 vc new" and f = "cutoverPass env vc new"] wp_cutoverPass cut_over_stable wp_cutoverSentinels)
qed

section \<open>No pod is locked out\<close>

text \<open>
  C29. A rotation never locks anyone out. While it runs, every data pod accepts the old or the new
  password at every moment, whatever fails and wherever the run stops. A command that drops a
  password is sent only when every data pod lets every shared user in with the new password and
  presents it to its master, and every Sentinel has been told it. When the rotation reports success,
  the new password is the only one left on every data pod.
\<close>

theorem applyPasswordToPods_no_lockout:
  assumes run: "run_state (applyPasswordToPods env old new) w = (r, w')"
    and before: "\<forall>h\<in>data_hosts (cur w). accepts (acl_table T0 h (acts w)) ''default'' old"
  shows "(\<forall>t h. between w w' t \<and> h \<in> data_hosts (cur w) \<longrightarrow>
       accepts (acl_table T0 h t) ''default'' old \<or> accepts (acl_table T0 h t) ''default'' new) \<and>
     (\<forall>t a. issued w w' t a \<and> drops_passwords a \<longrightarrow>
       (\<forall>h\<in>data_hosts (cur w). prepared T0 (cur w) new h t) \<and> switched (cur w) new t) \<and>
     (r = None \<longrightarrow> (\<forall>h\<in>data_hosts (cur w). cut_over T0 (cur w) new h (acts w')))"
proof -
  let ?vc = "cur w"
  have reach: "reachable_pods T0 ?vc old new (acts w)" using before by (auto simp: reachable_pods_def)
  then have "pass_state False T0 ?vc old new w" by (simp add: pass_state_def)
  then have wp: "wp (rotation_guard T0 ?vc old new) (applyPasswordToPods env old new)
      (\<lambda>r v. r = None \<longrightarrow> (\<forall>h\<in>data_hosts ?vc. cut_over T0 ?vc new h (acts v))) w"
    by (rule wp_applyPasswordToPods) simp
  have "reachable_pods T0 ?vc old new t" if "between w w' t" for t
    by (rule wp_between [OF wp run that, where S = "reachable_pods T0 ?vc old new"]) (use reach reachable_pods_stable in auto)
  moreover have "rotation_guard T0 ?vc old new t a" if "issued w w' t a" for t a
    by (rule wp_issued [OF wp run that])
  moreover have "r = None \<longrightarrow> (\<forall>h\<in>data_hosts ?vc. cut_over T0 ?vc new h (acts w'))"
    by (rule wp_result [OF wp run])
  ultimately show ?thesis using guard_drops unfolding reachable_pods_def by blast
qed

definition old_users :: "string \<Rightarrow> acl_users" where
  "old_users h = [''default'' \<mapsto> \<lparr>ac_on = True, ac_nopass = False, ac_pws = {''old''}, ac_hashes = {}, ac_rules = []\<rparr>]"

definition pair_vc :: ValkeyCluster where
  "pair_vc = demo_vc\<lparr>vc_Spec := (vc_Spec demo_vc)\<lparr>sp_Replicas := 2\<rparr>\<rparr>"

definition pair_world :: world where
  "pair_world = \<lparr>cur = pair_vc, acts = []\<rparr>"

theorem applyPasswordToPods_no_lockout_witness:
  "cut_over old_users pair_vc ''new'' (demo_host 1) (acts (snd (run_state (applyPasswordToPods answering_env ''old'' ''new'') pair_world))) \<and>
   (\<exists>t. issued pair_world (snd (run_state (applyPasswordToPods answering_env ''old'' ''new'') pair_world)) t
        (ACmd (demo_host 0) [''ACL'', ''SETUSER'', ''default'', ''resetpass'', ''>new''] True) \<and>
      prepared old_users pair_vc ''new'' (demo_host 1) t)"
proof -
  let ?run = "run_state (applyPasswordToPods answering_env ''old'' ''new'') pair_world"
  let ?cmd = "ACmd (demo_host 0) [''ACL'', ''SETUSER'', ''default'', ''resetpass'', ''>new''] True"
  have w: "acts pair_world = []" "cur pair_world = pair_vc" by (simp_all add: pair_world_def)
  have "\<forall>h\<in>data_hosts (cur pair_world). accepts (acl_table old_users h (acts pair_world)) ''default'' ''old''"
    by (simp add: w acl_table_def old_users_def accepts_def)
  note main = applyPasswordToPods_no_lockout [OF prod.collapse [symmetric] this, of answering_env "''new''", unfolded w]
  have "case ?run of (r, v) \<Rightarrow> r = None \<and> ?cmd \<in> set (acts v)" by code_simp
  then have "fst ?run = None" "?cmd \<in> set (acts (snd ?run))" by (simp_all add: case_prod_beta)
  moreover have h: "demo_host 1 \<in> data_hosts pair_vc" by code_simp
  ultimately obtain t where t: "issued pair_world (snd ?run) t ?cmd" using issued_member [OF w(1)] by blast
  have "drops_passwords ?cmd" by simp
  then have "prepared old_users pair_vc ''new'' (demo_host 1) t" using main h t by blast
  then show ?thesis using main h t \<open>fst ?run = None\<close> by blast
qed

section \<open>The Secret follows the pods, the token follows the Secret\<close>

definition secret_password :: "Secret \<Rightarrow> string" where
  "secret_password s = mget (map_of (sec_Data s)) secretKeyPassword"

definition secret_written :: "action list \<Rightarrow> bool" where
  "secret_written t \<longleftrightarrow> (\<exists>s. AUpdate (KSecret s) None \<in> set t)"

definition rotation_order :: "(string \<Rightarrow> acl_users) \<Rightarrow> ValkeyCluster \<Rightarrow> action list \<Rightarrow> action \<Rightarrow> bool" where
  "rotation_order T0 vc t a = (case a of
     AUpdate ob _ \<Rightarrow> (\<exists>s. ob = KSecret s \<and>
       (\<forall>h\<in>data_hosts vc. cut_over T0 vc (secret_password s) h t))
   | AUpdateStatus st _ \<Rightarrow> st_LastPasswordRotationToken st = mget (vc_Annotations vc) rotatePasswordAnnotation \<and>
       secret_written t
   | ACmd _ _ _ \<Rightarrow> True
   | ADial _ _ _ _ \<Rightarrow> True
   | _ \<Rightarrow> False)"

lemma rotation_guard_order: "rotation_guard T0 vc old new t a \<Longrightarrow> rotation_order T0 vc t a"
  by (cases a) (simp_all add: rotation_guard_def rotation_order_def)

lemma map_of_maps_Copy_single: "map_of (maps_Copy dst [(k, v)]) k = Some v"
  by (simp add: maps_Copy_def)

lemma wp_updatePasswordSecret:
  assumes "\<forall>h\<in>data_hosts (cur w). cut_over T0 (cur w) newPw h (acts w)"
    and "\<And>r v. (r = None \<Longrightarrow> secret_written (acts v)) \<Longrightarrow> Q r v"
  shows "wp (rotation_order T0 (cur w)) (updatePasswordSecret env newPw) Q w"
  unfolding updatePasswordSecret_def using assms(1)
  by (auto intro!: wp_rules assms(2) simp: rotation_order_def secret_written_def secret_password_def mget_def map_of_maps_Copy_single)

definition token_recorded :: "string \<Rightarrow> action list \<Rightarrow> bool" where
  "token_recorded token t \<longleftrightarrow> secret_written t \<and>
     (\<exists>st. AUpdateStatus st None \<in> set t \<and> st_LastPasswordRotationToken st = token)"

lemma secret_written_append: "secret_written t \<Longrightarrow> secret_written (t @ xs)"
  by (auto simp: secret_written_def)

lemma token_recordedI:
  "secret_written t \<Longrightarrow> st_LastPasswordRotationToken st = token \<Longrightarrow> token_recorded token (t @ [AUpdateStatus st None])"
  by (auto simp: token_recorded_def intro: secret_written_append)

lemma rotation_order_status:
  "rotation_order T0 vc t (AUpdateStatus st err) \<longleftrightarrow>
     st_LastPasswordRotationToken st = mget (vc_Annotations vc) rotatePasswordAnnotation \<and> secret_written t"
  by (simp add: rotation_order_def)

lemma wp_recordToken:
  assumes "secret_written (acts v)" and "token = mget (vc_Annotations vc) rotatePasswordAnnotation"
  shows "wp (rotation_order T0 vc) (retry_on_conflict n (recordToken env token)) (\<lambda>r v. r = Inr () \<longrightarrow> token_recorded token (acts v)) v"
  by (rule wp_retry_on_conflict [where I = "\<lambda>v. secret_written (acts v)"])
    (use assms in \<open>auto simp: recordToken_def rotation_order_status as_result_def
      intro!: wp_rules token_recordedI secret_written_append split: option.splits\<close>)

lemma wp_apply_ordered:
  assumes "\<forall>h\<in>data_hosts (cur w). accepts (acl_table T0 h (acts w)) ''default'' old"
    and "\<And>r v. cur v = cur w \<Longrightarrow> (r = None \<Longrightarrow> \<forall>h\<in>data_hosts (cur w). cut_over T0 (cur w) new h (acts v)) \<Longrightarrow> Q r v"
  shows "wp (rotation_order T0 (cur w)) (applyPasswordToPods env old new) Q w"
proof (rule wp_guarantee [OF wp_applyPasswordToPods])
  show "pass_state False T0 (cur w) old new w" using assms(1) by (auto simp: pass_state_def reachable_pods_def)
qed (use assms(2) rotation_guard_order in blast)+

lemma wp_rotateNow:
  assumes token: "token = mget (vc_Annotations (cur w)) rotatePasswordAnnotation"
    and before: "\<forall>h\<in>data_hosts (cur w). accepts (acl_table T0 h (acts w)) ''default'' old"
  shows "wp (rotation_order T0 (cur w)) (rotateNow env token old) (\<lambda>r v. fst r \<longrightarrow> token_recorded token (acts v)) w"
proof -
  have tail: "wp (rotation_order T0 (cur w)) (retry_on_conflict n (recordToken env token))
      (\<lambda>res. wp (rotation_order T0 (cur w)) (State_Monad.return (case res of Inl e \<Rightarrow> (False, Some e) | Inr _ \<Rightarrow> (True, None)))
        (\<lambda>r v. fst r \<longrightarrow> token_recorded token (acts v))) v"
    if "secret_written (acts v)" for n v
    by (rule wp_conseq [OF wp_recordToken [OF that token]]) (auto intro!: wp_return split: sum.splits)
  have "wp (rotation_order T0 (cur w)) (updatePasswordSecret env new) (\<lambda>err. wp (rotation_order T0 (cur w))
      (if err \<noteq> None then State_Monad.return (False, err) else do {
         res \<leftarrow> retry_on_conflict n (recordToken env token);
         State_Monad.return (case res of Inl e \<Rightarrow> (False, Some e) | Inr _ \<Rightarrow> (True, None)) })
        (\<lambda>r v. fst r \<longrightarrow> token_recorded token (acts v))) v"
    if "cur v = cur w" "\<forall>h\<in>data_hosts (cur w). cut_over T0 (cur w) new h (acts v)" for v new n
    by (rule wp_updatePasswordSecret [of v T0 new _ env, unfolded that(1), OF that(2)])
      (auto intro!: wp_return wp_bind wp_if tail)
  then show ?thesis
    unfolding rotateNow_def generatePassword_def
    by (auto intro!: wp_bind wp_ask wp_return wp_sum wp_option wp_apply_ordered [OF before])
qed

text \<open>
  C30. The Secret never runs ahead of the pods, and a token is never used up early. The password that
  the rotation writes to the Secret is at that moment the only one every data pod accepts; the
  token is recorded only after that write succeeded, a rotation reports success only with both
  writes done, and a token that is already recorded causes no action at all.
\<close>

theorem reconcilePasswordRotation_order:
  assumes run: "run_state (reconcilePasswordRotation apiReader env) w = (r, w')"
    and secret: "env_secret env (acts w) (passwordSecretName (cur w)) = Inr sec"
    and before: "\<forall>h\<in>data_hosts (cur w). accepts (acl_table T0 h (acts w)) ''default'' (secret_password sec)"
  shows "(\<forall>t a. issued w w' t a \<longrightarrow> rotation_order T0 (cur w) t a) \<and>
    (fst r \<longrightarrow> token_recorded (mget (vc_Annotations (cur w)) rotatePasswordAnnotation) (acts w')) \<and>
    (mget (vc_Annotations (cur w)) rotatePasswordAnnotation = st_LastPasswordRotationToken (vc_Status (cur w)) \<longrightarrow> acts w' = acts w)"
proof -
  let ?token = "mget (vc_Annotations (cur w)) rotatePasswordAnnotation"
  have wp: "wp (rotation_order T0 (cur w)) (reconcilePasswordRotation apiReader env)
      (\<lambda>r v. fst r \<longrightarrow> token_recorded ?token (acts v)) w"
    unfolding reconcilePasswordRotation_def ensurePasswordSecret_def allDataPodsReady_def
    by (auto intro!: wp_rules wp_rotateNow [OF _ before, unfolded secret_password_def] simp: secret)
  have "acts w' = acts w" if "?token = st_LastPasswordRotationToken (vc_Status (cur w))"
    using run that by (simp add: reconcilePasswordRotation_def)
  then show ?thesis using wp_issued [OF wp run] wp_result [OF wp run] by blast
qed

definition rotating_vc :: ValkeyCluster where
  "rotating_vc = pair_vc\<lparr>vc_Annotations := [rotatePasswordAnnotation \<mapsto> ''t1''],
     vc_Spec := (vc_Spec pair_vc)\<lparr>sp_Auth := Some \<lparr>au_Enabled = Some True, au_ExistingSecret = []\<rparr>\<rparr>\<rparr>"

definition rotating_world :: world where
  "rotating_world = \<lparr>cur = rotating_vc, acts = []\<rparr>"

definition rotating_env :: env where
  "rotating_env = answering_env\<lparr>
     env_pods := (\<lambda>_ _. Inr (map (\<lambda>n. \<lparr>pod_Name = n, pod_Labels = [], pod_Conditions = [(''Ready'', ConditionTrue)],
        pod_Phase = ''Running'', pod_NodeName = [], pod_IP = [], pod_DeletionTimestamp = None\<rparr>) [''demo-0'', ''demo-1''])),
     env_secret := (\<lambda>_ n. Inr \<lparr>sec_Name = n, sec_Labels = [], sec_Data = [(secretKeyPassword, ''old'')]\<rparr>),
     env_cluster := (\<lambda>_ _. Inr rotating_vc),
     env_random := (\<lambda>t. Inr (if t = [] then ''aaa'' else ''bbb''))\<rparr>"

lemma rotating_secret [simp]:
  "env_secret rotating_env t n = Inr \<lparr>sec_Name = n, sec_Labels = [], sec_Data = [(secretKeyPassword, ''old'')]\<rparr>"
  "secret_password \<lparr>sec_Name = n, sec_Labels = [], sec_Data = [(secretKeyPassword, ''old'')]\<rparr> = ''old''"
  by (simp_all add: rotating_env_def secret_password_def mget_def)

theorem reconcilePasswordRotation_order_witness:
  "token_recorded ''t1'' (acts (snd (run_state (reconcilePasswordRotation None rotating_env) rotating_world)))"
proof -
  let ?run = "run_state (reconcilePasswordRotation None rotating_env) rotating_world"
  have token: "mget (vc_Annotations (cur rotating_world)) rotatePasswordAnnotation = ''t1''"
    by (simp add: rotating_world_def rotating_vc_def mget_def)
  have "\<forall>h\<in>data_hosts (cur rotating_world). accepts (acl_table old_users h (acts rotating_world)) ''default''
      (secret_password \<lparr>sec_Name = passwordSecretName (cur rotating_world), sec_Labels = [], sec_Data = [(secretKeyPassword, ''old'')]\<rparr>)"
    by (simp add: rotating_world_def acl_table_def old_users_def accepts_def)
  from reconcilePasswordRotation_order [OF prod.collapse [symmetric, of ?run] rotating_secret(1) this]
  have "fst (fst ?run) \<longrightarrow> token_recorded ''t1'' (acts (snd ?run))" unfolding token by blast
  moreover have "fst (fst ?run)" by code_simp
  ultimately show ?thesis by blast
qed

section \<open>A rotation that was cut short\<close>

text \<open>A pod answers a dial only with a password that its default user accepts.\<close>

definition authenticates :: "(string \<Rightarrow> acl_users) \<Rightarrow> env \<Rightarrow> bool" where
  "authenticates T0 env \<longleftrightarrow> (\<forall>t h p pw tls cert. env_dial env t h p pw tls cert \<longrightarrow> accepts (acl_table T0 h t) ''default'' pw)"

definition no_progress :: "string \<Rightarrow> action \<Rightarrow> bool" where
  "no_progress h a \<longleftrightarrow> (case a of ADial _ _ _ _ \<Rightarrow> True | ACmd h' _ _ \<Rightarrow> h' \<noteq> h | _ \<Rightarrow> False)"

lemma no_progress_table: "no_progress h a \<Longrightarrow> acl_step h a T = T"
  by (auto simp: no_progress_def acl_step_def split: action.splits)

definition commands_to :: "string \<Rightarrow> action \<Rightarrow> bool" where
  "commands_to h a \<longleftrightarrow> (\<exists>args ok. a = ACmd h args ok)"

lemma wp_rotatePod_stuck:
  assumes only: "accepts_only (acl_table T0 h (acts w)) ''default'' pw" and "pw \<noteq> old" "pw \<noteq> new" and auth: "authenticates T0 env"
    and f: "\<And>c. emits (commands_to (rc_host c)) (f c)" "\<And>c. keeps_cur (f c)"
  shows "wp (\<lambda>_. no_progress h) (rotatePod env vc cert old new pass f p)
    (\<lambda>r v. (r = None \<longrightarrow> pr_host p \<noteq> h) \<and> accepts_only (acl_table T0 h (acts v)) ''default'' pw) w"
proof (rule wp_stable [where S = "\<lambda>t. accepts_only (acl_table T0 h t) ''default'' pw"])
  have closed: "\<not> env_dial env (acts w) h q x tls cert'" "\<not> env_dial env (acts w @ [ADial h' q' pw' ok]) h q x tls cert'"
    if "x \<in> {old, new}" for q x tls cert' h' q' pw' ok
    using auth accepts_only_iff [OF only] that assms(2,3) unfolding authenticates_def
    by (metis acl_step_simps(1) acl_table_snoc insertE singletonD)+
  have run_f: "wp (\<lambda>_. no_progress h) (f c) (\<lambda>r v. True) v" if "rc_host c \<noteq> h" for c v
    by (rule wp_emits [OF f(1,2)]) (use that in \<open>auto simp: commands_to_def no_progress_def\<close>)
  show "wp (\<lambda>_. no_progress h) (rotatePod env vc cert old new pass f p) (\<lambda>r v. r = None \<longrightarrow> pr_host p \<noteq> h) w"
  proof (cases "pr_host p = h")
    case True
    show ?thesis unfolding rotatePod_def True
      by (auto intro!: wp_rules simp: closed no_progress_def)
  next
    case False
    then show ?thesis unfolding rotatePod_def
      by (auto intro!: wp_rules wp_conseq [OF run_f] simp: no_progress_def)
  qed
qed (simp_all add: only no_progress_table)

lemma wp_onEachPod_stuck:
  assumes "accepts_only (acl_table T0 h (acts w)) ''default'' pw" and "pw \<noteq> old" "pw \<noteq> new" and "authenticates T0 env"
    and "\<And>c. emits (commands_to (rc_host c)) (f c)" "\<And>c. keeps_cur (f c)" and h: "h \<in> data_hosts vc"
    and post: "\<And>e v. Q (Some e) v"
  shows "wp (\<lambda>_. no_progress h) (onEachPod env vc cert old new pass f) Q w"
  unfolding onEachPod_def
proof (rule wp_first_state_each [where I = "\<lambda>v. accepts_only (acl_table T0 h (acts v)) ''default'' pw" and P = "\<lambda>p _. pr_host p \<noteq> h"])
  show "wp (\<lambda>_. no_progress h) (rotatePod env vc cert old new pass f p)
      (\<lambda>r v'. case r of None \<Rightarrow> accepts_only (acl_table T0 h (acts v')) ''default'' pw \<and> pr_host p \<noteq> h | Some y \<Rightarrow> Q (Some y) v') v"
    if "accepts_only (acl_table T0 h (acts v)) ''default'' pw" for p v
    by (rule wp_conseq [OF wp_rotatePod_stuck [OF that assms(2-6)]]) (auto split: option.splits intro: post)
qed (use assms(1) h in \<open>auto simp: data_hosts_def\<close>)

lemma emits_addNewPass: "emits (commands_to (rc_host c)) (addNewPass env vc newPw c)" and keeps_cur_addNewPass: "keeps_cur (addNewPass env vc newPw c)"
  unfolding addNewPass_def rekeyManaged_def client_defs
  by (auto intro!: emits_rules hoare_rules simp: commands_to_def split: prod.splits)

text \<open>
  C31. The retry after an interrupted cutover cannot succeed, although the passes are described as
  safe to retry. When a run stops after the first pod dropped the old password, that pod accepts
  only the password of that run, which was never stored. Every later run draws another password and
  tries that one and the one in the Secret: it fails at that pod, sends it nothing, writes neither the
  Secret nor the token, and leaves the pod as it was, so the same holds for the run after it.
\<close>

theorem reconcilePasswordRotation_stuck:
  assumes run: "run_state (reconcilePasswordRotation apiReader env) w = (r, w')"
    and pod: "h \<in> data_hosts (cur w)" "accepts_only (acl_table T0 h (acts w)) ''default'' lost" "authenticates T0 env"
    and secret: "env_secret env (acts w) (passwordSecretName (cur w)) = Inr sec" "secret_password sec \<noteq> lost"
    and drawn: "\<And>b. env_random env (acts w) = Inr b \<Longrightarrow> take 32 (RawURLEncoding b) \<noteq> lost"
  shows "\<not> fst r \<and> (\<forall>t a. issued w w' t a \<longrightarrow> no_progress h a) \<and> accepts_only (acl_table T0 h (acts w')) ''default'' lost"
proof -
  have pods: "wp (\<lambda>_. no_progress h) (applyPasswordToPods env old new) Q w" if "old \<noteq> lost" "new \<noteq> lost" "\<And>e v. Q (Some e) v" for old new Q
    unfolding applyPasswordToPods_def
    using that pod by (auto intro!: wp_bind wp_get_vc wp_loadMTLSClientCert wp_if wp_return
        wp_onEachPod_stuck [OF pod(2) _ _ pod(3) emits_addNewPass keeps_cur_addNewPass pod(1)])
  have drawn': "(case env_random env (acts w) of Inl e \<Rightarrow> Inl (OtherError e) | Inr b \<Rightarrow> Inr (take 32 (RawURLEncoding b))) \<noteq> Inr lost"
    using drawn by (auto split: sum.splits)
  have "wp (\<lambda>_. no_progress h) (reconcilePasswordRotation apiReader env) (\<lambda>r v. \<not> fst r) w"
    unfolding reconcilePasswordRotation_def ensurePasswordSecret_def allDataPodsReady_def rotateNow_def generatePassword_def
    using secret(2) drawn'
    by (auto intro!: wp_rules pods simp: secret(1) secret_password_def)
  then have wp: "wp (\<lambda>_. no_progress h) (reconcilePasswordRotation apiReader env)
      (\<lambda>r v. \<not> fst r \<and> accepts_only (acl_table T0 h (acts v)) ''default'' lost) w"
    by (rule wp_stable) (simp_all add: pod no_progress_table)
  show ?thesis using wp_issued [OF wp run] wp_result [OF wp run] by blast
qed

text \<open>
  The example: the second pod refuses the cutover. The first run leaves the first pod with a
  password of its own; the next run starts from there.
\<close>

definition refusing_env :: env where
  "refusing_env = rotating_env\<lparr>
     env_dial := (\<lambda>t h p pw tls cert. accepts (acl_table old_users h t) ''default'' pw),
     env_cmd := (\<lambda>t h args. if h = demo_host 1 \<and> ''resetpass'' \<in> set args then Inl ''ERR'' else Inr (RText ''OK''))\<rparr>"

definition interrupted :: world where
  "interrupted = snd (run_state (reconcilePasswordRotation None refusing_env) rotating_world)"

theorem reconcilePasswordRotation_stuck_witness:
  "\<not> fst (fst (run_state (reconcilePasswordRotation None refusing_env) interrupted)) \<and>
   accepts_only (acl_table old_users (demo_host 0) (acts (snd (run_state (reconcilePasswordRotation None refusing_env) interrupted))))
     ''default'' (RawURLEncoding ''aaa'')"
proof -
  let ?run = "run_state (reconcilePasswordRotation None refusing_env) interrupted"
  have "case run_state (reconcilePasswordRotation None refusing_env) rotating_world of (_, w) \<Rightarrow>
      demo_host 0 \<in> data_hosts (cur w) \<and> acts w \<noteq> [] \<and>
      accepts_only (acl_table old_users (demo_host 0) (acts w)) ''default'' (RawURLEncoding ''aaa'')"
    by code_simp
  then have "demo_host 0 \<in> data_hosts (cur interrupted)" "acts interrupted \<noteq> []"
    "accepts_only (acl_table old_users (demo_host 0) (acts interrupted)) ''default'' (RawURLEncoding ''aaa'')"
    by (simp_all add: interrupted_def case_prod_beta)
  moreover have "authenticates old_users refusing_env" by (simp add: authenticates_def refusing_env_def)
  moreover have "env_secret refusing_env t n = Inr \<lparr>sec_Name = n, sec_Labels = [], sec_Data = [(secretKeyPassword, ''old'')]\<rparr>" for t n
    by (simp add: refusing_env_def rotating_env_def)
  moreover have "secret_password \<lparr>sec_Name = n, sec_Labels = [], sec_Data = [(secretKeyPassword, ''old'')]\<rparr> \<noteq> RawURLEncoding ''aaa''" for n
    by (simp add: b64_char_def)
  moreover have "take 32 (RawURLEncoding b) \<noteq> RawURLEncoding ''aaa''" if "env_random refusing_env (acts interrupted) = Inr b" for b
  proof -
    have "take 32 (RawURLEncoding ''bbb'') \<noteq> RawURLEncoding ''aaa''" by code_simp
    then show ?thesis using that \<open>acts interrupted \<noteq> []\<close> by (simp add: refusing_env_def rotating_env_def del: RawURLEncoding.simps)
  qed
  ultimately show ?thesis
    using reconcilePasswordRotation_stuck [OF prod.collapse [symmetric, of ?run], of "demo_host 0" old_users "RawURLEncoding ''aaa''"]
    by blast
qed

end
