(* ===== verification/Tls_Reload.thy ===== *)
theory Tls_Reload
  imports Objects
begin

text \<open>
  The reload of a renewed TLS certificate without a restart
  (\<open>src/internal/controller/tls_reload.go\<close>). Go's PEM and X.509 parsers and the TLS handshake are the
  fields of a record \<open>certs\<close>, functions that answer arbitrarily; the digest is a field of the
  environment. The lemmas say what the recorded fingerprint stands for: every data pod that
  completed a handshake was seen serving that certificate, and a pod that did not complete one is
  not looked at again.
\<close>

section \<open>Definitions\<close>

text \<open>
  \<open>pem.Decode\<close> of a text that is not empty gives the type and the bytes of the first block and the
  number of bytes up to its end, at least one; \<open>x509.ParseCertificate\<close> gives the DER bytes. A
  handshake gives an error or the DER bytes of the certificates that the peer presents.
\<close>

record certs =
  ce_pem :: "string \<Rightarrow> (string \<times> string \<times> nat) option"
  ce_parse :: "string \<Rightarrow> string + string"
  ce_handshake :: "action list \<Rightarrow> string \<Rightarrow> int \<Rightarrow> string option \<Rightarrow> string + string list"

definition EncodeToString :: "string \<Rightarrow> string" where
  "EncodeToString bs = concat (map (\<lambda>c. [hex_digit (of_char c div 16), hex_digit (of_char c mod 16)]) bs)"

definition fingerprintDER :: "env \<Rightarrow> string \<Rightarrow> string" where
  "fingerprintDER env der = EncodeToString (env_sha256 env der)"

function certFingerprintFromPEM :: "certs \<Rightarrow> env \<Rightarrow> string \<Rightarrow> string + string" where
  "certFingerprintFromPEM ce env pem =
     (case (if pem = [] then None else ce_pem ce pem) of
        None \<Rightarrow> Inl ''no CERTIFICATE block in tls.crt''
      | Some (ty, bytes, n) \<Rightarrow>
          if ty \<noteq> ''CERTIFICATE'' then certFingerprintFromPEM ce env (drop (max 1 n) pem)
          else map_sum id (fingerprintDER env) (ce_parse ce bytes))"
  by auto
termination
  by (relation "measure (\<lambda>(ce, env, pem). length pem)") (auto split: if_splits)

declare certFingerprintFromPEM.simps [simp del]

definition servedCertFingerprint :: "certs \<Rightarrow> env \<Rightarrow> string \<Rightarrow> int \<Rightarrow> string option \<Rightarrow> action list \<Rightarrow> string + string" where
  "servedCertFingerprint ce env host port clientCert t =
     (case ce_handshake ce t host port clientCert of
        Inl e \<Rightarrow> Inl e
      | Inr [] \<Rightarrow> Inl (''no peer certificate from '' @ host)
      | Inr (der # _) \<Rightarrow> Inr (fingerprintDER env der))"

text \<open>The three settings that are written again, so that the server reads the files again.\<close>

definition tlsFiles :: "ValkeyCluster \<Rightarrow> (string \<times> string) list" where
  "tlsFiles vc = [(''tls-cert-file'', tlsMountPath @ ''/tls.crt''), (''tls-key-file'', tlsMountPath @ ''/tls.key''),
     (''tls-ca-cert-file'', caCertPath vc)]"

text \<open>One iteration of the loop over the pods: an error, or whether the pod lets the pass succeed.\<close>

definition reloadTLSOnPod ::
  "certs \<Rightarrow> env \<Rightarrow> ValkeyCluster \<Rightarrow> string \<Rightarrow> string option \<Rightarrow> string \<Rightarrow> string \<Rightarrow> (string + bool) op" where
  "reloadTLSOnPod ce env vc password clientCert desiredFP host = do {
     served \<leftarrow> ask (servedCertFingerprint ce env host valkeyTLSPort clientCert);
     case served of
       Inl _ \<Rightarrow> State_Monad.return (Inr True)
     | Inr fp \<Rightarrow>
         if fp = desiredFP then State_Monad.return (Inr True)
         else do {
           c \<leftarrow> dialReplClient env host valkeyTLSPort password True clientCert;
           case c of
             None \<Rightarrow> State_Monad.return (Inr False)
           | Some c \<Rightarrow> do {
               err \<leftarrow> first_state (\<lambda>(param, path). do {
                 e \<leftarrow> configSet env c param path;
                 State_Monad.return (map_option (\<lambda>e. ''tls reload '' @ host @ '': set '' @ param @ '': '' @ e) e) }) (tlsFiles vc);
               case err of
                 Some e \<Rightarrow> State_Monad.return (Inl e)
               | None \<Rightarrow> do {
                   served \<leftarrow> ask (servedCertFingerprint ce env host valkeyTLSPort clientCert);
                   State_Monad.return (Inr (served = Inr desiredFP)) } } } }"

fun reloadTLSOnPods ::
  "certs \<Rightarrow> env \<Rightarrow> ValkeyCluster \<Rightarrow> string \<Rightarrow> string option \<Rightarrow> string \<Rightarrow> bool \<Rightarrow> podRef list \<Rightarrow> (string + bool) op" where
  "reloadTLSOnPods ce env vc password clientCert desiredFP allServeNew [] = State_Monad.return (Inr allServeNew)"
| "reloadTLSOnPods ce env vc password clientCert desiredFP allServeNew (p # ps) = do {
     r \<leftarrow> reloadTLSOnPod ce env vc password clientCert desiredFP (pr_host p);
     case r of
       Inl e \<Rightarrow> State_Monad.return (Inl e)
     | Inr ok \<Rightarrow> reloadTLSOnPods ce env vc password clientCert desiredFP (allServeNew \<and> ok) ps }"

text \<open>One attempt to record the fingerprint on the latest object.\<close>

definition recordFingerprint :: "env \<Rightarrow> string \<Rightarrow> (kerr + unit) op" where
  "recordFingerprint env fp = do {
     vc \<leftarrow> get_vc;
     r \<leftarrow> ask (\<lambda>t. env_cluster env t (vc_Name vc));
     case r of
       Inl e \<Rightarrow> State_Monad.return (Inl e)
     | Inr latest \<Rightarrow> do {
         err \<leftarrow> update_status env ((vc_Status latest)\<lparr>st_LastTLSCertFingerprint := fp\<rparr>);
         State_Monad.return (as_result err) } }"

text \<open>Below the guards: the client certificate, the password, the pods, the record.\<close>

definition reloadNow :: "certs \<Rightarrow> env \<Rightarrow> Secret \<Rightarrow> string \<Rightarrow> (bool \<times> int \<times> kerr option) op" where
  "reloadNow ce env sec desiredFP = do {
     vc \<leftarrow> get_vc;
     let clientCert = env_x509 env (mget (map_of (sec_Data sec)) ''tls.crt'') (mget (map_of (sec_Data sec)) ''tls.key'');
     pw \<leftarrow> ensurePasswordSecret env;
     case pw of
       Inl e \<Rightarrow> State_Monad.return (False, 0, Some e)
     | Inr password \<Rightarrow> do {
         r \<leftarrow> reloadTLSOnPods ce env vc password clientCert desiredFP True (clusterDataPods vc);
         case r of
           Inl e \<Rightarrow> State_Monad.return (False, 0, Some (OtherError e))
         | Inr allServeNew \<Rightarrow>
             if \<not> allServeNew then State_Monad.return (False, seconds 20, None)
             else do {
               res \<leftarrow> retry_on_conflict (env_retries env) (recordFingerprint env desiredFP);
               State_Monad.return (case res of Inl e \<Rightarrow> (False, 0, Some e) | Inr _ \<Rightarrow> (True, 0, None)) } } }"

text \<open>
  The first parameter is the uncached reader \<open>r.APIReader\<close>, which may be absent. The results are
  whether the pods were just brought onto the new certificate, a delay, and the error.
\<close>

definition reconcileTLSReload ::
  "(action list \<Rightarrow> string \<Rightarrow> kerr + ValkeyCluster) option \<Rightarrow> certs \<Rightarrow> env \<Rightarrow> (bool \<times> int \<times> kerr option) op" where
  "reconcileTLSReload apiReader ce env = do {
     vc \<leftarrow> get_vc;
     if \<not> tlsEnabled vc then State_Monad.return (False, 0, None)
     else do {
       s \<leftarrow> ask (\<lambda>t. env_secret env t (tlsSecretName vc));
       case s of
         Inl e \<Rightarrow> State_Monad.return (False, 0, if e = NotFound then None else Some e)
       | Inr sec \<Rightarrow>
           (let certPEM = mget (map_of (sec_Data sec)) ''tls.crt'' in
            if certPEM = [] then State_Monad.return (False, 0, None)
            else case certFingerprintFromPEM ce env certPEM of
              Inl _ \<Rightarrow> State_Monad.return (False, 0, None)
            | Inr desiredFP \<Rightarrow>
                if desiredFP = st_LastTLSCertFingerprint (vc_Status vc) then State_Monad.return (False, 0, None)
                else do {
                  fresh \<leftarrow> (case apiReader of
                      None \<Rightarrow> State_Monad.return (Inr False)
                    | Some rd \<Rightarrow> do {
                        r \<leftarrow> ask (\<lambda>t. rd t (vc_Name vc));
                        State_Monad.return (map_sum id (\<lambda>v. desiredFP = st_LastTLSCertFingerprint (vc_Status v)) r) });
                  case fresh of
                    Inl e \<Rightarrow> State_Monad.return (False, 0, Some e)
                  | Inr recorded \<Rightarrow>
                      if recorded then State_Monad.return (False, 0, None) else reloadNow ce env sec desiredFP }) } }"

section \<open>What a recorded fingerprint stands for\<close>

text \<open>
  The certificate that the Secret holds when a pass starts, and the client certificate that goes
  with it. During the pass, a handshake with a host failed or showed that certificate; one showed
  another certificate.
\<close>

definition wantedCert :: "certs \<Rightarrow> env \<Rightarrow> world \<Rightarrow> (string \<times> string option) option" where
  "wantedCert ce env w = (case env_secret env (acts w) (tlsSecretName (cur w)) of
       Inl _ \<Rightarrow> None
     | Inr sec \<Rightarrow>
         (let pem = mget (map_of (sec_Data sec)) ''tls.crt'' in
          if pem = [] then None
          else case certFingerprintFromPEM ce env pem of
            Inl _ \<Rightarrow> None
          | Inr fp \<Rightarrow> Some (fp, env_x509 env pem (mget (map_of (sec_Data sec)) ''tls.key''))))"

definition observed :: "(string + string \<Rightarrow> bool) \<Rightarrow> certs \<Rightarrow> env \<Rightarrow> string option \<Rightarrow> world \<Rightarrow> string \<Rightarrow> action list \<Rightarrow> bool" where
  "observed P ce env cert w host t \<longleftrightarrow> (\<exists>k. length (acts w) \<le> k \<and> k \<le> length t \<and>
     P (servedCertFingerprint ce env host valkeyTLSPort cert (take k t)))"

definition down_or_serving :: "string \<Rightarrow> string + string \<Rightarrow> bool" where
  "down_or_serving fp r = (case r of Inl _ \<Rightarrow> True | Inr f \<Rightarrow> f = fp)"

definition serving_other :: "string \<Rightarrow> string + string \<Rightarrow> bool" where
  "serving_other fp r = (case r of Inl _ \<Rightarrow> False | Inr f \<Rightarrow> f \<noteq> fp)"

definition reload_guard :: "certs \<Rightarrow> env \<Rightarrow> world \<Rightarrow> string \<Rightarrow> string option \<Rightarrow> action list \<Rightarrow> action \<Rightarrow> bool" where
  "reload_guard ce env w fp cert t a = (case a of
       AUpdateStatus st r \<Rightarrow> st_LastTLSCertFingerprint st = fp \<and>
         (\<forall>p \<in> set (clusterDataPods (cur w)). observed (down_or_serving fp) ce env cert w (pr_host p) t)
     | ACmd host args ok \<Rightarrow> host \<in> pr_host ` set (clusterDataPods (cur w)) \<and>
         args \<in> (\<lambda>(k, v). [''CONFIG'', ''SET'', k, v]) ` set (tlsFiles (cur w)) \<and>
         observed (serving_other fp) ce env cert w host t
     | ADial h p pw ok \<Rightarrow> True | ACreate ob r \<Rightarrow> True | _ \<Rightarrow> False)"

text \<open>The API server accepted a status with the fingerprint.\<close>

definition recorded :: "string \<Rightarrow> world \<Rightarrow> world \<Rightarrow> bool" where
  "recorded fp w w' \<longleftrightarrow> (\<exists>t st. issued w w' t (AUpdateStatus st None) \<and> st_LastTLSCertFingerprint st = fp)"

lemma recorded_appended:
  "grows w u \<Longrightarrow> st_LastTLSCertFingerprint st = fp \<Longrightarrow> recorded fp w (appended u (AUpdateStatus st None))"
  by (auto simp: recorded_def issued_def grows_def)

lemma observed_now:
  "grows w v \<Longrightarrow> P (servedCertFingerprint ce env host valkeyTLSPort cert (acts v)) \<Longrightarrow> observed P ce env cert w host (acts v)"
  unfolding observed_def by (intro exI [of _ "length (acts v)"]) (auto simp: grows_def)

lemma observed_mono [simp]:
  assumes "observed P ce env cert w host t"
  shows "observed P ce env cert w host (t @ u)"
proof -
  obtain k where "length (acts w) \<le> k" "k \<le> length t" "P (servedCertFingerprint ce env host valkeyTLSPort cert (take k t))"
    using assms by (auto simp: observed_def)
  then show ?thesis unfolding observed_def by (intro exI [of _ k]) simp
qed

lemma observed_grows: "observed P ce env cert w host (acts v) \<Longrightarrow> grows v v' \<Longrightarrow> observed P ce env cert w host (acts v')"
  by (auto simp: grows_def)

lemma reload_guard_simps [simp]:
  "reload_guard ce env w fp cert t (ADial h p pw ok)" "reload_guard ce env w fp cert t (ACreate ob r)"
  by (simp_all add: reload_guard_def)

lemma wp_ensurePasswordSecret:
  assumes "\<And>t ob r. G t (ACreate ob r)" and "\<And>r v. grows w v \<Longrightarrow> Q r v"
  shows "wp G (ensurePasswordSecret env) Q w"
  unfolding ensurePasswordSecret_def generatePassword_def
  by (auto intro!: wp_rules assms)

lemma wp_setFiles:
  assumes "grows w v" and "rc_host c \<in> pr_host ` set (clusterDataPods (cur w))"
    and "observed (serving_other fp) ce env cert w (rc_host c) (acts v)"
    and "\<And>r v'. grows v v' \<Longrightarrow> Q r v'"
  shows "wp (reload_guard ce env w fp cert) (first_state (\<lambda>(param, path). do {
      e \<leftarrow> configSet env c param path; State_Monad.return (map_option (f param) e) }) (tlsFiles (cur w))) Q v"
proof (rule wp_first_state [where I = "\<lambda>u. grows v u"])
  fix x u assume x: "x \<in> set (tlsFiles (cur w))" and u: "grows v u"
  have "observed (serving_other fp) ce env cert w (rc_host c) (acts u)" using observed_grows [OF assms(3) u] .
  then show "wp (reload_guard ce env w fp cert) (case x of (param, path) \<Rightarrow> do {
      e \<leftarrow> configSet env c param path; State_Monad.return (map_option (f param) e) })
    (\<lambda>r v'. case r of None \<Rightarrow> grows v v' | Some y \<Rightarrow> Q (Some y) v') u"
    using x u assms(2,4) unfolding configSet_def
    by (auto intro!: wp_rules simp: reload_guard_def split: option.splits)
qed (use assms in auto)

lemma grows_appendedD: "grows (appended v a) v' \<Longrightarrow> grows v v'"
  by (auto simp: grows_def)

lemma wp_reloadTLSOnPod:
  assumes "grows w v" and "host \<in> pr_host ` set (clusterDataPods (cur w))" and "vc = cur w"
    and "\<And>r v'. grows v v' \<Longrightarrow> (r = Inr True \<longrightarrow> observed (down_or_serving fp) ce env cert w host (acts v')) \<Longrightarrow> Q r v'"
  shows "wp (reload_guard ce env w fp cert) (reloadTLSOnPod ce env vc password cert fp host) Q v"
proof -
  have now: "observed (down_or_serving fp) ce env cert w host (acts u)"
    if "grows v u" "down_or_serving fp (servedCertFingerprint ce env host valkeyTLSPort cert (acts u))" for u
    using observed_now [OF grows_trans [OF assms(1) that(1)]] that(2) .
  have other: "observed (serving_other fp) ce env cert w host (acts v @ [a])"
    if "servedCertFingerprint ce env host valkeyTLSPort cert (acts v) = Inr f" "f \<noteq> fp" for f a
    by (rule observed_mono, rule observed_now [OF assms(1)]) (use that in \<open>simp add: serving_other_def\<close>)
  show ?thesis unfolding reloadTLSOnPod_def using assms now other
    by (auto intro!: wp_bind wp_ask wp_sum wp_if wp_option wp_return wp_dialReplClient wp_setFiles
        simp: down_or_serving_def dest: grows_appendedD)
qed

lemma wp_reloadTLSOnPods:
  assumes "grows w v" and "set ps \<subseteq> set (clusterDataPods (cur w))" and "vc = cur w"
    and "ok \<Longrightarrow> \<forall>p \<in> set qs. observed (down_or_serving fp) ce env cert w (pr_host p) (acts v)"
    and "\<And>r v'. grows w v' \<Longrightarrow> (r = Inr True \<longrightarrow>
      (\<forall>p \<in> set (qs @ ps). observed (down_or_serving fp) ce env cert w (pr_host p) (acts v'))) \<Longrightarrow> Q r v'"
  shows "wp (reload_guard ce env w fp cert) (reloadTLSOnPods ce env vc password cert fp ok ps) Q v"
  using assms(1,2,4,5)
proof (induction ps arbitrary: v ok qs)
  case Nil
  then show ?case by (auto intro!: wp_return)
next
  case (Cons p ps)
  have "wp (reload_guard ce env w fp cert) (reloadTLSOnPod ce env vc password cert fp (pr_host p))
    (\<lambda>r. wp (reload_guard ce env w fp cert) (case r of Inl e \<Rightarrow> State_Monad.return (Inl e)
       | Inr ok' \<Rightarrow> reloadTLSOnPods ce env vc password cert fp (ok \<and> ok') ps) Q) v"
  proof (rule wp_reloadTLSOnPod [OF Cons.prems(1) _ assms(3)])
    fix r :: "string + bool" and v' assume v': "grows v v'" and r: "r = Inr True \<longrightarrow> observed (down_or_serving fp) ce env cert w (pr_host p) (acts v')"
    have w: "grows w v'" using grows_trans [OF Cons.prems(1) v'] .
    show "wp (reload_guard ce env w fp cert) (case r of Inl e \<Rightarrow> State_Monad.return (Inl e)
       | Inr ok' \<Rightarrow> reloadTLSOnPods ce env vc password cert fp (ok \<and> ok') ps) Q v'"
    proof (cases r)
      case (Inr ok')
      have "wp (reload_guard ce env w fp cert) (reloadTLSOnPods ce env vc password cert fp (ok \<and> ok') ps) Q v'"
        by (rule Cons.IH [where qs = "qs @ [p]"])
          (use w r v' Inr Cons.prems in \<open>auto intro: observed_grows\<close>)
      then show ?thesis using Inr by simp
    qed (use w Cons.prems(4) in \<open>auto intro!: wp_return\<close>)
  qed (use Cons.prems(2) in auto)
  then show ?case by (auto intro: wp_bind)
qed

lemma wp_recordFingerprint:
  assumes "grows w v" and "\<forall>p \<in> set (clusterDataPods (cur w)). observed (down_or_serving fp) ce env cert w (pr_host p) (acts v)"
  shows "wp (reload_guard ce env w fp cert) (retry_on_conflict n (recordFingerprint env fp)) (\<lambda>r v'. r = Inr () \<longrightarrow> recorded fp w v') v"
proof (rule wp_retry_on_conflict [where I = "\<lambda>u. grows w u \<and>
    (\<forall>p \<in> set (clusterDataPods (cur w)). observed (down_or_serving fp) ce env cert w (pr_host p) (acts u))"])
  fix u :: world assume "grows w u \<and> (\<forall>p \<in> set (clusterDataPods (cur w)). observed (down_or_serving fp) ce env cert w (pr_host p) (acts u))"
  then show "wp (reload_guard ce env w fp cert) (recordFingerprint env fp) (\<lambda>r v'. (r = Inr () \<longrightarrow> recorded fp w v') \<and> grows w v' \<and>
      (\<forall>p \<in> set (clusterDataPods (cur w)). observed (down_or_serving fp) ce env cert w (pr_host p) (acts v'))) u"
    unfolding recordFingerprint_def update_status_def
    by (auto intro!: wp_rules recorded_appended simp: reload_guard_def as_result_def split: option.splits)
qed (use assms in simp)

lemma wp_reloadNow:
  assumes "cert = env_x509 env (mget (map_of (sec_Data sec)) ''tls.crt'') (mget (map_of (sec_Data sec)) ''tls.key'')"
  shows "wp (reload_guard ce env w fp cert) (reloadNow ce env sec fp) (\<lambda>r v. fst r \<longrightarrow> recorded fp w v) w"
  unfolding reloadNow_def assms [symmetric] Let_def
  by (intro wp_bind wp_get_vc wp_ensurePasswordSecret wp_sum wp_return wp_if
      wp_reloadTLSOnPods [where qs = "[]"] wp_conseq [OF wp_recordFingerprint])
    (auto split: sum.splits)

lemma wp_reconcileTLSReload:
  "wp (\<lambda>t a. \<exists>fp cert. wantedCert ce env w = Some (fp, cert) \<and> reload_guard ce env w fp cert t a)
     (reconcileTLSReload rd ce env) (\<lambda>r v. fst r \<longrightarrow> (\<forall>fp cert. wantedCert ce env w = Some (fp, cert) \<longrightarrow> recorded fp w v)) w"
proof -
  have now: "wp (\<lambda>t a. \<exists>fp cert. wantedCert ce env w = Some (fp, cert) \<and> reload_guard ce env w fp cert t a)
      (reloadNow ce env sec fp) (\<lambda>r v. fst r \<longrightarrow> (\<forall>fp cert. wantedCert ce env w = Some (fp, cert) \<longrightarrow> recorded fp w v)) w"
    if "env_secret env (acts w) (tlsSecretName (cur w)) = Inr sec" "mget (map_of (sec_Data sec)) ''tls.crt'' \<noteq> []"
      "certFingerprintFromPEM ce env (mget (map_of (sec_Data sec)) ''tls.crt'') = Inr fp" for sec fp
    by (rule wp_guarantee [OF wp_conseq [OF wp_reloadNow [OF refl]]]) (use that in \<open>simp_all add: wantedCert_def Let_def\<close>)
  show ?thesis unfolding reconcileTLSReload_def Let_def
    by (intro wp_bind wp_get_vc wp_if wp_ask wp_sum wp_option wp_return now) simp_all
qed

text \<open>
  C38. What the recorded fingerprint stands for. Every action of a pass is below a certificate that
  the Secret held when the pass started. The fingerprint is written to the status only when it is
  that certificate's, and only after a handshake of this pass with every data pod either failed or
  showed that certificate. The only commands are the three settings that make a server read its
  files again, and only a data pod that was seen serving another certificate receives them.
\<close>

theorem reconcileTLSReload_records:
  assumes "run_state (reconcileTLSReload rd ce env) w = (r, w')" and "issued w w' t a"
  shows "\<exists>fp cert. wantedCert ce env w = Some (fp, cert) \<and> reload_guard ce env w fp cert t a"
  using wp_issued [OF wp_reconcileTLSReload assms] .

section \<open>A pod that was down\<close>

lemma reloadTLSOnPods_skips:
  assumes "\<And>t p. p \<in> set ps \<Longrightarrow> down_or_serving fp (servedCertFingerprint ce env (pr_host p) valkeyTLSPort cert t)"
  shows "run_state (reloadTLSOnPods ce env vc pw cert fp ok ps) w = (Inr ok, w)"
  using assms
proof (induction ps arbitrary: ok)
  case (Cons p ps)
  have "down_or_serving fp (servedCertFingerprint ce env (pr_host p) valkeyTLSPort cert (acts w))" using Cons.prems by simp
  then have "run_state (reloadTLSOnPod ce env vc pw cert fp (pr_host p)) w = (Inr True, w)"
    by (cases "servedCertFingerprint ce env (pr_host p) valkeyTLSPort cert (acts w)")
      (simp_all add: reloadTLSOnPod_def down_or_serving_def)
  then show ?case using Cons by simp
qed simp

lemma run_recordFingerprint:
  assumes "\<And>t. env_cluster env t (vc_Name (cur w)) = Inr latest" and "\<And>t q. env_write env t q = None"
  shows "run_state (retry_on_conflict n (recordFingerprint env fp)) w =
    (Inr (), appended w (AUpdateStatus ((vc_Status latest)\<lparr>st_LastTLSCertFingerprint := fp\<rparr>) None))"
  by (cases n) (simp_all add: recordFingerprint_def update_status_def as_result_def assms appended_def)

lemma reload_done:
  assumes "tlsEnabled (cur w)" and "\<not> AuthEnabled (vc_Spec (cur w))"
    and "env_secret env (acts w) (tlsSecretName (cur w)) = Inr sec"
    and "wantedCert ce env w = Some (fp, cert)" and "fp \<noteq> st_LastTLSCertFingerprint (vc_Status (cur w))"
    and "\<And>t p. p \<in> set (clusterDataPods (cur w)) \<Longrightarrow>
      down_or_serving fp (servedCertFingerprint ce env (pr_host p) valkeyTLSPort cert t)"
    and "\<And>t. env_cluster env t (vc_Name (cur w)) = Inr (cur w)" and "\<And>t q. env_write env t q = None"
  shows "run_state (reconcileTLSReload None ce env) w =
    ((True, 0, None), appended w (AUpdateStatus ((vc_Status (cur w))\<lparr>st_LastTLSCertFingerprint := fp\<rparr>) None))"
proof -
  let ?pem = "mget (map_of (sec_Data sec)) ''tls.crt''"
  have "?pem \<noteq> []" "certFingerprintFromPEM ce env ?pem = Inr fp"
    "env_x509 env ?pem (mget (map_of (sec_Data sec)) ''tls.key'') = cert"
    using assms(3,4) by (auto simp: wantedCert_def Let_def split: if_splits sum.splits)
  then show ?thesis using assms(1,2,3,5)
    by (simp add: reconcileTLSReload_def reloadNow_def ensurePasswordSecret_def Let_def
        reloadTLSOnPods_skips assms(6) run_recordFingerprint [OF assms(7,8)])
qed

lemma reconcileTLSReload_idle:
  assumes "wantedCert ce env w = Some (fp, cert)" and "st_LastTLSCertFingerprint (vc_Status (cur w)) = fp"
  shows "run_state (reconcileTLSReload rd ce env) w = ((False, 0, None), w)"
  using assms by (auto simp: wantedCert_def reconcileTLSReload_def Let_def split: sum.splits if_splits)

text \<open>
  C39. A data pod whose handshakes fail counts as done. When a pass reports that the pods were brought
  onto the certificate of the Secret, although every handshake with one of the data pods failed, the
  pass had the fingerprint of that certificate accepted by the API server and sent that pod no
  command. Any later pass that finds this fingerprint recorded and the same certificate in the Secret does
  nothing at all, whatever the pods serve by then: a pod that was cut off and comes back with the old
  certificate in memory keeps it, although the comment in the code promises that it is checked again
  on the next reconcile.
\<close>

theorem reconcileTLSReload_forgets:
  assumes run: "run_state (reconcileTLSReload rd ce env) w = ((True, delay, err), w')"
    and want: "wantedCert ce env w = Some (fp, cert)"
    and host: "host \<in> pr_host ` set (clusterDataPods (cur w))"
    and down: "\<And>t. \<exists>e. servedCertFingerprint ce env host valkeyTLSPort cert t = Inl e"
    and later: "wantedCert ce2 env2 w2 = Some (fp, cert2)" "st_LastTLSCertFingerprint (vc_Status (cur w2)) = fp"
  shows "recorded fp w w' \<and> (\<forall>t args ok. \<not> issued w w' t (ACmd host args ok)) \<and>
    run_state (reconcileTLSReload rd2 ce2 env2) w2 = ((False, 0, None), w2)"
proof (intro conjI allI)
  show "recorded fp w w'" using wp_result [OF wp_reconcileTLSReload run] want by simp
  show "run_state (reconcileTLSReload rd2 ce2 env2) w2 = ((False, 0, None), w2)"
    by (rule reconcileTLSReload_idle [OF later])
  show "\<not> issued w w' t (ACmd host args ok)" for t args ok
  proof
    assume "issued w w' t (ACmd host args ok)"
    then have "observed (serving_other fp) ce env cert w host t"
      using wp_issued [OF wp_reconcileTLSReload run] want by (fastforce simp: reload_guard_def)
    then obtain k where "serving_other fp (servedCertFingerprint ce env host valkeyTLSPort cert (take k t))"
      by (auto simp: observed_def)
    then show False using down [of "take k t"] by (auto simp: serving_other_def)
  qed
qed

text \<open>Three pods behind TLS, of which the last is cut off; the certificate is its own PEM text.\<close>

definition tls_world :: world where
  "tls_world = \<lparr>cur = demo_vc\<lparr>vc_Spec := (vc_Spec demo_vc)\<lparr>sp_TLS := Some \<lparr>tls_Enabled = True, tls_IssuerRef = None, tls_ExistingSecret = [], tls_MutualTLS = False\<rparr>\<rparr>\<rparr>, acts = []\<rparr>"

definition tls_secret :: Secret where
  "tls_secret = \<lparr>sec_Name = ''demo-tls'', sec_Labels = [], sec_Data = [(''tls.crt'', ''NEW'')]\<rparr>"

definition tls_env :: env where
  "tls_env = silent_env\<lparr>env_secret := (\<lambda>_ _. Inr tls_secret), env_cluster := (\<lambda>_ _. Inr (cur tls_world))\<rparr>"

definition demo_certs :: certs where
  "demo_certs = \<lparr>ce_pem = (\<lambda>s. Some (''CERTIFICATE'', s, length s)), ce_parse = Inr,
     ce_handshake = (\<lambda>_ host _ _. if host = demo_host 2 then Inl ''timeout'' else Inr [''NEW''])\<rparr>"

lemma tls_facts:
  "tlsEnabled (cur tls_world)" "\<not> AuthEnabled (vc_Spec (cur tls_world))"
  "wantedCert demo_certs tls_env tls_world = Some (''4e4557'', None)"
  "st_LastTLSCertFingerprint (vc_Status (cur tls_world)) = []"
  by (code_simp, code_simp, code_simp, code_simp)

lemma tls_served: "down_or_serving ''4e4557'' (servedCertFingerprint demo_certs tls_env host valkeyTLSPort cert t)"
proof -
  have "fingerprintDER tls_env ''NEW'' = ''4e4557''" by code_simp
  then show ?thesis by (simp add: servedCertFingerprint_def demo_certs_def down_or_serving_def)
qed

lemmas tls_run = reload_done [of tls_world tls_env tls_secret demo_certs "''4e4557''" None]

theorem reconcileTLSReload_records_witness:
  "\<exists>t st. issued tls_world (snd (run_state (reconcileTLSReload None demo_certs tls_env) tls_world)) t (AUpdateStatus st None) \<and>
     reload_guard demo_certs tls_env tls_world ''4e4557'' None t (AUpdateStatus st None)"
proof -
  let ?st = "(vc_Status (cur tls_world))\<lparr>st_LastTLSCertFingerprint := ''4e4557''\<rparr>"
  have run: "run_state (reconcileTLSReload None demo_certs tls_env) tls_world =
      ((True, 0, None), appended tls_world (AUpdateStatus ?st None))"
    by (rule tls_run) (simp_all add: tls_facts tls_served, simp_all add: tls_env_def silent_env_def)
  have upd: "issued tls_world (appended tls_world (AUpdateStatus ?st None)) [] (AUpdateStatus ?st None)"
    by (simp add: issued_def tls_world_def)
  then have "reload_guard demo_certs tls_env tls_world ''4e4557'' None [] (AUpdateStatus ?st None)"
    using reconcileTLSReload_records [OF run upd] by (simp add: tls_facts)
  then show ?thesis using run upd by (intro exI [of _ "[]"] exI [of _ ?st]) simp
qed

theorem reconcileTLSReload_forgets_witness:
  "let w2 = tls_world\<lparr>cur := (cur tls_world)\<lparr>vc_Status := (vc_Status (cur tls_world))\<lparr>st_LastTLSCertFingerprint := ''4e4557''\<rparr>\<rparr>\<rparr>;
       old = demo_certs\<lparr>ce_handshake := \<lambda>_ _ _ _. Inr [''OLD'']\<rparr>
   in recorded ''4e4557'' tls_world (snd (run_state (reconcileTLSReload None demo_certs tls_env) tls_world)) \<and>
      run_state (reconcileTLSReload None old tls_env) w2 = ((False, 0, None), w2)"
proof -
  let ?st = "(vc_Status (cur tls_world))\<lparr>st_LastTLSCertFingerprint := ''4e4557''\<rparr>"
  let ?w2 = "tls_world\<lparr>cur := (cur tls_world)\<lparr>vc_Status := ?st\<rparr>\<rparr>"
  let ?old = "demo_certs\<lparr>ce_handshake := \<lambda>_ _ _ _. Inr [''OLD'']\<rparr>"
  have run: "run_state (reconcileTLSReload None demo_certs tls_env) tls_world =
      ((True, 0, None), appended tls_world (AUpdateStatus ?st None))"
    by (rule tls_run) (simp_all add: tls_facts tls_served, simp_all add: tls_env_def silent_env_def)
  have host: "demo_host 2 \<in> pr_host ` set (clusterDataPods (cur tls_world))" by code_simp
  have later: "wantedCert ?old tls_env ?w2 = Some (''4e4557'', None)" "st_LastTLSCertFingerprint (vc_Status (cur ?w2)) = ''4e4557''"
    by code_simp+
  have down: "\<exists>e. servedCertFingerprint demo_certs tls_env (demo_host 2) valkeyTLSPort None t = Inl e" for t
    by (simp add: servedCertFingerprint_def demo_certs_def)
  show ?thesis
    unfolding Let_def
    using reconcileTLSReload_forgets [OF run tls_facts(3) host down later, of None] run by simp
qed

end
