(* ===== verification/Controller.thy ===== *)
theory Controller
  imports Backup Password_Rotation Tls_Reload
begin

text \<open>
  The reconcile loop of a ValkeyCluster: the dispatch of
  \<open>src/internal/controller/valkeycluster_controller.go\<close> and the passes of the three kinds of topology
  (\<open>reconcileReplication\<close> there, \<open>reconcileSentinel\<close> of \<open>sentinel.go\<close>, \<open>reconcileCluster\<close> of \<open>cluster.go\<close>),
  each the composition of the handlers of the other theories, in the order of the code. An error that
  Go wraps keeps its kind, so only the kind is returned. The lemmas are about a whole pass: what it
  may delete, when it may promote, what it does to an object that is hibernated or being deleted.
\<close>

section \<open>Parameters of a pass\<close>

text \<open>
  The uncached reader, which may be absent, the TLS library, the cached zone of a node
  (\<open>nodeZone\<close>), the hashes of \<open>appliedSpecHash\<close> and the comparison \<open>DeepDerivative\<close> of two budgets.
\<close>

record params =
  pm_APIReader :: "(action list \<Rightarrow> string \<Rightarrow> kerr + ValkeyCluster) option"
  pm_certs :: certs
  pm_nodeZone :: "action list \<Rightarrow> string \<Rightarrow> kerr + string"
  pm_stsHash :: "StatefulSet \<Rightarrow> string"
  pm_cronHash :: "CronJob \<Rightarrow> string"
  pm_derivative :: "DisruptionSpec \<Rightarrow> DisruptionSpec \<Rightarrow> bool"

text \<open>\<open>if err != nil { return ctrl.Result{}, err }\<close> after a call with and without a value.\<close>

definition orFail :: "kerr option op \<Rightarrow> outcome op \<Rightarrow> outcome op" where
  "orFail m k = do { err \<leftarrow> m; case err of Some e \<Rightarrow> State_Monad.return (Fail e) | None \<Rightarrow> k }"

definition bindFail :: "(kerr + 'a) op \<Rightarrow> ('a \<Rightarrow> outcome op) \<Rightarrow> outcome op" where
  "bindFail m k = do { r \<leftarrow> m; case r of Inl e \<Rightarrow> State_Monad.return (Fail e) | Inr x \<Rightarrow> k x }"

text \<open>\<open>if err == nil { res.RequeueAfter = d }\<close>\<close>

definition requeueAfter :: "int \<Rightarrow> outcome \<Rightarrow> outcome" where
  "requeueAfter d r = (case r of Requeue _ \<Rightarrow> Requeue d | _ \<Rightarrow> r)"

section \<open>Telemetry\<close>

text \<open>
  The commands of \<open>collectValkeyTelemetry\<close>; the two gauges it computes from the answers, in floating
  point, are not modelled.
\<close>

definition collectFrom :: "env \<Rightarrow> ValkeyCluster \<Rightarrow> string \<Rightarrow> string option \<Rightarrow> int \<Rightarrow> unit op" where
  "collectFrom env vc password cert i = do {
     c \<leftarrow> dialReplClient env (fqdn (podName vc i) (headlessServiceName vc) (vc_Namespace vc)) (dataPort vc) password (tlsEnabled vc) cert;
     case c of
       None \<Rightarrow> State_Monad.return ()
     | Some c \<Rightarrow> do { _ \<leftarrow> infoSection env c ''everything''; State_Monad.return () } }"

definition collectValkeyTelemetry :: "env \<Rightarrow> string \<Rightarrow> unit op" where
  "collectValkeyTelemetry env password = do {
     vc \<leftarrow> get_vc;
     if \<not> valkeyImageAtLeast (sp_Image (vc_Spec vc)) 9 1 then State_Monad.return ()
     else do {
       cert \<leftarrow> loadMTLSClientCert env vc;
       for_each (range_int (totalReplicas vc)) (collectFrom env vc password cert) } }"

text \<open>
  The gauges of a deleted cluster are dropped; the samples they were computed from are, like the
  computation, not part of the model.
\<close>

definition forgetTelemetry :: "unit op" where
  "forgetTelemetry = for_each [''tls_cert_expiry_seconds'', ''thread_utilization_ratio'', ''zone_colocated_groups'']
     (\<lambda>g. emit (AMetric g ''deleted''))"

definition replicationGroups :: "ValkeyCluster \<Rightarrow> string list list" where
  "replicationGroups vc =
     (if sp_Topology (vc_Spec vc) = TopologyCluster
      then filter (\<lambda>g. g \<noteq> []) (map (\<lambda>s. (if sh_Primary s \<noteq> [] then [sh_Primary s] else []) @ sh_Replicas s)
             (st_ShardDetails (vc_Status vc)))
      else if sp_Replicas (vc_Spec vc) \<le> 1 then []
      else [map (podName vc) (range_int (sp_Replicas (vc_Spec vc)))])"

fun zonesOf :: "(string \<Rightarrow> kerr + string) \<Rightarrow> Pod list \<Rightarrow> kerr + labels" where
  "zonesOf zone [] = Inr []"
| "zonesOf zone (p # ps) =
     (if pod_NodeName p = [] then zonesOf zone ps
      else case zone (pod_NodeName p) of
        Inl e \<Rightarrow> Inl e
      | Inr z \<Rightarrow> map_sum id ((#) (pod_Name p, z)) (zonesOf zone ps))"

definition podZones :: "params \<Rightarrow> env \<Rightarrow> (kerr + labels) op" where
  "podZones pm env = do {
     vc \<leftarrow> get_vc;
     r \<leftarrow> ask (\<lambda>t. env_pods env t (labelsFor vc));
     case r of
       Inl e \<Rightarrow> State_Monad.return (Inl e)
     | Inr pods \<Rightarrow> ask (\<lambda>t. zonesOf (pm_nodeZone pm t) pods) }"

definition colocated :: "labels \<Rightarrow> string list \<Rightarrow> bool" where
  "colocated zoneOf g \<longleftrightarrow> length g > 1 \<and>
     card (set (filter (\<lambda>z. z \<noteq> []) (map (\<lambda>pod. mget (map_of zoneOf) pod) g))) = 1"

definition checkZoneColocation :: "params \<Rightarrow> env \<Rightarrow> unit op" where
  "checkZoneColocation pm env = do {
     vc \<leftarrow> get_vc;
     if replicationGroups vc = [] then State_Monad.return ()
     else do {
       r \<leftarrow> podZones pm env;
       case r of
         Inl _ \<Rightarrow> State_Monad.return ()
       | Inr zoneOf \<Rightarrow>
           if zoneOf = [] then State_Monad.return ()
           else emit (AMetric ''zone_colocated_groups'' (Itoa (int (length (filter (colocated zoneOf) (replicationGroups vc)))))) } }"

section \<open>The ServiceMonitor\<close>

definition buildServiceMonitor :: "ValkeyCluster \<Rightarrow> ServiceMonitor" where
  "buildServiceMonitor vc = \<lparr>sm_Name = vc_Name vc, sm_Labels = labelsFor vc,
     sm_Spec = \<lparr>smp_MatchLabels = labelsFor vc, smp_MatchNames = [vc_Namespace vc],
       smp_Endpoints = (metricsPortName, ''30s'', ''/metrics'')
         # (if sentinelMetricsEnabled vc then [(sentinelMetricsPortName, ''30s'', ''/metrics'')] else [])\<rparr>\<rparr>"

definition ensureMetricsServiceMonitor :: "env \<Rightarrow> kerr option op" where
  "ensureMetricsServiceMonitor env = do {
     vc \<leftarrow> get_vc;
     if \<not> (metricsEnabled vc \<and> me_ServiceMonitor (Deref (sp_Metrics (vc_Spec vc)) zero_metrics)) then State_Monad.return None
     else do {
       let sm = buildServiceMonitor vc;
       r \<leftarrow> ask (\<lambda>t. env_object env t ''ServiceMonitor'' (sm_Name sm));
       case r of
         Inl e \<Rightarrow>
           if e = NotFound then create_obj env (KServiceMonitor sm)
           else State_Monad.return (if e = NoMatch then None else Some e)
       | Inr (KServiceMonitor existing) \<Rightarrow>
           update_obj env (KServiceMonitor (existing\<lparr>sm_Spec := sm_Spec sm, sm_Labels := sm_Labels sm\<rparr>))
       | Inr _ \<Rightarrow> State_Monad.return (Some wrong_kind) } }"

section \<open>Standalone and Replication\<close>

text \<open>The end of a pass: the role labels and the status.\<close>

definition finishReplication :: "env \<Rightarrow> StatefulSet \<Rightarrow> string \<Rightarrow> int \<Rightarrow> outcome op" where
  "finishReplication env sts primary requeue = do {
     _ \<leftarrow> ensureRoleLabels env primary;
     res \<leftarrow> updateStatus env sts primary;
     State_Monad.return (if requeue > 0 then requeueAfter requeue res else res) }"

text \<open>The failover part of a pass, under its condition.\<close>

definition superviseReplication :: "env \<Rightarrow> string \<Rightarrow> StatefulSet \<Rightarrow> outcome op" where
  "superviseReplication env password sts = do {
     survey \<leftarrow> surveyReplication env password;
     vc \<leftarrow> get_vc;
     (rp, inProgress, rerr) \<leftarrow> (if proactiveRolloutEnabled vc then driveReplicationRollout env password survey
        else State_Monad.return ([], False, None));
     case rerr of
       Some e \<Rightarrow> State_Monad.return (Fail e)
     | None \<Rightarrow>
         if inProgress then do {
           res \<leftarrow> updateStatus env sts rp;
           State_Monad.return (requeueAfter (seconds 5) res) }
         else do {
           primary \<leftarrow> reconcileFailover env password survey;
           vc \<leftarrow> get_vc;
           let tok = mget (vc_Annotations vc) failoverAnnotation;
           np \<leftarrow> (if tok \<noteq> [] \<and> tok \<noteq> st_LastFailoverToken (vc_Status vc) then manualFailover env password survey tok
              else State_Monad.return []);
           finishReplication env sts (if np \<noteq> [] then np else primary) (seconds 15) } }"

definition reconcileReplication :: "params \<Rightarrow> env \<Rightarrow> outcome op" where
  "reconcileReplication pm env =
     bindFail (ensurePasswordSecret env) (\<lambda>password.
     orFail (ensureHeadlessService env) (
     orFail (ensureClientService env) (
     orFail (ensurePrimaryService env) (
     orFail (ensureReplicasService env) (
     bindFail (ensureConfigMap env password) (\<lambda>configHash.
     bindFail (ensureStatefulSet env (pm_stsHash pm) configHash) (\<lambda>sts.
     orFail (ensurePDB env (pm_derivative pm)) (
     orFail (ensureNetworkPolicy env) (do {
       _ \<leftarrow> ensureMetricsServiceMonitor env;
       _ \<leftarrow> ensureBackupCronJob env (pm_cronHash pm);
       vc \<leftarrow> get_vc;
       if sp_Topology (vc_Spec vc) = TopologyReplication \<and> sts_ReadyReplicas sts > 0 \<and> sp_ReplicateFrom (vc_Spec vc) = None
       then superviseReplication env password sts
       else finishReplication env sts [] 0 })))))))))"

section \<open>Sentinel\<close>

definition reportUpdating :: "env \<Rightarrow> StatefulSet \<Rightarrow> outcome op" where
  "reportUpdating env sts = do {
     vc \<leftarrow> get_vc;
     now \<leftarrow> ask (env_now env);
     modify_status (\<lambda>s. s\<lparr>st_Phase := PhaseUpdating, st_ObservedGeneration := vc_Generation vc,
       st_ReadyReplicas := sts_ReadyReplicas sts,
       st_Conditions := setCondition (st_Conditions s) (condition ''Available'' (condStatus False) (phaseName PhaseUpdating)
         ''proactive rolling restart in progress'' (vc_Generation vc) now)\<rparr>);
     err \<leftarrow> patch_status env;
     State_Monad.return (requeueAfter (seconds 5) (returns err)) }"

text \<open>The status at the end; the two dereferences of \<open>Spec.Replicas\<close> are those of the code.\<close>

definition reportSentinel :: "env \<Rightarrow> StatefulSet \<Rightarrow> StatefulSet \<Rightarrow> bool \<Rightarrow> outcome op" where
  "reportSentinel env sts sentinelSTS pending = do {
     vc \<leftarrow> get_vc;
     now \<leftarrow> ask (env_now env);
     case (sts_Replicas sts, sts_Replicas sentinelSTS) of
       (Some want, Some sentinels) \<Rightarrow> do {
         let phase = (if sts_ReadyReplicas sts = want \<and> sts_ReadyReplicas sentinelSTS = sentinels then PhaseReady else PhaseCreating);
         modify_status (\<lambda>s. s\<lparr>st_ReadyReplicas := sts_ReadyReplicas sts, st_ObservedGeneration := vc_Generation vc,
           st_Phase := phase,
           st_Conditions := setCondition (st_Conditions s) (condition ''Available'' (condStatus (phase = PhaseReady)) (phaseName phase)
             (''valkey '' @ Itoa (sts_ReadyReplicas sts) @ ''/'' @ Itoa want @ '', sentinel ''
               @ Itoa (sts_ReadyReplicas sentinelSTS) @ ''/'' @ Itoa sentinels) (vc_Generation vc) now)\<rparr>);
         err \<leftarrow> patch_status env;
         State_Monad.return (requeueAfter (if pending then seconds 30 else seconds 60) (returns err)) }
     | _ \<Rightarrow> State_Monad.return Panic }"

text \<open>The upkeep of the Sentinels and what follows it.\<close>

definition superviseSentinels :: "params \<Rightarrow> env \<Rightarrow> string \<Rightarrow> StatefulSet \<Rightarrow> StatefulSet \<Rightarrow> bool \<Rightarrow> outcome op" where
  "superviseSentinels pm env password sts sentinelSTS holdSentinels = do {
     timings \<leftarrow> applySentinelTimings env password;
     views \<leftarrow> collectSentinelViews env password;
     reset \<leftarrow> resetStaleSentinels env password views;
     repaired \<leftarrow> repairSentinelDataPods env password views;
     case repaired of
       None \<Rightarrow> State_Monad.return Panic
     | Some repaired \<Rightarrow>
         orFail (ensureBackupCronJob env (pm_cronHash pm)) (do {
           vc \<leftarrow> get_vc;
           (inProgress, rerr) \<leftarrow> (if proactiveRolloutEnabled vc \<and> sts_ReadyReplicas sts > 0 then driveSentinelRollout env password
              else State_Monad.return (False, None));
           case rerr of
             Some e \<Rightarrow> State_Monad.return (Fail e)
           | None \<Rightarrow>
               if inProgress then reportUpdating env sts
               else reportSentinel env sts sentinelSTS (timings \<or> holdSentinels \<or> reset \<or> repaired) }) }"

definition reconcileSentinel :: "params \<Rightarrow> env \<Rightarrow> outcome op" where
  "reconcileSentinel pm env = do {
     vc \<leftarrow> get_vc;
     if sp_Sentinel (vc_Spec vc) = None \<or> se_Replicas (sentinel_spec vc) < 3
     then setPhase env ''InvalidSpec'' ''sentinel.replicas must be >= 3 (recommended odd for quorum)''
     else
       bindFail (ensurePasswordSecret env) (\<lambda>password.
       orFail (ensureHeadlessService env) (
       orFail (ensureClientService env) (
       bindFail (ensureConfigMap env password) (\<lambda>configHash.
       bindFail (ensureStatefulSet env (pm_stsHash pm) configHash) (\<lambda>sts.
       orFail (ensurePDB env (pm_derivative pm)) (
       orFail (applyPDB env (pm_derivative pm) (buildSentinelPDB vc)) (
       orFail (ensureNetworkPolicy env) (do {
         _ \<leftarrow> ensureMetricsServiceMonitor env;
         bindFail (ensureSentinelConfigMap env password) (\<lambda>sentinelHash.
         orFail (ensureSentinelService env) (
           let holdSentinels = \<not> proactiveRolloutEnabled vc \<and> statefulSetRolling (Some sts) in
           bindFail (ensureSentinelStatefulSet env sentinelHash holdSentinels) (\<lambda>sentinelSTS.
           superviseSentinels pm env password sts sentinelSTS holdSentinels))) })))))))) }"

section \<open>Cluster\<close>

definition ensureClusterData :: "params \<Rightarrow> env \<Rightarrow> string \<Rightarrow> (kerr + int) op" where
  "ensureClusterData pm env configHash = do {
     vc \<leftarrow> get_vc;
     if perShardEnabled vc then ensureShardWorkload env (pm_stsHash pm) configHash
     else do {
       err \<leftarrow> ensureHeadlessService env;
       case err of
         Some e \<Rightarrow> State_Monad.return (Inl e)
       | None \<Rightarrow> do {
           r \<leftarrow> ensureStatefulSet env (pm_stsHash pm) configHash;
           State_Monad.return (map_sum id sts_ReadyReplicas r) } } }"

text \<open>\<open>ensureClusterWorkload\<close>, continued with the password and the number of ready pods.\<close>

definition ensureClusterWorkload :: "params \<Rightarrow> env \<Rightarrow> (string \<Rightarrow> int \<Rightarrow> outcome op) \<Rightarrow> outcome op" where
  "ensureClusterWorkload pm env k =
     bindFail (ensurePasswordSecret env) (\<lambda>password.
     orFail (ensureClientService env) (
     bindFail (ensureConfigMap env password) (\<lambda>configHash.
     bindFail (ensureClusterData pm env configHash) (\<lambda>ready.
     orFail (ensurePDB env (pm_derivative pm)) (
     orFail (ensureNetworkPolicy env) (k password ready))))))"

text \<open>After the workload: bootstrap, quorum recovery, scaling, rollout, survey, each of which may end the pass.\<close>

definition observeCluster :: "env \<Rightarrow> string \<Rightarrow> int \<Rightarrow> bool \<Rightarrow> outcome op" where
  "observeCluster env password ready allReady = do {
     vc \<leftarrow> get_vc;
     shardDetails \<leftarrow> (if st_ClusterInitialized (vc_Status vc) \<and> allReady then surveyCluster env password
        else State_Monad.return []);
     res \<leftarrow> updateClusterStatus env ready allReady shardDetails;
     vc \<leftarrow> get_vc;
     State_Monad.return (if st_ClusterInitialized (vc_Status vc) then requeueAfter (seconds 30) res else res) }"

definition operateCluster :: "env \<Rightarrow> string \<Rightarrow> int \<Rightarrow> int \<Rightarrow> bool \<Rightarrow> outcome op" where
  "operateCluster env password ready want allReady = do {
     (after, handled) \<leftarrow> maybeRecoverClusterQuorum env password;
     if handled then State_Monad.return (Requeue after)
     else do {
       (res, handled) \<leftarrow> maybeReconcileClusterScaling env password want allReady;
       if handled then State_Monad.return res
       else do {
         (res, handled) \<leftarrow> maybeDriveClusterRollout env password want;
         if handled then State_Monad.return res else observeCluster env password ready allReady } } }"

definition reconcileCluster :: "params \<Rightarrow> env \<Rightarrow> outcome op" where
  "reconcileCluster pm env = do {
     vc \<leftarrow> get_vc;
     if (case sp_Shards (vc_Spec vc) of None \<Rightarrow> True | Some n \<Rightarrow> n < 3)
     then setPhase env ''InvalidSpec'' ''shards must be set to at least 3 for Cluster topology''
     else ensureClusterWorkload pm env (\<lambda>password ready.
       orFail (ensureBackupCronJob env (pm_cronHash pm)) (do {
         _ \<leftarrow> ensureMetricsServiceMonitor env;
         vc \<leftarrow> get_vc;
         let want = totalReplicas vc;
         let allReady = (ready = want \<and> want > 0);
         result \<leftarrow> (if \<not> st_ClusterInitialized (vc_Status vc) \<and> allReady then bootstrapOrRestore env password
            else State_Monad.return (Requeue 0));
         if result \<noteq> Requeue 0 then State_Monad.return result
         else operateCluster env password ready want allReady })) }"

section \<open>The dispatch\<close>

definition finalizerName :: string where "finalizerName = ''valkey.wellcake.io/cleanup''"

text \<open>\<open>r.Update(ctx, vc)\<close> of an object whose finalizers were changed in memory.\<close>

definition update_finalizers :: "env \<Rightarrow> string list \<Rightarrow> kerr option op" where
  "update_finalizers env fs = do {
     vc \<leftarrow> get_vc;
     set_vc (vc\<lparr>vc_Finalizers := fs\<rparr>);
     r \<leftarrow> ask (\<lambda>t. env_write env t (WPatchFinalizers fs));
     emit (APatchFinalizers fs r);
     State_Monad.return r }"

definition handleDeletion :: "env \<Rightarrow> outcome op" where
  "handleDeletion env = do {
     vc \<leftarrow> get_vc;
     if finalizerName \<notin> set (vc_Finalizers vc) then State_Monad.return (Requeue 0)
     else do {
       forgetTelemetry;
       err \<leftarrow> update_finalizers env (filter (\<lambda>f. f \<noteq> finalizerName) (vc_Finalizers vc));
       State_Monad.return (returns err) } }"

definition dispatch :: "params \<Rightarrow> env \<Rightarrow> outcome op" where
  "dispatch pm env = do {
     vc \<leftarrow> get_vc;
     case sp_Topology (vc_Spec vc) of
       TopologyStandalone \<Rightarrow> reconcileReplication pm env
     | TopologyReplication \<Rightarrow> reconcileReplication pm env
     | TopologySentinel \<Rightarrow> reconcileSentinel pm env
     | TopologyCluster \<Rightarrow> reconcileCluster pm env
     | _ \<Rightarrow> State_Monad.return (Fail (OtherError ''unknown topology'')) }"

text \<open>The pass over an object that is awake: rotation, reload, telemetry, then the topology.\<close>

definition manage :: "params \<Rightarrow> env \<Rightarrow> outcome op" where
  "manage pm env = do {
     (rotated, err) \<leftarrow> reconcilePasswordRotation (pm_APIReader pm) env;
     case err of
       Some e \<Rightarrow> State_Monad.return (Fail e)
     | None \<Rightarrow>
         if rotated then State_Monad.return (Requeue (seconds 1))
         else do {
           (reloaded, after, err) \<leftarrow> reconcileTLSReload (pm_APIReader pm) (pm_certs pm) env;
           case err of
             Some e \<Rightarrow> State_Monad.return (Fail e)
           | None \<Rightarrow>
               if reloaded then State_Monad.return (Requeue (seconds 1))
               else if after > 0 then State_Monad.return (Requeue after)
               else do {
                 pw \<leftarrow> ensurePasswordSecret env;
                 (case pw of Inl _ \<Rightarrow> State_Monad.return () | Inr pw \<Rightarrow> collectValkeyTelemetry env pw);
                 checkZoneColocation pm env;
                 dispatch pm env } } }"

definition reconcileObject :: "params \<Rightarrow> env \<Rightarrow> outcome op" where
  "reconcileObject pm env = do {
     vc \<leftarrow> get_vc;
     if vc_DeletionTimestamp vc \<noteq> None then handleDeletion env
     else
       orFail (if finalizerName \<in> set (vc_Finalizers vc) then State_Monad.return None
               else update_finalizers env (vc_Finalizers vc @ [finalizerName])) (do {
         vc \<leftarrow> get_vc;
         set_vc (Default vc);
         if hibernated (Default vc) then reconcileHibernated env else manage pm env }) }"

definition recordReconcile :: "outcome \<Rightarrow> unit op" where
  "recordReconcile r = emit (AMetric ''reconcileTotal'' (case r of Fail _ \<Rightarrow> ''error'' | _ \<Rightarrow> ''success''))"

definition Reconcile :: "params \<Rightarrow> env \<Rightarrow> string \<Rightarrow> outcome op" where
  "Reconcile pm env name = do {
     r \<leftarrow> ask (\<lambda>t. env_cluster env t name);
     res \<leftarrow> (case r of
         Inl e \<Rightarrow> State_Monad.return (if e = NotFound then Requeue 0 else Fail e)
       | Inr vc \<Rightarrow> do { set_vc vc; reconcileObject pm env });
     recordReconcile res;
     State_Monad.return res }"

section \<open>Which objects an event wakes\<close>

definition mapSecretToCluster :: "kerr + ValkeyCluster list \<Rightarrow> string \<Rightarrow> (string \<times> string) list" where
  "mapSecretToCluster list name = (case list of
       Inl _ \<Rightarrow> []
     | Inr items \<Rightarrow> map (\<lambda>vc. (vc_Namespace vc, vc_Name vc)) (filter (\<lambda>vc.
         tlsEnabled vc \<and> tlsSecretName vc = name \<or>
         AuthEnabled (vc_Spec vc) \<and> existingAuthSecret vc \<noteq> [] \<and> existingAuthSecret vc = name) items))"

definition mapPodToCluster :: "string \<Rightarrow> labels \<Rightarrow> (string \<times> string) list" where
  "mapPodToCluster namespace ls =
     (if mget (map_of ls) managedByLabel \<noteq> ''valkey-operator'' \<or> mget (map_of ls) instanceLabel = [] then []
      else [(namespace, mget (map_of ls) instanceLabel)])"

end
