(* ===== verification/Pass_Vocabulary.thy ===== *)
theory Pass_Vocabulary
  imports Controller
begin

text \<open>
  What a reconcile pass may say: the commands it sends to a server, the kinds of object it deletes and
  the statuses it writes, one lemma per handler of \<open>src/internal/controller\<close>, composed up to \<open>Reconcile\<close>.
  The lemmas are the collection \<open>pass_rules\<close>; their premises say which commands the handler needs, so a
  handler that is silent about a command is shown not to send it.
\<close>

section \<open>Commands and deletions\<close>

named_theorems pass_rules \<open>what the handlers of a pass emit\<close>

definition deletable :: "string set" where
  "deletable = {''Pod'', ''Job'', ''CronJob'', ''PodDisruptionBudget'', ''NetworkPolicy'', ''StatefulSet'', ''Service''}"

text \<open>A command, with its subcommand where it has some.\<close>

definition verb :: "string list \<Rightarrow> string list" where
  "verb args = (case args of
       c # d # _ \<Rightarrow> if c \<in> {''CONFIG'', ''ACL'', ''CLIENT'', ''CLUSTER'', ''SENTINEL''} then [c, d] else [c]
     | _ \<Rightarrow> args)"

abbreviation config_words :: "string list set" where
  "config_words \<equiv> {[''CONFIG'', ''SET''], [''CONFIG'', ''REWRITE'']}"

abbreviation acl_words :: "string list set" where
  "acl_words \<equiv> {[''ACL'', ''SETUSER''], [''ACL'', ''SAVE'']}"

abbreviation client_words :: "string list set" where
  "client_words \<equiv> {[''CLIENT'', ''PAUSE''], [''CLIENT'', ''UNPAUSE'']}"

abbreviation cluster_words :: "string list set" where
  "cluster_words \<equiv> {[''CLUSTER'', ''NODES''], [''CLUSTER'', ''INFO''], [''CLUSTER'', ''FAILOVER'']}"

abbreviation sentinel_words :: "string list set" where
  "sentinel_words \<equiv> {[''SENTINEL'', ''MASTER''], [''SENTINEL'', ''REPLICAS''], [''SENTINEL'', ''SET''], [''SENTINEL'', ''CONFIG''],
     [''SENTINEL'', ''RESET''], [''SENTINEL'', ''FAILOVER'']}"

text \<open>Actions that send only the commands \<open>V\<close>, delete only deletable kinds and write only statuses that satisfy \<open>S\<close>.\<close>

definition speaks :: "string list set \<Rightarrow> (ValkeyClusterStatus \<Rightarrow> bool) \<Rightarrow> action \<Rightarrow> bool" where
  "speaks V S a = (case a of
       ACmd _ args _ \<Rightarrow> verb args \<in> V
     | ADelete kind _ _ \<Rightarrow> kind \<in> deletable
     | APatchStatus st _ \<Rightarrow> S st
     | _ \<Rightarrow> True)"

lemma speaks_simps [simp]:
  "speaks V S (ADial h p pw ok)" "speaks V S (ACmd h args ok) \<longleftrightarrow> verb args \<in> V" "speaks V S (APatchStatus s r) \<longleftrightarrow> S s" "speaks V S (AUpdateStatus s r)"
  "speaks V S (APatchFinalizers fs r)" "speaks V S (ACreate ob r)" "speaks V S (AUpdate ob r)" "speaks V S (APatchPodLabels n l r)"
  "speaks V S (APatchStorage n z r)" "speaks V S (AMetric m lb)" "speaks V S (ADelete kind n r) \<longleftrightarrow> kind \<in> deletable"
  by (simp_all add: speaks_def)

lemma verb_simps [simp]:
  "verb [c] = [c]" "verb (''INFO'' # xs) = [''INFO'']" "verb (''REPLICAOF'' # xs) = [''REPLICAOF'']"
  "verb (''CONFIG'' # d # xs) = [''CONFIG'', d]" "verb (''ACL'' # d # xs) = [''ACL'', d]" "verb (''CLIENT'' # d # xs) = [''CLIENT'', d]"
  "verb (''CLUSTER'' # d # xs) = [''CLUSTER'', d]" "verb (''SENTINEL'' # d # xs) = [''SENTINEL'', d]"
  by (simp_all add: verb_def split: list.splits)

lemma emits_more [pass_rules]:
  "client_words \<subseteq> V \<Longrightarrow> emits (speaks V S) (clientPauseWrite env c d)"
  "acl_words \<subseteq> V \<Longrightarrow> emits (speaks V S) (aclSetDefaultPassword env c pw)"
  "acl_words \<subseteq> V \<Longrightarrow> emits (speaks V S) (aclAddDefaultPassword env c pw)"
  "acl_words \<subseteq> V \<Longrightarrow> emits (speaks V S) (aclSetManagedUser env c n ru pw ad)"
  unfolding client_defs by (auto intro!: emits_rules)

lemma emits_poll_until [emits_rules]:
  "(\<And>s. emits A (cond s)) \<Longrightarrow> emits A (poll_until env i d cond s)"
proof -
  assume c: "\<And>s. emits A (cond s)"
  have "emits A (poll_loop n cond s)" for n by (induction n arbitrary: s) (auto intro!: emits_rules c)
  then show ?thesis unfolding poll_until_def by (auto intro!: emits_rules)
qed

section \<open>The objects\<close>

lemma emits_ensure [pass_rules]:
  "emits (speaks V S) (generatePassword env n)"
  "emits (speaks V S) (ensurePasswordSecret env)"
  "emits (speaks V S) (applyService env svc)"
  unfolding generatePassword_def ensurePasswordSecret_def applyService_def get_service_def
  by (auto intro!: emits_rules)

lemma emits_services [pass_rules]:
  "emits (speaks V S) (ensureHeadlessService env)" "emits (speaks V S) (ensureClientService env)"
  "emits (speaks V S) (ensurePrimaryService env)" "emits (speaks V S) (ensureReplicasService env)"
  "emits (speaks V S) (ensureShardHeadlessService env s)" "emits (speaks V S) (ensureSentinelService env)"
  unfolding ensureHeadlessService_def ensureClientService_def ensurePrimaryService_def ensureReplicasService_def
    ensureShardHeadlessService_def ensureSentinelService_def sentinelPodsLabeled_def
  by (auto intro!: emits_rules pass_rules)

lemma emits_objects [pass_rules]:
  "emits (speaks V S) (ensureRoleLabels env primary)" "emits (speaks V S) (applyPDB env d pdb)" "emits (speaks V S) (ensurePDB env d)"
  "emits (speaks V S) (ensureNetworkPolicy env)" "emits (speaks V S) (ensureConfigMap env pw)" "emits (speaks V S) (ensureSentinelConfigMap env pw)"
  "emits (speaks V S) (ensurePVCSize env)" "emits (speaks V S) (applyStatefulSet env sh sts)"
  unfolding ensureRoleLabels_def labelPod_def applyPDB_def updatePDB_def ensurePDB_def ensureNetworkPolicy_def ensureConfigMap_def
    ensureSentinelConfigMap_def ensurePVCSize_def growClaim_def applyStatefulSet_def reconcileSts_def get_configmap_def get_pdb_def get_netpol_def
  by (auto intro!: emits_rules pass_rules simp: deletable_def)

lemma emits_ensureShards: "emits (speaks V S) (ensureShards env sh h ready ss)"
  by (induction ss arbitrary: ready) (auto intro!: emits_rules pass_rules)

lemma emits_workloads [pass_rules]:
  "emits (speaks V S) (ensureStatefulSet env sh h)" "emits (speaks V S) (ensureShardWorkload env sh h)"
  "emits (speaks V S) (ensureSentinelStatefulSet env h hold)"
  unfolding ensureStatefulSet_def ensureShardWorkload_def ensureSentinelStatefulSet_def
  by (auto intro!: emits_rules pass_rules emits_ensureShards)

lemma emits_cron [pass_rules]: "emits (speaks V S) (ensureBackupCronJob env ch)"
  unfolding ensureBackupCronJob_def applyCronJob_def removeCronJob_def get_cronjob_def
  by (auto intro!: emits_rules simp: deletable_def)

lemma emits_monitor [pass_rules]: "emits (speaks V S) (ensureMetricsServiceMonitor env)"
  unfolding ensureMetricsServiceMonitor_def
  by (auto intro!: emits_rules split: kobj.splits)

section \<open>The status\<close>

lemma emits_status [pass_rules]:
  "emits (speaks V (\<lambda>_. True)) (updateStatus env sts primary)" "emits (speaks V (\<lambda>_. True)) (setPhase env reason msg)"
  "emits (speaks V (\<lambda>_. True)) (reconcileHibernated env)" "emits (speaks V (\<lambda>_. True)) (updateClusterStatus env n b ds)"
  "emits (speaks V (\<lambda>_. True)) (reportUpdating env sts)" "emits (speaks V (\<lambda>_. True)) (reportSentinel env sts sts' b)"
  unfolding updateStatus_def setPhase_def reconcileHibernated_def reportHibernated_def updateClusterStatus_def recordShards_def
    reportUpdating_def reportSentinel_def
  by (auto intro!: emits_rules)

section \<open>Replication\<close>

lemma emits_survey [pass_rules]:
  "{[''INFO''], [''DBSIZE'']} \<subseteq> V \<Longrightarrow> emits (speaks V S) (surveyReplication env pw)"
  unfolding surveyReplication_def surveyPod_def by (auto intro!: emits_rules)

lemma emits_failover [pass_rules]:
  assumes "{[''REPLICAOF'']} \<union> config_words \<subseteq> V"
  shows "emits (speaks V (\<lambda>_. True)) (reconcileFailover env pw survey)" "emits (speaks V (\<lambda>_. True)) (manualFailover env pw survey tok)"
    "emits (speaks V (\<lambda>_. True)) (promoteReplica env pw survey cand)"
  using assms
  unfolding reconcileFailover_def manualFailover_def promoteReplica_def adoptMaster_def enforceReplication_def enforceOne_def
    primaryDownLongEnough_def setPrimaryDown_def clearPrimaryDown_def
  by (auto intro!: emits_rules)

lemma emits_rollout [pass_rules]:
  assumes "{[''REPLICAOF'']} \<union> config_words \<subseteq> V"
  shows "emits (speaks V (\<lambda>_. True)) (driveReplicationRollout env pw survey)"
  using assms unfolding driveReplicationRollout_def performRollout_def
  by (auto intro!: emits_rules pass_rules simp: deletable_def split: rolloutAction.splits)

section \<open>Sentinel\<close>

lemma emits_sentinelLists [pass_rules]: "emits A (listSentinelRolloutPods env)"
  unfolding listSentinelRolloutPods_def by (auto intro!: emits_rules)

lemma emits_sentinels [pass_rules]:
  assumes "{[''INFO''], [''DBSIZE''], [''REPLICAOF'']} \<union> sentinel_words \<union> config_words \<subseteq> V"
  shows "emits (speaks V S) (applySentinelTimings env pw)" "emits (speaks V S) (collectSentinelViews env pw)"
    "emits (speaks V S) (resetStaleSentinels env pw views)" "emits (speaks V S) (repairSentinelDataPods env pw views)"
  using assms
  unfolding applySentinelTimings_def applyTimingsTo_def syncSentinelTimings_def sentinelMaster_def sentinelSet_def
    collectSentinelViews_def collectView_def readSentinelView_def resetStaleSentinels_def repairSentinelDataPods_def repointDataPod_def
  by (auto intro!: emits_rules pass_rules)

lemma emits_askSentinels: "sentinel_words \<subseteq> V \<Longrightarrow> emits (speaks V S) (askSentinels env pw is e)"
  by (induction "is" arbitrary: e) (auto intro!: emits_rules)

lemma emits_findPromoted:
  "{[''INFO'']} \<subseteq> V \<Longrightarrow> (\<And>h. emits (speaks V S) (dial h)) \<Longrightarrow> emits (speaks V S) (findPromoted env dial hs rs)"
  by (induction hs arbitrary: rs) (auto intro!: emits_rules)

lemma emits_sentinelRollout [pass_rules]:
  assumes "{[''INFO''], [''DBSIZE''], [''REPLICAOF'']} \<union> sentinel_words \<union> client_words \<subseteq> V"
  shows "emits (speaks V S) (driveSentinelRollout env pw)"
  using assms
  unfolding driveSentinelRollout_def driveDataPlane_def driveSentinelPlane_def sentinelHandover_def handOverMaster_def handOverPaused_def
    issueSentinelFailover_def
  by (auto intro!: emits_rules pass_rules emits_askSentinels emits_findPromoted simp: deletable_def split: rolloutAction.splits)

section \<open>Cluster\<close>

lemma emits_surveys [pass_rules]:
  assumes "{[''INFO'']} \<union> cluster_words \<subseteq> V"
  shows "emits (speaks V S) (surveyCluster env pw)"
  using assms unfolding surveyCluster_def fillReplicaLag_def shardLag_def replicaLag_def dialShardPod_def
  by (auto intro!: emits_rules)

lemma emits_recovery [pass_rules]:
  assumes "{[''INFO'']} \<union> cluster_words \<subseteq> V"
  shows "emits (speaks V (\<lambda>_. True)) (maybeRecoverClusterQuorum env pw)"
  using assms
  unfolding maybeRecoverClusterQuorum_def recoverBelowQuorum_def recoverShard_def recoverableShards_def recoverableShard_def
    pickTakeoverReplica_def considerReplica_def primaryStillServing_def primaryFencedByK8s_def nodeReady_def dialAnyClusterPod_def
    quorumDownLongEnough_def clearQuorumDown_def setQuorumDown_def
  by (auto intro!: emits_rules simp: deletable_def)

lemma emits_clusterRollout [pass_rules]:
  assumes "{[''INFO'']} \<union> cluster_words \<subseteq> V"
  shows "emits (speaks V (\<lambda>_. True)) (maybeDriveClusterRollout env pw want)"
  using assms unfolding maybeDriveClusterRollout_def driveClusterRollout_def performClusterRollout_def clusterFailoverOnPod_def
  by (auto intro!: emits_rules pass_rules simp: deletable_def split: clusterRolloutAction.splits)

lemma emits_jobs [pass_rules]:
  assumes "{[''INFO'']} \<union> cluster_words \<subseteq> V"
  shows "emits (speaks V (\<lambda>_. True)) (bootstrapOrRestore env pw)" "emits (speaks V (\<lambda>_. True)) (maybeReconcileClusterScaling env pw want b)"
  using assms
  unfolding bootstrapOrRestore_def adoptFormedCluster_def clusterFormed_def markInitialized_def runClusterBootstrap_def
    runClusterRestoreAssembly_def maybeReconcileClusterScaling_def scaleUpStage_def scaleDownStage_def reshardStage_def
    runClusterScaleUp_def runClusterScaleDown_def runClusterReshard_def applyTotal_def deleteLeavingShards_def deleteShard_def
  by (auto intro!: emits_rules pass_rules simp: deletable_def)

section \<open>Rotation, reload, telemetry\<close>

lemma emits_rotation [pass_rules]:
  assumes "acl_words \<union> config_words \<union> sentinel_words \<subseteq> V"
  shows "emits (speaks V S) (reconcilePasswordRotation rd env)"
  using assms
  unfolding reconcilePasswordRotation_def allDataPodsReady_def rotateNow_def recordToken_def updatePasswordSecret_def applyPasswordToPods_def
    onEachPod_def rotatePod_def addNewPass_def cutoverPass_def rekeyManaged_def rotateSentinelPassword_def rotateSentinel_def rotateSentinelStep_def
  by (auto intro!: emits_rules pass_rules split: rotateStep.splits)

lemma emits_reloadTLSOnPods:
  assumes "config_words \<subseteq> V"
  shows "emits (speaks V S) (reloadTLSOnPods ce env vc pw cert fp ok ps)"
  using assms by (induction ps arbitrary: ok) (auto simp: reloadTLSOnPod_def intro!: emits_rules)

lemma emits_reload [pass_rules]:
  assumes "config_words \<subseteq> V"
  shows "emits (speaks V S) (reconcileTLSReload rd ce env)"
  using assms unfolding reconcileTLSReload_def reloadNow_def recordFingerprint_def
  by (auto intro!: emits_rules pass_rules emits_reloadTLSOnPods)

lemma emits_telemetry [pass_rules]:
  "{[''INFO'']} \<subseteq> V \<Longrightarrow> emits (speaks V S) (collectValkeyTelemetry env pw)" "emits (speaks V S) (checkZoneColocation pm env)"
  unfolding collectValkeyTelemetry_def collectFrom_def checkZoneColocation_def podZones_def by (auto intro!: emits_rules)

section \<open>The passes\<close>

lemma emits_orFail [emits_rules]: "emits A m \<Longrightarrow> emits A k \<Longrightarrow> emits A (orFail m k)"
  unfolding orFail_def by (auto intro!: emits_rules)

lemma emits_bindFail [emits_rules]: "emits A m \<Longrightarrow> (\<And>x. emits A (k x)) \<Longrightarrow> emits A (bindFail m k)"
  unfolding bindFail_def by (auto intro!: emits_rules)

definition vocabulary :: "string list set" where
  "vocabulary = {[''INFO''], [''DBSIZE''], [''REPLICAOF'']} \<union> config_words \<union> acl_words \<union> client_words \<union> cluster_words \<union> sentinel_words"

lemma emits_replication:
  assumes "vocabulary \<subseteq> V"
  shows "emits (speaks V (\<lambda>_. True)) (reconcileReplication pm env)"
  using assms unfolding reconcileReplication_def superviseReplication_def finishReplication_def vocabulary_def
  by (auto intro!: emits_rules pass_rules)

lemma emits_sentinel:
  assumes "vocabulary \<subseteq> V"
  shows "emits (speaks V (\<lambda>_. True)) (reconcileSentinel pm env)"
  using assms unfolding reconcileSentinel_def superviseSentinels_def vocabulary_def
  by (auto intro!: emits_rules pass_rules)

lemma emits_cluster:
  assumes "vocabulary \<subseteq> V"
  shows "emits (speaks V (\<lambda>_. True)) (reconcileCluster pm env)"
  using assms unfolding reconcileCluster_def ensureClusterWorkload_def ensureClusterData_def operateCluster_def observeCluster_def vocabulary_def
  by (auto intro!: emits_rules pass_rules)

lemma emits_Reconcile:
  assumes "vocabulary \<subseteq> V"
  shows "emits (speaks V (\<lambda>_. True)) (Reconcile pm env name)"
proof -
  have "emits (speaks V (\<lambda>_. True)) (dispatch pm env)"
    unfolding dispatch_def
    by (auto intro!: emits_rules emits_replication [OF assms] emits_sentinel [OF assms] emits_cluster [OF assms] split: Topology.splits)
  then have "emits (speaks V (\<lambda>_. True)) (manage pm env)"
    using assms unfolding manage_def vocabulary_def by (auto intro!: emits_rules pass_rules)
  then show ?thesis
    unfolding Reconcile_def reconcileObject_def handleDeletion_def forgetTelemetry_def update_finalizers_def recordReconcile_def
    by (auto intro!: emits_rules pass_rules)
qed

end
