(* ===== verification/Pass_Safety.thy ===== *)
theory Pass_Safety
  imports Pass_Vocabulary
begin

text \<open>
  Safety of a whole reconcile pass of \<open>src/internal/controller/valkeycluster_controller.go\<close>: what it may
  do to the data, to a site that follows another one, to a hibernated object, and what a Sentinel pass
  does to the condition \<open>Ready\<close>.
\<close>

section \<open>Handlers under an invariant of the object in memory\<close>

text \<open>
  From a world whose object satisfies \<open>I\<close>, the handler keeps \<open>I\<close> and issues only actions in \<open>A\<close>.
  A handler that leaves the object alone is known by what it emits; only the branches that the
  invariant excludes need it.
\<close>

definition under :: "(ValkeyCluster \<Rightarrow> bool) \<Rightarrow> (action \<Rightarrow> bool) \<Rightarrow> 'a op \<Rightarrow> bool" where
  "under I A m \<longleftrightarrow> (\<forall>w. I (cur w) \<longrightarrow> I (cur (snd (run_state m w))) \<and>
     (\<exists>xs. acts (snd (run_state m w)) = acts w @ xs \<and> (\<forall>x\<in>set xs. A x)))"

definition yields :: "(ValkeyCluster \<Rightarrow> bool) \<Rightarrow> 'a op \<Rightarrow> 'a \<Rightarrow> bool" where
  "yields I m x \<longleftrightarrow> (\<exists>w. I (cur w) \<and> fst (run_state m w) = x)"

named_theorems under_rules \<open>rules for handlers under an invariant\<close>

lemma underE:
  assumes "under I A m" and "I (cur w)" and "run_state m w = (x, w')"
  obtains xs where "I (cur w')" and "acts w' = acts w @ xs" and "\<And>a. a \<in> set xs \<Longrightarrow> A a"
  using assms unfolding under_def by (metis snd_conv)

lemma under_issued:
  assumes "under I A m" and "I (cur w)" and "run_state m w = (x, w')" and "issued w w' t a"
  shows "A a"
proof -
  obtain xs where xs: "acts w' = acts w @ xs" "\<And>a. a \<in> set xs \<Longrightarrow> A a" using underE [OF assms(1-3)] by metis
  then show ?thesis using assms(4) by (auto simp: issued_def)
qed

lemma yields_get_vc [simp]: "yields I get_vc x \<longleftrightarrow> I x"
  by (auto simp: yields_def intro: exI [of _ "\<lparr>cur = x, acts = []\<rparr>"])

lemma under_emits: "emits A m \<Longrightarrow> keeps_cur m \<Longrightarrow> under I A m"
  by (auto simp: under_def emits_def keeps_cur_def)

lemma under_bind [under_rules]:
  assumes "under I A m" and "\<And>x. yields I m x \<Longrightarrow> under I A (f x)"
  shows "under I A (State_Monad.bind m f)"
  unfolding under_def
proof (intro allI impI)
  fix w :: world assume I: "I (cur w)"
  obtain x v where m: "run_state m w = (x, v)" by (cases "run_state m w")
  obtain y u where f: "run_state (f x) v = (y, u)" by (cases "run_state (f x) v")
  obtain xs where xs: "I (cur v)" "acts v = acts w @ xs" "\<And>a. a \<in> set xs \<Longrightarrow> A a"
    using underE [OF assms(1) I m] by metis
  have "yields I m x" using I m by (auto simp: yields_def)
  then obtain ys where "I (cur u)" "acts u = acts v @ ys" "\<And>a. a \<in> set ys \<Longrightarrow> A a"
    using underE [OF assms(2) xs(1) f] by metis
  then show "I (cur (snd (run_state (State_Monad.bind m f) w))) \<and>
    (\<exists>zs. acts (snd (run_state (State_Monad.bind m f) w)) = acts w @ zs \<and> (\<forall>a\<in>set zs. A a))"
    using m f xs by (auto intro!: exI [of _ "xs @ ys"])
qed

lemma under_prims [under_rules]:
  "under I A (State_Monad.return x)" "under I A get_vc" "under I A (ask f)" "A a \<Longrightarrow> under I A (emit a)"
  "I v \<Longrightarrow> under I A (set_vc v)"
  by (simp_all add: under_def)

lemma under_modify_status [under_rules]:
  "(\<And>vc. I vc \<Longrightarrow> I (vc\<lparr>vc_Status := f (vc_Status vc)\<rparr>)) \<Longrightarrow> under I A (modify_status f)"
  by (simp add: under_def)

lemma under_patch_status [under_rules]:
  assumes "\<And>vc r. I vc \<Longrightarrow> A (APatchStatus (vc_Status vc) r)"
  shows "under I A (patch_status env)"
  unfolding patch_status_def using assms by (auto intro!: under_rules)

lemma under_cases [under_rules]:
  "(b \<Longrightarrow> under I A m) \<Longrightarrow> (\<not> b \<Longrightarrow> under I A n) \<Longrightarrow> under I A (if b then m else n)"
  "(x = None \<Longrightarrow> under I A m) \<Longrightarrow> (\<And>y. x = Some y \<Longrightarrow> under I A (f y)) \<Longrightarrow> under I A (case x of None \<Rightarrow> m | Some y \<Rightarrow> f y)"
  "(\<And>y. s = Inl y \<Longrightarrow> under I A (g y)) \<Longrightarrow> (\<And>y. s = Inr y \<Longrightarrow> under I A (h y)) \<Longrightarrow> under I A (case s of Inl y \<Rightarrow> g y | Inr y \<Rightarrow> h y)"
  "(\<And>a b. p = (a, b) \<Longrightarrow> under I A (k a b)) \<Longrightarrow> under I A (case p of (a, b) \<Rightarrow> k a b)"
  "(\<And>y. y = v \<Longrightarrow> under I A (j y)) \<Longrightarrow> under I A (Let v j)"
  by (simp_all split: option.splits sum.splits prod.splits)

lemma under_Fail [under_rules]:
  "under I A m \<Longrightarrow> under I A k \<Longrightarrow> under I A (orFail m k)"
  "under I A n \<Longrightarrow> (\<And>x. yields I n (Inr x) \<Longrightarrow> under I A (j x)) \<Longrightarrow> under I A (bindFail n j)"
  unfolding orFail_def bindFail_def by (auto intro!: under_rules)

text \<open>The handlers that leave the object alone.\<close>

lemma keeps_cur_prod [hoare_rules]: "(\<And>a b. x = (a, b) \<Longrightarrow> keeps_cur (f a b)) \<Longrightarrow> keeps_cur (case x of (a, b) \<Rightarrow> f a b)"
  by (cases x) simp

lemma keeps_cur_poll_until [hoare_rules]:
  "(\<And>s. keeps_cur (cond s)) \<Longrightarrow> keeps_cur (poll_until env i d cond s)"
proof -
  assume c: "\<And>s. keeps_cur (cond s)"
  have "keeps_cur (poll_loop n cond s)" for n by (induction n arbitrary: s) (auto intro!: hoare_rules c)
  then show ?thesis unfolding poll_until_def by (auto intro!: hoare_rules)
qed

lemma keeps_cur_objects [hoare_rules]:
  "keeps_cur (generatePassword env n)" "keeps_cur (ensurePasswordSecret env)" "keeps_cur (applyService env svc)" "keeps_cur (applyPDB env d pdb)" "keeps_cur (ensurePDB env d)"
  "keeps_cur (ensureNetworkPolicy env)" "keeps_cur (ensureRoleLabels env primary)" "keeps_cur (ensureSentinelConfigMap env pw)"
  "keeps_cur (ensurePVCSize env)" "keeps_cur (applyStatefulSet env sh sts)"
  unfolding ensurePasswordSecret_def generatePassword_def applyService_def applyPDB_def updatePDB_def ensurePDB_def ensureNetworkPolicy_def
    ensureRoleLabels_def labelPod_def ensureSentinelConfigMap_def ensurePVCSize_def growClaim_def applyStatefulSet_def reconcileSts_def
    get_service_def get_configmap_def get_pdb_def get_netpol_def
  by (auto intro!: hoare_rules)

lemma keeps_cur_ensures [hoare_rules]:
  "keeps_cur (ensureHeadlessService env)" "keeps_cur (ensureClientService env)" "keeps_cur (ensurePrimaryService env)"
  "keeps_cur (ensureReplicasService env)" "keeps_cur (ensureSentinelService env)" "keeps_cur (ensureStatefulSet env sh h)"
  "keeps_cur (ensureSentinelStatefulSet env h hold)" "keeps_cur (ensureBackupCronJob env ch)" "keeps_cur (ensureMetricsServiceMonitor env)"
  unfolding ensureHeadlessService_def ensureClientService_def ensurePrimaryService_def ensureReplicasService_def ensureSentinelService_def
    sentinelPodsLabeled_def ensureStatefulSet_def ensureSentinelStatefulSet_def ensureBackupCronJob_def applyCronJob_def removeCronJob_def
    get_cronjob_def ensureMetricsServiceMonitor_def
  by (auto intro!: hoare_rules split: kobj.splits)

lemma keeps_cur_rotation [hoare_rules]: "keeps_cur (reconcilePasswordRotation rd env)"
  unfolding reconcilePasswordRotation_def allDataPodsReady_def rotateNow_def recordToken_def updatePasswordSecret_def applyPasswordToPods_def
    onEachPod_def rotatePod_def addNewPass_def cutoverPass_def rekeyManaged_def rotateSentinelPassword_def rotateSentinel_def rotateSentinelStep_def
  by (auto intro!: hoare_rules split: rotateStep.splits)

lemma keeps_cur_reloadTLSOnPods: "keeps_cur (reloadTLSOnPods ce env vc pw cert fp ok ps)"
  by (induction ps arbitrary: ok) (auto simp: reloadTLSOnPod_def intro!: hoare_rules)

lemma keeps_cur_reload [hoare_rules]: "keeps_cur (reconcileTLSReload rd ce env)"
  unfolding reconcileTLSReload_def reloadNow_def recordFingerprint_def
  by (auto intro!: hoare_rules keeps_cur_reloadTLSOnPods)

lemma keeps_cur_telemetry [hoare_rules]: "keeps_cur (collectValkeyTelemetry env pw)" "keeps_cur (checkZoneColocation pm env)"
  unfolding collectValkeyTelemetry_def collectFrom_def checkZoneColocation_def podZones_def by (auto intro!: hoare_rules)

lemma keeps_cur_sentinels [hoare_rules]:
  "keeps_cur (applySentinelTimings env pw)" "keeps_cur (collectSentinelViews env pw)"
  "keeps_cur (resetStaleSentinels env pw views)" "keeps_cur (repairSentinelDataPods env pw views)"
  unfolding applySentinelTimings_def applyTimingsTo_def syncSentinelTimings_def sentinelMaster_def sentinelSet_def listSentinelRolloutPods_def
    collectSentinelViews_def collectView_def readSentinelView_def resetStaleSentinels_def repairSentinelDataPods_def repointDataPod_def
    listRolloutPods_def surveyReplication_def
  by (auto intro!: hoare_rules)

lemma keeps_cur_askSentinels: "keeps_cur (askSentinels env pw is e)"
  by (induction "is" arbitrary: e) (auto intro!: hoare_rules)

lemma keeps_cur_findPromoted: "(\<And>h. keeps_cur (dial h)) \<Longrightarrow> keeps_cur (findPromoted env dial hs rs)"
  by (induction hs arbitrary: rs) (auto intro!: hoare_rules)

lemma keeps_cur_sentinelRollout [hoare_rules]: "keeps_cur (driveSentinelRollout env pw)"
  unfolding driveSentinelRollout_def driveDataPlane_def driveSentinelPlane_def sentinelHandover_def handOverMaster_def handOverPaused_def
    issueSentinelFailover_def listSentinelRolloutPods_def listRolloutPods_def deletePodByName_def surveyReplication_def
  by (auto intro!: hoare_rules keeps_cur_askSentinels keeps_cur_findPromoted split: rolloutAction.splits)

text \<open>The one ensure handler that touches the object: the effective configuration replaces the given one.\<close>

lemma under_ensureConfigMap [under_rules]:
  assumes "\<And>vc c. I vc \<Longrightarrow> I (vc\<lparr>vc_Spec := (vc_Spec vc)\<lparr>sp_Config := c\<rparr>\<rparr>)" and "\<And>ob r. A (ACreate ob r)" and "\<And>ob r. A (AUpdate ob r)"
  shows "under I A (ensureConfigMap env pw)"
proof -
  have "under I A (create_obj env ob)" "under I A (update_obj env ob)" for ob
    using assms by (auto intro!: under_emits emits_rules hoare_rules)
  then show ?thesis
    unfolding ensureConfigMap_def get_configmap_def using assms(1) by (auto intro!: under_rules)
qed

lemma under_quiet [under_rules]:
  "under I (speaks V S) (ensurePasswordSecret env)" "under I (speaks V S) (ensureHeadlessService env)" "under I (speaks V S) (ensureClientService env)"
  "under I (speaks V S) (ensurePrimaryService env)" "under I (speaks V S) (ensureReplicasService env)" "under I (speaks V S) (ensureStatefulSet env sh h)"
  "under I (speaks V S) (ensurePDB env d)" "under I (speaks V S) (applyPDB env d pdb)" "under I (speaks V S) (ensureNetworkPolicy env)"
  "under I (speaks V S) (ensureMetricsServiceMonitor env)" "under I (speaks V S) (ensureBackupCronJob env ch)"
  "under I (speaks V S) (ensureSentinelConfigMap env pw)" "under I (speaks V S) (ensureSentinelService env)"
  "under I (speaks V S) (ensureSentinelStatefulSet env h hold)" "under I (speaks V S) (ensureRoleLabels env primary)"
  "under I (speaks V S) (checkZoneColocation pm env)"
  by (auto intro!: under_emits pass_rules hoare_rules)

section \<open>A site that follows another\<close>

definition follower :: "ValkeyCluster \<Rightarrow> bool" where
  "follower vc \<longleftrightarrow> sp_ReplicateFrom (vc_Spec vc) \<noteq> None \<and> sp_Topology (vc_Spec vc) \<in> {TopologyUnset, TopologyStandalone, TopologyReplication}"

abbreviation tells :: "action \<Rightarrow> bool" where
  "tells \<equiv> speaks (vocabulary - {[''REPLICAOF'']}) (\<lambda>_. True)"

lemma under_finishReplication [under_rules]:
  assumes "\<And>vc f. I vc \<Longrightarrow> I (vc\<lparr>vc_Status := f (vc_Status vc)\<rparr>)"
  shows "under I tells (finishReplication env sts primary d)"
  unfolding finishReplication_def updateStatus_def using assms by (auto intro!: under_rules)

lemma follower_stable [simp]:
  "follower (vc\<lparr>vc_Status := st\<rparr>) = follower vc" "follower (vc\<lparr>vc_Spec := (vc_Spec vc)\<lparr>sp_Config := c\<rparr>\<rparr>) = follower vc"
  "follower (vc\<lparr>vc_Finalizers := fs\<rparr>) = follower vc"
  by (simp_all add: follower_def)

lemma follower_Default [simp]: "follower vc \<Longrightarrow> follower (Default vc)"
  by (auto simp: follower_def Default_def Default_spec_def Let_def)

lemma followerD: "follower vc \<Longrightarrow> sp_ReplicateFrom (vc_Spec vc) = None \<Longrightarrow> False"
  by (simp add: follower_def)

lemma under_reconcileReplication: "under follower tells (reconcileReplication pm env)"
  unfolding reconcileReplication_def by (auto intro!: under_rules dest: followerD)

lemma under_manage: "under follower tells (manage pm env)"
proof -
  have "under follower tells (dispatch pm env)"
    unfolding dispatch_def by (auto intro!: under_rules under_reconcileReplication simp: follower_def split: Topology.splits)
  moreover have "under follower tells (reconcilePasswordRotation rd env)" "under follower tells (reconcileTLSReload rd ce env)"
    "under follower tells (collectValkeyTelemetry env pw)" for rd ce pw
    by (auto intro!: under_emits pass_rules hoare_rules simp: vocabulary_def)
  ultimately show ?thesis unfolding manage_def by (auto intro!: under_rules)
qed

lemma under_reconcileObject: "under follower tells (reconcileObject pm env)"
proof -
  have "under follower tells (update_obj env ob)" for ob by (auto intro!: under_emits emits_rules hoare_rules)
  then have "under follower tells (reconcileHibernated env)"
    unfolding reconcileHibernated_def reportHibernated_def by (auto intro!: under_rules)
  moreover have "under follower tells forgetTelemetry"
    unfolding forgetTelemetry_def by (rule under_emits) (auto intro!: emits_rules hoare_rules)
  ultimately show ?thesis
    unfolding reconcileObject_def handleDeletion_def update_finalizers_def by (auto intro!: under_rules under_manage)
qed

text \<open>A pass over the object that the API server returned is a pass of \<open>reconcileObject\<close> over it.\<close>

lemma Reconcile_issued:
  assumes "under I A (reconcileObject pm env)" and "env_cluster env (acts w) name = Inr vc" and "I vc" and "\<And>m lb. A (AMetric m lb)"
    and "run_state (Reconcile pm env name) w = (r, w')" and "issued w w' t a"
  shows "A a"
proof (rule under_issued)
  show "under I A (do { res \<leftarrow> reconcileObject pm env; recordReconcile res; State_Monad.return res })"
    unfolding recordReconcile_def using assms(1,4) by (auto intro!: under_rules)
  show "run_state (do { res \<leftarrow> reconcileObject pm env; recordReconcile res; State_Monad.return res }) (w\<lparr>cur := vc\<rparr>) = (r, w')"
    using assms(2,5) by (simp add: Reconcile_def)
  show "issued (w\<lparr>cur := vc\<rparr>) w' t a" using assms(6) by (simp add: issued_def)
qed (use assms(3) in simp)

text \<open>C5. A cluster that follows another site (\<open>spec.replicateFrom\<close>) in the Standalone or Replication topology
  is never promoted or re-pointed: no pass sends REPLICAOF to any server, whatever the state of the pods
  and of the annotations.\<close>

theorem Reconcile_follower_never_promotes:
  assumes "env_cluster env (acts w) name = Inr vc" and "sp_ReplicateFrom (vc_Spec vc) = Some rf"
    and "sp_Topology (vc_Spec vc) \<in> {TopologyUnset, TopologyStandalone, TopologyReplication}"
    and "run_state (Reconcile pm env name) w = (r, w')" and "issued w w' t (ACmd host args ok)"
  shows "hd args \<noteq> ''REPLICAOF'' \<and> verb args \<in> vocabulary"
proof -
  have "tells (ACmd host args ok)"
    by (rule Reconcile_issued [OF under_reconcileObject assms(1) _ _ assms(4,5)]) (use assms(2,3) in \<open>auto simp: follower_def\<close>)
  then have "verb args \<in> vocabulary - {[''REPLICAOF'']}" by simp
  moreover have "args \<noteq> []" using calculation by (auto simp: vocabulary_def verb_def)
  then have "hd args = ''REPLICAOF'' \<Longrightarrow> verb args = [''REPLICAOF'']" by (cases args) auto
  ultimately show ?thesis by blast
qed

text \<open>A follower on Valkey 9.1: the pass reads the telemetry of its pods and fails at the first Service.\<close>

definition pass_params :: params where
  "pass_params = \<lparr>pm_APIReader = None, pm_certs = demo_certs, pm_nodeZone = (\<lambda>_ _. Inr ''a''),
     pm_stsHash = (\<lambda>_. ''h''), pm_cronHash = (\<lambda>_. ''h''), pm_derivative = (\<lambda>a b. a = b)\<rparr>"

definition follower_vc :: ValkeyCluster where
  "follower_vc = demo_vc\<lparr>vc_Finalizers := [finalizerName], vc_Spec := (vc_Spec demo_vc)\<lparr>sp_Image := ''valkey/valkey:9.1'',
     sp_Replicas := 1, sp_ReplicateFrom := Some \<lparr>rf_Host = ''primary.example'', rf_Port = 6379, rf_PasswordSecret = None, rf_TLS = False, rf_CASecret = None\<rparr>\<rparr>\<rparr>"

definition follower_env :: env where
  "follower_env = answering_env\<lparr>env_cluster := (\<lambda>_ _. Inr follower_vc), env_object := (\<lambda>_ _ _. Inl (OtherError ''timeout''))\<rparr>"

lemma follower_acts:
  "acts (snd (run_state (Reconcile pass_params follower_env ''demo'') demo_world)) =
    [ADial (demo_host 0) 6379 [] True, ACmd (demo_host 0) [''INFO'', ''everything''] True, AMetric ''reconcileTotal'' ''error'']"
  by code_simp

lemma follower_issued:
  "issued demo_world (snd (run_state (Reconcile pass_params follower_env ''demo'') demo_world))
     [ADial (demo_host 0) 6379 [] True] (ACmd (demo_host 0) [''INFO'', ''everything''] True)"
  unfolding issued_def follower_acts by (simp add: demo_world_def)

theorem Reconcile_follower_never_promotes_witness:
  "follower follower_vc \<and> issued demo_world (snd (run_state (Reconcile pass_params follower_env ''demo'') demo_world))
     [ADial (demo_host 0) 6379 [] True] (ACmd (demo_host 0) [''INFO'', ''everything''] True) \<and> verb [''INFO'', ''everything''] \<in> vocabulary"
  using Reconcile_follower_never_promotes [OF _ _ _ prod.collapse [symmetric] follower_issued, of follower_vc] follower_issued
  by (simp add: follower_def follower_env_def follower_vc_def demo_vc_def zero_spec_def)

section \<open>What a pass may do\<close>

text \<open>C4. Whatever the object, the API server and the Valkey servers answer, a reconcile pass spares the
  data: every command it sends is one of the fixed vocabulary (no FLUSHALL, no CLUSTER RESET, no SHUTDOWN), and
  it deletes no volume claim, no Secret and no ConfigMap.\<close>

theorem Reconcile_spares_data:
  assumes "run_state (Reconcile pm env name) w = (r, w')" and "issued w w' t a"
  shows "(case a of
       ACmd _ args _ \<Rightarrow> verb args \<in> vocabulary
     | ADelete kind _ _ \<Rightarrow> kind \<in> deletable \<and> kind \<notin> {''PersistentVolumeClaim'', ''Secret'', ''ConfigMap''}
     | _ \<Rightarrow> True)"
proof -
  obtain xs where "acts w' = acts w @ xs" "\<And>x. x \<in> set xs \<Longrightarrow> speaks vocabulary (\<lambda>_. True) x"
    using emitsE [OF emits_Reconcile [OF subset_refl] assms(1)] by metis
  then have "speaks vocabulary (\<lambda>_. True) a" using assms(2) by (auto simp: issued_def)
  then show ?thesis by (auto simp: deletable_def split: action.splits)
qed

theorem Reconcile_spares_data_witness:
  "verb [''INFO'', ''everything''] \<in> vocabulary \<and> [''CLUSTER'', ''RESET''] \<notin> vocabulary \<and> [''FLUSHALL''] \<notin> vocabulary"
proof -
  have "verb [''INFO'', ''everything''] \<in> vocabulary"
    using Reconcile_spares_data [OF prod.collapse [symmetric] follower_issued] by simp
  then show ?thesis by (simp add: vocabulary_def)
qed

section \<open>A hibernated object\<close>

text \<open>What is done to an object that sleeps.\<close>

definition while_asleep :: "env \<Rightarrow> ValkeyCluster \<Rightarrow> action \<Rightarrow> bool" where
  "while_asleep env vc a = (case a of
       AUpdate ob _ \<Rightarrow> (\<exists>t sts. env_sts env t (statefulSetName vc) = Inr sts \<and> ob = KStatefulSet (sts\<lparr>sts_Replicas := Some 0\<rparr>))
     | APatchStatus st _ \<Rightarrow> st_Phase st = PhaseHibernated \<and> reported ''Ready'' st = Some ConditionFalse
     | APatchFinalizers fs _ \<Rightarrow> fs = vc_Finalizers vc @ [finalizerName] \<and> finalizerName \<notin> set (vc_Finalizers vc)
     | AMetric _ _ \<Rightarrow> True
     | _ \<Rightarrow> False)"

text \<open>C6. A pass over a hibernated object contacts no server, creates and deletes nothing: it adds the
  finalizer if it is missing, scales the StatefulSet of the cluster to zero and reports the phase
  Hibernated with Ready false.\<close>

theorem Reconcile_hibernated_asleep:
  assumes "env_cluster env (acts w) name = Inr vc" and "vc_DeletionTimestamp vc = None" and "hibernated vc"
    and "run_state (Reconcile pm env name) w = (r, w')" and "issued w w' t a"
  shows "while_asleep env vc a"
proof (rule wp_issued [OF _ assms(4,5)])
  have "hibernated (Default v) = hibernated v" "statefulSetName (Default v) = statefulSetName v" for v
    by (simp_all add: hibernated_def Default_def statefulSetName_def)
  then show "wp (\<lambda>_. while_asleep env vc) (Reconcile pm env name) (\<lambda>_ _. True) w"
    unfolding Reconcile_def reconcileObject_def orFail_def update_finalizers_def reconcileHibernated_def reportHibernated_def recordReconcile_def
    using assms(1-3)
    by (auto intro!: wp_rules simp: while_asleep_def reported_setAvailable condStatus_def hibernated_def statefulSetName_def) blast+
qed

definition asleep_env :: env where
  "asleep_env = silent_env\<lparr>env_cluster := (\<lambda>_ _. Inr (demo_vc\<lparr>vc_Annotations := [hibernateAnnotation \<mapsto> valueTrue]\<rparr>)),
     env_sts := (\<lambda>_ _. Inr demo_sts)\<rparr>"

lemma asleep_issued:
  "issued demo_world (snd (run_state (Reconcile pass_params asleep_env ''demo'') demo_world))
     [APatchFinalizers [finalizerName] None] (AUpdate (KStatefulSet (demo_sts\<lparr>sts_Replicas := Some 0\<rparr>)) None)"
  by (simp add: issued_def demo_world_def asleep_env_def silent_env_def Reconcile_def reconcileObject_def orFail_def update_finalizers_def
      reconcileHibernated_def reportHibernated_def recordReconcile_def update_obj_def patch_status_def hibernated_def Default_def
      demo_vc_def zero_cluster_def demo_sts_def mget_def)

theorem Reconcile_hibernated_asleep_witness:
  "while_asleep asleep_env (demo_vc\<lparr>vc_Annotations := [hibernateAnnotation \<mapsto> valueTrue]\<rparr>)
     (AUpdate (KStatefulSet (demo_sts\<lparr>sts_Replicas := Some 0\<rparr>)) None)"
  by (rule Reconcile_hibernated_asleep [OF _ _ _ prod.collapse [symmetric] asleep_issued])
    (simp_all add: asleep_env_def hibernated_def demo_vc_def zero_cluster_def mget_def)

section \<open>The condition Ready of a Sentinel cluster\<close>

definition steady :: "Condition option \<Rightarrow> ValkeyCluster \<Rightarrow> bool" where
  "steady c vc \<longleftrightarrow> cond_of ''Ready'' (vc_Status vc) = c \<and> sp_Sentinel (vc_Spec vc) \<noteq> None \<and> se_Replicas (sentinel_spec vc) \<ge> 3"

abbreviation writes :: "Condition option \<Rightarrow> action \<Rightarrow> bool" where
  "writes c \<equiv> speaks vocabulary (\<lambda>st. cond_of ''Ready'' st = c)"

lemma steady_stable [simp]:
  "steady c (vc\<lparr>vc_Spec := (vc_Spec vc)\<lparr>sp_Config := cfg\<rparr>\<rparr>) = steady c vc"
  by (simp add: steady_def sentinel_spec_def)

lemma cond_of_setCondition_other:
  "ty \<noteq> co_Type c \<Longrightarrow> cond_of ty (st\<lparr>st_Conditions := setCondition ds c\<rparr>) = cond_of ty (st\<lparr>st_Conditions := ds\<rparr>)"
  by (simp add: cond_of_def find_setCondition_other)

lemma steady_status:
  "steady c vc \<Longrightarrow> cond_of ''Ready'' st = cond_of ''Ready'' (vc_Status vc) \<Longrightarrow> steady c (vc\<lparr>vc_Status := st\<rparr>)"
  by (simp add: steady_def sentinel_spec_def)

lemma under_reports: "under (steady c) (writes c) (reportUpdating env sts)" "under (steady c) (writes c) (reportSentinel env sts sts' b)"
  unfolding reportUpdating_def reportSentinel_def
  by (auto intro!: under_rules steady_status simp: cond_of_def find_setCondition_other) (simp_all add: steady_def cond_of_def)

lemma under_superviseSentinels:
  "under (steady c) (writes c) (superviseSentinels pm env pw sts sts' hold)"
proof -
  have "under (steady c) (writes c) (applySentinelTimings env pw)" "under (steady c) (writes c) (collectSentinelViews env pw)"
    "under (steady c) (writes c) (resetStaleSentinels env pw vs)" "under (steady c) (writes c) (repairSentinelDataPods env pw vs)"
    "under (steady c) (writes c) (driveSentinelRollout env pw)" for vs
    by (auto intro!: under_emits pass_rules hoare_rules simp: vocabulary_def)
  then show ?thesis unfolding superviseSentinels_def by (auto intro!: under_rules under_reports)
qed

lemma under_reconcileSentinel: "under (steady c) (writes c) (reconcileSentinel pm env)"
  unfolding reconcileSentinel_def by (auto intro!: under_rules under_superviseSentinels) (simp_all add: steady_def)

text \<open>C19. A pass over a valid Sentinel cluster never changes the condition Ready, neither in memory nor in a
  status it writes, although it sets the phase and the condition Available. After hibernation, which sets it
  to false, it stays false although the cluster serves again; a cluster that never had it never gets it.\<close>

theorem reconcileSentinel_ready_stale:
  assumes "sp_Sentinel (vc_Spec (cur w)) = Some se" and "se_Replicas se \<ge> 3"
    and "run_state (reconcileSentinel pm env) w = (r, w')" and "cond_of ''Ready'' (vc_Status (cur w)) = c"
  shows "cond_of ''Ready'' (vc_Status (cur w')) = c \<and>
    (\<forall>t st e. issued w w' t (APatchStatus st e) \<longrightarrow> cond_of ''Ready'' st = c)"
proof -
  have s: "steady c (cur w)" using assms(1,2,4) by (simp add: steady_def sentinel_spec_def Deref_def)
  have "steady c (cur w')" using underE [OF under_reconcileSentinel s assms(3)] by metis
  moreover have "writes c (APatchStatus st e)" if "issued w w' t (APatchStatus st e)" for t st e
    using that by (rule under_issued [OF under_reconcileSentinel s assms(3)])
  ultimately show ?thesis by (simp add: steady_def)
qed

text \<open>A Sentinel cluster that wakes: its status still has the condition of the hibernation.\<close>

definition slept_world :: world where
  "slept_world = \<lparr>cur = demo_vc\<lparr>vc_Spec := (vc_Spec demo_vc)\<lparr>sp_Topology := TopologySentinel,
       sp_Sentinel := Some \<lparr>se_Replicas = 3, se_Quorum = 2, se_Image = [], se_DownAfterMilliseconds = 5000,
         se_FailoverTimeout = 60000, se_Resources = (None, [])\<rparr>\<rparr>,
       vc_Status := setAvailable False ''Hibernated'' hibMsg 0 0 (vc_Status demo_vc)\<rparr>, acts = []\<rparr>"

theorem reconcileSentinel_ready_stale_witness:
  "reported ''Ready'' (vc_Status (cur (snd (run_state (reconcileSentinel pass_params answering_env) slept_world)))) = Some ConditionFalse"
proof -
  have "cond_of ''Ready'' (vc_Status (cur (snd (run_state (reconcileSentinel pass_params answering_env) slept_world)))) =
    cond_of ''Ready'' (vc_Status (cur slept_world))"
    using reconcileSentinel_ready_stale [OF _ _ prod.collapse [symmetric] refl, of slept_world _ pass_params answering_env]
    by (simp add: slept_world_def)
  moreover have "reported ''Ready'' (vc_Status (cur slept_world)) = Some ConditionFalse"
    by (simp add: slept_world_def reported_setAvailable condStatus_def)
  ultimately show ?thesis by (simp add: reported_def)
qed

end
