(* ===== verification/Shell.thy ===== *)
theory Shell
  imports Backup
begin

text \<open>
  What the backup and restore scripts store and fetch. The scripts are shell texts that the operator
  builds; this theory runs them. It is an interpreter of the part of the POSIX shell that they use:
  assignments, the expansion of variables, the three command substitutions, the two tests, \<open>exit\<close>,
  the loop over a glob, and \<open>aws s3 cp\<close>. Whatever is outside that part makes a run undefined
  (\<^const>\<open>None\<close>), so a statement that a script makes certain copies says that it stays inside. The lemmas
  relate the objects that a backup writes to those that a restore reads.
\<close>

section \<open>Words\<close>

text \<open>Characters that the shell takes literally in a word, those it also does within quotes, the
  characters of a variable name, those that stand for themselves in a regular expression of \<open>sed\<close>, and
  those of the options that may follow the arguments of a command.\<close>

definition is_name :: "char \<Rightarrow> bool" where
  "is_name c \<longleftrightarrow> is_digit c \<or> c \<in> set ''abcdefghijklmnopqrstuvwxyzABCDEFGHIJKLMNOPQRSTUVWXYZ_''"

definition plain :: "char \<Rightarrow> bool" where
  "plain c \<longleftrightarrow> is_name c \<or> c \<in> set ''-./:@%+=''"

definition braced :: "char \<Rightarrow> bool" where
  "braced c \<longleftrightarrow> plain c \<or> c \<in> set ''{}''"

definition literal_re :: "char \<Rightarrow> bool" where
  "literal_re c \<longleftrightarrow> is_name c \<or> c \<in> set ''-{}''"

definition optional :: "char \<Rightarrow> bool" where
  "optional c \<longleftrightarrow> plain c \<or> c \<in> set '' \"$''"

text \<open>\<open>${v##*-}\<close> drops everything up to the last dash.\<close>

definition trailing :: "string \<Rightarrow> string" where
  "trailing s = rev (takeWhile (\<lambda>c. c \<noteq> CHR ''-'') (rev s))"

definition strip :: "string \<Rightarrow> string \<Rightarrow> string option" where
  "strip p s = (if HasPrefix s p then Some (drop (length p) s) else None)"

text \<open>What follows a dollar sign: the value and the rest. An unset variable is an error (\<open>set -u\<close>).\<close>

definition parameter :: "(string \<rightharpoonup> string) \<Rightarrow> string \<Rightarrow> (string \<times> string) option" where
  "parameter V s =
     (case strip ''{'' s of
        Some r \<Rightarrow>
          (let n = takeWhile is_name r; t = dropWhile is_name r
           in case strip ''}'' t of
                Some u \<Rightarrow> map_option (\<lambda>v. (v, u)) (V n)
              | None \<Rightarrow> (case strip ''##*-}'' t of
                    Some u \<Rightarrow> map_option (\<lambda>v. (trailing v, u)) (V n)
                  | None \<Rightarrow> None))
      | None \<Rightarrow>
          (let n = takeWhile is_name s
           in if n = [] then None else map_option (\<lambda>v. (v, dropWhile is_name s)) (V n)))"

lemma strip_length: "strip p s = Some r \<Longrightarrow> p \<noteq> [] \<Longrightarrow> length r < length s"
  by (auto simp: strip_def HasPrefix_iff split: if_splits)

lemma dropWhile_shorter: "length (dropWhile P s) \<le> length s"
  by (induction s) auto

lemma parameter_length:
  assumes "parameter V s = Some (v, r)"
  shows "length r \<le> length s"
proof (cases "strip ''{'' s")
  case None
  then show ?thesis using assms dropWhile_shorter [of is_name s]
    by (auto simp: parameter_def Let_def split: if_splits)
next
  case (Some t)
  have "length r \<le> length (dropWhile is_name t)"
    using assms Some by (auto simp: parameter_def Let_def dest!: strip_length split: option.splits)
  then show ?thesis using strip_length [OF Some] dropWhile_shorter [of is_name t] by simp
qed

text \<open>One word, quotes removed. A value is only taken where it cannot be split or globbed.\<close>

function expand :: "(string \<rightharpoonup> string) \<Rightarrow> bool \<Rightarrow> string \<Rightarrow> string option" where
  "expand V quoted [] = (if quoted then None else Some [])"
| "expand V quoted (c # s) =
     (if c = CHR 0x22 then expand V (\<not> quoted) s
      else if c = CHR ''$'' then
        (case parameter V s of
           None \<Rightarrow> None
         | Some (v, r) \<Rightarrow> if list_all braced v then map_option (\<lambda>x. v @ x) (expand V quoted r) else None)
      else if plain c then map_option (\<lambda>x. c # x) (expand V quoted s) else None)"
  by pat_completeness auto
termination
  by (relation "measure (\<lambda>(V, q, s). length s)") (auto dest: parameter_length)

text \<open>The first word of a text, up to a blank outside quotes, and the rest.\<close>

fun word1 :: "bool \<Rightarrow> string \<Rightarrow> string \<times> string" where
  "word1 quoted [] = ([], [])"
| "word1 quoted (c # s) =
     (if c = CHR '' '' \<and> \<not> quoted then ([], s)
      else apfst ((#) c) (word1 (if c = CHR 0x22 then \<not> quoted else quoted) s))"

section \<open>Commands\<close>

text \<open>What a script finds: the date in a format, the files of a pattern, the files that exist.\<close>

record shell =
  sh_date :: "string \<Rightarrow> string"
  sh_glob :: "string \<Rightarrow> string list"
  sh_exists :: "string \<Rightarrow> bool"

text \<open>\<open>s///g\<close> of \<open>sed\<close> for a text that is not empty, and \<open>basename\<close>.\<close>

function ReplaceAll :: "string \<Rightarrow> string \<Rightarrow> string \<Rightarrow> string" where
  "ReplaceAll s old new = (case s of [] \<Rightarrow> []
     | c # cs \<Rightarrow> if old \<noteq> [] \<and> HasPrefix s old then new @ ReplaceAll (drop (length old) s) old new else c # ReplaceAll cs old new)"
  by auto
termination
  by (relation "measure (\<lambda>(s, old, new). length s)") (auto simp: HasPrefix_iff)

declare ReplaceAll.simps [simp del]

definition basename :: "string \<Rightarrow> string \<Rightarrow> string" where
  "basename path suffix =
     (let b = rev (takeWhile (\<lambda>c. c \<noteq> CHR ''/'') (rev path))
      in if HasSuffix b suffix \<and> b \<noteq> suffix then take (length b - length suffix) b else b)"

text \<open>The command substitutions \<open>$(date -u +F)\<close>, \<open>$(basename "$v" S)\<close> and \<open>$(echo "W" | sed "s/A/B/g")\<close>.\<close>

definition subst_date :: "shell \<Rightarrow> string \<Rightarrow> string option" where
  "subst_date P r = (if dropWhile (\<lambda>c. c \<noteq> CHR '')'') r = '')'' then Some (sh_date P (takeWhile (\<lambda>c. c \<noteq> CHR '')'') r)) else None)"

definition subst_basename :: "(string \<rightharpoonup> string) \<Rightarrow> string \<Rightarrow> string option" where
  "subst_basename V r =
     (case strip ''\" '' (dropWhile is_name r) of
        None \<Rightarrow> None
      | Some t \<Rightarrow> if dropWhile plain t = '')'' then map_option (\<lambda>f. basename f (takeWhile plain t)) (V (takeWhile is_name r)) else None)"

definition subst_sed :: "(string \<rightharpoonup> string) \<Rightarrow> string \<Rightarrow> string option" where
  "subst_sed V r =
     (let w = takeWhile braced r in
      case strip ''\" | sed \"s/'' (dropWhile braced r) of
        None \<Rightarrow> None
      | Some u \<Rightarrow>
          (let a = takeWhile literal_re u in
           case strip ''/'' (dropWhile literal_re u) of
             None \<Rightarrow> None
           | Some t \<Rightarrow>
               if dropWhile (\<lambda>c. c \<noteq> CHR ''/'') t \<noteq> ''/g\")'' \<or> a = [] \<or> (w \<noteq> [] \<and> hd w = CHR ''-'') then None
               else (case expand V False (takeWhile (\<lambda>c. c \<noteq> CHR ''/'') t) of
                   None \<Rightarrow> None
                 | Some b \<Rightarrow> if CHR ''/'' \<in> set b then None else Some (ReplaceAll w a b))))"

definition substitute :: "shell \<Rightarrow> (string \<rightharpoonup> string) \<Rightarrow> string \<Rightarrow> string option" where
  "substitute P V v =
     (case strip ''$(date -u +'' v of
        Some r \<Rightarrow> subst_date P r
      | None \<Rightarrow> (case strip ''$(basename \"$'' v of
          Some r \<Rightarrow> subst_basename V r
        | None \<Rightarrow> (case strip ''$(echo \"'' v of
            Some r \<Rightarrow> subst_sed V r
          | None \<Rightarrow> None)))"

text \<open>
  A simple command, as it changes the variables and the list of copies, each a source and a target.
  Lines that start with \<open>echo\<close> only print. A copy is taken to succeed.
\<close>

type_synonym sh_state = "(string \<rightharpoonup> string) \<times> (string \<times> string) list"

definition copy_command :: "string \<Rightarrow> sh_state \<Rightarrow> sh_state option" where
  "copy_command args s =
     (let (a, r) = word1 False args; (b, opts) = word1 False r
      in case (expand (fst s) False a, expand (fst s) False b) of
           (Some src, Some dst) \<Rightarrow> if list_all optional opts then Some (fst s, snd s @ [(src, dst)]) else None
         | _ \<Rightarrow> None)"

definition assign :: "shell \<Rightarrow> string \<Rightarrow> sh_state \<Rightarrow> sh_state option" where
  "assign P c s =
     (let n = takeWhile is_name c in
      case strip ''='' (dropWhile is_name c) of
        None \<Rightarrow> None
      | Some v \<Rightarrow>
          (case (if HasPrefix v ''$('' then substitute P (fst s) v else expand (fst s) False v) of
             None \<Rightarrow> None
           | Some x \<Rightarrow> if n = [] then None else Some ((fst s)(n \<mapsto> x), snd s)))"

definition simple :: "shell \<Rightarrow> string \<Rightarrow> sh_state \<Rightarrow> sh_state option" where
  "simple P c s =
     (if c = [] \<or> c = ''set -eu'' \<or> HasPrefix c ''echo '' then Some s
      else (case strip ''aws s3 cp '' c of
          Some args \<Rightarrow> copy_command args s
        | None \<Rightarrow> assign P c s))"

fun simples :: "shell \<Rightarrow> string list \<Rightarrow> sh_state \<Rightarrow> sh_state option" where
  "simples P [] s = Some s"
| "simples P (c # cs) s = Option.bind (simple P c s) (simples P cs)"

fun for_files :: "shell \<Rightarrow> string \<Rightarrow> string list \<Rightarrow> string list \<Rightarrow> sh_state \<Rightarrow> sh_state option" where
  "for_files P v body [] s = Some s"
| "for_files P v body (f # fs) s =
     Option.bind (simples P body ((fst s)(v \<mapsto> f), snd s)) (for_files P v body fs)"

text \<open>The tests \<open>[ -f path ]\<close> and \<open>[ "$v" -ge n ]\<close> of an \<open>if\<close>.\<close>

definition test :: "shell \<Rightarrow> string \<Rightarrow> (string \<rightharpoonup> string) \<Rightarrow> bool option" where
  "test P c V =
     (case strip ''-f '' c of
        Some r \<Rightarrow> if dropWhile plain r = '' ]; then'' then Some (sh_exists P (takeWhile plain r)) else None
      | None \<Rightarrow> (case strip ''\"$'' c of
          None \<Rightarrow> None
        | Some r \<Rightarrow> (case strip ''\" -ge '' (dropWhile is_name r) of
            None \<Rightarrow> None
          | Some u \<Rightarrow>
              if dropWhile is_digit u \<noteq> '' ]; then'' then None
              else (case (Option.bind (V (takeWhile is_name r)) Atoi, Atoi (takeWhile is_digit u)) of
                  (Some x, Some n) \<Rightarrow> Some (x \<ge> n)
                | _ \<Rightarrow> None))))"

text \<open>
  A script, line by line, without nested compounds. The branch of an \<open>if\<close> ends the script when its last
  command is \<open>exit 0\<close>. A pipeline that starts with a listing of the bucket and ends in a loop over it
  makes no copy when the loop has none; what it deletes is not followed.
\<close>

function exec :: "shell \<Rightarrow> string list \<Rightarrow> sh_state \<Rightarrow> sh_state option" where
  "exec P [] s = Some s"
| "exec P (c # cs) s =
     (case strip ''if [ '' c of
        Some t \<Rightarrow>
          (let body = takeWhile (\<lambda>x. x \<noteq> ''fi'') cs; rest = drop (Suc (length body)) cs in
           case test P t (fst s) of
             None \<Rightarrow> None
           | Some b \<Rightarrow>
               if \<not> b then exec P rest s
               else if body \<noteq> [] \<and> last body = ''exit 0'' then simples P (butlast body) s
               else Option.bind (simples P body s) (exec P rest))
      | None \<Rightarrow> (case strip ''for '' c of
          Some t \<Rightarrow>
            (let body = takeWhile (\<lambda>x. x \<noteq> ''done'') cs; rest = drop (Suc (length body)) cs in
             case strip '' in '' (dropWhile is_name t) of
               None \<Rightarrow> None
             | Some g \<Rightarrow>
                 if dropWhile (\<lambda>x. plain x \<or> x = CHR ''*'') g \<noteq> ''; do'' then None
                 else Option.bind (for_files P (takeWhile is_name t) body
                     (sh_glob P (takeWhile (\<lambda>x. plain x \<or> x = CHR ''*'') g)) s) (exec P rest))
        | None \<Rightarrow>
            if strip ''aws s3api list-objects-v2 '' c \<noteq> None
            then (let body = takeWhile (\<lambda>x. x \<noteq> ''done'') cs in
                  if list_ex (\<lambda>x. strip ''aws s3 cp '' x \<noteq> None) body then None else exec P (drop (Suc (length body)) cs) s)
            else Option.bind (simple P c s) (exec P cs)))"
  by pat_completeness auto
termination by (relation "measure (\<lambda>(P, cs, s). length cs)") auto

declare exec.simps(2) [simp del]

text \<open>The copies that a script makes with these variables; lines are indented by blanks.\<close>

definition copies :: "shell \<Rightarrow> (string \<rightharpoonup> string) \<Rightarrow> string \<Rightarrow> (string \<times> string) list option" where
  "copies P V script = map_option snd
     (exec P (map (dropWhile (\<lambda>c. c = CHR '' '')) (SplitByte script (CHR 0x0A))) (V, []))"

section \<open>Running a script\<close>

lemma name_chars:
  "list_all is_name ''abcdefghijklmnopqrstuvwxyzABCDEFGHIJKLMNOPQRSTUVWXYZ_0123456789''"
  "list_all (\<lambda>c. \<not> is_name c) ''-./:@%+= \"${}#*;)]|''"
  by code_simp+

lemma plain_chars:
  "list_all plain ''abcdefghijklmnopqrstuvwxyzABCDEFGHIJKLMNOPQRSTUVWXYZ_0123456789-./:@%+=''"
  "list_all (\<lambda>c. \<not> plain c) '' \"${}#*;)]|''"
  by code_simp+

lemma other_chars: "list_all (\<lambda>c. \<not> is_digit c) '' ];\"''" "list_all literal_re ''{shard}''" "\<not> literal_re (CHR ''/'')"
  "braced (CHR ''{'')" "braced (CHR ''}'')" "\<not> braced (CHR 0x22)"
  by code_simp+

lemmas char_simps [simp] = name_chars [simplified] plain_chars [simplified] other_chars [simplified]

lemma plain_braced: "plain c \<Longrightarrow> braced c"
  by (simp add: braced_def)

lemma list_all_braced: "list_all plain s \<Longrightarrow> list_all braced s"
  by (auto simp: list_all_iff plain_braced)

lemma plain_not: "plain c \<Longrightarrow> c \<noteq> CHR 0x22 \<and> c \<noteq> CHR ''$'' \<and> c \<noteq> CHR '' '' \<and> c \<noteq> CHR 0x0A \<and> c \<noteq> CHR ''{''"
  by (auto simp: plain_def is_name_def is_digit_def)

lemma expand_plain: "list_all plain p \<Longrightarrow> expand V q (p @ s) = map_option ((@) p) (expand V q s)"
  by (induction p) (cases "expand V q s"; simp add: plain_not)+

lemma word1_plain: "list_all plain p \<Longrightarrow> word1 q (p @ s) = apfst ((@) p) (word1 q s)"
  by (induction p) (auto simp: plain_not apfst_def map_prod_def split: prod.splits)

lemma lines_unlines: "\<forall>c\<in>set ls. CHR 0x0A \<notin> set c \<Longrightarrow> SplitByte (unlines ls) (CHR 0x0A) = ls @ [[]]"
  by (induction ls) (simp_all add: unlines_def SplitByte_append)

lemma digits_plain: "0 \<le> i \<Longrightarrow> list_all plain (Itoa i)"
  using Itoa_nonneg_digits by (auto simp: list_all_iff plain_def is_name_def)

text \<open>The options of a copy are empty or follow a blank.\<close>

definition options :: "string \<Rightarrow> bool" where
  "options s \<longleftrightarrow> list_all optional s \<and> (s = [] \<or> hd s = CHR '' '')"

lemma word1_options: "options f \<Longrightarrow> word1 False f = ([], tl f)"
  by (cases f) (auto simp: options_def)

lemma options_tl: "options f \<Longrightarrow> list_all optional (tl f)"
  by (cases f) (auto simp: options_def)

lemmas sh_simps = simple_def strip_def HasPrefix_def assign_def substitute_def subst_date_def subst_basename_def subst_sed_def
  copy_command_def parameter_def expand_plain word1_plain word1_options options_tl Let_def

lemma exec_simple:
  "strip ''if [ '' c = None \<Longrightarrow> strip ''for '' c = None \<Longrightarrow> strip ''aws s3api list-objects-v2 '' c = None \<Longrightarrow> exec P (c # cs) s = Option.bind (simple P c s) (exec P cs)"
  by (simp add: exec.simps)











lemma step_ordinal:
  assumes "fst s ''HOSTNAME'' = Some (h @ ''-'' @ Itoa i)" "0 \<le> i"
  shows "simple P ''ORD=\"${HOSTNAME##*-}\"'' s = Some ((fst s)(''ORD'' \<mapsto> Itoa i), snd s)"
proof -
  have "CHR ''-'' \<notin> set (rev (Itoa i))"
    using Itoa_nonneg_digits [OF assms(2), of "CHR ''-''"] by (auto simp: is_digit_def)
  then have "trailing (h @ ''-'' @ Itoa i) = Itoa i"
    by (auto simp: trailing_def takeWhile_append)
  then show ?thesis using assms list_all_braced [OF digits_plain] by (simp add: sh_simps)
qed

lemma test_present: "test P ''-f /data/dump.rdb ]; then'' V = Some (sh_exists P ''/data/dump.rdb'')"
  by (simp add: test_def strip_def HasPrefix_def)

lemma test_ordinal:
  assumes "V ''ORD'' = Some (Itoa i)" "0 \<le> i" "i < 2 ^ 31" "0 \<le> n" "n < 2 ^ 31"
  shows "test P (''\"$ORD\" -ge '' @ Itoa n @ '' ]; then'') V = Some (n \<le> i)"
proof -
  have "takeWhile is_digit (Itoa n @ '' ]; then'') = Itoa n" "dropWhile is_digit (Itoa n @ '' ]; then'') = '' ]; then''"
    using Itoa_nonneg_digits [OF assms(4)] by (auto simp: takeWhile_append dropWhile_append)
  moreover have "Atoi (Itoa i) = Some i" "Atoi (Itoa n) = Some n"
    using assms(2-5) by (auto simp: Atoi_def intro!: ParseInt_Itoa)
  ultimately show ?thesis using assms(1) by (simp add: test_def strip_def HasPrefix_def)
qed

lemma step_source_key:
  assumes "list_all braced key" "key \<noteq> []" "hd key \<noteq> CHR ''-''" "fst s ''ORD'' = Some (Itoa i)" "0 \<le> i"
  shows "simple P (''KEY=$(echo \"'' @ key @ ''\" | sed \"s/{shard}/$ORD/g\")'') s =
    Some ((fst s)(''KEY'' \<mapsto> ReplaceAll key ''{shard}'' (Itoa i)), snd s)"
proof -
  have "takeWhile braced (key @ CHR 0x22 # x) = key" "dropWhile braced (key @ CHR 0x22 # x) = CHR 0x22 # x" for x
    using assms(1) by (auto simp: takeWhile_append dropWhile_append list_all_iff)
  moreover have "CHR ''/'' \<notin> set (Itoa i)" using plain_digits [OF assms(5)] by simp
  ultimately show ?thesis using assms list_all_braced [OF digits_plain] by (simp add: sh_simps)
qed

lemma step_download:
  assumes "fst s ''KEY'' = Some key" "list_all plain bucket" "list_all braced key" "options flags"
  shows "simple P (''aws s3 cp \"s3://'' @ bucket @ ''/$KEY\" /data/dump.rdb'' @ flags) s =
    Some (fst s, snd s @ [(''s3://'' @ bucket @ ''/'' @ key, ''/data/dump.rdb'')])"
  using assms by (simp add: sh_simps)


section \<open>The scripts\<close>

lemma one_line:
  "list_all plain s \<Longrightarrow> CHR 0x0A \<notin> set s" "list_all braced s \<Longrightarrow> CHR 0x0A \<notin> set s" "options s \<Longrightarrow> CHR 0x0A \<notin> set s"
proof -
  have "\<not> plain (CHR 0x0A)" "\<not> braced (CHR 0x0A)" "\<not> optional (CHR 0x0A)" by code_simp+
  then show "list_all plain s \<Longrightarrow> CHR 0x0A \<notin> set s" "list_all braced s \<Longrightarrow> CHR 0x0A \<notin> set s" "options s \<Longrightarrow> CHR 0x0A \<notin> set s"
    by (auto simp: list_all_iff options_def)
qed

lemma ReplaceAll_chars: "set (ReplaceAll s old new) \<subseteq> set s \<union> set new"
proof (induction s old new rule: ReplaceAll.induct)
  case (1 s old new)
  show ?case
  proof (cases s)
    case (Cons c cs)
    then show ?thesis using 1 set_drop_subset [of "length old" s]
      by (subst ReplaceAll.simps) (fastforce split: if_splits)
  qed (subst ReplaceAll.simps, simp)
qed

lemma copies_unlines:
  "\<forall>c\<in>set ls. CHR 0x0A \<notin> set c \<Longrightarrow> copies P V (unlines ls) =
     map_option snd (exec P (map (dropWhile (\<lambda>c. c = CHR '' '')) ls @ [[]]) (V, []))"
  by (simp add: copies_def lines_unlines)


lemma exec_if_skip:
  "test P t (fst s) = Some False \<Longrightarrow>
     exec P ((''if [ '' @ t) # cs) s = exec P (drop (Suc (length (takeWhile (\<lambda>x. x \<noteq> ''fi'') cs))) cs) s"
  by (simp add: exec.simps strip_def HasPrefix_def)

lemma exec_quiet:
  "exec P [[]] s = Some s" "exec P (''set -eu'' # cs) s = exec P cs s" "exec P ((''echo '' @ x) # cs) s = exec P cs s"
  by (simp_all add: exec_simple strip_def HasPrefix_def simple_def)

lemma exec_listing:
  "\<not> list_ex (\<lambda>x. strip ''aws s3 cp '' x \<noteq> None) (takeWhile (\<lambda>x. x \<noteq> ''done'') cs) \<Longrightarrow>
     exec P ((''aws s3api list-objects-v2 '' @ x) # cs) s = exec P (drop (Suc (length (takeWhile (\<lambda>x. x \<noteq> ''done'') cs))) cs) s"
  by (simp add: exec.simps strip_def HasPrefix_def Let_def)


lemmas exec_steps = exec_quiet [simplified] exec_listing [simplified] exec_if_skip [simplified] exec_simple

text \<open>The copy that a pod of a restored Cluster makes before it first starts.\<close>

lemma restoreShardScript_copies:
  assumes "list_all braced (rs_SourceKey r)" "rs_SourceKey r \<noteq> []" "hd (rs_SourceKey r) \<noteq> CHR ''-''"
    and "list_all plain (s3_Bucket s3)" "options flags" "0 \<le> i" "i < shards" "shards < 2 ^ 31"
    and "V ''HOSTNAME'' = Some (h @ ''-'' @ Itoa i)" "\<not> sh_exists P ''/data/dump.rdb''"
  shows "copies P V (restoreShardScript r s3 flags shards) =
    Some [(''s3://'' @ s3_Bucket s3 @ ''/'' @ ReplaceAll (rs_SourceKey r) ''{shard}'' (Itoa i), ''/data/dump.rdb'')]"
proof -
  let ?key = "ReplaceAll (rs_SourceKey r) ''{shard}'' (Itoa i)"
  have key: "list_all braced ?key"
    using ReplaceAll_chars [of "rs_SourceKey r" "''{shard}''" "Itoa i"] assms(1) list_all_braced [OF digits_plain [OF assms(6)]]
    by (auto simp: list_all_iff)
  show ?thesis
    unfolding restoreShardScript_def dataMountPath_def
    using assms key one_line digits_plain [of shards]
    by (subst copies_unlines)
      (auto simp: exec_steps strip_def HasPrefix_def test_present test_ordinal [simplified] step_ordinal [simplified]
        step_source_key [simplified] step_download [simplified])
qed

text \<open>The copies of the backup: one per dumped shard, then the manifest.\<close>

definition dumpFile :: "int \<Rightarrow> string" where
  "dumpFile i = ''/backup/shard-'' @ Itoa i @ ''.rdb''"






section \<open>A backup and its restore\<close>






lemma options_endpoint: "options (if e \<noteq> [] then s3EndpointURLFlag else [])"
proof -
  have "options s3EndpointURLFlag" "options []" by code_simp+
  then show ?thesis by simp
qed



text \<open>The script of a container that runs the shell.\<close>

definition script_of :: "Container \<Rightarrow> string" where
  "script_of c = (case ct_Command c of [sh, opt, script] \<Rightarrow> script | _ \<Rightarrow> [])"


definition demo_s3 :: S3Spec where
  "demo_s3 = \<lparr>s3_Bucket = ''b'', s3_Endpoint = ''http://minio:9000'', s3_Region = [], s3_Prefix = ''rdb'',
     s3_CredentialsSecret = ''s3'', s3_Encryption = ''AES256'', s3_KMSKeyID = []\<rparr>"

definition demo_restore :: RestoreSpec where
  "demo_restore = \<lparr>rs_S3 = Some demo_s3, rs_SourceKey = ''rdb/demo-20261115-101010-shard-{shard}.rdb'', rs_AWSCLIImage = []\<rparr>"

definition restored_vc :: "bool \<Rightarrow> ValkeyCluster" where
  "restored_vc perShard = demo_cluster\<lparr>vc_Spec := (vc_Spec demo_cluster)\<lparr>sp_PerShardWorkload := Some perShard,
     sp_RestoreFrom := Some demo_restore\<rparr>\<rparr>"


definition demo_shell :: shell where
  "demo_shell = \<lparr>sh_date = (\<lambda>_. ''20261115-101010''), sh_glob = (\<lambda>_. map dumpFile [0, 1, 2]), sh_exists = (\<lambda>_. False)\<rparr>"


text \<open>
  C18. A snapshot restored into the per-shard layout gives every shard the data of shard 0. The restore
  script takes the shard from the number at the end of the pod name, which in this layout is the
  position within the shard. So pod \<open>i\<close> of whichever shard \<open>a\<close> fetches the snapshot of shard \<open>i\<close>: the first pods of
  all shards load the same keys.
\<close>

theorem restore_per_shard_same_snapshot:
  assumes layout: "perShardEnabled vc" "sp_RestoreFrom (vc_Spec vc) = Some r" "rs_S3 r = Some s3"
    and key: "list_all braced (rs_SourceKey r)" "rs_SourceKey r \<noteq> []" "hd (rs_SourceKey r) \<noteq> CHR ''-''"
    and bucket: "list_all plain (s3_Bucket s3)" and i: "0 \<le> i" "i < shardCountOf vc" "shardCountOf vc < 2 ^ 31"
    and pod: "W ''HOSTNAME'' = Some (sts_Name (buildShardStatefulSet vc a h p) @ ''-'' @ Itoa i)" "\<not> sh_exists P ''/data/dump.rdb''"
  shows "copies P W (script_of (hd (pod_containers (buildShardStatefulSet vc a h p)))) =
    Some [(''s3://'' @ s3_Bucket s3 @ ''/'' @ ReplaceAll (rs_SourceKey r) ''{shard}'' (Itoa i), ''/data/dump.rdb'')]"
proof -
  have "sp_Topology (vc_Spec vc) = TopologyCluster" using layout(1) by (simp add: perShardEnabled_def)
  then have "script_of (hd (pod_containers (buildShardStatefulSet vc a h p))) =
      restoreShardScript r s3 (if s3_Endpoint s3 \<noteq> [] then s3EndpointURLFlag else []) (shardCountOf vc)"
    by (simp add: shard_simps containers_data dataInitContainers_def layout applyContainerSecurityContext_def
        buildRestoreInitContainer_def script_of_def Let_def)
  then show ?thesis using restoreShardScript_copies [where P = P and V = W, OF key bucket options_endpoint [of "s3_Endpoint s3"] i pod] by simp
qed

theorem restore_per_shard_same_snapshot_witness:
  "\<exists>W0 W2. W0 ''HOSTNAME'' = Some ''demo-sh0-0'' \<and> W2 ''HOSTNAME'' = Some ''demo-sh2-0'' \<and>
     copies demo_shell W0 (script_of (hd (pod_containers (buildShardStatefulSet (restored_vc True) 0 [] False)))) =
       Some [(''s3://b/rdb/demo-20261115-101010-shard-0.rdb'', ''/data/dump.rdb'')] \<and>
     copies demo_shell W2 (script_of (hd (pod_containers (buildShardStatefulSet (restored_vc True) 2 [] False)))) =
       Some [(''s3://b/rdb/demo-20261115-101010-shard-0.rdb'', ''/data/dump.rdb'')]"
proof -
  have layout: "perShardEnabled (restored_vc True)" "sp_RestoreFrom (vc_Spec (restored_vc True)) = Some demo_restore"
    "rs_S3 demo_restore = Some demo_s3"
    by (code_simp, simp add: restored_vc_def, code_simp)
  have key: "list_all braced (rs_SourceKey demo_restore)" "rs_SourceKey demo_restore \<noteq> []" "hd (rs_SourceKey demo_restore) \<noteq> CHR ''-''"
    "list_all plain (s3_Bucket demo_s3)" by code_simp+
  have i: "(0 :: int) \<le> 0" "0 < shardCountOf (restored_vc True)" "shardCountOf (restored_vc True) < 2 ^ 31"
    "\<not> sh_exists demo_shell ''/data/dump.rdb''" by code_simp+
  have host: "[''HOSTNAME'' \<mapsto> ''demo-sh0-0''] ''HOSTNAME'' = Some (sts_Name (buildShardStatefulSet (restored_vc True) 0 [] False) @ ''-'' @ Itoa 0)"
    "[''HOSTNAME'' \<mapsto> ''demo-sh2-0''] ''HOSTNAME'' = Some (sts_Name (buildShardStatefulSet (restored_vc True) 2 [] False) @ ''-'' @ Itoa 0)"
    by code_simp+
  have val: "''s3://'' @ s3_Bucket demo_s3 @ ''/'' @ ReplaceAll (rs_SourceKey demo_restore) ''{shard}'' (Itoa 0) =
      ''s3://b/rdb/demo-20261115-101010-shard-0.rdb''" by code_simp
  show ?thesis
    using restore_per_shard_same_snapshot [where P = demo_shell and W = "[''HOSTNAME'' \<mapsto> ''demo-sh0-0'']", OF layout key i(1-3) host(1) i(4)]
      restore_per_shard_same_snapshot [where P = demo_shell and W = "[''HOSTNAME'' \<mapsto> ''demo-sh2-0'']", OF layout key i(1-3) host(2) i(4)]
    unfolding val by (intro exI [of _ "[''HOSTNAME'' \<mapsto> ''demo-sh0-0'']"] exI [of _ "[''HOSTNAME'' \<mapsto> ''demo-sh2-0'']"]) simp
qed

end
