(* ===== verification/Spec2Isabelle.thy ===== *)
theory Spec2Isabelle
  imports Acl_Controller Pass_Safety Shell
begin

text \<open>
  \<^bold>\<open>Wellcake: a Kubernetes operator for Valkey\<close>

  The program under \<open>src/\<close> is a controller. It reads \<open>ValkeyCluster\<close> and \<open>ValkeyACL\<close> objects, creates
  the Kubernetes objects of a Valkey deployment (Secrets, Services, ConfigMaps, StatefulSets, Jobs,
  disruption budgets, network policies), talks to the Valkey servers over the Redis protocol, and
  writes what it observed into the status of the objects. Four topologies share most of the code:
  Standalone, Replication (the operator arbitrates failover), Sentinel (Sentinels do) and Cluster
  (the servers do, the operator helps out).

  \<^bold>\<open>The model.\<close> A handler of the program is a state transformer (\<open>op\<close>, theory \<open>World\<close>): it reads and
  changes the object in memory (\<open>cur\<close>) and appends what it does to a trace (\<open>acts\<close>): dials, commands
  to a server, writes to the API server, metrics. The API server, the servers, the clock and the random
  source are not code of the repository. They are the fields of an \<open>env\<close>, functions of the whole trace
  so far and of the request, so that they may answer differently at every moment and every statement
  holds for arbitrary answers. Errors are values: an API error is a \<open>kerr\<close>, the result of a reconcile
  an \<open>outcome\<close> (a requeue delay, an error, or a panic where Go indexes out of range or reads through a
  nil pointer). Go integers are \<open>int\<close> with the conversions to 32 and 64 bits written out
  (\<open>int32\<close>, \<open>int64\<close>); times and durations are nanoseconds; strings are byte lists; Go maps are lists of
  pairs with distinct keys, and where the program ranges over a map the order is a parameter.

  \<^bold>\<open>The theories\<close>, in the order in which they build on each other:

  \<^item> \<open>Prelude\<close>: loops of the state monad, integer widths, the Hoare rules (\<open>hoare\<close>, \<open>keeps\<close>), and the
    interface \<open>preference\<close> of a choice by repeated comparison. \<open>Go_Strings\<close>: the functions of \<open>strings\<close>
    and \<open>strconv\<close> that the program calls.
  \<^item> \<open>Api_Types\<close>: the records of \<open>api/v1beta1\<close> and \<open>defaults.go\<close>. \<open>World\<close>: the environment, the
    trace, the Kubernetes objects. \<open>Names\<close>: constants, names, labels, accessors (\<open>resources.go\<close>,
    \<open>cluster_pershard.go\<close>).
  \<^item> \<open>Trace_Logic\<close>: weakest preconditions with a guarantee that relates each action to the trace before
    it. The safety properties are proved in it. \<open>Debounce\<close>: the interface of the two debounce markers, with
    their resolution of a second.
  \<^item> \<open>Valkey_Client\<close>: the commands of \<open>replClient\<close> (\<open>failover.go\<close>). \<open>Acl_Semantics\<close>: what the ACL
    commands do to the users of a server, as a function of the trace. \<open>Demo\<close>: concrete clusters.
  \<^item> \<open>Failover\<close> (\<open>failover.go\<close>), \<open>Rollout\<close> (\<open>rollout.go\<close>), \<open>Cluster_Survey\<close> (\<open>cluster.go\<close>, from
    \<open>parseClusterNodes\<close> on), \<open>Status\<close> (\<open>valkeycluster_controller.go\<close>), \<open>Cluster_Recovery\<close>
    (\<open>cluster_recovery.go\<close>, \<open>driveClusterRollout\<close>).
  \<^item> \<open>Config_Render\<close>: the configuration files, byte for byte (\<open>resources.go\<close>, \<open>sentinel.go\<close>).
    \<open>Sentinel\<close> (\<open>sentinel.go\<close>), \<open>Rollout_Sentinel\<close> (\<open>rollout_sentinel.go\<close>).
  \<^item> \<open>Objects\<close>: the builders of the objects and the handlers that apply them (\<open>resources.go\<close>,
    \<open>valkeycluster_controller.go\<close>, \<open>primary_service.go\<close>).
  \<^item> \<open>Cluster_Jobs\<close>: bootstrap, scaling, resharding and restore of the Cluster topology, with the
    scripts of the Jobs byte for byte (\<open>cluster.go\<close>, \<open>cluster_pershard.go\<close>, \<open>restore_assembly.go\<close>).
  \<^item> \<open>Password_Rotation\<close>, \<open>Tls_Reload\<close>, \<open>Acl_Controller\<close>, \<open>Webhook\<close>: the files of these names
    (\<open>password_rotation.go\<close>, \<open>tls_reload.go\<close>, \<open>valkeyacl_controller.go\<close> with its webhook,
    \<open>valkeycluster_webhook.go\<close>).
  \<^item> \<open>Workloads\<close>: the StatefulSets of the data pods, the shards and the Sentinels with their pod templates
    and init scripts (\<open>buildStatefulSet\<close> and its helpers in \<open>resources.go\<close>, \<open>buildShardStatefulSet\<close> in
    \<open>cluster_pershard.go\<close>, \<open>buildSentinelStatefulSet\<close> in \<open>sentinel.go\<close>). \<open>Backup\<close>: the CronJob of
    \<open>backup.go\<close>. \<open>Shell\<close>: an interpreter of the part of the shell that the backup and restore scripts use,
    and what these scripts store and fetch.
  \<^item> \<open>Controller\<close>: the passes of the three kinds of topology and \<open>Reconcile\<close>, which composes them with
    deletion, hibernation, rotation, reload and telemetry (\<open>valkeycluster_controller.go\<close>, \<open>sentinel.go\<close>,
    \<open>cluster.go\<close>, \<open>telemetry.go\<close>). \<open>Pass_Vocabulary\<close>: which commands, deletions and status writes each
    handler may issue. \<open>Pass_Safety\<close>: the properties of whole passes.

  \<^bold>\<open>What is shown.\<close> Safety statements say of every action of a handler, in every environment, under
  which observations it is taken: no re-pointing at a pod without keys while a master or replica has them,
  promotions only with an old enough marker of the outage or over empty masters, restarts one pod at a time and only of stale pods,
  takeovers only of fenced primaries below a majority, Sentinel handovers only between a write pause
  and its lifting, with the replicas caught up, shards deleted only after their Job, no lock-out during a password
  rotation, a certificate recorded only when it was seen. Of a whole pass: only commands of a fixed
  vocabulary, no deletion of claims, Secrets or ConfigMaps, no promotion at a site that follows another,
  nothing but the scaling to zero while hibernated. Functional statements fix what parsers and
  builders compute (the node table is read back as printed, the shard table equals its direct
  description, slots are counted exactly, quoting is injective, the webhook admits exactly the
  objects that satisfy its conditions, the StatefulSets are well formed and their templates independent
  of the number of Sentinels, a restore fetches the objects a backup stored). A pass of the rolling restart
  over a complete and ready set is shown to restart one stale pod or to have none left, and the ACL pass to
  implement an abstract update of the user tables. Where the code
  does something else than its comments say, a theorem shows the run in which it does
  (names that end in \<open>_stuck\<close>, \<open>_unread_role\<close>, \<open>_forgets\<close>, \<open>_unpromoted\<close>, \<open>_stale_job\<close>, \<open>_opens_user\<close>,
  \<open>_other_workloads\<close>, \<open>_marks_job_pods\<close>, \<open>_same_snapshot\<close>, \<open>_ready_stale\<close>).

  \<^bold>\<open>Bounds.\<close> The loop of \<open>retry.RetryOnConflict\<close> makes at most \<open>env_retries\<close> attempts, as the library
  does; a polling loop makes as many further attempts as \<open>env_polls\<close> says fit into its interval and
  timeout. Both are parameters and every statement holds for all of them. All other loops are structural
  recursions or \<open>function\<close>s with a measure.

  \<^bold>\<open>Not modelled.\<close> The conversion of \<open>api/v1alpha1\<close> is a JSON round trip by reflection; the deep copies
  are generated; \<open>cmd/main.go\<close> sets up controller-runtime and \<open>cmd/kubectl-valkey\<close> prints what kubectl
  returns. What a shell does with the scripts is outside, but for the upload and restore
  scripts, whose copies \<open>Shell\<close> follows when every command succeeds. How long an action takes is not
  modelled, so that a pause of a server may run out unseen. Outside are also logging and the OpenTelemetry of
  controller-runtime, the registration of watches (\<open>SetupWithManager\<close>) and owner references. Of the
  telemetry, the two gauges that are computed in floating point from counters, their samples and the
  cache of node zones are left out; no handler reads them. The hash \<open>appliedSpecHash\<close> is taken over a JSON
  encoding and is a parameter.
\<close>

end
